(* ===== verification/Prelude.thy ===== *)
theory Prelude
  imports Complex_Main "HOL-Library.Word" "HOL-Library.Code_Target_Nat"
begin

text \<open>
  Shared ground of the development: the collections of simplification rules the components
  use, time as nanoseconds, fallible results as sums with the early return of Rust's
  \<open>?\<close> operator, calls on an outside world as state transformers, and the generic facts on
  lists and options that several components need.
\<close>

named_theorems result_simps \<open>unfolding of the result combinators\<close>
named_theorems wire_simps \<open>tables of names, codes and statuses\<close>
named_theorems valid_simps \<open>definitions of the validation predicates\<close>

section \<open>Time\<close>

text \<open>
  \<open>std::time::Duration\<close> and \<open>Instant\<close> are counted in nanoseconds; \<open>Instant\<close> is the distance from
  an arbitrary origin. \<open>Instant::duration_since\<close> saturates at zero, as subtraction on
  \<^typ>\<open>nat\<close> does. \<open>OffsetDateTime\<close> is a signed count of nanoseconds.
\<close>

type_synonym duration = nat
type_synonym instant = nat
type_synonym offset_date_time = int

definition nanos_per_sec :: nat where
  "nanos_per_sec = 1000000000"

definition from_secs :: "nat \<Rightarrow> duration" where
  "from_secs n = n * nanos_per_sec"

definition from_millis :: "nat \<Rightarrow> duration" where
  "from_millis n = n * 1000000"

definition as_secs :: "duration \<Rightarrow> nat" where
  "as_secs d = d div nanos_per_sec"

lemma as_secs_from_secs [simp]: "as_secs (from_secs n) = n"
  by (simp add: as_secs_def from_secs_def nanos_per_sec_def)

lemma from_secs_pos [simp]: "0 < from_secs n \<longleftrightarrow> 0 < n"
  by (simp add: from_secs_def nanos_per_sec_def)

section \<open>Results\<close>

text \<open>
  \<open>Result<T, E>\<close> is \<open>'e + 'a\<close>, with \<open>Inl\<close> for \<open>Err\<close>. \<open>try_then r k\<close> is
  \<open>let x = r?; k(x)\<close>.
\<close>

definition try_then :: "'e + 'a \<Rightarrow> ('a \<Rightarrow> 'e + 'b) \<Rightarrow> 'e + 'b" where
  "try_then r k = (case r of Inl e \<Rightarrow> Inl e | Inr x \<Rightarrow> k x)"

definition map_err :: "('e \<Rightarrow> 'f) \<Rightarrow> 'e + 'a \<Rightarrow> 'f + 'a" where
  "map_err f r = (case r of Inl e \<Rightarrow> Inl (f e) | Inr x \<Rightarrow> Inr x)"

definition map_ok :: "('a \<Rightarrow> 'b) \<Rightarrow> 'e + 'a \<Rightarrow> 'e + 'b" where
  "map_ok f r = (case r of Inl e \<Rightarrow> Inl e | Inr x \<Rightarrow> Inr (f x))"

definition ok_or :: "'a option \<Rightarrow> 'e \<Rightarrow> 'e + 'a" where
  "ok_or r e = (case r of None \<Rightarrow> Inl e | Some x \<Rightarrow> Inr x)"

definition is_ok :: "'e + 'a \<Rightarrow> bool" where
  "is_ok r = (case r of Inl _ \<Rightarrow> False | Inr _ \<Rightarrow> True)"

definition result_ok :: "'e + 'a \<Rightarrow> 'a option" where
  "result_ok r = (case r of Inl _ \<Rightarrow> None | Inr x \<Rightarrow> Some x)"

lemma try_then_simps [simp]:
  "try_then (Inl e) k = Inl e"
  "try_then (Inr x) k = k x"
  by (simp_all add: try_then_def)

lemma try_then_Inr [result_simps]:
  "try_then r k = Inr y \<longleftrightarrow> (\<exists>x. r = Inr x \<and> k x = Inr y)"
  by (cases r) simp_all

lemma try_then_Inl [result_simps]:
  "try_then r k = Inl e \<longleftrightarrow> r = Inl e \<or> (\<exists>x. r = Inr x \<and> k x = Inl e)"
  by (cases r) simp_all

lemma map_err_simps [simp]:
  "map_err f (Inl e) = Inl (f e)"
  "map_err f (Inr x) = Inr x"
  by (simp_all add: map_err_def)

lemma map_err_Inr [simp]: "map_err f r = Inr x \<longleftrightarrow> r = Inr x"
  by (cases r) simp_all

lemma map_ok_simps [simp]:
  "map_ok f (Inl e) = Inl e"
  "map_ok f (Inr x) = Inr (f x)"
  by (simp_all add: map_ok_def)

lemma ok_or_simps [simp]:
  "ok_or None e = Inl e"
  "ok_or (Some x) e = Inr x"
  by (simp_all add: ok_or_def)

lemma ok_or_Inr [simp]: "ok_or r e = Inr x \<longleftrightarrow> r = Some x"
  by (cases r) simp_all

lemma is_ok_simps [simp]: "is_ok (Inl e) = False" "is_ok (Inr x) = True"
  by (simp_all add: is_ok_def)

lemma is_ok_iff: "is_ok r \<longleftrightarrow> (\<exists>x. r = Inr x)"
  by (cases r) simp_all

lemma result_ok_simps [simp]: "result_ok (Inl e) = None" "result_ok (Inr x) = Some x"
  by (simp_all add: result_ok_def)

section \<open>Calls on the outside world\<close>

text \<open>
  A call that leaves the program (a trait object, a process, the network) is a function of the
  world \<open>'w\<close> that returns a result and the world after the call. \<open>call_then c k\<close> runs \<open>c\<close> and
  returns early on \<open>Err\<close>, as \<open>c.await?\<close> does; \<open>ignoring c k\<close> runs \<open>c\<close> and drops its result,
  as \<open>let _ = c.await\<close> does.
\<close>

type_synonym ('w, 'a) call = "'w \<Rightarrow> 'a \<times> 'w"

definition call_then ::
    "('w, 'e + 'a) call \<Rightarrow> ('a \<Rightarrow> ('w, 'e + 'b) call) \<Rightarrow> ('w, 'e + 'b) call" where
  "call_then c k = (\<lambda>w. case c w of
     (Inl e, w') \<Rightarrow> (Inl e, w')
   | (Inr x, w') \<Rightarrow> k x w')"

definition ignoring :: "('w, 'a) call \<Rightarrow> ('w, 'b) call \<Rightarrow> ('w, 'b) call" where
  "ignoring c k = (\<lambda>w. k (snd (c w)))"

definition returning :: "'a \<Rightarrow> ('w, 'a) call" where
  "returning x = (\<lambda>w. (x, w))"

lemma call_then_apply:
  "call_then c k w = (case fst (c w) of Inl e \<Rightarrow> (Inl e, snd (c w)) | Inr x \<Rightarrow> k x (snd (c w)))"
  by (simp add: call_then_def split: prod.splits sum.splits)

lemma call_then_Err: "c w = (Inl e, w') \<Longrightarrow> call_then c k w = (Inl e, w')"
  by (simp add: call_then_def)

lemma call_then_Ok: "c w = (Inr x, w') \<Longrightarrow> call_then c k w = k x w'"
  by (simp add: call_then_def)

lemma call_then_result_Inr:
  assumes "fst (call_then c k w) = Inr y"
  shows "\<exists>x. fst (c w) = Inr x \<and> call_then c k w = k x (snd (c w))"
  using assms by (auto simp: call_then_apply split: sum.splits)

lemma call_then_Inr:
  "call_then c k w = (Inr y, w') \<longleftrightarrow> (\<exists>x w1. c w = (Inr x, w1) \<and> k x w1 = (Inr y, w'))"
  by (auto simp: call_then_def split: prod.splits sum.splits)

lemma call_then_InrD:
  "call_then c k w = (Inr y, w') \<Longrightarrow> \<exists>x w1. c w = (Inr x, w1) \<and> k x w1 = (Inr y, w')"
  by (simp add: call_then_Inr)

lemma returning_apply [simp]: "returning x w = (x, w)"
  by (simp add: returning_def)

lemma ignoring_apply: "ignoring c k w = k (snd (c w))"
  by (simp add: ignoring_def)

section \<open>Lists\<close>

text \<open>\<open>Vec::dedup\<close> drops an element equal to the one kept before it.\<close>

fun dedup :: "'a list \<Rightarrow> 'a list" where
  "dedup [] = []"
| "dedup [x] = [x]"
| "dedup (x # y # zs) = (if x = y then dedup (y # zs) else x # dedup (y # zs))"

lemma dedup_eq_remdups_adj: "dedup xs = remdups_adj xs"
  by (induction xs rule: dedup.induct) auto

lemma set_dedup [simp]: "set (dedup xs) = set xs"
  by (simp add: dedup_eq_remdups_adj)

lemma sorted_dedup [simp]: "sorted (xs :: 'a :: linorder list) \<Longrightarrow> sorted (dedup xs)"
  by (simp add: dedup_eq_remdups_adj sorted_remdups_adj)

lemma distinct_dedup_sorted:
  "sorted (xs :: 'a :: linorder list) \<Longrightarrow> distinct (dedup xs)"
proof (induction xs rule: dedup.induct)
  case (3 x y zs)
  then show ?case by (fastforce simp: dedup_eq_remdups_adj)
qed simp_all

definition sort_dedup :: "'a :: linorder list \<Rightarrow> 'a list" where
  "sort_dedup xs = dedup (sort xs)"

lemma sort_dedup_eq: "sort_dedup xs = sorted_list_of_set (set xs)"
proof -
  have "sorted (sort_dedup xs)" "distinct (sort_dedup xs)" "set (sort_dedup xs) = set xs"
    by (simp_all add: sort_dedup_def distinct_dedup_sorted)
  then show ?thesis
    by (metis sorted_distinct_set_unique sorted_list_of_set(1) sorted_list_of_set(2)
        sorted_list_of_set(3) List.finite_set)
qed

lemma set_sort_dedup [simp]: "set (sort_dedup xs) = set xs"
  by (simp add: sort_dedup_def)

lemma sorted_sort_dedup [simp]: "sorted (sort_dedup xs)"
  by (simp add: sort_dedup_def)

lemma distinct_sort_dedup [simp]: "distinct (sort_dedup xs)"
  by (simp add: sort_dedup_def distinct_dedup_sorted)

lemma sort_dedup_idem [simp]: "sort_dedup (sort_dedup xs) = sort_dedup xs"
  by (simp add: sort_dedup_eq)

lemma find_SomeD: "find P xs = Some x \<Longrightarrow> x \<in> set xs \<and> P x"
  by (auto simp: find_Some_iff)

definition option_all :: "('a \<Rightarrow> bool) \<Rightarrow> 'a option \<Rightarrow> bool" where
  "option_all P r = (case r of None \<Rightarrow> True | Some x \<Rightarrow> P x)"

definition option_any :: "('a \<Rightarrow> bool) \<Rightarrow> 'a option \<Rightarrow> bool" where
  "option_any P r = (case r of None \<Rightarrow> False | Some x \<Rightarrow> P x)"

lemma option_all_simps [simp]: "option_all P None" "option_all P (Some x) = P x"
  by (simp_all add: option_all_def)

lemma option_any_simps [simp]: "\<not> option_any P None" "option_any P (Some x) = P x"
  by (simp_all add: option_any_def)

definition or_else :: "'a option \<Rightarrow> 'a option \<Rightarrow> 'a option" where
  "or_else r s = (case r of None \<Rightarrow> s | Some x \<Rightarrow> Some x)"

lemma or_else_simps [simp]: "or_else None s = s" "or_else (Some x) s = Some x"
  by (simp_all add: or_else_def)

definition unwrap_or :: "'a option \<Rightarrow> 'a \<Rightarrow> 'a" where
  "unwrap_or r d = (case r of None \<Rightarrow> d | Some x \<Rightarrow> x)"

lemma unwrap_or_simps [simp]: "unwrap_or None d = d" "unwrap_or (Some x) d = x"
  by (simp_all add: unwrap_or_def)

definition list_first :: "'a list \<Rightarrow> 'a option" where
  "list_first xs = (case xs of [] \<Rightarrow> None | x # _ \<Rightarrow> Some x)"

lemma list_first_simps [simp]: "list_first [] = None" "list_first (x # xs) = Some x"
  by (simp_all add: list_first_def)

section \<open>Unsigned arithmetic\<close>

definition saturating_add :: "'l :: len word \<Rightarrow> 'l word \<Rightarrow> 'l word" where
  "saturating_add a b = (if unat a + unat b < 2 ^ LENGTH('l) then a + b else - 1)"

lemma unat_saturating_add:
  fixes a b :: "'l :: len word"
  shows "unat (saturating_add a b) = min (unat a + unat b) (2 ^ LENGTH('l) - 1)"
proof (cases "unat a + unat b < 2 ^ LENGTH('l)")
  case True
  then show ?thesis by (simp add: saturating_add_def unat_word_ariths)
next
  case False
  have "unat (- 1 :: 'l word) = 2 ^ LENGTH('l) - 1"
    by (simp add: unsigned_minus_1_eq_mask mask_eq_exp_minus_1)
  with False show ?thesis by (simp add: saturating_add_def)
qed

lemma saturating_add_mono: "a \<le> saturating_add a b"
proof -
  have "unat a \<le> 2 ^ LENGTH('a) - 1"
    using unsigned_less [of a] by (metis Suc_pred' less_Suc_eq_le One_nat_def pos2 zero_less_power)
  then show ?thesis by (simp add: word_le_nat_alt unat_saturating_add)
qed

definition checked_mul :: "'l :: len word \<Rightarrow> 'l word \<Rightarrow> 'l word option" where
  "checked_mul a b = (if unat a * unat b < 2 ^ LENGTH('l) then Some (a * b) else None)"

lemma checked_mul_Some:
  fixes a b c :: "'l :: len word"
  shows "checked_mul a b = Some c \<longleftrightarrow>
           unat a * unat b < 2 ^ LENGTH('l) \<and> unat c = unat a * unat b"
  by (auto simp: checked_mul_def unat_word_ariths word_unat_eq_iff)

end
