(* ===== verification/HashMapModel.thy ===== *)
theory HashMapModel
  imports Prelude
begin

text \<open>
  \<open>std::collections::HashMap\<close> as an association list with distinct keys: \<open>get\<close>, \<open>insert\<close>
  (which replaces), \<open>remove\<close>, \<open>retain\<close> and \<open>len\<close>. The contract the components rely on is the
  locale \<open>hash_map\<close>; the facts the components share (the size after an insertion, what survives
  a \<open>retain\<close>, a table whose size is capped) are proved once in it and reach the components
  through its interpretation on the association lists.
\<close>

type_synonym ('k, 'v) hash_map = "('k \<times> 'v) list"

definition hm_empty :: "('k, 'v) hash_map" where
  "hm_empty = []"

definition hm_get :: "('k, 'v) hash_map \<Rightarrow> 'k \<Rightarrow> 'v option" where
  "hm_get m k = map_of m k"

definition hm_remove :: "'k \<Rightarrow> ('k, 'v) hash_map \<Rightarrow> ('k, 'v) hash_map" where
  "hm_remove k m = filter (\<lambda>e. fst e \<noteq> k) m"

definition hm_insert :: "'k \<Rightarrow> 'v \<Rightarrow> ('k, 'v) hash_map \<Rightarrow> ('k, 'v) hash_map" where
  "hm_insert k v m = (k, v) # hm_remove k m"

definition hm_retain :: "('k \<Rightarrow> 'v \<Rightarrow> bool) \<Rightarrow> ('k, 'v) hash_map \<Rightarrow> ('k, 'v) hash_map" where
  "hm_retain P m = filter (\<lambda>e. P (fst e) (snd e)) m"

definition hm_len :: "('k, 'v) hash_map \<Rightarrow> nat" where
  "hm_len m = length m"

definition hm_invar :: "('k, 'v) hash_map \<Rightarrow> bool" where
  "hm_invar m \<longleftrightarrow> distinct (map fst m)"

definition hm_count :: "('v \<Rightarrow> bool) \<Rightarrow> ('k, 'v) hash_map \<Rightarrow> nat" where
  "hm_count P m = length (filter P (map snd m))"

lemmas hm_defs = hm_empty_def hm_get_def hm_remove_def hm_insert_def hm_retain_def hm_len_def
  hm_invar_def hm_count_def

section \<open>The contract\<close>

locale hash_map =
  fixes empty :: "'m"
    and get :: "'m \<Rightarrow> 'k \<Rightarrow> 'v option"
    and insert :: "'k \<Rightarrow> 'v \<Rightarrow> 'm \<Rightarrow> 'm"
    and remove :: "'k \<Rightarrow> 'm \<Rightarrow> 'm"
    and retain :: "('k \<Rightarrow> 'v \<Rightarrow> bool) \<Rightarrow> 'm \<Rightarrow> 'm"
    and size_of :: "'m \<Rightarrow> nat"
    and invar :: "'m \<Rightarrow> bool"
  assumes get_empty: "get empty k = None"
    and size_empty: "size_of empty = 0"
    and invar_empty: "invar empty"
    and get_insert: "get (insert k v m) k' = (if k' = k then Some v else get m k')"
    and invar_insert: "invar m \<Longrightarrow> invar (insert k v m)"
    and size_insert: "invar m \<Longrightarrow>
          size_of (insert k v m) = (if get m k = None then Suc (size_of m) else size_of m)"
    and get_remove: "get (remove k m) k' = (if k' = k then None else get m k')"
    and invar_remove: "invar m \<Longrightarrow> invar (remove k m)"
    and size_remove: "size_of (remove k m) \<le> size_of m"
    and get_retain: "invar m \<Longrightarrow> get (retain P m) k =
          (case get m k of None \<Rightarrow> None | Some v \<Rightarrow> if P k v then Some v else None)"
    and invar_retain: "invar m \<Longrightarrow> invar (retain P m)"
    and size_retain: "size_of (retain P m) \<le> size_of m"
begin

lemma get_retain_Some: "invar m \<Longrightarrow> get (retain P m) k = Some v \<longleftrightarrow> get m k = Some v \<and> P k v"
  by (auto simp: get_retain split: option.splits)

lemma get_retain_None:
  "invar m \<Longrightarrow> get (retain P m) k = None \<longleftrightarrow> (\<forall>v. get m k = Some v \<longrightarrow> \<not> P k v)"
  by (auto simp: get_retain split: option.splits)

lemma size_insert_le: "invar m \<Longrightarrow> size_of (insert k v m) \<le> Suc (size_of m)"
  by (simp add: size_insert)

text \<open>A table that is filled only below its capacity never exceeds it.\<close>

lemma capped_insert: "invar m \<Longrightarrow> size_of m < cap \<Longrightarrow> size_of (insert k v m) \<le> cap"
  by (simp add: size_insert)

lemma capped_update: "invar m \<Longrightarrow> get m k \<noteq> None \<Longrightarrow> size_of m \<le> cap \<Longrightarrow>
    size_of (insert k v m) \<le> cap"
  by (auto simp: size_insert)

lemma capped_retain: "size_of m \<le> cap \<Longrightarrow> size_of (retain P m) \<le> cap"
  using size_retain [of P m] by simp

lemma invar_insert_retain: "invar m \<Longrightarrow> invar (insert k v (retain P m))"
  by (simp add: invar_insert invar_retain)

text \<open>A property of all entries is kept by every operation that does not add a bad entry.\<close>

lemma entries_retain:
  "invar m \<Longrightarrow> (\<And>k v. get m k = Some v \<Longrightarrow> Q k v) \<Longrightarrow> get (retain P m) k = Some v \<Longrightarrow> Q k v"
  by (simp add: get_retain_Some)

lemma entries_insert:
  "(\<And>k v. get m k = Some v \<Longrightarrow> Q k v) \<Longrightarrow> Q k0 v0 \<Longrightarrow> get (insert k0 v0 m) k = Some v \<Longrightarrow> Q k v"
  by (auto simp: get_insert split: if_splits)

end

section \<open>The association lists meet it\<close>

lemma hm_get_retain:
  "hm_invar m \<Longrightarrow> hm_get (hm_retain P m) k =
     (case hm_get m k of None \<Rightarrow> None | Some v \<Rightarrow> if P k v then Some v else None)"
proof (induction m)
  case (Cons e m)
  obtain a b where e: "e = (a, b)" by (cases e)
  have "map_of (filter (\<lambda>e. P (fst e) (snd e)) m) a = None" if "map_of m a = None"
    using that by (force simp: map_of_eq_None_iff)
  with Cons e show ?case by (auto simp: hm_defs map_of_eq_None_iff split: option.splits)
qed (simp add: hm_defs)

lemma hm_get_remove: "hm_get (hm_remove k m) k' = (if k' = k then None else hm_get m k')"
  by (induction m) (auto simp: hm_defs)

lemma hm_invar_filter: "hm_invar m \<Longrightarrow> hm_invar (filter P m)"
  by (simp add: hm_invar_def distinct_map_filter)

lemma hm_remove_absent: "hm_get m k = None \<Longrightarrow> hm_remove k m = m"
  by (auto simp: hm_defs map_of_eq_None_iff filter_id_conv)

lemma hm_len_remove_present:
  "hm_invar m \<Longrightarrow> hm_get m k \<noteq> None \<Longrightarrow> Suc (hm_len (hm_remove k m)) = hm_len m"
proof (induction m)
  case (Cons e m)
  show ?case
  proof (cases "fst e = k")
    case True
    with Cons.prems have "filter (\<lambda>e. fst e \<noteq> k) m = m"
      by (auto simp: hm_defs filter_id_conv image_iff dest: bspec)
    with True show ?thesis by (simp add: hm_defs)
  next
    case False
    with Cons show ?thesis by (simp add: hm_defs)
  qed
qed (simp add: hm_defs)

lemma hm_len_insert:
  "hm_invar m \<Longrightarrow>
     hm_len (hm_insert k v m) = (if hm_get m k = None then Suc (hm_len m) else hm_len m)"
  using hm_remove_absent [of m k] hm_len_remove_present [of m k]
  by (auto simp: hm_insert_def hm_len_def)

lemma hm_invar_insert: "hm_invar m \<Longrightarrow> hm_invar (hm_insert k v m)"
  by (auto simp: hm_insert_def hm_remove_def hm_invar_def distinct_map_filter)

interpretation hm: hash_map hm_empty hm_get hm_insert hm_remove hm_retain hm_len hm_invar
proof unfold_locales
  fix m :: "('a, 'b) hash_map" and k v P k'
  show "hm_get (hm_insert k v m) k' = (if k' = k then Some v else hm_get m k')"
    using hm_get_remove [of k m k'] by (simp add: hm_insert_def hm_get_def)
  show "hm_invar m \<Longrightarrow> hm_invar (hm_insert k v m)" by (rule hm_invar_insert)
  show "hm_invar m \<Longrightarrow> hm_len (hm_insert k v m) =
      (if hm_get m k = None then Suc (hm_len m) else hm_len m)" by (rule hm_len_insert)
  show "hm_get (hm_remove k m) k' = (if k' = k then None else hm_get m k')"
    by (rule hm_get_remove)
  show "hm_invar m \<Longrightarrow> hm_get (hm_retain P m) k =
      (case hm_get m k of None \<Rightarrow> None | Some v \<Rightarrow> if P k v then Some v else None)"
    by (rule hm_get_retain)
qed (simp_all add: hm_empty_def hm_get_def hm_len_def hm_invar_def hm_remove_def hm_retain_def
    distinct_map_filter)

section \<open>Counting entries\<close>

lemma hm_count_retain_le: "hm_count Q (hm_retain P m) \<le> hm_count Q m"
  by (induction m) (auto simp: hm_defs)

lemma hm_count_remove_le: "hm_count Q (hm_remove k m) \<le> hm_count Q m"
  by (induction m) (auto simp: hm_defs)

lemma hm_count_insert_le: "hm_count Q (hm_insert k v m) \<le> Suc (hm_count Q m)"
  using hm_count_remove_le [of Q k m] by (simp add: hm_insert_def hm_count_def)

lemma hm_count_insert_other: "\<not> Q v \<Longrightarrow> hm_count Q (hm_insert k v m) \<le> hm_count Q m"
  using hm_count_remove_le [of Q k m] by (simp add: hm_insert_def hm_count_def)

end
