(* ===== verification/Core.thy ===== *)
theory Core
  imports RustStr "HOL-Library.List_Lexorder"
begin

text \<open>
  The shared data of \<open>crates/omdesky-core/src/lib.rs\<close>: nodes, displays, windows, key chords,
  window selectors, sessions, capabilities, remote commands and stream profiles, with every
  \<open>validate\<close> function and the conversions to the names Hyprland and the wire use. Newtypes over
  strings keep their constructor; UUIDs are 128-bit words, integers keep their width, and the
  one \<open>f64\<close> field (a refresh rate, only carried) is a rational.
\<close>

type_synonym uuid = "128 word"
type_synonym session_id = uuid
type_synonym u16 = "16 word"
type_synonym u32 = "32 word"
type_synonym u64 = "64 word"
type_synonym i64 = int

section \<open>Domain errors\<close>

datatype domain_error =
    InvalidKeyChord
  | InvalidWindowSelector
  | InvalidSessionEndpoint
  | InvalidDisplayId
  | InvalidStreamProfile
  | UnknownCapability

fun domain_error_message :: "domain_error \<Rightarrow> ustr" where
  "domain_error_message InvalidKeyChord =
     lit ''key chord key must be a short ASCII-alphanumeric token''"
| "domain_error_message InvalidWindowSelector =
     lit ''window selector is not a safe class token''"
| "domain_error_message InvalidSessionEndpoint =
     lit ''session endpoint requires a controller address and non-zero port''"
| "domain_error_message InvalidDisplayId =
     lit ''display identifier is not a safe monitor token''"
| "domain_error_message InvalidStreamProfile =
     lit ''stream profile is outside the supported resolution, frame rate or bitrate range''"
| "domain_error_message UnknownCapability =
     lit ''unknown control capability''"

section \<open>Nodes\<close>

datatype node_status = Ready | Blocked | Offline | Unavailable
datatype blocker_code = Incompatible | Denied | NeedsAccess
datatype blocker_side = LocalSide | RemoteSide

record node_blocker =
  blk_code :: blocker_code
  blk_side :: blocker_side
  blk_fix :: ustr

datatype node_capabilities = NodeCapabilities (as_slice: "ustr list")

definition node_capabilities_new :: "ustr list \<Rightarrow> node_capabilities" where
  "node_capabilities_new caps = NodeCapabilities (sort_dedup caps)"

definition node_capabilities_default :: node_capabilities where
  "node_capabilities_default = NodeCapabilities []"

definition node_capabilities_contains :: "node_capabilities \<Rightarrow> ustr \<Rightarrow> bool" where
  "node_capabilities_contains caps capability \<longleftrightarrow> list_ex (\<lambda>c. c = capability) (as_slice caps)"

datatype connection_kind = Direct | Relay | UnknownConnection

datatype ip_addr =
    V4 "8 word" "8 word" "8 word" "8 word"
  | V6 u16 u16 u16 u16 u16 u16 u16 u16

fun is_ipv4 :: "ip_addr \<Rightarrow> bool" where
  "is_ipv4 (V4 _ _ _ _) = True"
| "is_ipv4 (V6 _ _ _ _ _ _ _ _) = False"

record mesh_peer =
  mp_tailnet_node_id :: ustr
  mp_dns_name :: "ustr option"
  mp_hostname :: "ustr option"
  mp_ips :: "ip_addr list"
  mp_online :: bool
  mp_connection :: connection_kind
  mp_latency_ms :: "u32 option"

fun is_tailscale_address :: "ip_addr \<Rightarrow> bool" where
  "is_tailscale_address (V4 a b _ _) \<longleftrightarrow> a = 100 \<and> 64 \<le> b \<and> b < 128"
| "is_tailscale_address (V6 a b c _ _ _ _ _) \<longleftrightarrow> a = 0xfd7a \<and> b = 0x115c \<and> c = 0xa1e0"

section \<open>Displays\<close>

record display =
  d_id :: ustr
  d_name :: ustr
  d_width :: u32
  d_height :: u32
  d_refresh_hz :: rat
  d_focused :: bool

datatype display_id = DisplayId (display_id_str: ustr)

definition display_id_char :: "ucs \<Rightarrow> bool" where
  "display_id_char c \<longleftrightarrow> is_ascii_alphanumeric c \<or> c \<in> set (lit ''-_.'')"

definition display_id_validate :: "display_id \<Rightarrow> domain_error + unit" where
  "display_id_validate d =
     (let value = display_id_str d
      in if value = [] \<or> utf8_len value > 64 then Inl InvalidDisplayId
         else if list_all display_id_char value then Inr ()
         else Inl InvalidDisplayId)"

datatype display_mode = FollowFocus

definition display_mode_all :: "display_mode list" where
  "display_mode_all = [FollowFocus]"

fun display_mode_label :: "display_mode \<Rightarrow> ustr" where
  "display_mode_label FollowFocus = lit ''Follow Focus''"

record topology =
  topo_displays :: "display_id list"
  topo_focused :: "display_id option"

definition topology_new :: "display_id list \<Rightarrow> display_id option \<Rightarrow> topology" where
  "topology_new displays focused = \<lparr>topo_displays = displays, topo_focused = focused\<rparr>"

definition topology_from_displays :: "display list \<Rightarrow> topology" where
  "topology_from_displays displays =
     (let focused = map_option (\<lambda>d. DisplayId (d_id d)) (find d_focused displays)
      in \<lparr>topo_displays = map (\<lambda>d. DisplayId (d_id d)) displays, topo_focused = focused\<rparr>)"

definition topology_contains :: "topology \<Rightarrow> display_id \<Rightarrow> bool" where
  "topology_contains t d \<longleftrightarrow> List.member (topo_displays t) d"

definition topology_preferred :: "topology \<Rightarrow> display_id option" where
  "topology_preferred t = or_else (topo_focused t) (list_first (topo_displays t))"

definition follow_focus_target :: "topology \<Rightarrow> display_id \<Rightarrow> display_id option" where
  "follow_focus_target t streamed =
     (case topology_preferred t of
        None \<Rightarrow> None
      | Some target \<Rightarrow> if target \<noteq> streamed then Some target else None)"

section \<open>Workspaces and windows\<close>

datatype workspace_id = WorkspaceId (workspace_id_value: i64)
datatype window_id = WindowId (window_id_str: ustr)

record workspace =
  ws_id :: workspace_id
  ws_name :: "ustr option"
  ws_monitor :: "ustr option"
  ws_focused :: bool
  ws_windows :: u32

record window =
  win_id :: window_id
  win_app_id :: "ustr option"
  win_class :: "ustr option"
  win_title :: "ustr option"
  win_workspace :: workspace_id
  win_focused :: bool

datatype workspace_target = TargetId workspace_id | TargetName ustr

section \<open>Key chords\<close>

datatype key_modifier = Super | Ctrl | Alt | Shift

fun key_modifier_index :: "key_modifier \<Rightarrow> nat" where
  "key_modifier_index Super = 0"
| "key_modifier_index Ctrl = 1"
| "key_modifier_index Alt = 2"
| "key_modifier_index Shift = 3"

lemma key_modifier_index_inj [simp]:
  "key_modifier_index a = key_modifier_index b \<longleftrightarrow> a = b"
  by (cases a; cases b) simp_all

instantiation key_modifier :: linorder
begin
definition less_eq_key_modifier :: "key_modifier \<Rightarrow> key_modifier \<Rightarrow> bool" where
  "less_eq_key_modifier a b \<longleftrightarrow> key_modifier_index a \<le> key_modifier_index b"
definition less_key_modifier :: "key_modifier \<Rightarrow> key_modifier \<Rightarrow> bool" where
  "less_key_modifier a b \<longleftrightarrow> key_modifier_index a < key_modifier_index b"
instance
  by standard (auto simp: less_eq_key_modifier_def less_key_modifier_def)
end

fun key_modifier_as_hypr :: "key_modifier \<Rightarrow> ustr" where
  "key_modifier_as_hypr Super = lit ''SUPER''"
| "key_modifier_as_hypr Ctrl = lit ''CTRL''"
| "key_modifier_as_hypr Alt = lit ''ALT''"
| "key_modifier_as_hypr Shift = lit ''SHIFT''"

record key_chord =
  kc_mods :: "key_modifier list"
  kc_key :: ustr

definition is_safe_key_token :: "ustr \<Rightarrow> bool" where
  "is_safe_key_token key \<longleftrightarrow> key \<noteq> [] \<and> utf8_len key \<le> 32 \<and> list_all is_ascii_alphanumeric key"

definition key_chord_validate :: "key_chord \<Rightarrow> domain_error + unit" where
  "key_chord_validate chord =
     (if is_safe_key_token (kc_key chord) then Inr () else Inl InvalidKeyChord)"

definition key_chord_new :: "key_modifier list \<Rightarrow> ustr \<Rightarrow> domain_error + key_chord" where
  "key_chord_new mods key =
     (let chord = \<lparr>kc_mods = sort_dedup mods, kc_key = key\<rparr>
      in try_then (key_chord_validate chord) (\<lambda>_. Inr chord))"

definition modifiers_hypr :: "key_chord \<Rightarrow> ustr" where
  "modifiers_hypr chord = join (lit '' '') (map key_modifier_as_hypr (kc_mods chord))"

section \<open>Window selectors\<close>

datatype window_selector = ActiveWindow | WindowClass ustr | WindowAddress ustr

definition is_safe_class_char :: "ucs \<Rightarrow> bool" where
  "is_safe_class_char c \<longleftrightarrow> is_ascii_alphanumeric c \<or> c \<in> set (lit ''._-'')"

definition is_window_address :: "ustr \<Rightarrow> bool" where
  "is_window_address value \<longleftrightarrow>
     utf8_len value \<le> 34 \<and>
     option_any (\<lambda>hex. hex \<noteq> [] \<and> list_all is_ascii_hexdigit hex) (strip_prefix (lit ''0x'') value)"

fun window_selector_validate :: "window_selector \<Rightarrow> domain_error + unit" where
  "window_selector_validate ActiveWindow = Inr ()"
| "window_selector_validate (WindowClass class) =
     (if class \<noteq> [] \<and> list_all is_safe_class_char class then Inr ()
      else Inl InvalidWindowSelector)"
| "window_selector_validate (WindowAddress address) =
     (if is_window_address address then Inr () else Inl InvalidWindowSelector)"

fun window_selector_as_hypr :: "window_selector \<Rightarrow> ustr" where
  "window_selector_as_hypr ActiveWindow = lit ''activewindow''"
| "window_selector_as_hypr (WindowClass class) = lit ''class:'' @ class"
| "window_selector_as_hypr (WindowAddress address) = lit ''address:'' @ address"

section \<open>Sessions\<close>

datatype session_role = Controller | Remote

record session_endpoint =
  se_address :: ip_addr
  se_port :: u16

definition session_endpoint_validate :: "session_endpoint \<Rightarrow> domain_error + unit" where
  "session_endpoint_validate e = (if se_port e = 0 then Inl InvalidSessionEndpoint else Inr ())"

record session_claim =
  claim_id :: session_id
  claim_generation :: u64

record session_grant =
  grant_id :: session_id
  grant_generation :: u64
  grant_lease_seconds :: nat

definition session_grant_claim :: "session_grant \<Rightarrow> session_claim" where
  "session_grant_claim g = \<lparr>claim_id = grant_id g, claim_generation = grant_generation g\<rparr>"

section \<open>Capabilities\<close>

datatype control_capability =
    CapReadMetadata
  | CapFocusWorkspace
  | CapControlSession
  | CapSendShortcut
  | CapCloseStream
  | CapApprovePairing

fun capability_index :: "control_capability \<Rightarrow> nat" where
  "capability_index CapReadMetadata = 0"
| "capability_index CapFocusWorkspace = 1"
| "capability_index CapControlSession = 2"
| "capability_index CapSendShortcut = 3"
| "capability_index CapCloseStream = 4"
| "capability_index CapApprovePairing = 5"

lemma capability_index_inj [simp]: "capability_index a = capability_index b \<longleftrightarrow> a = b"
  by (cases a; cases b) simp_all

instantiation control_capability :: linorder
begin
definition less_eq_control_capability :: "control_capability \<Rightarrow> control_capability \<Rightarrow> bool" where
  "less_eq_control_capability a b \<longleftrightarrow> capability_index a \<le> capability_index b"
definition less_control_capability :: "control_capability \<Rightarrow> control_capability \<Rightarrow> bool" where
  "less_control_capability a b \<longleftrightarrow> capability_index a < capability_index b"
instance
  by standard (auto simp: less_eq_control_capability_def less_control_capability_def)
end

definition capability_all :: "control_capability list" where
  "capability_all = [CapReadMetadata, CapFocusWorkspace, CapControlSession, CapSendShortcut,
     CapCloseStream, CapApprovePairing]"

definition capability_callback :: "control_capability list" where
  "capability_callback = [CapSendShortcut, CapCloseStream]"

fun capability_as_str :: "control_capability \<Rightarrow> ustr" where
  "capability_as_str CapReadMetadata = lit ''read_metadata''"
| "capability_as_str CapFocusWorkspace = lit ''focus_workspace''"
| "capability_as_str CapControlSession = lit ''control_session''"
| "capability_as_str CapSendShortcut = lit ''send_shortcut''"
| "capability_as_str CapCloseStream = lit ''close_stream''"
| "capability_as_str CapApprovePairing = lit ''approve_pairing''"

definition capability_from_str :: "ustr \<Rightarrow> domain_error + control_capability" where
  "capability_from_str value =
     ok_or (find (\<lambda>c. capability_as_str c = value) capability_all) UnknownCapability"

section \<open>Remote commands\<close>

datatype remote_command =
    SendShortcut key_chord window_selector
  | CloseWindow window_selector
  | SwitchStreamDisplay display_id
  | AttachSession session_role "session_endpoint option" "window_selector option"
  | DetachSession
  | RenewSession

fun command_kind :: "remote_command \<Rightarrow> ustr" where
  "command_kind (SendShortcut _ _) = lit ''send_shortcut''"
| "command_kind (CloseWindow _) = lit ''close_window''"
| "command_kind (SwitchStreamDisplay _) = lit ''switch_stream_display''"
| "command_kind (AttachSession _ _ _) = lit ''attach_session''"
| "command_kind DetachSession = lit ''detach_session''"
| "command_kind RenewSession = lit ''renew_session''"

fun command_validate :: "remote_command \<Rightarrow> domain_error + unit" where
  "command_validate (SendShortcut chord window) =
     try_then (key_chord_validate chord) (\<lambda>_. window_selector_validate window)"
| "command_validate (CloseWindow window) = window_selector_validate window"
| "command_validate (SwitchStreamDisplay display) = display_id_validate display"
| "command_validate (AttachSession role controller window) =
     try_then (case window of None \<Rightarrow> Inr () | Some w \<Rightarrow> window_selector_validate w)
       (\<lambda>_. case role of
          Remote \<Rightarrow> try_then (ok_or controller InvalidSessionEndpoint) session_endpoint_validate
        | Controller \<Rightarrow> Inr ())"
| "command_validate DetachSession = Inr ()"
| "command_validate RenewSession = Inr ()"

fun is_session_control :: "remote_command \<Rightarrow> bool" where
  "is_session_control (AttachSession _ _ _) = True"
| "is_session_control DetachSession = True"
| "is_session_control RenewSession = True"
| "is_session_control _ = False"

fun required_capability :: "remote_command \<Rightarrow> control_capability" where
  "required_capability (SendShortcut _ _) = CapSendShortcut"
| "required_capability (SwitchStreamDisplay _) = CapSendShortcut"
| "required_capability (CloseWindow _) = CapCloseStream"
| "required_capability (AttachSession _ _ _) = CapControlSession"
| "required_capability DetachSession = CapControlSession"
| "required_capability RenewSession = CapControlSession"

section \<open>Stream profiles\<close>

datatype codec_preference = Auto | H264 | Hevc | Av1
datatype input_mode = LocalInput | RemoteInput

record stream_profile =
  sp_width :: u32
  sp_height :: u32
  sp_fps :: u16
  sp_codec_preference :: codec_preference
  sp_audio :: bool
  sp_bitrate_kbps :: "u32 option"

definition min_stream_width :: u32 where "min_stream_width = 320"
definition max_stream_width :: u32 where "max_stream_width = 7680"
definition min_stream_height :: u32 where "min_stream_height = 240"
definition max_stream_height :: u32 where "max_stream_height = 4320"
definition min_stream_fps :: u16 where "min_stream_fps = 15"
definition max_stream_fps :: u16 where "max_stream_fps = 480"
definition min_stream_bitrate_kbps :: u32 where "min_stream_bitrate_kbps = 500"
definition max_stream_bitrate_kbps :: u32 where "max_stream_bitrate_kbps = 500000"

lemmas stream_limits = min_stream_width_def max_stream_width_def min_stream_height_def
  max_stream_height_def min_stream_fps_def max_stream_fps_def min_stream_bitrate_kbps_def
  max_stream_bitrate_kbps_def

definition bitrate_in_range :: "u32 \<Rightarrow> bool" where
  "bitrate_in_range kbps \<longleftrightarrow> min_stream_bitrate_kbps \<le> kbps \<and> kbps \<le> max_stream_bitrate_kbps"

definition stream_profile_validate :: "stream_profile \<Rightarrow> domain_error + unit" where
  "stream_profile_validate p =
     (let within_range =
        min_stream_width \<le> sp_width p \<and> sp_width p \<le> max_stream_width
        \<and> min_stream_height \<le> sp_height p \<and> sp_height p \<le> max_stream_height
        \<and> min_stream_fps \<le> sp_fps p \<and> sp_fps p \<le> max_stream_fps
        \<and> option_all bitrate_in_range (sp_bitrate_kbps p)
      in if within_range then Inr () else Inl InvalidStreamProfile)"

definition bitrate_kbps_from_mbps :: "u32 \<Rightarrow> domain_error + u32" where
  "bitrate_kbps_from_mbps mbps =
     ok_or (case checked_mul mbps 1000 of
              None \<Rightarrow> None
            | Some kbps \<Rightarrow> if bitrate_in_range kbps then Some kbps else None)
       InvalidStreamProfile"

definition stream_profile_default :: stream_profile where
  "stream_profile_default =
     \<lparr>sp_width = 1920, sp_height = 1080, sp_fps = 60, sp_codec_preference = Auto,
      sp_audio = True, sp_bitrate_kbps = None\<rparr>"

section \<open>Correctness\<close>

definition ipv4_value :: "8 word \<Rightarrow> 8 word \<Rightarrow> 8 word \<Rightarrow> 8 word \<Rightarrow> nat" where
  "ipv4_value a b c d = unat a * 2 ^ 24 + unat b * 2 ^ 16 + unat c * 2 ^ 8 + unat d"

lemma octet_bound: "unat (x :: 8 word) < 256"
  using unsigned_less [of x] by simp

text \<open>
  An IPv4 address counts as a Tailscale address exactly when it lies in the carrier-grade NAT
  block 100.64.0.0/10, that is, when the ten leading bits of its 32-bit value are those of
  100.64.0.0.
\<close>

theorem tailscale_v4_block:
  "is_tailscale_address (V4 a b c d) \<longleftrightarrow> ipv4_value a b c d div 2 ^ 22 = ipv4_value 100 64 0 0 div 2 ^ 22"
proof -
  have "ipv4_value a b c d div 2 ^ 22 = 401 \<longleftrightarrow>
      401 * 2 ^ 22 \<le> ipv4_value a b c d \<and> ipv4_value a b c d < 402 * 2 ^ 22"
    by (auto simp: div_nat_eqI less_mult_imp_div_less dest: div_eq_dividend_iff)
  moreover have "ipv4_value 100 64 0 0 div 2 ^ 22 = 401"
    by (simp add: ipv4_value_def)
  moreover have "401 * 2 ^ 22 \<le> ipv4_value a b c d \<and> ipv4_value a b c d < 402 * 2 ^ 22 \<longleftrightarrow>
      unat a = 100 \<and> 64 \<le> unat b \<and> unat b < 128"
  proof
    assume range: "401 * 2 ^ 22 \<le> ipv4_value a b c d \<and> ipv4_value a b c d < 402 * 2 ^ 22"
    then have "unat a = 100"
      using octet_bound [of b] octet_bound [of c] octet_bound [of d]
      unfolding ipv4_value_def by simp
    with range show "unat a = 100 \<and> 64 \<le> unat b \<and> unat b < 128"
      using octet_bound [of c] octet_bound [of d] unfolding ipv4_value_def by simp
  qed (use octet_bound [of c] octet_bound [of d] in \<open>simp add: ipv4_value_def\<close>)
  ultimately show ?thesis
    by (simp add: word_le_nat_alt word_less_nat_alt word_unat_eq_iff)
qed

text \<open>
  The wire names of the capabilities round-trip: a name parses to a capability exactly when it
  is that capability's name, so no two capabilities share a name and every other text is refused.
\<close>

theorem capability_name_roundtrip:
  "capability_from_str s = Inr c \<longleftrightarrow> s = capability_as_str c"
  by (cases c) (auto simp: capability_from_str_def capability_all_def dest: find_SomeD)

text \<open>
  Building a key chord forgets the order and the repetitions of the modifiers it is given: the
  result holds each of them once, in the order Super, Ctrl, Alt, Shift, and exists exactly for a
  safe key token.
\<close>

theorem key_chord_new_normal_form:
  "key_chord_new mods key =
     (if is_safe_key_token key
      then Inr \<lparr>kc_mods = sorted_list_of_set (set mods), kc_key = key\<rparr>
      else Inl InvalidKeyChord)"
  by (simp add: key_chord_new_def key_chord_validate_def sort_dedup_eq)

text \<open>
  A bitrate given in Mbit/s is accepted exactly from 1 to 500, and the kbit/s value stored is
  its exact thousandfold: the checked multiplication never wraps.
\<close>

theorem bitrate_from_mbps_exact:
  "bitrate_kbps_from_mbps m = Inr k \<longleftrightarrow>
     1 \<le> unat m \<and> unat m \<le> 500 \<and> unat k = 1000 * unat m"
proof -
  have in_range: "bitrate_in_range k' \<longleftrightarrow> 500 \<le> unat k' \<and> unat k' \<le> 500000" for k'
    by (simp add: bitrate_in_range_def stream_limits word_le_nat_alt)
  have "bitrate_kbps_from_mbps m = Inr k \<longleftrightarrow> checked_mul m 1000 = Some k \<and> bitrate_in_range k"
    by (auto simp: bitrate_kbps_from_mbps_def split: option.splits if_splits)
  then show ?thesis
    by (auto simp: checked_mul_Some in_range)
qed

text \<open>
  Setting the bitrate of a valid stream profile from an accepted number of Mbit/s keeps the
  profile valid.
\<close>

theorem profile_with_bitrate_valid:
  assumes "stream_profile_validate p = Inr ()" and "bitrate_kbps_from_mbps m = Inr k"
  shows "stream_profile_validate (p\<lparr>sp_bitrate_kbps := Some k\<rparr>) = Inr ()"
  using assms
  by (auto simp: stream_profile_validate_def bitrate_kbps_from_mbps_def Let_def
      split: option.splits if_splits)

theorem profile_with_bitrate_valid_witness:
  "stream_profile_validate (stream_profile_default\<lparr>sp_bitrate_kbps := Some 20000\<rparr>) = Inr ()"
  by (rule profile_with_bitrate_valid [of _ 20])
    (simp_all add: stream_profile_validate_def stream_profile_default_def stream_limits
      bitrate_kbps_from_mbps_def checked_mul_def bitrate_in_range_def Let_def)

text \<open>The texts a command carries to the desktop.\<close>

fun selector_texts :: "window_selector \<Rightarrow> ustr list" where
  "selector_texts ActiveWindow = []"
| "selector_texts (WindowClass class) = [class]"
| "selector_texts (WindowAddress address) = [address]"

fun command_texts :: "remote_command \<Rightarrow> ustr list" where
  "command_texts (SendShortcut chord window) = kc_key chord # selector_texts window"
| "command_texts (CloseWindow window) = selector_texts window"
| "command_texts (SwitchStreamDisplay display) = [display_id_str display]"
| "command_texts (AttachSession _ _ window) =
     (case window of None \<Rightarrow> [] | Some w \<Rightarrow> selector_texts w)"
| "command_texts DetachSession = []"
| "command_texts RenewSession = []"

definition safe_text :: "ustr \<Rightarrow> bool" where
  "safe_text s \<longleftrightarrow> s \<noteq> [] \<and> list_all (\<lambda>c. is_ascii_alphanumeric c \<or> c \<in> set (lit ''._-'')) s"

lemma safe_key_token_text: "is_safe_key_token key \<Longrightarrow> safe_text key"
  by (auto simp: is_safe_key_token_def safe_text_def list_all_iff)

lemma hexdigit_alphanumeric: "is_ascii_hexdigit c \<Longrightarrow> is_ascii_alphanumeric c"
  by (auto simp: ascii_class_defs)

lemma valid_selector_texts:
  "window_selector_validate w = Inr () \<Longrightarrow> t \<in> set (selector_texts w) \<Longrightarrow> safe_text t"
proof (cases w)
  case (WindowAddress address)
  assume "window_selector_validate w = Inr ()" "t \<in> set (selector_texts w)"
  with WindowAddress obtain hex where "address = lit ''0x'' @ hex" "list_all is_ascii_hexdigit hex"
    "t = address"
    by (auto simp: is_window_address_def option_any_def strip_prefix_Some split: if_splits option.splits)
  then show ?thesis
    by (auto simp: safe_text_def list_all_iff lit_def hexdigit_alphanumeric ascii_class_defs)
qed (auto simp: safe_text_def is_safe_class_char_def list_all_iff split: if_splits)

lemma valid_display_text: "display_id_validate d = Inr () \<Longrightarrow> safe_text (display_id_str d)"
  by (auto simp: display_id_validate_def safe_text_def display_id_char_def list_all_iff Let_def lit_def
      split: if_splits)

text \<open>
  Every text of a command that passes validation is a non-empty token of ASCII letters,
  digits, dots, underscores and hyphens: quotes, spaces, backslashes, brackets and control
  characters cannot reach the desktop through a command.
\<close>

theorem valid_command_texts_safe:
  assumes "command_validate c = Inr ()" and "t \<in> set (command_texts c)"
  shows "safe_text t"
  using assms
  by (cases c)
    (auto simp: result_simps key_chord_validate_def safe_key_token_text valid_display_text
      dest: valid_selector_texts split: if_splits option.splits)

theorem valid_command_texts_safe_witness: "safe_text (lit ''F1'')"
  by (rule valid_command_texts_safe
      [of "SendShortcut \<lparr>kc_mods = [Ctrl], kc_key = lit ''F1''\<rparr> (WindowClass (lit ''a.b''))"])
    (simp_all add: key_chord_validate_def is_safe_key_token_def is_safe_class_char_def lit_def
      ascii_class_defs)

end
