(* ===== verification/Text.thy ===== *)
theory Text
  imports RustStr
begin

text \<open>
  \<open>crates/omdesky-core/src/text.rs\<close>: text received from another computer is cut to a number of
  characters and stripped of control, bidirectional and invisible characters before it is shown.
\<close>

definition replacement :: ucs where
  "replacement = 0xfffd"

definition ellipsis :: ucs where
  "ellipsis = 0x2026"

definition display_name_limit :: nat where
  "display_name_limit = 96"

definition display_line_limit :: nat where
  "display_line_limit = 256"

definition is_bidi_or_invisible :: "ucs \<Rightarrow> bool" where
  "is_bidi_or_invisible c \<longleftrightarrow>
     c = 0x00ad \<or> c = 0x061c \<or> c = 0x180e
     \<or> (0x200b \<le> c \<and> c \<le> 0x200f)
     \<or> (0x202a \<le> c \<and> c \<le> 0x202e)
     \<or> (0x2060 \<le> c \<and> c \<le> 0x2064)
     \<or> (0x2066 \<le> c \<and> c \<le> 0x206f)
     \<or> c = 0xfeff
     \<or> (0xfff9 \<le> c \<and> c \<le> 0xfffb)
     \<or> (0xe0000 \<le> c \<and> c \<le> 0xe007f)"

definition is_presentation_safe :: "ucs \<Rightarrow> bool" where
  "is_presentation_safe c = (if is_control c then False else \<not> is_bidi_or_invisible c)"

fun sanitize_loop :: "nat \<Rightarrow> ustr \<Rightarrow> ustr \<Rightarrow> ustr \<times> bool" where
  "sanitize_loop limit [] sanitized = (sanitized, False)"
| "sanitize_loop limit (c # cs) sanitized =
     (if length sanitized \<ge> limit then (sanitized, True)
      else sanitize_loop limit cs
             (sanitized @ [if is_presentation_safe c then c else replacement]))"

definition sanitize_for_display :: "ustr \<Rightarrow> nat \<Rightarrow> ustr" where
  "sanitize_for_display value limit =
     (case sanitize_loop limit value [] of
        (sanitized, truncated) \<Rightarrow> if truncated then sanitized @ [ellipsis] else sanitized)"

definition sanitize_optional :: "ustr option \<Rightarrow> nat \<Rightarrow> ustr option" where
  "sanitize_optional value limit = map_option (\<lambda>v. sanitize_for_display v limit) value"

section \<open>The loop in closed form\<close>

definition clean :: "ucs \<Rightarrow> ucs" where
  "clean c = (if is_presentation_safe c then c else replacement)"

lemma sanitize_loop_eq:
  "length out \<le> limit \<Longrightarrow>
     sanitize_loop limit s out =
       (out @ map clean (take (limit - length out) s), limit - length out < length s)"
proof (induction limit s out rule: sanitize_loop.induct)
  case (2 limit c cs out)
  show ?case
  proof (cases "length out \<ge> limit")
    case False
    with 2 show ?thesis
      by (auto simp: clean_def Suc_diff_Suc [symmetric] take_Cons' simp del: Suc_diff_Suc)
  qed (use 2 in simp)
qed simp

lemma sanitize_for_display_eq:
  "sanitize_for_display s limit =
     map clean (take limit s) @ (if limit < length s then [ellipsis] else [])"
  by (simp add: sanitize_for_display_def sanitize_loop_eq)

lemma safe_replacement: "is_presentation_safe replacement" "is_presentation_safe ellipsis"
  by (simp_all add: is_presentation_safe_def is_control_def is_bidi_or_invisible_def
      replacement_def ellipsis_def)

lemma safe_clean: "is_presentation_safe (clean c)"
  by (simp add: clean_def safe_replacement)

lemma sanitize_safe: "c \<in> set (sanitize_for_display s limit) \<Longrightarrow> is_presentation_safe c"
  by (auto simp: sanitize_for_display_eq safe_clean safe_replacement split: if_splits)

lemma sanitize_length: "length (sanitize_for_display s limit) = min (length s) (Suc limit)"
  by (auto simp: sanitize_for_display_eq)

lemma clean_safe: "is_presentation_safe c \<Longrightarrow> clean c = c"
  by (simp add: clean_def)

lemma sanitize_identity:
  "list_all is_presentation_safe s \<Longrightarrow> length s \<le> limit \<Longrightarrow> sanitize_for_display s limit = s"
  by (simp add: sanitize_for_display_eq list_all_iff clean_safe map_idI)

lemma safe_ascii_graphic: "32 \<le> c \<Longrightarrow> c \<le> 126 \<Longrightarrow> is_presentation_safe c"
  by (simp add: is_presentation_safe_def is_control_def is_bidi_or_invisible_def)

section \<open>Correctness\<close>

text \<open>
  Sanitised text holds no control, bidirectional or invisible character, and its length is the
  length of the original capped at one character (the ellipsis) more than the limit.
\<close>

theorem sanitize_for_display_safe:
  "list_all is_presentation_safe (sanitize_for_display s limit)
     \<and> length (sanitize_for_display s limit) = min (length s) (Suc limit)"
  using sanitize_safe [of _ s limit] sanitize_length [of s limit] by (simp add: list_all_iff)

text \<open>
  Sanitising is idempotent: showing text that was sanitised before, under the same limit,
  changes nothing, the ellipsis of a truncation included.
\<close>

theorem sanitize_for_display_idempotent:
  "sanitize_for_display (sanitize_for_display s limit) limit = sanitize_for_display s limit"
proof -
  have "clean (clean c) = clean c" for c by (rule clean_safe [OF safe_clean])
  then have "map clean (map clean (take limit s)) = map clean (take limit s)" by simp
  moreover have "clean ellipsis = ellipsis" by (rule clean_safe [OF safe_replacement(2)])
  ultimately show ?thesis
    by (cases "limit < length s") (simp_all add: sanitize_for_display_eq min_def)
qed

end
