(* ===== verification/ErrorCodes.thy ===== *)
theory ErrorCodes
  imports RustStr
begin

text \<open>
  \<open>crates/omdesky-protocol/src/error.rs\<close>: the error codes of the agent protocol with their wire
  names, HTTP statuses and retry flags (one table in the source, expanded by a macro), and the
  error envelope that carries a code over the wire.
\<close>

datatype error_code =
    Unauthorized | CapabilityDenied | CallbackAccessMissing | RateLimited | IdentityUnavailable
  | AccessStoreFailed | VersionIncompatible | ControllerUnreachable | NoController
  | InvalidCommand | RequestStale | RequestReplayed | PairingChallengeInvalid
  | SessionAlreadyOwned | SessionNotOwned | SessionNotFound | SessionEffectsFailed
  | HyprlandUnavailable | DisplayNotFound | WorkspaceNotFound | WindowNotFound
  | SunshineNotInstalled | SunshineNotRunning | SunshineApiUnavailable | SunshinePairingFailed
  | Internal

definition error_code_all :: "error_code list" where
  "error_code_all =
     [Unauthorized, CapabilityDenied, CallbackAccessMissing, RateLimited, IdentityUnavailable,
      AccessStoreFailed, VersionIncompatible, ControllerUnreachable, NoController,
      InvalidCommand, RequestStale, RequestReplayed, PairingChallengeInvalid,
      SessionAlreadyOwned, SessionNotOwned, SessionNotFound, SessionEffectsFailed,
      HyprlandUnavailable, DisplayNotFound, WorkspaceNotFound, WindowNotFound,
      SunshineNotInstalled, SunshineNotRunning, SunshineApiUnavailable, SunshinePairingFailed,
      Internal]"

fun error_code_row :: "error_code \<Rightarrow> ustr \<times> nat \<times> bool" where
  "error_code_row Unauthorized = (lit ''UNAUTHORIZED'', 401, False)"
| "error_code_row CapabilityDenied = (lit ''CAPABILITY_DENIED'', 403, False)"
| "error_code_row CallbackAccessMissing = (lit ''CALLBACK_ACCESS_MISSING'', 403, False)"
| "error_code_row RateLimited = (lit ''RATE_LIMITED'', 429, True)"
| "error_code_row IdentityUnavailable = (lit ''IDENTITY_UNAVAILABLE'', 503, True)"
| "error_code_row AccessStoreFailed = (lit ''ACCESS_STORE_FAILED'', 500, False)"
| "error_code_row VersionIncompatible = (lit ''VERSION_INCOMPATIBLE'', 409, False)"
| "error_code_row ControllerUnreachable = (lit ''CONTROLLER_UNREACHABLE'', 502, True)"
| "error_code_row NoController = (lit ''NO_CONTROLLER'', 409, False)"
| "error_code_row InvalidCommand = (lit ''INVALID_COMMAND'', 400, False)"
| "error_code_row RequestStale = (lit ''REQUEST_STALE'', 400, False)"
| "error_code_row RequestReplayed = (lit ''REQUEST_REPLAYED'', 409, False)"
| "error_code_row PairingChallengeInvalid = (lit ''PAIRING_CHALLENGE_INVALID'', 403, False)"
| "error_code_row SessionAlreadyOwned = (lit ''SESSION_ALREADY_OWNED'', 409, False)"
| "error_code_row SessionNotOwned = (lit ''SESSION_NOT_OWNED'', 403, False)"
| "error_code_row SessionNotFound = (lit ''SESSION_NOT_FOUND'', 404, False)"
| "error_code_row SessionEffectsFailed = (lit ''SESSION_EFFECTS_FAILED'', 503, True)"
| "error_code_row HyprlandUnavailable = (lit ''HYPRLAND_UNAVAILABLE'', 503, True)"
| "error_code_row DisplayNotFound = (lit ''DISPLAY_NOT_FOUND'', 404, False)"
| "error_code_row WorkspaceNotFound = (lit ''WORKSPACE_NOT_FOUND'', 404, False)"
| "error_code_row WindowNotFound = (lit ''WINDOW_NOT_FOUND'', 404, False)"
| "error_code_row SunshineNotInstalled = (lit ''SUNSHINE_NOT_INSTALLED'', 503, False)"
| "error_code_row SunshineNotRunning = (lit ''SUNSHINE_NOT_RUNNING'', 503, True)"
| "error_code_row SunshineApiUnavailable = (lit ''SUNSHINE_API_UNAVAILABLE'', 503, False)"
| "error_code_row SunshinePairingFailed = (lit ''SUNSHINE_PAIRING_FAILED'', 502, False)"
| "error_code_row Internal = (lit ''INTERNAL_ERROR'', 500, False)"

definition error_code_as_str :: "error_code \<Rightarrow> ustr" where
  "error_code_as_str c = fst (error_code_row c)"

definition error_code_http_status :: "error_code \<Rightarrow> nat" where
  "error_code_http_status c = fst (snd (error_code_row c))"

definition error_code_retryable :: "error_code \<Rightarrow> bool" where
  "error_code_retryable c = snd (snd (error_code_row c))"

definition error_code_from_code :: "ustr \<Rightarrow> error_code option" where
  "error_code_from_code code = find (\<lambda>c. code = error_code_as_str c) error_code_all"

record protocol_error =
  pe_code :: ustr
  pe_message :: ustr
  pe_retryable :: bool

record error_envelope =
  envelope_error :: protocol_error

definition error_envelope_new :: "error_code \<Rightarrow> ustr \<Rightarrow> error_envelope" where
  "error_envelope_new code message =
     \<lparr>envelope_error = \<lparr>pe_code = error_code_as_str code, pe_message = message,
        pe_retryable = error_code_retryable code\<rparr>\<rparr>"

definition protocol_error_known_code :: "protocol_error \<Rightarrow> error_code option" where
  "protocol_error_known_code e = error_code_from_code (pe_code e)"

lemmas error_code_defs = error_code_as_str_def error_code_http_status_def error_code_retryable_def

section \<open>The table is a bijection between codes and names\<close>

lemma error_code_all_complete: "c \<in> set error_code_all"
  by (cases c) (simp_all add: error_code_all_def)

lemma error_code_names_distinct: "distinct (map error_code_as_str error_code_all)"
  by (simp add: error_code_all_def error_code_as_str_def)

lemma error_code_as_str_inj: "error_code_as_str a = error_code_as_str b \<longleftrightarrow> a = b"
  using error_code_names_distinct error_code_all_complete
  by (auto simp: distinct_map dest: inj_onD)

lemma error_code_roundtrip [simp]: "error_code_from_code (error_code_as_str c) = Some c"
proof -
  have "find (\<lambda>d. error_code_as_str c = error_code_as_str d) error_code_all \<noteq> None"
    using error_code_all_complete [of c] by (auto simp: find_None_iff)
  then obtain d where "find (\<lambda>d. error_code_as_str c = error_code_as_str d) error_code_all = Some d"
    by auto
  moreover from this have "d = c"
    by (auto simp: find_Some_iff error_code_as_str_inj)
  ultimately show ?thesis by (simp add: error_code_from_code_def)
qed

lemma error_code_from_code_Some: "error_code_from_code s = Some c \<longleftrightarrow> s = error_code_as_str c"
  by (auto simp: error_code_from_code_def dest: find_SomeD)
    (use error_code_roundtrip in \<open>simp add: error_code_from_code_def\<close>)

lemma error_code_status_known:
  "error_code_http_status c \<in> {400, 401, 403, 404, 409, 429, 500, 502, 503}"
  by (cases c) (simp_all add: error_code_http_status_def)

text \<open>Only statuses that promise a later retry carry the retry flag.\<close>

lemma error_code_retryable_status:
  "error_code_retryable c \<Longrightarrow> error_code_http_status c \<in> {429, 502, 503}"
  by (cases c) (simp_all add: error_code_defs)

section \<open>Correctness\<close>

text \<open>
  An error travels over the wire without loss: the envelope built from a code is read back as
  that code, whatever its message, and no other wire name is read as it.
\<close>

theorem error_code_wire_roundtrip:
  "protocol_error_known_code (envelope_error (error_envelope_new code message)) = Some code
     \<and> (protocol_error_known_code e = Some code \<longleftrightarrow> pe_code e = error_code_as_str code)"
  by (simp add: protocol_error_known_code_def error_envelope_new_def error_code_from_code_Some)

end
