(* ===== verification/Release.thy ===== *)
theory Release
  imports Core
begin

text \<open>
  \<open>crates/omdesky-protocol/src/release.rs\<close>: two computers talk to each other only when they run
  the same release line, the major and minor number of a canonical three-part version.
  \<open>RELEASE\<close> is the package version of the workspace manifest.
\<close>

definition release :: ustr where
  "release = lit ''0.2.0''"

definition release_header :: ustr where
  "release_header = lit ''omdesky-release''"

definition max_release_bytes :: nat where
  "max_release_bytes = 64"

record release_line =
  rl_major :: nat
  rl_minor :: nat

definition parse_component :: "ustr \<Rightarrow> nat option" where
  "parse_component component =
     (let is_canonical =
        component \<noteq> [] \<and> list_all is_ascii_digit component
        \<and> (component = lit ''0'' \<or> \<not> starts_with component (lit ''0''))
      in if \<not> is_canonical then None else parse_uint 64 component)"

definition is_dot :: "ucs \<Rightarrow> bool" where
  "is_dot c \<longleftrightarrow> c = 46"

definition is_suffix_mark :: "ucs \<Rightarrow> bool" where
  "is_suffix_mark c \<longleftrightarrow> c = 45 \<or> c = 43"

definition release_line_parse :: "ustr \<Rightarrow> release_line option" where
  "release_line_parse version =
     (if version = [] \<or> utf8_len version > max_release_bytes then None
      else
        let core = (case split_once is_suffix_mark version of None \<Rightarrow> version | Some (c, _) \<Rightarrow> c)
        in case split_on is_dot core of
             c1 # c2 # c3 # rest \<Rightarrow>
               (case parse_component c1 of None \<Rightarrow> None | Some major \<Rightarrow>
                case parse_component c2 of None \<Rightarrow> None | Some minor \<Rightarrow>
                case parse_component c3 of None \<Rightarrow> None | Some _ \<Rightarrow>
                if rest \<noteq> [] then None
                else Some \<lparr>rl_major = major, rl_minor = minor\<rparr>)
           | _ \<Rightarrow> None)"

definition release_line_current :: "release_line option" where
  "release_line_current = release_line_parse release"

definition is_compatible_release :: "ustr \<Rightarrow> bool" where
  "is_compatible_release version =
     (case release_line_current of
        None \<Rightarrow> False
      | Some current \<Rightarrow> release_line_parse version = Some current)"

text \<open>The derived order compares the major number first.\<close>

definition release_line_greater :: "release_line \<Rightarrow> release_line \<Rightarrow> bool" where
  "release_line_greater a b \<longleftrightarrow>
     rl_major b < rl_major a \<or> (rl_major a = rl_major b \<and> rl_minor b < rl_minor a)"

section \<open>Rendering a version and parsing it back\<close>

definition show_version :: "nat \<Rightarrow> nat \<Rightarrow> nat \<Rightarrow> ustr" where
  "show_version a b c = show_nat a @ lit ''.'' @ show_nat b @ lit ''.'' @ show_nat c"

lemma digit_not_mark: "is_ascii_digit c \<Longrightarrow> \<not> is_dot c \<and> \<not> is_suffix_mark c"
  by (auto simp: is_ascii_digit_def is_dot_def is_suffix_mark_def)

lemma parse_component_show_nat:
  assumes "n < 2 ^ 64"
  shows "parse_component (show_nat n) = Some n"
proof -
  have "list_all is_ascii_digit (show_nat n)"
    by (auto simp: list_all_iff intro: show_nat_digits)
  moreover have "show_nat n = lit ''0'' \<or> \<not> starts_with (show_nat n) (lit ''0'')"
  proof (cases "n = 0")
    case True
    then show ?thesis by (simp add: show_nat_0)
  next
    case False
    then have "hd (show_nat n) \<noteq> 48" using show_nat_hd [of n] by simp
    then show ?thesis by (cases "show_nat n") (auto simp: starts_with_def lit_def)
  qed
  ultimately show ?thesis
    using parse_uint_show_nat [OF assms] by (simp add: parse_component_def)
qed

lemma parse_component_range: "parse_component s = Some n \<Longrightarrow> n < 2 ^ 64"
  by (auto simp: parse_component_def Let_def split: if_splits dest: parse_uint_bound)

lemma show_nat_split: "split_on is_dot (show_nat a @ lit ''.'' @ t) = show_nat a # split_on is_dot t"
  using digit_not_mark show_nat_digits
  by (auto simp: lit_def is_dot_def intro!: split_on_append_sep)

lemma split_show_version:
  "split_on is_dot (show_version a b c) = [show_nat a, show_nat b, show_nat c]"
  using digit_not_mark show_nat_digits
  by (auto simp: show_version_def show_nat_split intro!: split_on_no_sep)

lemma show_nat_no_mark: "x \<in> set (show_nat n) \<Longrightarrow> \<not> is_suffix_mark x"
  using digit_not_mark show_nat_digits by blast

lemma show_version_no_mark: "x \<in> set (show_version a b c) \<Longrightarrow> \<not> is_suffix_mark x"
proof -
  have "\<not> is_suffix_mark 46" by (simp add: is_suffix_mark_def)
  moreover assume "x \<in> set (show_version a b c)"
  ultimately show ?thesis
    by (auto simp: show_version_def lit_def dest: show_nat_no_mark)
qed

lemma show_version_neq_Nil [simp]: "show_version a b c \<noteq> []"
  by (simp add: show_version_def)

lemma split_once_append_mark:
  "(\<And>x. x \<in> set s \<Longrightarrow> \<not> P x) \<Longrightarrow> P m \<Longrightarrow> split_once P (s @ m # t) = Some (s, t)"
  by (induction s) simp_all

text \<open>
  Any canonical version, with or without a pre-release or build suffix, parses to its line.
\<close>

lemma release_line_parse_suffixed:
  assumes "a < 2 ^ 64" "b < 2 ^ 64" "c < 2 ^ 64"
    and "suffix = [] \<or> is_suffix_mark (hd suffix)"
    and "utf8_len (show_version a b c @ suffix) \<le> max_release_bytes"
  shows "release_line_parse (show_version a b c @ suffix) = Some \<lparr>rl_major = a, rl_minor = b\<rparr>"
proof -
  let ?v = "show_version a b c"
  have core: "(case split_once is_suffix_mark (?v @ suffix) of
      None \<Rightarrow> ?v @ suffix | Some (x, _) \<Rightarrow> x) = ?v"
  proof (cases suffix)
    case Nil
    then show ?thesis
      using split_once_None [of is_suffix_mark ?v] show_version_no_mark by auto
  next
    case (Cons m t)
    with assms(4) show ?thesis
      using split_once_append_mark [of ?v is_suffix_mark m t] show_version_no_mark by auto
  qed
  have "\<not> (?v @ suffix = [] \<or> utf8_len (?v @ suffix) > max_release_bytes)"
    using assms(5) by simp
  then show ?thesis
    unfolding release_line_parse_def Let_def core
    using assms(1-3) by (simp add: split_show_version parse_component_show_nat)
qed

lemma show_release: "release = show_version 0 2 0"
  by (simp add: release_def show_version_def lit_def show_nat.simps)

lemma release_line_current_eq: "release_line_current = Some \<lparr>rl_major = 0, rl_minor = 2\<rparr>"
  using release_line_parse_suffixed [of 0 2 0 "[]"]
  by (simp add: release_line_current_def show_release)
    (simp add: show_version_def lit_def show_nat.simps max_release_bytes_def)

lemma is_compatible_release_iff:
  "is_compatible_release v \<longleftrightarrow> release_line_parse v = Some \<lparr>rl_major = 0, rl_minor = 2\<rparr>"
  by (simp add: is_compatible_release_def release_line_current_eq)

lemma release_line_parse_bound:
  "release_line_parse v = Some l \<Longrightarrow> rl_major l < 2 ^ 64 \<and> rl_minor l < 2 ^ 64"
  by (auto simp: release_line_parse_def Let_def split: if_splits list.splits option.splits
      dest: parse_component_range)

lemma release_line_parse_len: "release_line_parse v = Some l \<Longrightarrow> utf8_len v \<le> max_release_bytes"
  by (auto simp: release_line_parse_def split: if_splits)

section \<open>Correctness\<close>

text \<open>
  Two builds talk to each other exactly when they are of the same release line: a version
  rendered as \<open>major.minor.patch\<close>, with or without a pre-release or build suffix, is accepted if
  and only if its major and minor numbers are 0 and 2, whatever the patch number.
\<close>

theorem compatible_release_line:
  assumes "a < 2 ^ 64" "b < 2 ^ 64" "c < 2 ^ 64"
    and "suffix = [] \<or> is_suffix_mark (hd suffix)"
    and "utf8_len (show_version a b c @ suffix) \<le> max_release_bytes"
  shows "is_compatible_release (show_version a b c @ suffix) \<longleftrightarrow> a = 0 \<and> b = 2"
  using release_line_parse_suffixed [OF assms] by (simp add: is_compatible_release_iff)

theorem compatible_release_line_witness:
  "is_compatible_release (show_version 0 2 7 @ lit ''-rc1'')
     \<and> \<not> is_compatible_release (show_version 0 3 0 @ [])"
proof
  show "is_compatible_release (show_version 0 2 7 @ lit ''-rc1'')"
    by (subst compatible_release_line)
      (simp_all add: show_version_def show_nat.simps lit_def is_suffix_mark_def max_release_bytes_def)
  show "\<not> is_compatible_release (show_version 0 3 0 @ [])"
    by (subst compatible_release_line)
      (simp_all add: show_version_def show_nat.simps lit_def is_suffix_mark_def max_release_bytes_def)
qed

end
