(* ===== verification/Protocol.thy ===== *)
theory Protocol
  imports Core Text ErrorCodes Release
begin

text \<open>
  The messages of \<open>crates/omdesky-protocol/src/lib.rs\<close> and their constructors and field checks.
  The JSON encoding itself is generated by serde and is not modelled. Where a constructor of the
  source draws a random UUID or reads the clock, the model takes the drawn value as an argument.
\<close>

definition protocol_version :: u16 where
  "protocol_version = 2"

definition max_pairing_id_bytes :: nat where
  "max_pairing_id_bytes = 64"

definition max_client_name_bytes :: nat where
  "max_client_name_bytes = 64"

record health_response =
  hr_status :: ustr
  hr_protocol :: u16
  hr_agent_version :: ustr

record node_info_response =
  ni_node_id :: ustr
  ni_hostname :: ustr
  ni_omarchy_version :: ustr
  ni_agent_version :: ustr
  ni_capabilities :: "ustr list"

record focus_workspace_request =
  fw_target :: workspace_target

record command_request =
  cr_command :: remote_command
  cr_session :: "session_claim option"
  cr_request_id :: uuid
  cr_issued_at :: offset_date_time

definition command_request_new ::
    "uuid \<Rightarrow> offset_date_time \<Rightarrow> remote_command \<Rightarrow> command_request" where
  "command_request_new fresh now command =
     \<lparr>cr_command = command, cr_session = None, cr_request_id = fresh, cr_issued_at = now\<rparr>"

definition command_request_for_session ::
    "uuid \<Rightarrow> offset_date_time \<Rightarrow> remote_command \<Rightarrow> session_claim \<Rightarrow> command_request" where
  "command_request_for_session fresh now command session =
     (command_request_new fresh now command)\<lparr>cr_session := Some session\<rparr>"

record command_response =
  resp_executed :: bool
  resp_session :: "session_grant option"

definition response_executed :: command_response where
  "response_executed = \<lparr>resp_executed = True, resp_session = None\<rparr>"

definition response_ignored :: command_response where
  "response_ignored = \<lparr>resp_executed = False, resp_session = None\<rparr>"

definition response_granted :: "session_grant \<Rightarrow> command_response" where
  "response_granted grant = \<lparr>resp_executed = True, resp_session = Some grant\<rparr>"

record sunshine_status_response =
  ss_installed :: bool
  ss_running :: bool
  ss_ready :: bool
  ss_desktop_app :: "ustr option"
  ss_pairing_api_available :: bool

record sunshine_pair_challenge_response =
  ch_pairing_id :: ustr
  ch_expires_in_seconds :: nat

record sunshine_pair_request =
  pr_pairing_id :: ustr
  pr_pin :: ustr
  pr_client_name :: ustr

datatype pairing_field_error = PinField | ClientNameField | PairingIdField

definition pair_request_validate :: "sunshine_pair_request \<Rightarrow> pairing_field_error + unit" where
  "pair_request_validate r =
     (if \<not> (utf8_len (pr_pin r) = 4 \<and> list_all is_ascii_digit (pr_pin r)) then Inl PinField
      else
        let client_name_valid =
          pr_client_name r \<noteq> [] \<and> utf8_len (pr_client_name r) \<le> max_client_name_bytes
          \<and> list_all (\<lambda>c. is_ascii_graphic c \<or> c = 32) (pr_client_name r)
        in if \<not> client_name_valid then Inl ClientNameField
        else
          let pairing_id_valid =
            pr_pairing_id r \<noteq> [] \<and> utf8_len (pr_pairing_id r) \<le> max_pairing_id_bytes
            \<and> list_all (\<lambda>c. is_ascii_alphanumeric c \<or> c = 45) (pr_pairing_id r)
          in if \<not> pairing_id_valid then Inl PairingIdField else Inr ())"

definition known_capabilities :: "ustr list \<Rightarrow> control_capability list" where
  "known_capabilities values =
     List.map_filter (\<lambda>v. result_ok (capability_from_str v)) values"

section \<open>Correctness\<close>

text \<open>
  A pairing request that passes the field check has a PIN of exactly four decimal digits and a
  client name and pairing id of 1 to 64 printable ASCII characters, so what is handed to Sunshine
  cannot carry control or non-ASCII characters.
\<close>

theorem pair_request_fields:
  assumes "pair_request_validate r = Inr ()"
  shows "length (pr_pin r) = 4 \<and> list_all is_ascii_digit (pr_pin r)
    \<and> (\<forall>t\<in>{pr_client_name r, pr_pairing_id r}.
         1 \<le> length t \<and> length t \<le> 64 \<and> list_all (\<lambda>c. 32 \<le> c \<and> c \<le> 126) t)"
proof -
  have pin: "utf8_len (pr_pin r) = 4" "list_all is_ascii_digit (pr_pin r)"
    using assms by (auto simp: pair_request_validate_def Let_def split: if_splits)
  have "utf8_len (pr_pin r) = length (pr_pin r)"
    by (rule utf8_len_ascii) (use pin(2) in \<open>fastforce simp: list_all_iff is_ascii_digit_def\<close>)
  moreover have "1 \<le> length t \<and> length t \<le> 64 \<and> list_all (\<lambda>c. 32 \<le> c \<and> c \<le> 126) t"
    if "t \<in> {pr_client_name r, pr_pairing_id r}" for t
  proof -
    from assms that have "t \<noteq> []" "utf8_len t \<le> 64" "list_all (\<lambda>c. 32 \<le> c \<and> c \<le> 126) t"
      by (auto simp: pair_request_validate_def Let_def list_all_iff ascii_class_defs
          max_client_name_bytes_def max_pairing_id_bytes_def split: if_splits)
    then show ?thesis
      using length_le_utf8_len [of t] by (cases t) (auto simp del: utf8_len_simps)
  qed
  ultimately show ?thesis using pin by auto
qed

theorem pair_request_fields_witness:
  "length (lit ''0427'') = 4"
  using pair_request_fields
    [of "\<lparr>pr_pairing_id = lit ''ab-1'', pr_pin = lit ''0427'', pr_client_name = lit ''my host''\<rparr>"]
  by (simp add: pair_request_validate_def lit_def ascii_class_defs max_client_name_bytes_def
      max_pairing_id_bytes_def)

end
