(* ===== verification/Ports.thy ===== *)
theory Ports
  imports Protocol
begin

text \<open>
  The data that crosses the ports of \<open>crates/omdesky-application/src/ports.rs\<close>: port errors and
  the message shown for each code, endpoints, stream requests, the allowlist entry and the
  specification of an external command. The port traits themselves are the \<open>call\<close> arguments of
  the definitions that use them.
\<close>

record port_error =
  perr_code :: ustr
  perr_message :: ustr
  perr_retryable :: bool

type_synonym 'a port_result = "port_error + 'a"

definition port_error_new :: "ustr \<Rightarrow> ustr \<Rightarrow> bool \<Rightarrow> port_error" where
  "port_error_new code message retryable =
     \<lparr>perr_code = code, perr_message = message, perr_retryable = retryable\<rparr>"

lemma port_error_new_code [simp]: "perr_code (port_error_new c m r) = c"
  by (simp add: port_error_new_def)

definition user_messages :: "(ustr list \<times> ustr) list" where
  "user_messages =
    [([lit ''AGENT_UNREACHABLE''],
      lit ''This device could not be reached. Check that it is online and connected to Tailscale.''),
     ([lit ''AGENT_PROTOCOL_INVALID'', lit ''AGENT_RESPONSE_LIMIT'', lit ''AGENT_FIELD_LIMIT''],
      lit ''This device sent an unexpected response. Make sure Omdesky is up to date on both devices.''),
     ([lit ''AGENT_REQUEST_FAILED''],
      lit ''The other device could not complete the request. Please try again.''),
     ([lit ''UNAUTHORIZED''],
      lit ''This device is not allowed to connect. Add it to the allowed controllers first.''),
     ([lit ''HYPRLAND_UNAVAILABLE'', lit ''HYPRLAND_DISPATCH_FAILED''],
      lit ''The desktop could not be controlled. Make sure Hyprland is running.''),
     ([lit ''HYPRLAND_TARGET_MISSING'', lit ''WINDOW_NOT_FOUND''],
      lit ''The requested window is no longer available.''),
     ([lit ''WORKSPACE_NOT_FOUND''],
      lit ''The requested workspace could not be found.''),
     ([lit ''DISPLAY_NOT_FOUND'', lit ''DISPLAY_SWITCH_FAILED''],
      lit ''The requested display is not available for streaming.''),
     ([lit ''SUNSHINE_NOT_INSTALLED''],
      lit ''Sunshine is not installed on the device you are trying to connect to.''),
     ([lit ''SUNSHINE_NOT_RUNNING''],
      lit ''Sunshine is not running on the device you are trying to connect to.''),
     ([lit ''SUNSHINE_NOT_READY''],
      lit ''The other device is not ready to stream yet. Check Sunshine and try again.''),
     ([lit ''SUNSHINE_API_UNAVAILABLE''],
      lit ''Sunshine needs to be configured on the other device before pairing.''),
     ([lit ''SUNSHINE_PAIRING_FAILED'', lit ''MOONLIGHT_PAIRING_FAILED''],
      lit ''The devices could not be paired. Check Sunshine and try again.''),
     ([lit ''MOONLIGHT_PAIRING_REQUIRED''],
      lit ''This device is not paired yet. Run `omdesky pair` first.''),
     ([lit ''MOONLIGHT_NOT_INSTALLED''],
      lit ''Moonlight is not installed on this device.''),
     ([lit ''STREAM_START_FAILED''],
      lit ''The stream could not be started. Check Moonlight and try again.''),
     ([lit ''LOCAL_AGENT_UNAVAILABLE''],
      lit ''The local Omdesky agent is not running. Start omdesky-agent and try again.''),
     ([lit ''REMOTE_AGENT_UNAVAILABLE''],
      lit ''The remote Omdesky agent stopped responding. The stream was closed.''),
     ([lit ''VERSION_INCOMPATIBLE''],
      lit ''The other device runs a different Omdesky release. Install the same version on both computers.''),
     ([lit ''LOCAL_AGENT_INCOMPATIBLE''],
      lit ''The local Omdesky agent runs a different release. Restart omdesky-agent after upgrading.''),
     ([lit ''RATE_LIMITED''],
      lit ''The other device is busy. Wait a moment and try again.''),
     ([lit ''IDENTITY_UNAVAILABLE''],
      lit ''The other device could not confirm this computer's Tailscale identity. Try again.''),
     ([lit ''REQUEST_STALE''],
      lit ''The clocks of the two computers differ too much. Check their time settings.''),
     ([lit ''REQUEST_REPLAYED''],
      lit ''This action was already applied.''),
     ([lit ''PAIRING_CHALLENGE_INVALID''],
      lit ''The pairing attempt expired. Start pairing again.''),
     ([lit ''SESSION_ALREADY_OWNED''],
      lit ''Another computer is already controlling this device.''),
     ([lit ''SESSION_NOT_OWNED'', lit ''SESSION_NOT_FOUND'', lit ''SESSION_NOT_GRANTED'',
       lit ''NO_CONTROLLER''],
      lit ''The remote session is no longer active. Connect again.''),
     ([lit ''SESSION_EFFECTS_FAILED''],
      lit ''The other device could not set up remote shortcuts. Make sure Hyprland is running there.''),
     ([lit ''MOONLIGHT_UNSUPPORTED''],
      lit ''The installed Moonlight version is not supported.''),
     ([lit ''INVALID_STREAM_PROFILE''],
      lit ''The stream settings are outside the supported range.''),
     ([lit ''CAPABILITY_DENIED''],
      lit ''The other device does not allow this action. Grant it there with `omdesky access allow`.''),
     ([lit ''CALLBACK_ACCESS_MISSING''],
      lit ''This computer does not let the other device send shortcuts back. Run `omdesky access allow` here, naming the other device.''),
     ([lit ''CONTROLLER_UNREACHABLE''],
      lit ''The other device could not reach this computer's agent. Check that omdesky-agent is running here.''),
     ([lit ''PEER_IDENTITY_UNKNOWN''],
      lit ''The other device could not be identified through Tailscale.''),
     ([lit ''LOCAL_SUNSHINE_UNCONFIGURED''],
      lit ''Sunshine is not configured on this device. Run `omdesky setup` and try again.''),
     ([lit ''ACCESS_STORE_FAILED''],
      lit ''The allowed devices list could not be updated. Check its file permissions.''),
     ([lit ''OMARCHY_UNSUPPORTED_VERSION''],
      lit ''This Omarchy version is not supported. Omarchy 4 is required.''),
     ([lit ''OMARCHY_VERSION_UNKNOWN''],
      lit ''The installed Omarchy version could not be detected.''),
     ([lit ''COMMAND_TIMEOUT''],
      lit ''The operation took too long. Please try again.''),
     ([lit ''COMMAND_NOT_AVAILABLE''],
      lit ''A required program is not installed or could not be started.''),
     ([lit ''INVALID_COMMAND'', lit ''COMMAND_NOT_EXECUTABLE''],
      lit ''This action is not available right now.''),
     ([lit ''LAUNCHER_IO_FAILED''],
      lit ''The desktop shortcut could not be updated. Check the file permissions.'')]"

definition default_user_message :: ustr where
  "default_user_message = lit ''Omdesky could not complete the operation. Please try again.''"

definition user_message :: "port_error \<Rightarrow> ustr" where
  "user_message e =
     (case find (\<lambda>row. perr_code e \<in> set (fst row)) user_messages of
        Some row \<Rightarrow> snd row
      | None \<Rightarrow> default_user_message)"

record mesh_node_identity =
  mni_tailnet_node_id :: ustr
  mni_user :: "ustr option"
  mni_hostname :: "ustr option"
  mni_addresses :: "ip_addr list"

record agent_endpoint =
  ep_address :: ip_addr
  ep_port :: u16

record stream_host_descriptor =
  sh_address :: ip_addr
  sh_application :: ustr

definition max_stream_application_bytes :: nat where
  "max_stream_application_bytes = 64"

definition application_char :: "ucs \<Rightarrow> bool" where
  "application_char c \<longleftrightarrow> is_ascii_alphanumeric c \<or> c \<in> set (lit '' ._-'')"

definition stream_host_validate :: "stream_host_descriptor \<Rightarrow> unit port_result" where
  "stream_host_validate h =
     (let name = sh_application h;
          accepted = name \<noteq> [] \<and> utf8_len name \<le> max_stream_application_bytes
            \<and> \<not> starts_with name (lit ''-'') \<and> list_all application_char name
      in if accepted then Inr ()
         else Inl (port_error_new (lit ''INVALID_STREAM_APPLICATION'')
           (lit ''the remote node advertised an unusable streaming application name'') False))"

datatype pairing_state = Paired | Required | Unsupported

record stream_launch_request =
  sl_host :: stream_host_descriptor
  sl_profile :: stream_profile
  sl_fullscreen :: bool
  sl_input_mode :: input_mode

record notification =
  nt_summary :: ustr
  nt_body :: ustr

record allowed_controller =
  ac_tailnet_node_id :: ustr
  ac_label :: "ustr option"
  ac_added_at :: offset_date_time
  ac_capabilities :: "control_capability list"

definition allowed_controller_new ::
    "ustr \<Rightarrow> ustr option \<Rightarrow> offset_date_time \<Rightarrow> control_capability list \<Rightarrow> allowed_controller" where
  "allowed_controller_new node_id label added_at capabilities =
     \<lparr>ac_tailnet_node_id = node_id, ac_label = label, ac_added_at = added_at,
      ac_capabilities = sort_dedup capabilities\<rparr>"

definition allowed_controller_allows :: "allowed_controller \<Rightarrow> control_capability \<Rightarrow> bool" where
  "allowed_controller_allows c capability \<longleftrightarrow> List.member (ac_capabilities c) capability"

record session_keybind_config =
  kb_role :: session_role
  kb_controller :: "agent_endpoint option"
  kb_window :: window_selector

datatype environment_policy = SessionEnvironment | InheritedEnvironment | EmptyEnvironment
datatype stdin_policy = StdinNull | StdinInherit
datatype capture_policy = CaptureBoth | CaptureInherit | CaptureDiscard

record command_spec =
  cs_program :: ustr
  cs_args :: "ustr list"
  cs_environment :: "(ustr \<times> ustr) list"
  cs_working_directory :: "ustr option"
  cs_timeout :: duration
  cs_stdout_limit :: nat
  cs_stderr_limit :: nat
  cs_environment_policy :: environment_policy
  cs_stdin :: stdin_policy
  cs_capture :: capture_policy
  cs_redacted_arg_indexes :: "nat list"

definition command_spec_new :: "ustr \<Rightarrow> ustr list \<Rightarrow> command_spec" where
  "command_spec_new program args =
     \<lparr>cs_program = program, cs_args = args, cs_environment = [],
      cs_working_directory = None, cs_timeout = from_secs 10,
      cs_stdout_limit = 1024 * 1024, cs_stderr_limit = 64 * 1024,
      cs_environment_policy = SessionEnvironment, cs_stdin = StdinNull,
      cs_capture = CaptureBoth, cs_redacted_arg_indexes = []\<rparr>"

definition command_spec_with_environment_policy ::
    "environment_policy \<Rightarrow> command_spec \<Rightarrow> command_spec" where
  "command_spec_with_environment_policy policy spec = spec\<lparr>cs_environment_policy := policy\<rparr>"

record command_output =
  co_status :: int
  co_stdout :: "8 word list"
  co_stderr :: "8 word list"

end
