(* ===== verification/Replay.thy ===== *)
theory Replay
  imports Core HashMapModel ErrorCodes
begin

text \<open>
  \<open>crates/omdesky-agent/src/replay.rs\<close>: the guard that refuses stale and repeated command
  requests. \<open>admit\<close> takes the two clocks it reads as arguments: the wall clock
  (\<open>OffsetDateTime::now_utc\<close>) and the monotonic one (\<open>Instant::now\<close>).
\<close>

definition request_window :: duration where
  "request_window = from_secs 120"

definition max_clock_skew :: duration where
  "max_clock_skew = from_secs 120"

definition max_tracked_requests :: nat where
  "max_tracked_requests = 4096"

datatype freshness_error = Stale | Replayed | Saturated

fun freshness_error_code :: "freshness_error \<Rightarrow> error_code" where
  "freshness_error_code Stale = RequestStale"
| "freshness_error_code Replayed = RequestReplayed"
| "freshness_error_code Saturated = RateLimited"

fun freshness_error_message :: "freshness_error \<Rightarrow> ustr" where
  "freshness_error_message Stale = lit ''This request is too old to apply.''"
| "freshness_error_message Replayed = lit ''This request was already applied.''"
| "freshness_error_message Saturated = lit ''Too many requests are in flight. Please try again.''"

record replay_guard =
  rg_seen :: "(uuid, instant) hash_map"
  rg_window :: duration
  rg_skew :: duration
  rg_capacity :: nat

definition replay_guard_new :: "duration \<Rightarrow> duration \<Rightarrow> nat \<Rightarrow> replay_guard" where
  "replay_guard_new window skew capacity =
     \<lparr>rg_seen = hm_empty, rg_window = window, rg_skew = skew, rg_capacity = capacity\<rparr>"

definition replay_guard_default :: replay_guard where
  "replay_guard_default = replay_guard_new request_window max_clock_skew max_tracked_requests"

definition replay_admit ::
    "offset_date_time \<Rightarrow> instant \<Rightarrow> uuid \<Rightarrow> offset_date_time \<Rightarrow> replay_guard
       \<Rightarrow> (freshness_error + unit) \<times> replay_guard" where
  "replay_admit now_utc now request_id issued_at g =
     (let age = now_utc - issued_at
      in if nat \<bar>age\<bar> > rg_skew g then (Inl Stale, g)
         else
           let seen = hm_retain (\<lambda>_ recorded. now - recorded < rg_window g) (rg_seen g)
           in if hm_len seen \<ge> rg_capacity g then (Inl Saturated, g\<lparr>rg_seen := seen\<rparr>)
              else
                let g' = g\<lparr>rg_seen := hm_insert request_id now seen\<rparr>
                in if hm_get seen request_id \<noteq> None then (Inl Replayed, g') else (Inr (), g'))"

section \<open>One admission\<close>

definition replay_invar :: "replay_guard \<Rightarrow> bool" where
  "replay_invar g \<longleftrightarrow> hm_invar (rg_seen g) \<and> hm_len (rg_seen g) \<le> rg_capacity g"

lemma replay_invar_new: "replay_invar (replay_guard_new window skew capacity)"
  by (simp add: replay_invar_def replay_guard_new_def hm.invar_empty hm.size_empty)

lemma replay_admit_frame:
  "rg_window (snd (replay_admit u t i a g)) = rg_window g"
  "rg_skew (snd (replay_admit u t i a g)) = rg_skew g"
  "rg_capacity (snd (replay_admit u t i a g)) = rg_capacity g"
  by (simp_all add: replay_admit_def Let_def)

lemma replay_admit_invar:
  assumes "replay_invar g"
  shows "replay_invar (snd (replay_admit u t i a g))"
proof -
  let ?seen = "hm_retain (\<lambda>_ recorded. t - recorded < rg_window g) (rg_seen g)"
  have inv: "hm_invar ?seen" "hm_len ?seen \<le> rg_capacity g"
    using assms by (simp_all add: replay_invar_def hm.invar_retain hm.capped_retain)
  show ?thesis
  proof (cases "nat \<bar>u - a\<bar> > rg_skew g \<or> hm_len ?seen \<ge> rg_capacity g")
    case True
    with assms inv show ?thesis by (auto simp: replay_invar_def replay_admit_def Let_def)
  next
    case False
    then have "hm_len (hm_insert i t ?seen) \<le> rg_capacity g"
      using inv by (simp add: hm.capped_insert)
    with False inv show ?thesis
      by (simp add: replay_invar_def replay_admit_def Let_def hm.invar_insert)
  qed
qed

lemma replay_admit_stale:
  "nat \<bar>u - a\<bar> > rg_skew g \<longleftrightarrow> fst (replay_admit u t i a g) = Inl Stale"
  by (simp add: replay_admit_def Let_def)

lemma replay_admit_Ok:
  assumes "fst (replay_admit u t i a g) = Inr ()"
  shows "nat \<bar>u - a\<bar> \<le> rg_skew g"
    and "hm_get (rg_seen (snd (replay_admit u t i a g))) i = Some t"
  using assms by (auto simp: replay_admit_def Let_def hm.get_insert split: if_splits)

text \<open>
  A recorded identifier is not forgotten while its record is younger than the window, whatever
  other requests arrive in between; a repetition only makes the record younger.
\<close>

lemma replay_admit_keeps:
  assumes inv: "hm_invar (rg_seen g)"
    and rec: "hm_get (rg_seen g) i = Some r" and "t0 \<le> r" and "t0 \<le> t" and "t - t0 < rg_window g"
  shows "\<exists>r'. hm_get (rg_seen (snd (replay_admit u t j a g))) i = Some r' \<and> t0 \<le> r'"
proof -
  have young: "t - r < rg_window g" using assms(3-5) by linarith
  then have "hm_get (hm_retain (\<lambda>_ recorded. t - recorded < rg_window g) (rg_seen g)) i = Some r"
    using inv rec by (simp add: hm.get_retain_Some)
  then show ?thesis
    using assms(3,4) rec by (auto simp: replay_admit_def Let_def hm.get_insert)
qed

lemma replay_admit_refuses:
  assumes "hm_invar (rg_seen g)" and "hm_get (rg_seen g) i = Some r" and "t - r < rg_window g"
  shows "fst (replay_admit u t i a g) \<noteq> Inr ()"
proof -
  have "hm_get (hm_retain (\<lambda>_ recorded. t - recorded < rg_window g) (rg_seen g)) i = Some r"
    using assms by (simp add: hm.get_retain_Some)
  then show ?thesis by (simp add: replay_admit_def Let_def)
qed

section \<open>Runs of the guard\<close>

text \<open>
  A run is a list of requests, each with what the two clocks show at its arrival. The monotonic
  clock never goes back; nothing ties the wall clock to it.
\<close>

record arrival =
  ar_at :: instant
  ar_utc :: offset_date_time
  ar_id :: uuid
  ar_issued :: offset_date_time

definition replay_step :: "arrival \<Rightarrow> replay_guard \<Rightarrow> (freshness_error + unit) \<times> replay_guard" where
  "replay_step e g = replay_admit (ar_utc e) (ar_at e) (ar_id e) (ar_issued e) g"

fun replay_run :: "arrival list \<Rightarrow> replay_guard \<Rightarrow> replay_guard" where
  "replay_run [] g = g"
| "replay_run (e # es) g = replay_run es (snd (replay_step e g))"

lemma replay_run_invar: "replay_invar g \<Longrightarrow> replay_invar (replay_run es g)"
  by (induction es arbitrary: g) (simp_all add: replay_step_def replay_admit_invar)

lemma replay_run_frame:
  "rg_window (replay_run es g) = rg_window g"
  "rg_skew (replay_run es g) = rg_skew g"
  "rg_capacity (replay_run es g) = rg_capacity g"
  by (induction es arbitrary: g) (simp_all add: replay_step_def replay_admit_frame)

lemma replay_run_keeps:
  assumes "replay_invar g" and "hm_get (rg_seen g) i = Some r" and "t0 \<le> r"
    and "\<forall>e\<in>set es. t0 \<le> ar_at e \<and> ar_at e - t0 < rg_window g"
  shows "\<exists>r'. hm_get (rg_seen (replay_run es g)) i = Some r' \<and> t0 \<le> r'"
  using assms
proof (induction es arbitrary: g r)
  case (Cons e es)
  let ?g = "snd (replay_step e g)"
  have "\<exists>r'. hm_get (rg_seen ?g) i = Some r' \<and> t0 \<le> r'"
    using Cons.prems replay_admit_keeps [of g i r t0 "ar_at e"]
    by (simp add: replay_step_def replay_invar_def)
  then obtain r' where "hm_get (rg_seen ?g) i = Some r'" "t0 \<le> r'" by blast
  moreover have "replay_invar ?g" "rg_window ?g = rg_window g"
    using Cons.prems(1) by (simp_all add: replay_step_def replay_admit_invar replay_admit_frame)
  ultimately show ?case
    using Cons.IH [of ?g r'] Cons.prems(4) by simp
qed auto

lemma replay_run_sorted_bound:
  assumes "sorted (map ar_at (es @ [b]))" and "e \<in> set es"
  shows "ar_at e \<le> ar_at b"
  using assms by (auto simp: sorted_append)

text \<open>
  The repetition of an admitted request, after any other requests: inside the window its record
  is still there; outside the window its age has passed the accepted skew, provided the request
  was stamped before it first arrived and the wall clock has not been set back since.
\<close>

lemma replay_run_no_repeat:
  assumes inv: "replay_invar g" and order: "rg_skew g \<le> rg_window g"
    and first: "fst (replay_step a g) = Inr ()"
    and past: "ar_issued a < ar_utc a"
    and times: "sorted (map ar_at (a # es @ [b]))"
    and wall: "ar_utc a + int (ar_at b - ar_at a) \<le> ar_utc b"
    and same: "ar_id b = ar_id a" "ar_issued b = ar_issued a"
  shows "fst (replay_step b (replay_run es (snd (replay_step a g)))) \<noteq> Inr ()"
proof (cases "ar_at b - ar_at a < rg_window g")
  case True
  let ?g = "snd (replay_step a g)"
  have g: "replay_invar ?g" "rg_window ?g = rg_window g"
    using inv by (simp_all add: replay_step_def replay_admit_invar replay_admit_frame)
  have mid: "ar_at a \<le> ar_at e \<and> ar_at e - ar_at a < rg_window ?g" if "e \<in> set es" for e
  proof -
    have "ar_at a \<le> ar_at e" "ar_at e \<le> ar_at b"
      using times that replay_run_sorted_bound [of es b e] by auto
    then show ?thesis using True g(2) by linarith
  qed
  have "hm_get (rg_seen ?g) (ar_id a) = Some (ar_at a)"
    using first replay_admit_Ok(2) by (simp add: replay_step_def)
  then obtain r where r: "hm_get (rg_seen (replay_run es ?g)) (ar_id a) = Some r"
      "ar_at a \<le> r"
    using replay_run_keeps [OF g(1) _ order_refl] mid by blast
  have "ar_at b - r < rg_window (replay_run es ?g)"
    using True r(2) g(2) by (simp add: replay_run_frame)
  moreover have "hm_invar (rg_seen (replay_run es ?g))"
    using replay_run_invar [OF g(1)] by (simp add: replay_invar_def)
  ultimately show ?thesis
    using replay_admit_refuses [of "replay_run es ?g" "ar_id a" r "ar_at b"] r(1) same
    by (simp add: replay_step_def)
next
  case False
  let ?h = "replay_run es (snd (replay_step a g))"
  have "rg_skew ?h = rg_skew g"
    by (simp add: replay_run_frame replay_step_def replay_admit_frame)
  moreover have "nat \<bar>ar_utc b - ar_issued b\<bar> > rg_skew g"
    using False order past wall same by linarith
  ultimately have "fst (replay_step b ?h) = Inl Stale"
    using replay_admit_stale [of ?h "ar_utc b" "ar_issued b" "ar_at b" "ar_id b"]
    by (simp add: replay_step_def)
  then show ?thesis by simp
qed

text \<open>Once every record is as old as the window, the table is empty.\<close>

lemma replay_retain_old:
  assumes "hm_invar m" and "\<And>i r. hm_get m i = Some r \<Longrightarrow> \<not> now - r < window"
  shows "hm_retain (\<lambda>_ recorded. now - recorded < window) m = hm_empty"
proof -
  have "\<not> now - snd e < window" if "e \<in> set m" for e
    using assms that by (cases e) (auto simp: hm_invar_def hm_get_def)
  then show ?thesis by (simp add: hm_retain_def hm_empty_def filter_empty_conv)
qed

section \<open>Correctness\<close>

text \<open>
  C15: No command request is applied twice. Whatever other requests arrive in between, the
  repetition of an admitted request is refused, now and at any later time, provided the request
  was stamped before it first arrived and the wall clock was not set back between the two, that is,
  it advanced at least as much as the monotonic one.
\<close>

theorem admitted_request_not_repeated:
  assumes "replay_invar g" and "rg_skew g \<le> rg_window g"
    and "fst (replay_step a g) = Inr ()"
    and "ar_issued a < ar_utc a"
    and "sorted (map ar_at (a # es @ [b]))"
    and "ar_utc a + int (ar_at b - ar_at a) \<le> ar_utc b"
    and "ar_id b = ar_id a" "ar_issued b = ar_issued a"
  shows "fst (replay_step b (replay_run es (snd (replay_step a g)))) \<noteq> Inr ()"
  using assms by (rule replay_run_no_repeat)

definition example_arrival :: "nat \<Rightarrow> int \<Rightarrow> arrival" where
  "example_arrival seconds issued =
     \<lparr>ar_at = from_secs seconds, ar_utc = int (from_secs seconds), ar_id = 7,
      ar_issued = issued * int nanos_per_sec\<rparr>"

lemmas example_arrival_simps = example_arrival_def replay_guard_default_def from_secs_def
  nanos_per_sec_def replay_guard_new_def request_window_def max_clock_skew_def
  replay_step_def replay_admit_def hm_defs max_tracked_requests_def

theorem admitted_request_not_repeated_witness:
  "fst (replay_step (example_arrival 100 5)
     (replay_run [] (snd (replay_step (example_arrival 10 5) replay_guard_default)))) \<noteq> Inr ()"
  by (rule admitted_request_not_repeated)
    (simp add: replay_guard_default_def replay_invar_new,
     simp_all add: example_arrival_simps)

text \<open>
  C37: The condition on the stamp is needed. A request that is admitted, and repeated after at least
  the window, is admitted again if its stamp is then still within the skew, when no other request
  came in between. In the agent window and skew are both 120 seconds, so this concerns every
  request stamped at its arrival or later: it is admitted again 120 seconds after it was.
\<close>

theorem future_stamped_request_admitted_twice:
  assumes "replay_invar g" and "0 < rg_capacity g"
    and "\<And>i r. hm_get (rg_seen g) i = Some r \<Longrightarrow> r \<le> ar_at a"
    and "fst (replay_step a g) = Inr ()"
    and "ar_at b = ar_at a + d" and "ar_utc b = ar_utc a + int d"
    and "rg_window g \<le> d" and "int d \<le> int (rg_skew g) + (ar_issued a - ar_utc a)"
    and "ar_issued b = ar_issued a"
  shows "fst (replay_step b (snd (replay_step a g))) = Inr ()"
proof -
  let ?h = "snd (replay_step a g)"
  have frame: "rg_window ?h = rg_window g" "rg_skew ?h = rg_skew g" "rg_capacity ?h = rg_capacity g"
    by (simp_all add: replay_step_def replay_admit_frame)
  have inv: "hm_invar (rg_seen ?h)"
    using replay_admit_invar [OF assms(1)] by (simp add: replay_step_def replay_invar_def)
  have "hm_invar (rg_seen g)" using assms(1) by (simp add: replay_invar_def)
  then have old: "r \<le> ar_at a" if "hm_get (rg_seen ?h) i = Some r" for i r
    using that assms(3)
    by (auto simp: replay_step_def replay_admit_def Let_def hm.get_insert hm_get_retain
        split: if_splits option.splits)
  have "hm_retain (\<lambda>_ recorded. ar_at b - recorded < rg_window g) (rg_seen ?h) = hm_empty"
    by (rule replay_retain_old [OF inv]) (use old assms(5,7) in fastforce)
  moreover have "nat \<bar>ar_utc a - ar_issued a\<bar> \<le> rg_skew g"
    using assms(4) replay_admit_Ok(1) by (simp add: replay_step_def)
  then have "\<not> rg_skew g < nat \<bar>ar_utc b - ar_issued b\<bar>"
    using assms(6,8,9) by linarith
  ultimately show ?thesis
    using assms(2) frame
    by (simp add: replay_step_def [of b] replay_admit_def Let_def hm.size_empty hm.get_empty)
qed

theorem future_stamped_request_admitted_twice_witness:
  "fst (replay_step (example_arrival 120 0) (snd (replay_step (example_arrival 0 0) replay_guard_default)))
     = Inr ()"
  by (rule future_stamped_request_admitted_twice [where d = "from_secs 120"])
    (simp add: replay_guard_default_def replay_invar_new, simp_all add: example_arrival_simps)

end
