(* ===== verification/Pairing.thy ===== *)
theory Pairing
  imports HashMapModel ErrorCodes
begin

text \<open>
  \<open>crates/omdesky-agent/src/pairing.rs\<close>: single-use pairing challenges, limited per owner in
  number and in rate. The clock (\<open>Instant::now\<close>) and the random challenge identifier are
  arguments of the operations; \<open>challenge_id_text\<close> renders the sixteen random bytes.
\<close>

definition challenge_ttl :: duration where
  "challenge_ttl = from_secs 120"

definition max_outstanding_per_owner :: nat where
  "max_outstanding_per_owner = 2"

definition max_issues_per_window :: nat where
  "max_issues_per_window = 5"

definition issue_window :: duration where
  "issue_window = from_secs 300"

definition max_tracked_owners :: nat where
  "max_tracked_owners = 256"

datatype pairing_error = PairingRateLimited | UnknownChallenge

fun pairing_error_code :: "pairing_error \<Rightarrow> error_code" where
  "pairing_error_code PairingRateLimited = RateLimited"
| "pairing_error_code UnknownChallenge = PairingChallengeInvalid"

fun pairing_error_message :: "pairing_error \<Rightarrow> ustr" where
  "pairing_error_message PairingRateLimited =
     lit ''Too many pairing attempts. Wait a few minutes and try again.''"
| "pairing_error_message UnknownChallenge =
     lit ''This pairing attempt is no longer valid. Start pairing again.''"

record challenge =
  chl_owner :: ustr
  chl_expires_at :: instant

record issue_counter =
  ic_issues :: nat
  ic_window_started_at :: "instant option"

record pairing_challenges =
  pc_issued :: "(ustr, challenge) hash_map"
  pc_counters :: "(ustr, issue_counter) hash_map"
  pc_ttl :: duration

definition pairing_new :: "duration \<Rightarrow> pairing_challenges" where
  "pairing_new ttl = \<lparr>pc_issued = hm_empty, pc_counters = hm_empty, pc_ttl = ttl\<rparr>"

definition pairing_default :: pairing_challenges where
  "pairing_default = pairing_new challenge_ttl"

definition pairing_ttl_seconds :: "pairing_challenges \<Rightarrow> nat" where
  "pairing_ttl_seconds pc = as_secs (pc_ttl pc)"

definition hex_digit :: "nat \<Rightarrow> ucs" where
  "hex_digit n = (if n < 10 then 48 + n else 87 + n)"

definition challenge_id_text :: "8 word list \<Rightarrow> ustr" where
  "challenge_id_text bytes =
     concat (map (\<lambda>b. [hex_digit (unat b div 16), hex_digit (unat b mod 16)]) bytes)"

section \<open>Operations\<close>

definition pairing_admit_issue ::
    "ustr \<Rightarrow> instant \<Rightarrow> pairing_challenges \<Rightarrow> (pairing_error + unit) \<times> pairing_challenges" where
  "pairing_admit_issue owner now pc =
     (let counters = hm_retain
            (\<lambda>_ c. option_any (\<lambda>started. now - started < issue_window) (ic_window_started_at c))
            (pc_counters pc)
      in if hm_len counters \<ge> max_tracked_owners \<and> hm_get counters owner = None
         then (Inl PairingRateLimited, pc\<lparr>pc_counters := counters\<rparr>)
         else
           let counter = unwrap_or (hm_get counters owner)
                 \<lparr>ic_issues = 0, ic_window_started_at = None\<rparr>;
               window_expired =
                 option_all (\<lambda>started. now - started \<ge> issue_window) (ic_window_started_at counter);
               counter = (if window_expired
                 then \<lparr>ic_issues = 0, ic_window_started_at = Some now\<rparr> else counter)
           in if ic_issues counter \<ge> max_issues_per_window
              then (Inl PairingRateLimited, pc\<lparr>pc_counters := hm_insert owner counter counters\<rparr>)
              else (Inr (), pc\<lparr>pc_counters :=
                hm_insert owner (counter\<lparr>ic_issues := ic_issues counter + 1\<rparr>) counters\<rparr>))"

definition pairing_issue ::
    "ustr \<Rightarrow> instant \<Rightarrow> ustr \<Rightarrow> pairing_challenges \<Rightarrow> (pairing_error + ustr) \<times> pairing_challenges" where
  "pairing_issue owner now fresh_id pc =
     (case pairing_admit_issue owner now pc of
        (Inl e, pc1) \<Rightarrow> (Inl e, pc1)
      | (Inr _, pc1) \<Rightarrow>
          let issued = hm_retain (\<lambda>_ c. chl_expires_at c > now) (pc_issued pc1);
              outstanding = hm_count (\<lambda>c. chl_owner c = owner) issued
          in if outstanding \<ge> max_outstanding_per_owner
             then (Inl PairingRateLimited, pc1\<lparr>pc_issued := issued\<rparr>)
             else (Inr fresh_id, pc1\<lparr>pc_issued :=
                 hm_insert fresh_id
                   \<lparr>chl_owner = owner, chl_expires_at = now + pc_ttl pc1\<rparr> issued\<rparr>))"

definition pairing_consume ::
    "ustr \<Rightarrow> instant \<Rightarrow> ustr \<Rightarrow> pairing_challenges \<Rightarrow> (pairing_error + unit) \<times> pairing_challenges" where
  "pairing_consume owner now pairing_id pc =
     (let issued = hm_retain (\<lambda>_ c. chl_expires_at c > now) (pc_issued pc)
      in case hm_get issued pairing_id of
           Some c \<Rightarrow>
             if chl_owner c = owner
             then (Inr (), pc\<lparr>pc_issued := hm_remove pairing_id issued\<rparr>)
             else (Inl UnknownChallenge, pc\<lparr>pc_issued := issued\<rparr>)
         | None \<Rightarrow> (Inl UnknownChallenge, pc\<lparr>pc_issued := issued\<rparr>))"

section \<open>Bounds\<close>

definition pairing_invar :: "pairing_challenges \<Rightarrow> bool" where
  "pairing_invar pc \<longleftrightarrow>
     hm_invar (pc_issued pc) \<and> hm_invar (pc_counters pc)
     \<and> hm_len (pc_counters pc) \<le> max_tracked_owners
     \<and> (\<forall>owner. hm_count (\<lambda>c. chl_owner c = owner) (pc_issued pc) \<le> max_outstanding_per_owner)
     \<and> (\<forall>owner c. hm_get (pc_counters pc) owner = Some c \<longrightarrow>
           ic_issues c \<le> max_issues_per_window \<and> ic_window_started_at c \<noteq> None)"

lemma pairing_invar_new: "pairing_invar (pairing_new ttl)"
  by (simp add: pairing_invar_def pairing_new_def hm.invar_empty hm.size_empty hm.get_empty)
    (simp add: hm_defs)

lemma admit_issue_frame:
  "pc_issued (snd (pairing_admit_issue owner now pc)) = pc_issued pc"
  "pc_ttl (snd (pairing_admit_issue owner now pc)) = pc_ttl pc"
  by (simp_all add: pairing_admit_issue_def Let_def)

lemma admit_issue_counters:
  assumes "hm_invar m" and "hm_len m \<le> cap" and "\<not> (hm_len m \<ge> cap \<and> hm_get m k = None)"
  shows "hm_len (hm_insert k v m) \<le> cap"
  using assms by (cases "hm_get m k = None") (auto simp: hm.size_insert)

definition counter_ok :: "issue_counter \<Rightarrow> bool" where
  "counter_ok c \<longleftrightarrow> ic_issues c \<le> max_issues_per_window \<and> ic_window_started_at c \<noteq> None"

lemma admit_issue_counters_shape:
  assumes "\<And>o' c. hm_get (pc_counters pc) o' = Some c \<Longrightarrow> counter_ok c"
    and "hm_invar (pc_counters pc)" and "hm_len (pc_counters pc) \<le> max_tracked_owners"
    and "pairing_admit_issue owner now pc = (r, pc')"
  shows "hm_invar (pc_counters pc') \<and> hm_len (pc_counters pc') \<le> max_tracked_owners
    \<and> (\<forall>o' c. hm_get (pc_counters pc') o' = Some c \<longrightarrow> counter_ok c)"
proof -
  define cs where "cs = hm_retain
    (\<lambda>_ c. option_any (\<lambda>started. now - started < issue_window) (ic_window_started_at c))
    (pc_counters pc)"
  define c0 where "c0 = unwrap_or (hm_get cs owner)
    \<lparr>ic_issues = 0, ic_window_started_at = None\<rparr>"
  define c1 where "c1 = (if option_all (\<lambda>started. now - started \<ge> issue_window)
    (ic_window_started_at c0) then \<lparr>ic_issues = 0, ic_window_started_at = Some now\<rparr> else c0)"
  have cs: "hm_invar cs" "hm_len cs \<le> max_tracked_owners"
    and entries: "\<And>o' c. hm_get cs o' = Some c \<Longrightarrow> counter_ok c"
    using assms by (auto simp: cs_def hm.invar_retain hm.capped_retain hm.get_retain_Some)
  have shape: "pc_counters pc' =
     (if hm_len cs \<ge> max_tracked_owners \<and> hm_get cs owner = None then cs
      else if ic_issues c1 \<ge> max_issues_per_window then hm_insert owner c1 cs
      else hm_insert owner (c1\<lparr>ic_issues := ic_issues c1 + 1\<rparr>) cs)"
    using assms(4) unfolding pairing_admit_issue_def Let_def
      cs_def [symmetric] c0_def [symmetric] c1_def [symmetric]
    by (auto split: if_splits)
  show ?thesis
  proof (cases "hm_len cs \<ge> max_tracked_owners \<and> hm_get cs owner = None")
    case True
    with cs entries shape show ?thesis by simp
  next
    case False
    have "counter_ok c1"
      using entries by (cases "hm_get cs owner") (auto simp: c0_def c1_def counter_ok_def)
    then have "counter_ok (c1\<lparr>ic_issues := ic_issues c1 + 1\<rparr>)"
      if "\<not> ic_issues c1 \<ge> max_issues_per_window"
      using that by (simp add: counter_ok_def)
    with \<open>counter_ok c1\<close> False cs entries shape admit_issue_counters [OF cs False] show ?thesis
      by (simp add: hm.invar_insert hm.get_insert)
  qed
qed

lemma pairing_invar_alt:
  "pairing_invar pc \<longleftrightarrow>
     hm_invar (pc_issued pc)
     \<and> (\<forall>owner. hm_count (\<lambda>c. chl_owner c = owner) (pc_issued pc) \<le> max_outstanding_per_owner)
     \<and> hm_invar (pc_counters pc) \<and> hm_len (pc_counters pc) \<le> max_tracked_owners
     \<and> (\<forall>owner c. hm_get (pc_counters pc) owner = Some c \<longrightarrow> counter_ok c)"
  unfolding pairing_invar_def counter_ok_def by blast

lemma admit_issue_invar:
  assumes "pairing_invar pc"
  shows "pairing_invar (snd (pairing_admit_issue owner now pc))"
proof -
  obtain r pc' where adm: "pairing_admit_issue owner now pc = (r, pc')" by fastforce
  then have "pc_issued pc' = pc_issued pc" using admit_issue_frame(1) [of owner now pc] by simp
  then show ?thesis
    using assms adm admit_issue_counters_shape [OF _ _ _ adm] by (simp add: pairing_invar_alt)
qed

lemma count_insert_bound:
  assumes "hm_count (\<lambda>c. chl_owner c = owner) m < n"
    and "\<forall>o'. hm_count (\<lambda>c. chl_owner c = o') m \<le> n"
  shows "hm_count (\<lambda>c. chl_owner c = o')
           (hm_insert i \<lparr>chl_owner = owner, chl_expires_at = t\<rparr> m) \<le> n"
proof (cases "o' = owner")
  case True
  then show ?thesis
    using hm_count_insert_le [of "\<lambda>c. chl_owner c = owner" i
        "\<lparr>chl_owner = owner, chl_expires_at = t\<rparr>" m] assms(1)
    by simp
next
  case False
  with assms(2) show ?thesis
    using hm_count_insert_other [of "\<lambda>c. chl_owner c = o'" "\<lparr>chl_owner = owner, chl_expires_at = t\<rparr>" i m]
    by (auto intro: order_trans)
qed

lemma pairing_issue_invar:
  assumes "pairing_invar pc"
  shows "pairing_invar (snd (pairing_issue owner now fresh_id pc))"
proof -
  obtain r pc1 where adm: "pairing_admit_issue owner now pc = (r, pc1)" by fastforce
  then have pc1: "pairing_invar pc1" using admit_issue_invar [OF assms, of owner now] by simp
  let ?is = "hm_retain (\<lambda>_ c. chl_expires_at c > now) (pc_issued pc1)"
  have is_inv: "hm_invar ?is"
    and le: "\<forall>o'. hm_count (\<lambda>c. chl_owner c = o') ?is \<le> max_outstanding_per_owner"
    using pc1 by (auto simp: pairing_invar_def hm.invar_retain
        intro: order_trans [OF hm_count_retain_le])
  show ?thesis
  proof (cases r)
    case (Inr u)
    show ?thesis
    proof (cases "hm_count (\<lambda>c. chl_owner c = owner) ?is \<ge> max_outstanding_per_owner")
      case True
      with adm Inr pc1 is_inv le show ?thesis
        by (simp add: pairing_issue_def Let_def pairing_invar_def)
    next
      case False
      then have "hm_count (\<lambda>c. chl_owner c = owner) ?is < max_outstanding_per_owner" by simp
      from count_insert_bound [OF this le] adm Inr pc1 is_inv False show ?thesis
        by (simp add: pairing_issue_def Let_def pairing_invar_def hm.invar_insert)
    qed
  qed (use adm pc1 in \<open>simp add: pairing_issue_def\<close>)
qed

lemma pairing_consume_invar:
  assumes "pairing_invar pc"
  shows "pairing_invar (snd (pairing_consume owner now i pc))"
proof -
  let ?is = "hm_retain (\<lambda>_ c. chl_expires_at c > now) (pc_issued pc)"
  have "hm_invar ?is"
    and "\<forall>o'. hm_count (\<lambda>c. chl_owner c = o') ?is \<le> max_outstanding_per_owner"
    and "\<forall>o'. hm_count (\<lambda>c. chl_owner c = o') (hm_remove i ?is) \<le> max_outstanding_per_owner"
    using assms
    by (auto simp: pairing_invar_def hm.invar_retain
        intro: order_trans [OF hm_count_retain_le] order_trans [OF hm_count_remove_le])
  with assms show ?thesis
    by (auto simp: pairing_invar_def pairing_consume_def Let_def hm.invar_remove
        split: option.splits)
qed

section \<open>Histories\<close>

datatype pairing_op = Issue ustr instant ustr | Consume ustr instant ustr

definition pairing_step :: "pairing_op \<Rightarrow> pairing_challenges \<Rightarrow> bool \<times> pairing_challenges" where
  "pairing_step op pc =
     (case op of
        Issue owner now fresh_id \<Rightarrow>
          (case pairing_issue owner now fresh_id pc of (r, pc') \<Rightarrow> (is_ok r, pc'))
      | Consume owner now i \<Rightarrow>
          (case pairing_consume owner now i pc of (r, pc') \<Rightarrow> (is_ok r, pc')))"

text \<open>The operations run so far with their outcome, the latest first.\<close>

type_synonym pairing_history = "(pairing_op \<times> bool) list"

inductive pairing_reach :: "duration \<Rightarrow> pairing_history \<Rightarrow> pairing_challenges \<Rightarrow> bool" for ttl where
  start: "pairing_reach ttl [] (pairing_new ttl)"
| step: "pairing_reach ttl hist pc \<Longrightarrow> pairing_step op pc = (ok, pc') \<Longrightarrow>
     pairing_reach ttl ((op, ok) # hist) pc'"

inductive_cases pairing_reach_ConsE: "pairing_reach ttl ((op, ok) # hist) pc"

lemma pairing_issue_ttl: "pc_ttl (snd (pairing_issue owner now i pc)) = pc_ttl pc"
  using admit_issue_frame(2) [of owner now pc]
  by (cases "pairing_admit_issue owner now pc")
    (auto simp: pairing_issue_def Let_def split: sum.splits)

lemma pairing_consume_ttl: "pc_ttl (snd (pairing_consume owner now i pc)) = pc_ttl pc"
  by (auto simp: pairing_consume_def Let_def split: option.splits)

lemma pairing_step_state:
  "snd (pairing_step (Issue owner now i) pc) = snd (pairing_issue owner now i pc)"
  "snd (pairing_step (Consume owner now i) pc) = snd (pairing_consume owner now i pc)"
  "fst (pairing_step (Issue owner now i) pc) = is_ok (fst (pairing_issue owner now i pc))"
  "fst (pairing_step (Consume owner now i) pc) = is_ok (fst (pairing_consume owner now i pc))"
  by (simp_all add: pairing_step_def split: prod.splits)

lemma pairing_step_ttl: "pc_ttl (snd (pairing_step op pc)) = pc_ttl pc"
  by (cases op) (simp_all add: pairing_step_state pairing_issue_ttl pairing_consume_ttl)

lemma pairing_step_invar: "pairing_invar pc \<Longrightarrow> pairing_invar (snd (pairing_step op pc))"
  by (cases op) (simp_all add: pairing_step_state pairing_issue_invar pairing_consume_invar)

lemma pairing_reach_invar: "pairing_reach ttl hist pc \<Longrightarrow> pairing_invar pc \<and> pc_ttl pc = ttl"
proof (induction rule: pairing_reach.induct)
  case start
  then show ?case by (simp add: pairing_invar_new) (simp add: pairing_new_def)
next
  case (step hist pc op ok pc')
  then show ?case
    using pairing_step_invar [of pc op] pairing_step_ttl [of op pc] by simp
qed

text \<open>A challenge is backed by a successful issue to its owner that nobody has consumed since.\<close>

definition unused_since :: "ustr \<Rightarrow> pairing_history \<Rightarrow> bool" where
  "unused_since i hist \<longleftrightarrow> (\<forall>owner now. (Consume owner now i, True) \<notin> set hist)"

definition backed :: "duration \<Rightarrow> pairing_history \<Rightarrow> ustr \<Rightarrow> challenge \<Rightarrow> bool" where
  "backed ttl hist i c \<longleftrightarrow>
     (\<exists>later earlier t. hist = later @ (Issue (chl_owner c) t i, True) # earlier
        \<and> chl_expires_at c = t + ttl \<and> unused_since i later)"

lemma backed_Cons:
  "backed ttl hist i c \<Longrightarrow> (\<And>owner now. e \<noteq> (Consume owner now i, True)) \<Longrightarrow>
     backed ttl (e # hist) i c"
  unfolding backed_def unused_since_def
  by (metis (no_types, lifting) append_Cons set_ConsD)

lemma pairing_issue_entries:
  assumes inv: "pairing_invar pc"
    and "hm_get (pc_issued (snd (pairing_issue owner now fresh_id pc))) i = Some c"
  shows "hm_get (pc_issued pc) i = Some c
     \<or> fst (pairing_issue owner now fresh_id pc) = Inr fresh_id \<and> i = fresh_id
        \<and> c = \<lparr>chl_owner = owner, chl_expires_at = now + pc_ttl pc\<rparr>"
proof -
  obtain r pc1 where adm: "pairing_admit_issue owner now pc = (r, pc1)" by fastforce
  then have "pc_issued pc1 = pc_issued pc" "pc_ttl pc1 = pc_ttl pc"
    using admit_issue_frame [of owner now pc] by simp_all
  moreover have "hm_invar (pc_issued pc)" using inv by (simp add: pairing_invar_def)
  ultimately show ?thesis
    using assms(2) adm
    by (auto simp: pairing_issue_def Let_def hm.get_insert hm.get_retain_Some
        split: sum.splits if_splits)
qed

lemma pairing_consume_entries:
  assumes "pairing_invar pc"
    and "hm_get (pc_issued (snd (pairing_consume owner now j pc))) i = Some c"
  shows "hm_get (pc_issued pc) i = Some c
     \<and> (fst (pairing_consume owner now j pc) = Inr () \<longrightarrow> i \<noteq> j)"
  using assms
  by (auto simp: pairing_consume_def pairing_invar_def Let_def hm.get_remove hm.get_retain_Some
      hm.get_retain_None split: option.splits if_splits)

lemma pairing_reach_backed:
  "pairing_reach ttl hist pc \<Longrightarrow> hm_get (pc_issued pc) i = Some c \<Longrightarrow> backed ttl hist i c"
proof (induction arbitrary: i c rule: pairing_reach.induct)
  case start
  then show ?case by (simp add: pairing_new_def hm.get_empty)
next
  case (step hist pc op ok pc')
  have pc: "pairing_invar pc" "pc_ttl pc = ttl"
    using pairing_reach_invar [OF step.hyps(1)] by simp_all
  show ?case
  proof (cases op)
    case (Issue owner now fresh_id)
    have "ok = is_ok (fst (pairing_issue owner now fresh_id pc))"
      "pc' = snd (pairing_issue owner now fresh_id pc)"
      using step.hyps(2) Issue pairing_step_state [of owner now fresh_id pc] by simp_all
    with step.prems have "hm_get (pc_issued pc) i = Some c
      \<or> ok \<and> i = fresh_id \<and> c = \<lparr>chl_owner = owner, chl_expires_at = now + ttl\<rparr>"
      using pairing_issue_entries [OF pc(1), of owner now fresh_id i c] pc(2) by auto
    then show ?thesis
    proof
      assume "hm_get (pc_issued pc) i = Some c"
      from backed_Cons [OF step.IH [OF this], of "(op, ok)"] Issue show ?thesis by simp
    next
      assume "ok \<and> i = fresh_id \<and> c = \<lparr>chl_owner = owner, chl_expires_at = now + ttl\<rparr>"
      then have "(op, ok) # hist = [] @ (Issue (chl_owner c) now i, True) # hist"
        "chl_expires_at c = now + ttl" using Issue by simp_all
      then show ?thesis unfolding backed_def unused_since_def by (metis empty_iff empty_set)
    qed
  next
    case (Consume owner now j)
    have "ok = is_ok (fst (pairing_consume owner now j pc))"
      "pc' = snd (pairing_consume owner now j pc)"
      using step.hyps(2) Consume pairing_step_state [of owner now j pc] by simp_all
    with step.prems have old: "hm_get (pc_issued pc) i = Some c" "ok \<longrightarrow> i \<noteq> j"
      using pairing_consume_entries [OF pc(1), of owner now j i c] by (auto simp: is_ok_iff)
    show ?thesis
      by (rule backed_Cons [OF step.IH [OF old(1)]]) (use old(2) Consume in auto)
  qed
qed

lemma pairing_consume_Ok:
  assumes "pairing_invar pc" and "fst (pairing_consume owner now i pc) = Inr ()"
  shows "\<exists>c. hm_get (pc_issued pc) i = Some c \<and> chl_owner c = owner \<and> now < chl_expires_at c"
  using assms
  by (auto simp: pairing_consume_def pairing_invar_def Let_def hm.get_retain_Some
      split: option.splits if_splits)

lemma pairing_consume_removes:
  assumes "pairing_invar pc" and "fst (pairing_consume owner now i pc) = Inr ()"
  shows "hm_get (pc_issued (snd (pairing_consume owner now i pc))) i = None"
  using assms
  by (auto simp: pairing_consume_def Let_def hm.get_remove split: option.splits if_splits)

section \<open>Correctness\<close>

text \<open>
  C16: A pairing is approved only with a challenge of its own. In any history of the agent, a
  consumed challenge was issued before, to the same device, less than its time to live ago, and
  nobody has consumed it since; and it can never be consumed again from the resulting state.
\<close>

theorem consumed_challenge_backed:
  assumes "pairing_reach ttl hist pc" and "pairing_consume owner now i pc = (Inr (), pc')"
  shows "(\<exists>later earlier t. hist = later @ (Issue owner t i, True) # earlier \<and> now < t + ttl
      \<and> unused_since i later)
    \<and> fst (pairing_consume owner' now' i pc') = Inl UnknownChallenge"
proof
  have inv: "pairing_invar pc" using pairing_reach_invar [OF assms(1)] by simp
  from pairing_consume_Ok [OF inv, of owner now i] assms(2) obtain c
    where c: "hm_get (pc_issued pc) i = Some c" "chl_owner c = owner" "now < chl_expires_at c"
    by auto
  with pairing_reach_backed [OF assms(1) c(1)] show "\<exists>later earlier t.
      hist = later @ (Issue owner t i, True) # earlier \<and> now < t + ttl \<and> unused_since i later"
    unfolding backed_def by fastforce
  have "hm_get (pc_issued pc') i = None"
    using pairing_consume_removes [OF inv, of owner now i] assms(2) by simp
  moreover have "pairing_invar pc'"
    using pairing_consume_invar [OF inv, of owner now i] assms(2) by simp
  ultimately have "hm_get (hm_retain (\<lambda>_ c. chl_expires_at c > now') (pc_issued pc')) i = None"
    by (simp add: hm.get_retain_None pairing_invar_def)
  then show "fst (pairing_consume owner' now' i pc') = Inl UnknownChallenge"
    by (simp add: pairing_consume_def Let_def)
qed

lemma pairing_example:
  "pairing_reach 10 [(Issue (lit ''n1'') 3 (lit ''ab''), True)]
     (snd (pairing_step (Issue (lit ''n1'') 3 (lit ''ab'')) (pairing_new 10)))"
  by (rule pairing_reach.step [OF pairing_reach.start])
    (simp add: pairing_step_def pairing_issue_def pairing_admit_issue_def pairing_new_def hm_defs
      max_tracked_owners_def max_issues_per_window_def max_outstanding_per_owner_def
      unwrap_or_def Let_def)

theorem consumed_challenge_backed_witness:
  "\<exists>later earlier t. [(Issue (lit ''n1'') 3 (lit ''ab''), True)]
     = later @ (Issue (lit ''n1'') t (lit ''ab''), True) # earlier \<and> 12 < t + 10
       \<and> unused_since (lit ''ab'') later"
proof (rule consumed_challenge_backed [OF pairing_example, THEN conjunct1])
  show "pairing_consume (lit ''n1'') 12 (lit ''ab'')
      (snd (pairing_step (Issue (lit ''n1'') 3 (lit ''ab'')) (pairing_new 10)))
    = (Inr (), snd (pairing_consume (lit ''n1'') 12 (lit ''ab'')
      (snd (pairing_step (Issue (lit ''n1'') 3 (lit ''ab'')) (pairing_new 10)))))"
    by (simp add: pairing_consume_def pairing_step_def pairing_issue_def pairing_admit_issue_def
        pairing_new_def hm_defs max_tracked_owners_def max_issues_per_window_def
        max_outstanding_per_owner_def unwrap_or_def Let_def)
qed

text \<open>
  Challenges are bounded in every reachable state: no device has more than two outstanding, or
  more than five counted in its current window, and at most 256 devices are tracked.
\<close>

theorem pairing_limits:
  assumes "pairing_reach ttl hist pc"
  shows "hm_count (\<lambda>c. chl_owner c = owner) (pc_issued pc) \<le> 2
    \<and> option_all (\<lambda>c. ic_issues c \<le> 5) (hm_get (pc_counters pc) owner)
    \<and> hm_len (pc_counters pc) \<le> 256"
  using pairing_reach_invar [OF assms]
  by (auto simp: pairing_invar_def option_all_def max_outstanding_per_owner_def
      max_issues_per_window_def max_tracked_owners_def split: option.splits)

theorem pairing_limits_witness:
  "hm_count (\<lambda>c. chl_owner c = lit ''n1'')
     (pc_issued (snd (pairing_step (Issue (lit ''n1'') 3 (lit ''ab'')) (pairing_new 10)))) \<le> 2"
  using pairing_limits [OF pairing_example, of "lit ''n1''"] by blast

end
