(* ===== verification/Session.thy ===== *)
theory Session
  imports Ports
begin

text \<open>
  \<open>crates/omdesky-agent/src/session.rs\<close>: the coordinator that gives one controller at a time the
  desktop session, under a lease, and keeps the keybindings on the desktop in step with it. The
  effects (the trait \<open>SessionEffects\<close>) are calls on a world \<open>'w\<close>; every operation takes the
  instant it reads from the clock, and \<open>attach\<close> the random session identifier it draws.

  The locale \<open>session_effects\<close> states what the coordinator needs of an implementation of the
  trait; the lemmas about runs of the coordinator are proved in it and used through its
  interpretation on the keybinding effects of the agent (theory \<open>Keybinds\<close>).
\<close>

definition default_lease :: duration where
  "default_lease = from_secs 45"

definition lease_sweep_interval :: duration where
  "lease_sweep_interval = from_secs 5"

record active_session =
  as_id :: session_id
  as_generation :: u64
  as_owner :: ustr
  as_role :: session_role
  as_controller :: "agent_endpoint option"
  as_window :: window_selector

record 'w effects =
  fx_install :: "active_session \<Rightarrow> ('w, unit port_result) call"
  fx_clear :: "('w, unit port_result) call"

datatype session_outcome = Applied | Ignored

datatype session_error = OwnedByAnotherController | NotOwner | NotFound | EffectsFailed

fun session_error_code :: "session_error \<Rightarrow> error_code" where
  "session_error_code OwnedByAnotherController = SessionAlreadyOwned"
| "session_error_code NotOwner = SessionNotOwned"
| "session_error_code NotFound = SessionNotFound"
| "session_error_code EffectsFailed = SessionEffectsFailed"

fun session_error_message :: "session_error \<Rightarrow> ustr" where
  "session_error_message OwnedByAnotherController =
     lit ''Another device already owns this desktop session.''"
| "session_error_message NotOwner = lit ''This device does not own the desktop session.''"
| "session_error_message NotFound = lit ''There is no desktop session to update.''"
| "session_error_message EffectsFailed =
     lit ''The desktop session could not be updated. Please try again.''"

record coordinator =
  sc_active :: "active_session option"
  sc_expires_at :: "instant option"
  sc_generation :: u64
  sc_lease :: duration

definition coordinator_new :: "duration \<Rightarrow> coordinator" where
  "coordinator_new lease =
     \<lparr>sc_active = None, sc_expires_at = None, sc_generation = 0, sc_lease = lease\<rparr>"

definition coordinator_lease_seconds :: "coordinator \<Rightarrow> nat" where
  "coordinator_lease_seconds sc = as_secs (sc_lease sc)"

definition lease_elapsed :: "coordinator \<Rightarrow> instant \<Rightarrow> bool" where
  "lease_elapsed sc now \<longleftrightarrow> option_all (\<lambda>deadline. deadline \<le> now) (sc_expires_at sc)"

section \<open>Operations\<close>

definition session_snapshot :: "instant \<Rightarrow> coordinator \<Rightarrow> active_session option" where
  "session_snapshot now sc = (if lease_elapsed sc now then None else sc_active sc)"

definition session_reconcile ::
    "'w effects \<Rightarrow> coordinator \<Rightarrow> 'w \<Rightarrow> unit port_result \<times> coordinator \<times> 'w" where
  "session_reconcile fx sc w =
     (let sc' = sc\<lparr>sc_active := None, sc_expires_at := None\<rparr>
      in case fx_clear fx w of (r, w') \<Rightarrow> (r, sc', w'))"

definition session_attach ::
    "'w effects \<Rightarrow> instant \<Rightarrow> session_id \<Rightarrow> ustr \<Rightarrow> session_role \<Rightarrow> agent_endpoint option
       \<Rightarrow> window_selector \<Rightarrow> coordinator \<Rightarrow> 'w
       \<Rightarrow> (session_error + session_grant) \<times> coordinator \<times> 'w" where
  "session_attach fx now fresh_id owner role controller window sc w =
     (let held_by_other = option_any
            (\<lambda>active. as_owner active \<noteq> owner
               \<and> option_any (\<lambda>deadline. deadline > now) (sc_expires_at sc))
            (sc_active sc)
      in if held_by_other then (Inl OwnedByAnotherController, sc, w)
         else
           let generation = saturating_add (sc_generation sc) 1;
               sc1 = sc\<lparr>sc_generation := generation\<rparr>;
               candidate = \<lparr>as_id = fresh_id, as_generation = generation, as_owner = owner,
                 as_role = role, as_controller = controller, as_window = window\<rparr>;
               w1 = snd (fx_clear fx w)
           in case fx_install fx candidate w1 of
                (Inl _, w2) \<Rightarrow>
                  (Inl EffectsFailed, sc1\<lparr>sc_active := None, sc_expires_at := None\<rparr>,
                   snd (fx_clear fx w2))
              | (Inr _, w2) \<Rightarrow>
                  (Inr \<lparr>grant_id = as_id candidate, grant_generation = as_generation candidate,
                        grant_lease_seconds = as_secs (sc_lease sc)\<rparr>,
                   sc1\<lparr>sc_expires_at := Some (now + sc_lease sc), sc_active := Some candidate\<rparr>,
                   w2))"

definition session_detach ::
    "'w effects \<Rightarrow> ustr \<Rightarrow> session_claim \<Rightarrow> coordinator \<Rightarrow> 'w
       \<Rightarrow> (session_error + session_outcome) \<times> coordinator \<times> 'w" where
  "session_detach fx owner claim sc w =
     (case sc_active sc of
        None \<Rightarrow> (Inr Ignored, sc, w)
      | Some active \<Rightarrow>
          if as_owner active \<noteq> owner then (Inl NotOwner, sc, w)
          else if as_id active \<noteq> claim_id claim \<or> as_generation active \<noteq> claim_generation claim
          then (Inr Ignored, sc, w)
          else (case fx_clear fx w of
                  (Inl _, w') \<Rightarrow> (Inl EffectsFailed, sc, w')
                | (Inr _, w') \<Rightarrow> (Inr Applied, sc\<lparr>sc_active := None, sc_expires_at := None\<rparr>, w')))"

definition session_renew ::
    "instant \<Rightarrow> ustr \<Rightarrow> session_claim \<Rightarrow> coordinator
       \<Rightarrow> (session_error + session_grant) \<times> coordinator" where
  "session_renew now owner claim sc =
     (case sc_active sc of
        None \<Rightarrow> (Inl NotFound, sc)
      | Some active \<Rightarrow>
          if as_owner active \<noteq> owner then (Inl NotOwner, sc)
          else if as_id active \<noteq> claim_id claim \<or> as_generation active \<noteq> claim_generation claim
          then (Inl NotFound, sc)
          else if lease_elapsed sc now then (Inl NotFound, sc)
          else (Inr \<lparr>grant_id = as_id active, grant_generation = as_generation active,
                     grant_lease_seconds = as_secs (sc_lease sc)\<rparr>,
                sc\<lparr>sc_expires_at := Some (now + sc_lease sc)\<rparr>))"

definition session_expire_due ::
    "'w effects \<Rightarrow> instant \<Rightarrow> coordinator \<Rightarrow> 'w \<Rightarrow> session_outcome \<times> coordinator \<times> 'w" where
  "session_expire_due fx now sc w =
     (let expired = sc_active sc \<noteq> None \<and> lease_elapsed sc now
      in if \<not> expired then (Ignored, sc, w)
         else (case fx_clear fx w of
                 (Inl _, w') \<Rightarrow> (Ignored, sc, w')
               | (Inr _, w') \<Rightarrow> (Applied, sc\<lparr>sc_active := None, sc_expires_at := None\<rparr>, w')))"

definition session_release :: "'w effects \<Rightarrow> coordinator \<Rightarrow> 'w \<Rightarrow> coordinator \<times> 'w" where
  "session_release fx sc w =
     (if sc_active sc = None then (sc, w)
      else (sc\<lparr>sc_active := None, sc_expires_at := None\<rparr>, snd (fx_clear fx w)))"

text \<open>The expiry task: one \<open>expire_due\<close> per tick of \<open>lease_sweep_interval\<close>.\<close>

fun run_lease_expiry ::
    "'w effects \<Rightarrow> instant list \<Rightarrow> coordinator \<Rightarrow> 'w \<Rightarrow> coordinator \<times> 'w" where
  "run_lease_expiry fx [] sc w = (sc, w)"
| "run_lease_expiry fx (tick # ticks) sc w =
     (case session_expire_due fx tick sc w of
        (_, sc', w') \<Rightarrow> run_lease_expiry fx ticks sc' w')"

section \<open>Keybinding effects\<close>

text \<open>
  \<open>KeybindSessionEffects\<close>: the keybindings are installed first, and a remote session also starts
  following the focus for its controller; clearing stops following before it removes the
  keybindings. \<open>follow_focus\<close> cannot fail.
\<close>

definition keybind_effects ::
    "(session_keybind_config \<Rightarrow> ('w, unit port_result) call)
       \<Rightarrow> ('w, unit port_result) call
       \<Rightarrow> (agent_endpoint option \<Rightarrow> 'w \<Rightarrow> 'w) \<Rightarrow> 'w effects" where
  "keybind_effects install clear follow_focus =
     \<lparr>fx_install = (\<lambda>session w.
        case install \<lparr>kb_role = as_role session, kb_controller = as_controller session,
                      kb_window = as_window session\<rparr> w of
          (Inl e, w1) \<Rightarrow> (Inl e, w1)
        | (Inr _, w1) \<Rightarrow>
            (Inr (), if as_role session = Remote then follow_focus (as_controller session) w1
                     else w1)),
      fx_clear = (\<lambda>w. clear (follow_focus None w))\<rparr>"

section \<open>Facts that hold for any effects\<close>

definition live :: "instant \<Rightarrow> coordinator \<Rightarrow> bool" where
  "live now sc \<longleftrightarrow> sc_active sc \<noteq> None \<and> \<not> lease_elapsed sc now"

definition matches_claim :: "active_session \<Rightarrow> session_claim \<Rightarrow> bool" where
  "matches_claim s c \<longleftrightarrow> as_id s = claim_id c \<and> as_generation s = claim_generation c"

lemma session_attach_refused:
  assumes "sc_active sc = Some s" and "as_owner s \<noteq> owner" and "live now sc"
  shows "session_attach fx now i owner role ctl win sc w = (Inl OwnedByAnotherController, sc, w)"
  using assms by (auto simp: session_attach_def live_def lease_elapsed_def option_all_def
      option_any_def split: option.splits)

lemma session_attach_refused_iff:
  "fst (session_attach fx now i owner role ctl win sc w) = Inl OwnedByAnotherController \<longleftrightarrow>
     (\<exists>s. sc_active sc = Some s \<and> as_owner s \<noteq> owner \<and> live now sc)"
  by (auto simp: session_attach_def live_def lease_elapsed_def option_all_def option_any_def Let_def
      split: option.splits prod.splits sum.splits if_splits)

lemma session_detach_rejected:
  assumes "\<And>s. sc_active sc = Some s \<Longrightarrow> as_owner s \<noteq> owner \<or> \<not> matches_claim s claim"
  shows "snd (session_detach fx owner claim sc w) = (sc, w)"
  using assms by (auto simp: session_detach_def matches_claim_def split: option.splits)

lemma session_renew_rejected:
  assumes "\<And>s. sc_active sc = Some s \<Longrightarrow> as_owner s \<noteq> owner \<or> \<not> matches_claim s claim"
  shows "snd (session_renew now owner claim sc) = sc
    \<and> (\<exists>e. fst (session_renew now owner claim sc) = Inl e)"
  using assms by (auto simp: session_renew_def matches_claim_def split: option.splits)

lemma session_renew_Ok:
  assumes "session_renew now owner claim sc = (Inr g, sc')"
  shows "\<exists>s. sc_active sc = Some s \<and> as_owner s = owner \<and> matches_claim s claim
    \<and> \<not> lease_elapsed sc now \<and> sc' = sc\<lparr>sc_expires_at := Some (now + sc_lease sc)\<rparr>
    \<and> session_grant_claim g = claim"
  using assms
  by (auto simp: session_renew_def matches_claim_def session_grant_claim_def
      split: option.splits if_splits)

lemma session_attach_Ok:
  assumes "session_attach fx now i owner role ctl win sc w = (Inr g, sc', w')"
  shows "sc_active sc' = Some \<lparr>as_id = i, as_generation = saturating_add (sc_generation sc) 1,
      as_owner = owner, as_role = role, as_controller = ctl, as_window = win\<rparr>"
    and "sc_expires_at sc' = Some (now + sc_lease sc)"
    and "sc_generation sc' = saturating_add (sc_generation sc) 1"
    and "grant_id g = i" and "grant_generation g = sc_generation sc'"
    and "sc_lease sc' = sc_lease sc"
  using assms by (auto simp: session_attach_def Let_def split: prod.splits sum.splits if_splits)

section \<open>Operations as steps\<close>

datatype session_op =
    OpAttach instant session_id ustr session_role "agent_endpoint option" window_selector
  | OpDetach ustr session_claim
  | OpRenew instant ustr session_claim
  | OpExpire instant
  | OpRelease
  | OpReconcile

fun session_apply :: "'w effects \<Rightarrow> session_op \<Rightarrow> coordinator \<times> 'w \<Rightarrow> coordinator \<times> 'w" where
  "session_apply fx (OpAttach now i owner role ctl win) (sc, w) =
     snd (session_attach fx now i owner role ctl win sc w)"
| "session_apply fx (OpDetach owner claim) (sc, w) = snd (session_detach fx owner claim sc w)"
| "session_apply fx (OpRenew now owner claim) (sc, w) = (snd (session_renew now owner claim sc), w)"
| "session_apply fx (OpExpire now) (sc, w) = snd (session_expire_due fx now sc w)"
| "session_apply fx OpRelease (sc, w) = session_release fx sc w"
| "session_apply fx OpReconcile (sc, w) = snd (session_reconcile fx sc w)"

inductive session_reach :: "'w effects \<Rightarrow> coordinator \<times> 'w \<Rightarrow> coordinator \<times> 'w \<Rightarrow> bool"
  for fx st where
  refl: "session_reach fx st st"
| step: "session_reach fx st st' \<Longrightarrow> session_reach fx st (session_apply fx op st')"

lemma session_apply_cases:
  assumes "session_apply fx op (sc, w) = (sc', w')"
  shows "sc_lease sc' = sc_lease sc"
    and "sc_generation sc \<le> sc_generation sc'"
    and "(sc_active sc' = sc_active sc \<and> sc_generation sc' = sc_generation sc)
      \<or> sc_active sc' = None
      \<or> (\<exists>s. sc_active sc' = Some s \<and> as_generation s = sc_generation sc')"
  using assms saturating_add_mono [of "sc_generation sc" 1]
  by (cases op; auto simp: session_attach_def session_detach_def session_renew_def
      session_expire_due_def session_release_def session_reconcile_def Let_def
      split: option.splits prod.splits sum.splits if_splits)+

definition coordinator_invar :: "coordinator \<Rightarrow> bool" where
  "coordinator_invar sc \<longleftrightarrow>
     (sc_active sc = None \<longleftrightarrow> sc_expires_at sc = None)
     \<and> (\<forall>s. sc_active sc = Some s \<longrightarrow> as_generation s = sc_generation sc)"

lemma coordinator_invar_new: "coordinator_invar (coordinator_new lease)"
  by (simp add: coordinator_invar_def coordinator_new_def)

lemma session_apply_invar:
  assumes "coordinator_invar sc"
  shows "coordinator_invar (fst (session_apply fx op (sc, w)))"
  using assms
  by (cases op)
    (auto simp: coordinator_invar_def session_attach_def session_detach_def session_renew_def
      session_expire_due_def session_release_def session_reconcile_def Let_def
      split: option.splits prod.splits sum.splits if_splits)

lemma session_reach_invar:
  "session_reach fx st st' \<Longrightarrow> coordinator_invar (fst st) \<Longrightarrow> coordinator_invar (fst st')"
proof (induction rule: session_reach.induct)
  case (step st' op)
  then show ?case using session_apply_invar [of "fst st'" fx op "snd st'"] by simp
qed

lemma session_reach_generation:
  "session_reach fx st st' \<Longrightarrow> sc_generation (fst st) \<le> sc_generation (fst st')
     \<and> sc_lease (fst st') = sc_lease (fst st)"
proof (induction rule: session_reach.induct)
  case (step st' op)
  obtain sc w sc' w' where "st' = (sc, w)" "session_apply fx op (sc, w) = (sc', w')"
    by (metis surj_pair)
  then show ?case using session_apply_cases(1,2) [of fx op sc w sc' w'] step.IH by auto
qed simp

lemma generation_strict:
  "g \<noteq> - 1 \<Longrightarrow> g < saturating_add g (1 :: 'l :: len word)"
proof -
  assume "g \<noteq> - 1"
  have "unat g \<noteq> 2 ^ LENGTH('l) - 1"
  proof
    assume "unat g = 2 ^ LENGTH('l) - 1"
    then have "unat g = unat (- 1 :: 'l word)"
      by (simp add: unsigned_minus_1_eq_mask mask_eq_exp_minus_1)
    with \<open>g \<noteq> - 1\<close> show False by (simp only: word_unat_eq_iff)
  qed
  moreover have "unat g < 2 ^ LENGTH('l)" by simp
  ultimately have "unat g + 1 < 2 ^ LENGTH('l)" by linarith
  moreover have "unat g < min (unat g + unat (1 :: 'l word)) (2 ^ LENGTH('l) - 1)"
    using calculation by simp
  ultimately show ?thesis by (simp add: word_less_nat_alt unat_saturating_add)
qed

text \<open>
  A claim whose generation the coordinator has left behind matches no active session any more.
\<close>

lemma superseded_claim:
  assumes "coordinator_invar sc" and "claim_generation c < sc_generation sc"
    and "sc_active sc = Some s"
  shows "\<not> matches_claim s c"
  using assms by (auto simp: coordinator_invar_def matches_claim_def)

section \<open>What the coordinator asks of its effects\<close>

text \<open>
  \<open>installed s\<close> is what holds once the keybindings of \<open>s\<close> were reported as installed, and goes on
  holding while a clearing fails; \<open>cleared ok\<close> holds after a clearing, reported as done or not.
  Nothing is assumed of an installation that fails: the coordinator clears after it.
\<close>

locale session_effects =
  fixes fx :: "'w effects"
    and installed :: "active_session \<Rightarrow> 'w \<Rightarrow> bool"
    and cleared :: "bool \<Rightarrow> 'w \<Rightarrow> bool"
  assumes install_Ok: "fx_install fx s w = (Inr u, w') \<Longrightarrow> installed s w'"
    and clear_asked: "fx_clear fx w = (r, w') \<Longrightarrow> cleared (is_ok r) w'"
    and clear_Err: "fx_clear fx w = (Inl e, w') \<Longrightarrow> installed s w \<Longrightarrow> installed s w'"
begin

definition in_step :: "'w \<Rightarrow> coordinator \<times> 'w \<Rightarrow> bool" where
  "in_step w0 st \<longleftrightarrow>
     (case sc_active (fst st) of
        Some s \<Rightarrow> installed s (snd st)
      | None \<Rightarrow> snd st = w0 \<or> (\<exists>ok. cleared ok (snd st)))"

lemma in_step_pair:
  "in_step w0 (sc, w) \<longleftrightarrow>
     (case sc_active sc of Some s \<Rightarrow> installed s w | None \<Rightarrow> w = w0 \<or> (\<exists>ok. cleared ok w))"
  unfolding in_step_def fst_conv snd_conv ..

lemma cleared_in_step:
  "sc_active sc = None \<Longrightarrow> fx_clear fx w = (r, w') \<Longrightarrow> in_step w0 (sc, w')"
  using clear_asked by (auto simp: in_step_def)

lemma installed_in_step: "sc_active sc = Some s \<Longrightarrow> installed s w \<Longrightarrow> in_step w0 (sc, w)"
  by (simp add: in_step_def)

lemma kept_in_step:
  "in_step w0 (sc, w) \<Longrightarrow> sc_active sc = Some s \<Longrightarrow> fx_clear fx w = (Inl e, w') \<Longrightarrow> in_step w0 (sc, w')"
  using clear_Err by (auto simp: in_step_def)

lemma attach_in_step:
  assumes "in_step w0 (sc, w)"
  shows "in_step w0 (snd (session_attach fx now i owner role ctl win sc w))"
proof -
  let ?cand = "\<lparr>as_id = i, as_generation = saturating_add (sc_generation sc) 1,
      as_owner = owner, as_role = role, as_controller = ctl, as_window = win\<rparr>"
  obtain r1 w1 where c1: "fx_clear fx w = (r1, w1)" by fastforce
  obtain r2 w2 where i2: "fx_install fx ?cand w1 = (r2, w2)" by fastforce
  obtain r3 w3 where c3: "fx_clear fx w2 = (r3, w3)" by fastforce
  show ?thesis
    using assms c1 i2 install_Ok [of ?cand w1] cleared_in_step [OF _ c3] c3
    by (cases r2) (simp_all add: session_attach_def Let_def installed_in_step)
qed

lemma detach_in_step:
  assumes "in_step w0 (sc, w)"
  shows "in_step w0 (snd (session_detach fx owner claim sc w))"
proof -
  obtain r w' where c: "fx_clear fx w = (r, w')" by fastforce
  show ?thesis
    using assms c cleared_in_step [OF _ c] kept_in_step [OF assms]
    by (cases r) (simp_all add: session_detach_def split: option.split)
qed

lemma expire_in_step:
  assumes "in_step w0 (sc, w)"
  shows "in_step w0 (snd (session_expire_due fx now sc w))"
proof -
  obtain r w' where c: "fx_clear fx w = (r, w')" by fastforce
  show ?thesis
    using assms c cleared_in_step [OF _ c] kept_in_step [OF assms]
    by (cases r) (auto simp: session_expire_due_def Let_def)
qed

lemma renew_active: "sc_active (snd (session_renew now owner claim sc)) = sc_active sc"
  by (auto simp: session_renew_def split: option.splits)

lemma apply_in_step:
  assumes "in_step w0 (sc, w)"
  shows "in_step w0 (session_apply fx op (sc, w))"
proof -
  obtain r w' where c: "fx_clear fx w = (r, w')" by fastforce
  show ?thesis
  proof (cases op)
    case OpRelease
    with assms c cleared_in_step [OF _ c] show ?thesis by (auto simp: session_release_def)
  next
    case OpReconcile
    with c cleared_in_step [OF _ c] show ?thesis by (auto simp: session_reconcile_def)
  qed (use assms in \<open>simp_all add: attach_in_step detach_in_step expire_in_step,
         simp add: in_step_pair renew_active\<close>)
qed

lemma reach_in_step: "session_reach fx st st' \<Longrightarrow> in_step w0 st \<Longrightarrow> in_step w0 st'"
proof (induction rule: session_reach.induct)
  case (step st' op)
  then show ?case using apply_in_step [of w0 "fst st'" "snd st'" op] by simp
qed

lemma reach_installed:
  assumes "session_reach fx (coordinator_new lease, w0) (sc, w)"
  shows "case sc_active sc of Some s \<Rightarrow> installed s w | None \<Rightarrow> w = w0 \<or> (\<exists>ok. cleared ok w)"
proof -
  have "in_step w0 (coordinator_new lease, w0)" by (simp add: in_step_def coordinator_new_def)
  from reach_in_step [OF assms this] show ?thesis by (simp add: in_step_pair)
qed

text \<open>Ending a session for good (detach, expiry) was reported as done.\<close>

lemma detach_Applied_cleared:
  "session_detach fx owner claim sc w = (Inr Applied, sc', w') \<Longrightarrow>
     cleared True w' \<and> sc_active sc' = None"
  using clear_asked
  by (fastforce simp: session_detach_def split: option.splits prod.splits sum.splits if_splits)

lemma expire_Applied_cleared:
  "session_expire_due fx now sc w = (Applied, sc', w') \<Longrightarrow>
     cleared True w' \<and> sc_active sc' = None"
  using clear_asked
  by (fastforce simp: session_expire_due_def Let_def split: prod.splits sum.splits if_splits)

text \<open>A failed attach leaves no session behind, and was followed by a clearing.\<close>

lemma attach_EffectsFailed:
  assumes "session_attach fx now i owner role ctl win sc w = (Inl EffectsFailed, sc', w')"
  shows "sc_active sc' = None \<and> sc_expires_at sc' = None \<and> (\<exists>ok. cleared ok w')"
proof -
  let ?cand = "\<lparr>as_id = i, as_generation = saturating_add (sc_generation sc) 1,
      as_owner = owner, as_role = role, as_controller = ctl, as_window = win\<rparr>"
  obtain r1 w1 where c1: "fx_clear fx w = (r1, w1)" by fastforce
  obtain r2 w2 where i2: "fx_install fx ?cand w1 = (r2, w2)" by fastforce
  obtain r3 w3 where c3: "fx_clear fx w2 = (r3, w3)" by fastforce
  from assms c1 i2 c3 have "w' = w3" "sc_active sc' = None" "sc_expires_at sc' = None"
    by (auto simp: session_attach_def Let_def split: sum.splits if_splits)
  with clear_asked [OF c3] show ?thesis by blast
qed

end

section \<open>Following the focus\<close>

text \<open>
  A remote session sends the display that has the focus to its controller. Clearing the effects
  stops that even when it fails, so the contract for it is stronger than the one for the
  keybindings, and nobody but the controller of the active remote session is ever followed for.
\<close>

locale following_effects =
  fixes fx :: "'w effects"
    and following :: "'w \<Rightarrow> agent_endpoint option"
  assumes clear_stops: "following (snd (fx_clear fx w)) = None"
    and install_follows: "fx_install fx s w = (Inr u, w') \<Longrightarrow>
          following w' = (if as_role s = Remote then as_controller s else following w)"
    and install_fails: "fx_install fx s w = (Inl e, w') \<Longrightarrow> following w' = following w"
begin

definition entitled :: "coordinator \<times> 'w \<Rightarrow> bool" where
  "entitled st \<longleftrightarrow> (\<forall>c. following (snd st) = Some c \<longrightarrow>
     (\<exists>s. sc_active (fst st) = Some s \<and> as_role s = Remote \<and> as_controller s = Some c))"

lemma entitled_None: "following w = None \<Longrightarrow> entitled (sc, w)"
  by (simp add: entitled_def)

lemma clear_result: "fx_clear fx w = (r, w') \<Longrightarrow> following w' = None"
  using clear_stops [of w] by simp

lemma attach_entitled:
  assumes "entitled (sc, w)"
  shows "entitled (snd (session_attach fx now i owner role ctl win sc w))"
proof -
  let ?cand = "\<lparr>as_id = i, as_generation = saturating_add (sc_generation sc) 1,
      as_owner = owner, as_role = role, as_controller = ctl, as_window = win\<rparr>"
  obtain r1 w1 where c1: "fx_clear fx w = (r1, w1)" by fastforce
  obtain r2 w2 where i2: "fx_install fx ?cand w1 = (r2, w2)" by fastforce
  have "following w1 = None" using c1 by (rule clear_result)
  then have "following w2 = (if role = Remote then ctl else None)" if "r2 = Inr u" for u
    using i2 that install_follows [of ?cand w1 u w2] by simp
  then show ?thesis
    using assms c1 i2 clear_stops [of w2]
    by (auto simp: session_attach_def Let_def entitled_def split: sum.splits if_splits)
qed

lemma apply_entitled:
  assumes "entitled (sc, w)"
  shows "entitled (session_apply fx op (sc, w))"
proof (cases op)
  case (OpDetach owner claim)
  with assms show ?thesis
    by (auto simp: session_detach_def intro!: entitled_None
        split: option.splits prod.splits sum.splits dest: clear_result)
next
  case (OpRenew now owner claim)
  with assms show ?thesis
    by (auto simp: session_renew_def entitled_def split: option.splits)
next
  case (OpExpire now)
  with assms show ?thesis
    by (auto simp: session_expire_due_def Let_def intro!: entitled_None
        split: prod.splits sum.splits dest: clear_result)
next
  case OpRelease
  with assms show ?thesis by (auto simp: session_release_def clear_stops intro!: entitled_None)
next
  case OpReconcile
  then show ?thesis
    by (auto simp: session_reconcile_def intro!: entitled_None split: prod.splits
        dest: clear_result)
qed (use assms in \<open>simp add: attach_entitled\<close>)

lemma reach_entitled: "session_reach fx st st' \<Longrightarrow> entitled st \<Longrightarrow> entitled st'"
proof (induction rule: session_reach.induct)
  case (step st' op)
  then show ?case using apply_entitled [of "fst st'" "snd st'" op] by simp
qed

end

section \<open>Correctness\<close>

text \<open>
  C3: Mutual exclusion. While another device holds the session and its lease runs, an attach is
  refused and touches nothing, neither the session nor the desktop; in every other case it is not
  refused on that ground.
\<close>

theorem attach_mutual_exclusion:
  "if \<exists>s. sc_active sc = Some s \<and> as_owner s \<noteq> owner \<and> live now sc
   then session_attach fx now i owner role ctl win sc w = (Inl OwnedByAnotherController, sc, w)
   else fst (session_attach fx now i owner role ctl win sc w) \<noteq> Inl OwnedByAnotherController"
proof (cases "\<exists>s. sc_active sc = Some s \<and> as_owner s \<noteq> owner \<and> live now sc")
  case True
  then obtain s where "sc_active sc = Some s" "as_owner s \<noteq> owner" "live now sc" by blast
  then have "session_attach fx now i owner role ctl win sc w = (Inl OwnedByAnotherController, sc, w)"
    by (rule session_attach_refused)
  with True show ?thesis by simp
next
  case False
  then have "fst (session_attach fx now i owner role ctl win sc w) \<noteq> Inl OwnedByAnotherController"
    by (simp only: session_attach_refused_iff) blast
  then show ?thesis by (subst if_not_P [OF False])
qed

definition quiet_effects :: "'w effects" where
  "quiet_effects = \<lparr>fx_install = (\<lambda>_ w. (Inr (), w)), fx_clear = (\<lambda>w. (Inr (), w))\<rparr>"

lemma session_attach_detach_superseded:
  assumes "coordinator_invar sc" and "claim_generation c < sc_generation sc"
  shows "snd (session_detach fx owner c sc w) = (sc, w) \<and> snd (session_renew now owner c sc) = sc"
  using superseded_claim [OF assms] session_detach_rejected [of sc owner c fx w]
    session_renew_rejected [of sc owner c now]
  by blast

text \<open>
  C4: A superseded claim is dead for good. Once a second attach has been granted, the claim of the
  first can neither end nor prolong the session that replaced it, whoever presents it and whatever
  operations lie between and after, as long as the 64-bit generation counter is not exhausted.
\<close>

theorem superseded_grant_is_dead:
  assumes "coordinator_invar (fst st0)"
    and "session_attach fx t1 i1 o1 r1 c1 w1 (fst st0) (snd st0) = (Inr g, st1)"
    and "session_reach fx st1 st2"
    and "session_attach fx t2 i2 o2 r2 c2 w2 (fst st2) (snd st2) = (Inr g', st3)"
    and "session_reach fx st3 st4" and "sc_generation (fst st2) \<noteq> - 1"
  shows "snd (session_detach fx owner (session_grant_claim g) (fst st4) (snd st4)) = st4
    \<and> snd (session_renew now owner (session_grant_claim g) (fst st4)) = fst st4"
proof -
  let ?op1 = "OpAttach t1 i1 o1 r1 c1 w1" and ?op2 = "OpAttach t2 i2 o2 r2 c2 w2"
  have st1: "session_apply fx ?op1 st0 = st1"
    using assms(2) by (cases st0) simp
  have st3: "session_apply fx ?op2 st2 = st3"
    using assms(4) by (cases st2) simp
  have inv: "coordinator_invar (fst st1)"
    using session_apply_invar [OF assms(1), of fx ?op1 "snd st0"] st1 by simp
  then have "coordinator_invar (fst st2)" using assms(3) session_reach_invar by blast
  then have "coordinator_invar (fst st3)"
    using session_apply_invar [of "fst st2" fx ?op2 "snd st2"] st3 by simp
  then have inv4: "coordinator_invar (fst st4)" using assms(5) session_reach_invar by blast
  have "grant_generation g = sc_generation (fst st1)"
    using assms(2) session_attach_Ok(5) [of fx t1 i1 o1 r1 c1 w1 "fst st0" "snd st0" g "fst st1" "snd st1"]
    by simp
  also have "\<dots> \<le> sc_generation (fst st2)" using session_reach_generation [OF assms(3)] by simp
  also have "\<dots> < sc_generation (fst st3)"
    using assms(4) generation_strict [OF assms(6)]
      session_attach_Ok(3) [of fx t2 i2 o2 r2 c2 w2 "fst st2" "snd st2" g' "fst st3" "snd st3"]
    by simp
  also have "\<dots> \<le> sc_generation (fst st4)" using session_reach_generation [OF assms(5)] by simp
  finally have "claim_generation (session_grant_claim g) < sc_generation (fst st4)"
    by (simp add: session_grant_claim_def)
  from session_attach_detach_superseded [OF inv4 this, of fx owner "snd st4" now] show ?thesis by simp
qed

text \<open>
  A renewal is granted only to the owner, for the claim of the active session, before the
  lease has run out; it hands back the same claim and moves the deadline to one lease from now.
\<close>

theorem renew_sound:
  assumes "session_renew now owner claim sc = (Inr g, sc')"
  shows "\<exists>s. sc_active sc = Some s \<and> as_owner s = owner \<and> matches_claim s claim
    \<and> \<not> lease_elapsed sc now \<and> sc' = sc\<lparr>sc_expires_at := Some (now + sc_lease sc)\<rparr>
    \<and> session_grant_claim g = claim"
  using assms by (rule session_renew_Ok)

lemma lease_expiry_keeps_deadline:
  assumes "sc_expires_at sc = Some d \<or> sc_active sc = None"
    and "run_lease_expiry fx ticks sc w = (sc', w')"
  shows "sc_expires_at sc' = Some d \<or> sc_active sc' = None"
  using assms
proof (induction ticks arbitrary: sc w)
  case (Cons tick ticks)
  obtain r sc1 w1 where e: "session_expire_due fx tick sc w = (r, sc1, w1)" by (metis surj_pair)
  then have "sc_expires_at sc1 = Some d \<or> sc_active sc1 = None"
    using Cons.prems(1)
    by (auto simp: session_expire_due_def Let_def split: if_splits prod.splits sum.splits)
  with Cons.IH [of sc1 w1] Cons.prems(2) e show ?case by simp
qed simp

lemma run_lease_expiry_append:
  "run_lease_expiry fx (as @ bs) sc w =
     (case run_lease_expiry fx as sc w of (sc', w') \<Rightarrow> run_lease_expiry fx bs sc' w')"
  by (induction as arbitrary: sc w) (simp_all split: prod.splits)

lemma run_lease_expiry_None:
  "sc_active sc = None \<Longrightarrow> sc_active (fst (run_lease_expiry fx ticks sc w)) = None"
proof (induction ticks arbitrary: sc w)
  case (Cons tick ticks)
  then show ?case by (simp add: session_expire_due_def)
qed simp

text \<open>
  An abandoned session is freed. If clearing the effects works, then after any run of the
  expiry task that includes one tick at or past the deadline there is no active session.
\<close>

theorem expired_session_is_freed:
  assumes "sc_expires_at sc = Some deadline" and "deadline \<le> tick" and "tick \<in> set ticks"
    and "\<And>w. is_ok (fst (fx_clear fx w))"
  shows "sc_active (fst (run_lease_expiry fx ticks sc w)) = None"
proof -
  obtain before after where ticks: "ticks = before @ tick # after"
    using assms(3) by (meson split_list)
  obtain sc1 w1 where one: "run_lease_expiry fx before sc w = (sc1, w1)" by fastforce
  have "sc_expires_at sc1 = Some deadline \<or> sc_active sc1 = None"
    by (rule lease_expiry_keeps_deadline [OF disjI1 [OF assms(1)] one])
  moreover obtain r sc2 w2 where two: "session_expire_due fx tick sc1 w1 = (r, sc2, w2)"
    by (metis surj_pair)
  ultimately have "sc_active sc2 = None"
    using assms(2) assms(4) [of w1]
    by (auto simp: session_expire_due_def lease_elapsed_def option_all_def Let_def is_ok_iff
        split: if_splits prod.splits sum.splits)
  then show ?thesis
    using ticks one two by (simp add: run_lease_expiry_append run_lease_expiry_None)
qed

section \<open>Examples\<close>

definition example_coordinator :: coordinator where
  "example_coordinator = fst (snd (session_attach quiet_effects 0 7 (lit ''n1'') Controller None
     ActiveWindow (coordinator_new default_lease) ()))"

theorem superseded_grant_is_dead_witness:
  "snd (session_detach quiet_effects (lit ''n1'') \<lparr>claim_id = 7, claim_generation = 1\<rparr>
     (fst (snd (session_attach quiet_effects 5 8 (lit ''n1'') Controller None ActiveWindow
       example_coordinator ()))) ())
   = snd (session_attach quiet_effects 5 8 (lit ''n1'') Controller None ActiveWindow
       example_coordinator ())"
proof -
  let ?a = "session_attach quiet_effects 0 7 (lit ''n1'') Controller None ActiveWindow
     (coordinator_new default_lease) ()"
  let ?b = "session_attach quiet_effects 5 8 (lit ''n1'') Controller None ActiveWindow
     example_coordinator ()"
  have "?a = (Inr \<lparr>grant_id = 7, grant_generation = 1, grant_lease_seconds = 45\<rparr>, snd ?a)"
    by code_simp
  moreover have "?b = (Inr \<lparr>grant_id = 8, grant_generation = 2, grant_lease_seconds = 45\<rparr>, snd ?b)"
    by code_simp
  moreover have "sc_generation (fst (snd ?a)) \<noteq> - 1" by code_simp
  moreover have "snd ?a = (example_coordinator, ())"
    by (simp add: example_coordinator_def prod_eq_iff)
  ultimately have "snd (session_detach quiet_effects (lit ''n1'')
      (session_grant_claim \<lparr>grant_id = 7, grant_generation = 1, grant_lease_seconds = 45\<rparr>)
      (fst (snd ?b)) (snd (snd ?b))) = snd ?b"
    using superseded_grant_is_dead [of "(coordinator_new default_lease, ())" quiet_effects 0 7
        "lit ''n1''" Controller None ActiveWindow _ "snd ?a" "snd ?a" 5 8 "lit ''n1''" Controller
        None ActiveWindow _ "snd ?b" "snd ?b"]
    by (simp add: coordinator_invar_new session_reach.refl)
  then show ?thesis by (simp add: session_grant_claim_def)
qed

theorem renew_sound_witness:
  "\<exists>s. sc_active example_coordinator = Some s \<and> as_owner s = lit ''n1''"
proof -
  let ?claim = "\<lparr>claim_id = 7, claim_generation = 1\<rparr>"
  have "session_renew 9 (lit ''n1'') ?claim example_coordinator =
      (Inr \<lparr>grant_id = 7, grant_generation = 1, grant_lease_seconds = 45\<rparr>,
       snd (session_renew 9 (lit ''n1'') ?claim example_coordinator))"
    by code_simp
  from renew_sound [OF this] show ?thesis by blast
qed

theorem expired_session_is_freed_witness:
  "sc_active (fst (run_lease_expiry quiet_effects [from_secs 5, from_secs 50] example_coordinator ()))
     = None"
proof (rule expired_session_is_freed [where tick = "from_secs 50"])
  show "sc_expires_at example_coordinator = Some (from_secs 45)" by code_simp
qed (simp_all add: from_secs_def nanos_per_sec_def quiet_effects_def)

end
