(* ===== verification/IpText.thy ===== *)
theory IpText
  imports Core
begin

text \<open>
  The text of an IP address as \<open>std::net::IpAddr\<close> displays it: dotted octets for IPv4; for IPv6
  lower-case hexadecimal groups, the first longest run of at least two zero groups written
  \<open>::\<close>, and IPv4-mapped addresses with their dotted tail. \<open>parse_ip\<close> is its parser, which reads
  groups from the front, tries an embedded IPv4 address at each of them, and accepts one \<open>::\<close>.
\<close>

fun show_hex :: "nat \<Rightarrow> ustr" where
  "show_hex n = (let d = (\<lambda>k. if k < 10 then 48 + k else 87 + k)
     in if n < 16 then [d n] else show_hex (n div 16) @ [d (n mod 16)])"

declare show_hex.simps [simp del]

definition show_v4 :: "8 word \<Rightarrow> 8 word \<Rightarrow> 8 word \<Rightarrow> 8 word \<Rightarrow> ustr" where
  "show_v4 a b c d = join (lit ''.'') (map (\<lambda>x. show_nat (unat x)) [a, b, c, d])"

text \<open>The best run so far (start, length) and the run in progress, over the groups.\<close>

fun zero_run :: "nat \<Rightarrow> nat \<times> nat \<Rightarrow> nat \<times> nat \<Rightarrow> u16 list \<Rightarrow> nat \<times> nat" where
  "zero_run i best cur [] = best"
| "zero_run i best cur (s # ss) =
     (if s = 0 then
        let cur' = (if snd cur = 0 then (i, 1) else (fst cur, Suc (snd cur)))
        in zero_run (Suc i) (if snd cur' > snd best then cur' else best) cur' ss
      else zero_run (Suc i) best (0, 0) ss)"

definition show_groups :: "u16 list \<Rightarrow> ustr" where
  "show_groups gs = join (lit '':'') (map (\<lambda>g. show_hex (unat g)) gs)"

definition show_v6 :: "u16 list \<Rightarrow> ustr" where
  "show_v6 gs =
     (if length gs = 8 \<and> take 6 gs = [0, 0, 0, 0, 0, 0xffff]
      then lit ''::ffff:'' @ show_v4 (ucast (drop_bit 8 (gs ! 6))) (ucast (gs ! 6))
             (ucast (drop_bit 8 (gs ! 7))) (ucast (gs ! 7))
      else
        let (start, len) = zero_run 0 (0, 0) (0, 0) gs
        in if len > 1
           then show_groups (take start gs) @ lit ''::'' @ show_groups (drop (start + len) gs)
           else show_groups gs)"

fun show_ip :: "ip_addr \<Rightarrow> ustr" where
  "show_ip (V4 a b c d) = show_v4 a b c d"
| "show_ip (V6 a b c d e f g h) = show_v6 [a, b, c, d, e, f, g, h]"

section \<open>Parsing\<close>

definition digit_of :: "nat \<Rightarrow> ucs \<Rightarrow> nat option" where
  "digit_of radix c =
     (let d = (if 48 \<le> c \<and> c \<le> 57 then c - 48
               else if 97 \<le> c \<and> c \<le> 122 then c - 87
               else if 65 \<le> c \<and> c \<le> 90 then c - 55 else radix)
      in if d < radix then Some d else None)"

fun read_digits :: "nat \<Rightarrow> ustr \<Rightarrow> nat list \<times> ustr" where
  "read_digits radix [] = ([], [])"
| "read_digits radix (c # s) =
     (case digit_of radix c of
        None \<Rightarrow> ([], c # s)
      | Some d \<Rightarrow> (case read_digits radix s of (ds, r) \<Rightarrow> (d # ds, r)))"

definition read_number ::
    "nat \<Rightarrow> nat \<Rightarrow> nat \<Rightarrow> bool \<Rightarrow> ustr \<Rightarrow> (nat \<times> ustr) option" where
  "read_number radix max_digits limit allow_zero_prefix s =
     (case read_digits radix s of
        (ds, r) \<Rightarrow>
          let n = foldl (\<lambda>a d. a * radix + d) 0 ds
          in if ds = [] \<or> length ds > max_digits \<or> n \<ge> limit
                \<or> (\<not> allow_zero_prefix \<and> hd ds = 0 \<and> length ds > 1)
             then None else Some (n, r))"

definition read_char :: "ucs \<Rightarrow> ustr \<Rightarrow> ustr option" where
  "read_char c s = (case s of [] \<Rightarrow> None | d # r \<Rightarrow> if d = c then Some r else None)"

text \<open>A separator is read before every element but the first.\<close>

definition read_separator :: "ucs \<Rightarrow> nat \<Rightarrow> ustr \<Rightarrow> ustr option" where
  "read_separator sep index s = (if index = 0 then Some s else read_char sep s)"

fun read_octets :: "nat \<Rightarrow> nat \<Rightarrow> ustr \<Rightarrow> (nat list \<times> ustr) option" where
  "read_octets 0 i s = Some ([], s)"
| "read_octets (Suc n) i s =
     (case read_separator 46 i s of None \<Rightarrow> None
      | Some s1 \<Rightarrow>
        (case read_number 10 3 256 False s1 of None \<Rightarrow> None
         | Some (d, s2) \<Rightarrow>
           (case read_octets n (Suc i) s2 of None \<Rightarrow> None
            | Some (ds, s3) \<Rightarrow> Some (d # ds, s3))))"

text \<open>
  The groups read, whether they ended in an embedded IPv4 address, and the rest; \<open>left\<close> slots
  remain and \<open>i\<close> are filled.
\<close>

fun read_groups :: "nat \<Rightarrow> nat \<Rightarrow> ustr \<Rightarrow> nat list \<times> bool \<times> ustr" where
  "read_groups 0 i s = ([], False, s)"
| "read_groups (Suc left) i s =
     (case (if left \<ge> 1
            then (case read_separator 58 i s of None \<Rightarrow> None | Some s1 \<Rightarrow> read_octets 4 0 s1)
            else None) of
        Some ([a, b, c, d], r) \<Rightarrow> ([a * 256 + b, c * 256 + d], True, r)
      | _ \<Rightarrow>
          (case (case read_separator 58 i s of None \<Rightarrow> None
                 | Some s1 \<Rightarrow> read_number 16 4 65536 True s1) of
             None \<Rightarrow> ([], False, s)
           | Some (g, r) \<Rightarrow>
               (case read_groups left (Suc i) r of (gs, v4, r') \<Rightarrow> (g # gs, v4, r'))))"

definition v6_of_groups :: "nat list \<Rightarrow> ip_addr option" where
  "v6_of_groups gs =
     (case gs of
        [a, b, c, d, e, f, g, h] \<Rightarrow>
          Some (V6 (of_nat a) (of_nat b) (of_nat c) (of_nat d) (of_nat e) (of_nat f) (of_nat g)
            (of_nat h))
      | _ \<Rightarrow> None)"

definition read_v6 :: "ustr \<Rightarrow> (ip_addr \<times> ustr) option" where
  "read_v6 s =
     (case read_groups 8 0 s of
        (front, v4, r) \<Rightarrow>
          if length front = 8 then map_option (\<lambda>a. (a, r)) (v6_of_groups front)
          else if v4 then None
          else
            (case read_char 58 r of None \<Rightarrow> None
             | Some r1 \<Rightarrow>
               (case read_char 58 r1 of None \<Rightarrow> None
                | Some r2 \<Rightarrow>
                  (case read_groups (8 - (length front + 1)) 0 r2 of
                     (back, _, r3) \<Rightarrow>
                       map_option (\<lambda>a. (a, r3))
                         (v6_of_groups
                            (front @ replicate (8 - length front - length back) 0 @ back))))))"

definition parse_ip :: "ustr \<Rightarrow> ip_addr option" where
  "parse_ip s =
     (case (case read_octets 4 0 s of
              Some ([a, b, c, d], r) \<Rightarrow> Some (V4 (of_nat a) (of_nat b) (of_nat c) (of_nat d), r)
            | _ \<Rightarrow> read_v6 s) of
        Some (a, []) \<Rightarrow> Some a
      | _ \<Rightarrow> None)"

section \<open>Characters\<close>

text \<open>Only these characters occur in an address, so it needs no quoting anywhere.\<close>

definition ip_text_char :: "ucs \<Rightarrow> bool" where
  "ip_text_char c \<longleftrightarrow> is_ascii_hexdigit c \<or> c = 46 \<or> c = 58"

lemma set_join: "set (join sep xs) \<subseteq> set sep \<union> \<Union> (set ` set xs)"
  by (induction sep xs rule: join.induct) auto

lemma show_hex_chars: "c \<in> set (show_hex n) \<Longrightarrow> is_ascii_hexdigit c"
proof (induction n rule: show_hex.induct)
  case (1 n)
  have "n mod 16 < 16" by simp
  with 1 show ?case
    by (subst (asm) show_hex.simps) (auto simp: Let_def ascii_class_defs split: if_splits)
qed

lemma show_nat_chars: "c \<in> set (show_nat n) \<Longrightarrow> ip_text_char c"
  using show_nat_digits by (auto simp: ip_text_char_def is_ascii_hexdigit_def)

lemma show_v4_chars: "x \<in> set (show_v4 a b c d) \<Longrightarrow> ip_text_char x"
  by (auto simp: show_v4_def lit_def dest: show_nat_chars) (simp_all add: ip_text_char_def)

lemma show_groups_chars: "x \<in> set (show_groups gs) \<Longrightarrow> ip_text_char x"
  using set_join [of "lit '':''" "map (\<lambda>g. show_hex (unat g)) gs"]
  by (auto simp: show_groups_def ip_text_char_def lit_def dest: show_hex_chars)

lemma show_v6_chars:
  assumes "x \<in> set (show_v6 gs)"
  shows "ip_text_char x"
proof -
  have colons: "ip_text_char y" if "y \<in> set (lit ''::'') \<or> y \<in> set (lit ''::ffff:'')" for y
    using that by (auto simp: lit_def ip_text_char_def ascii_class_defs)
  obtain start len where run: "zero_run 0 (0, 0) (0, 0) gs = (start, len)" by fastforce
  show ?thesis
  proof (cases "length gs = 8 \<and> take 6 gs = [0, 0, 0, 0, 0, 0xffff]")
    case True
    with assms have "x \<in> set (lit ''::ffff:'') \<or> x \<in> set (show_v4 (ucast (drop_bit 8 (gs ! 6)))
        (ucast (gs ! 6)) (ucast (drop_bit 8 (gs ! 7))) (ucast (gs ! 7)))"
      by (simp only: show_v6_def if_True set_append Un_iff simp_thms)
    then show ?thesis using colons show_v4_chars by blast
  next
    case False
    with assms run have "x \<in> set (show_groups (take start gs)) \<or> x \<in> set (lit ''::'')
        \<or> x \<in> set (show_groups (drop (start + len) gs)) \<or> x \<in> set (show_groups gs)"
      by (simp only: show_v6_def if_False Let_def prod.case)
        (simp split: if_splits, blast?)
    then show ?thesis using colons show_groups_chars by blast
  qed
qed

lemma show_ip_chars: "x \<in> set (show_ip a) \<Longrightarrow> ip_text_char x"
  by (cases a) (simp_all only: show_ip.simps show_v4_chars show_v6_chars)

end
