(* ===== verification/Keybinds.thy ===== *)
theory Keybinds
  imports Session IpText
begin

text \<open>
  \<open>crates/omdesky-platform/src/input.rs\<close>: the Lua scripts and \<open>hyprctl\<close> commands that install,
  remove and trigger the session keybindings, and the executor of remote commands. Running a
  command is a call \<open>run\<close> on the world (the port \<open>CommandRunner\<close>). \<open>debug\<close> stands for
  \<open>cfg!(debug_assertions)\<close>, and \<open>json_address\<close> for serde_json: it gives the error text of invalid
  JSON, or the string under the key \<open>address\<close> if there is one.
\<close>

definition moonlight_window_class :: ustr where
  "moonlight_window_class = lit ''com.moonlight_stream.Moonlight''"

definition binds_global :: ustr where
  "binds_global = lit ''_G.omdesky_binds''"

definition quoted :: "ustr \<Rightarrow> ustr" where
  "quoted s = [34] @ s @ [34]"

record keybind =
  bind_trigger :: ustr
  bind_description :: ustr
  bind_command :: remote_command
  bind_allow_input_capture :: bool

text \<open>\<open>KeyChord::new(...).expect(...)\<close>: the chord is valid, so the panic branch is not taken.\<close>

definition capture_toggle_chord :: key_chord where
  "capture_toggle_chord =
     (case key_chord_new [Ctrl, Alt, Shift] (lit ''Z'') of
        Inr chord \<Rightarrow> chord
      | Inl _ \<Rightarrow> \<lparr>kc_mods = [], kc_key = []\<rparr>)"

definition capture_toggle_command :: "window_selector \<Rightarrow> remote_command" where
  "capture_toggle_command window = SendShortcut capture_toggle_chord window"

definition session_keybinds :: "window_selector \<Rightarrow> keybind list" where
  "session_keybinds window =
     [\<lparr>bind_trigger = lit ''SUPER + R'', bind_description = lit ''toggle remote shortcut capture'',
       bind_command = capture_toggle_command window, bind_allow_input_capture = True\<rparr>,
      \<lparr>bind_trigger = lit ''SUPER + Q'', bind_description = lit ''close remote session'',
       bind_command = CloseWindow window, bind_allow_input_capture = True\<rparr>]"

section \<open>Lua dispatchers\<close>

fun modifier_key :: "key_modifier \<Rightarrow> ustr" where
  "modifier_key Super = lit ''Super_L''"
| "modifier_key Ctrl = lit ''Control_L''"
| "modifier_key Alt = lit ''Alt_L''"
| "modifier_key Shift = lit ''Shift_L''"

definition send_key_state :: "ustr \<Rightarrow> ustr \<Rightarrow> ustr \<Rightarrow> ustr" where
  "send_key_state mods key state =
     lit ''hl.dsp.send_key_state({ mods = '' @ quoted mods @ lit '', key = '' @ quoted key
       @ lit '', state = '' @ quoted state @ lit '' })''"

definition key_state_dispatcher :: "ustr \<Rightarrow> ustr \<Rightarrow> ustr" where
  "key_state_dispatcher key state = send_key_state [] key state"

definition focus_dispatcher :: "window_selector \<Rightarrow> ustr" where
  "focus_dispatcher window =
     lit ''hl.dsp.focus({ window = '' @ quoted (window_selector_as_hypr window) @ lit '' })''"

definition restore_focus_dispatcher :: "ustr \<Rightarrow> ustr" where
  "restore_focus_dispatcher address =
     lit ''hl.dsp.focus({ window = '' @ quoted (lit ''address:'' @ address) @ lit '' })''"

definition dispatch :: "ustr \<Rightarrow> ustr" where
  "dispatch action = lit ''hl.dispatch('' @ action @ lit '')''"

definition oneshot :: "ustr \<Rightarrow> ustr" where
  "oneshot timeout =
     lit ''{ timeout = '' @ timeout @ lit '', type = '' @ quoted (lit ''oneshot'') @ lit '' })''"

definition shortcut_key_dispatchers :: "key_chord \<Rightarrow> ustr list" where
  "shortcut_key_dispatchers chord =
     map (\<lambda>m. key_state_dispatcher (modifier_key m) (lit ''down'')) (kc_mods chord)
     @ [key_state_dispatcher (kc_key chord) (lit ''down''),
        key_state_dispatcher (kc_key chord) (lit ''up'')]
     @ map (\<lambda>m. key_state_dispatcher (modifier_key m) (lit ''up'')) (rev (kc_mods chord))"

fun nest_actions :: "ustr list \<Rightarrow> ustr \<Rightarrow> ustr" where
  "nest_actions [] inner = inner"
| "nest_actions (action # actions) inner =
     nest_actions actions
       (dispatch action @ lit ''; hl.timer(function() '' @ inner @ lit '' end, '' @ oneshot (lit ''25''))"

definition timed_shortcut_lua :: "key_chord \<Rightarrow> window_selector \<Rightarrow> ustr option \<Rightarrow> ustr" where
  "timed_shortcut_lua chord window restore_address =
     (let focus = (case window of
            ActiveWindow \<Rightarrow> []
          | _ \<Rightarrow> dispatch (focus_dispatcher window) @ lit ''; '')
      in if kc_key chord = lit ''Z'' then
           let restore = (case restore_address of
                 None \<Rightarrow> []
               | Some address \<Rightarrow> lit ''; '' @ dispatch (restore_focus_dispatcher address));
               mods = modifiers_hypr chord
           in focus @ dispatch (send_key_state mods (kc_key chord) (lit ''down''))
              @ lit ''; hl.timer(function() ''
              @ dispatch (send_key_state mods (kc_key chord) (lit ''up'')) @ restore
              @ lit '' end, '' @ oneshot (lit ''50'') @ lit ''; return true''
         else
           let actions = shortcut_key_dispatchers chord @ (case restore_address of
                 None \<Rightarrow> []
               | Some address \<Rightarrow> [restore_focus_dispatcher address])
           in focus @ nest_actions (rev (butlast actions))
                (dispatch (last actions) @ lit ''; return true''))"

definition hyprctl_batch_argument :: "ustr list \<Rightarrow> ustr" where
  "hyprctl_batch_argument dispatchers =
     join (lit '' ; '') (map (\<lambda>d. lit ''eval '' @ dispatch d) dispatchers)"

definition command_actions :: "remote_command \<Rightarrow> key_modifier list \<Rightarrow> ustr list option" where
  "command_actions command held_modifiers =
     (case command of
        SendShortcut chord window \<Rightarrow>
          Some (focus_dispatcher window
            # map (\<lambda>m. key_state_dispatcher (modifier_key m) (lit ''up''))
                (filter (\<lambda>m. m \<notin> set (kc_mods chord)) held_modifiers)
            @ shortcut_key_dispatchers chord)
      | CloseWindow window \<Rightarrow>
          Some [lit ''hl.dsp.window.close({ window = '' @ quoted (window_selector_as_hypr window)
            @ lit '' })'']
      | _ \<Rightarrow> None)"

section \<open>The installed keybindings\<close>

fun window_cli_argument :: "window_selector \<Rightarrow> ustr" where
  "window_cli_argument (WindowClass class) = lit '' --window-class '' @ class"
| "window_cli_argument (WindowAddress address) = lit '' --window-address '' @ address"
| "window_cli_argument ActiveWindow = []"

definition command_cli_invocation :: "remote_command \<Rightarrow> agent_endpoint \<Rightarrow> ustr option" where
  "command_cli_invocation command endpoint =
     (let address = show_ip (ep_address endpoint); port = show_nat (unat (ep_port endpoint))
      in case command of
           SendShortcut chord window \<Rightarrow>
             Some (lit ''omdesky command send-shortcut '' @ address @ lit '' --port '' @ port
               @ lit '' --mods '' @ [39] @ modifiers_hypr chord @ [39] @ lit '' --key ''
               @ kc_key chord @ window_cli_argument window)
         | CloseWindow window \<Rightarrow>
             Some (lit ''omdesky command close-window '' @ address @ lit '' --port '' @ port
               @ window_cli_argument window)
         | _ \<Rightarrow> None)"

definition debug_notify :: "ustr \<Rightarrow> ustr" where
  "debug_notify message =
     lit ''hl.dispatch(hl.dsp.exec_cmd(''
     @ quoted (lit ''omarchy-notification-send '' @ [39] @ lit ''Omdesky debug'' @ [39, 32, 39]
         @ message @ [39])
     @ lit ''))''"

definition controller_action_lua :: "bool \<Rightarrow> keybind \<Rightarrow> ustr option" where
  "controller_action_lua debug bind =
     (let action = (case bind_command bind of
            SendShortcut chord window \<Rightarrow>
              let mods = modifiers_hypr chord; key = kc_key chord
              in Some (lit ''function() hl.timer(function() '' @ dispatch (focus_dispatcher window)
                 @ lit ''; '' @ dispatch (send_key_state mods key (lit ''down''))
                 @ lit ''; hl.timer(function() '' @ dispatch (send_key_state mods key (lit ''up''))
                 @ lit '' end, '' @ oneshot (lit ''50'') @ lit '' end, '' @ oneshot (lit ''100'')
                 @ lit '' end'')
          | CloseWindow window \<Rightarrow>
              map_option (\<lambda>actions. lit ''function() hl.dispatch(hl.dsp.exec_cmd([==[hyprctl --batch ''
                @ [39] @ hyprctl_batch_argument actions @ [39] @ lit '']==])) end'')
                (command_actions (bind_command bind) [])
          | _ \<Rightarrow> None)
      in case action of
           None \<Rightarrow> None
         | Some a \<Rightarrow>
             if debug then Some (lit ''function() ('' @ a @ lit '')(); ''
               @ debug_notify (bind_description bind) @ lit '' end'')
             else Some a)"

definition remote_action_lua :: "bool \<Rightarrow> keybind \<Rightarrow> agent_endpoint \<Rightarrow> ustr option" where
  "remote_action_lua debug bind controller =
     (case command_cli_invocation (bind_command bind) controller of
        None \<Rightarrow> None
      | Some invocation \<Rightarrow>
          let shell = (if debug
            then invocation @ lit '' >/dev/null 2>&1 || omarchy-notification-send ''
              @ [39] @ lit ''Omdesky debug'' @ [39, 32, 39]
              @ lit ''Could not send the remote shortcut'' @ [39]
            else invocation @ lit '' >/dev/null 2>&1'')
          in Some (lit ''hl.dsp.exec_cmd('' @ quoted shell @ lit '')''))"

definition remove_all_lua :: ustr where
  "remove_all_lua =
     lit ''if '' @ binds_global @ lit '' then for _, b in ipairs('' @ binds_global
     @ lit '') do b:remove() end end; '' @ binds_global @ lit '' = ''"

definition bind_lua :: "session_role \<Rightarrow> keybind \<Rightarrow> ustr \<Rightarrow> ustr" where
  "bind_lua role bind action =
     lit ''; table.insert('' @ binds_global @ lit '', hl.bind('' @ quoted (bind_trigger bind)
     @ lit '', '' @ action @ lit '', { allow_input_capture = ''
     @ (if role = Remote \<and> bind_allow_input_capture bind then lit ''true'' else lit ''false'')
     @ lit '', description = '' @ quoted (lit ''Omdesky: '' @ bind_description bind) @ lit '' }))''"

definition install_lua ::
    "bool \<Rightarrow> session_role \<Rightarrow> agent_endpoint option \<Rightarrow> window_selector \<Rightarrow> ustr" where
  "install_lua debug role controller window =
     foldl (\<lambda>lua bind.
         let action = (case role of
               Controller \<Rightarrow> controller_action_lua debug bind
             | Remote \<Rightarrow> (case controller of
                   Some c \<Rightarrow> remote_action_lua debug bind c
                 | None \<Rightarrow> None))
         in case action of None \<Rightarrow> lua | Some a \<Rightarrow> lua @ bind_lua role bind a)
       (remove_all_lua @ lit ''{}'') (session_keybinds window)"

definition hyprctl_eval :: "ustr \<Rightarrow> command_spec" where
  "hyprctl_eval lua = command_spec_new (lit ''hyprctl'') [lit ''eval'', lua]"

definition install_session_keybinds_spec ::
    "bool \<Rightarrow> session_role \<Rightarrow> agent_endpoint option \<Rightarrow> window_selector \<Rightarrow> command_spec" where
  "install_session_keybinds_spec debug role controller window =
     hyprctl_eval (install_lua debug role controller window)"

definition remove_session_keybinds_spec :: command_spec where
  "remove_session_keybinds_spec = hyprctl_eval (remove_all_lua @ lit ''nil'')"

definition invalid_command_error :: "domain_error \<Rightarrow> port_error" where
  "invalid_command_error e = port_error_new (lit ''INVALID_COMMAND'') (domain_error_message e) False"

definition keybinds_install ::
    "(command_spec \<Rightarrow> ('w, command_output port_result) call) \<Rightarrow> bool \<Rightarrow> session_keybind_config
       \<Rightarrow> ('w, unit port_result) call" where
  "keybinds_install run debug config =
     (case window_selector_validate (kb_window config) of
        Inl e \<Rightarrow> returning (Inl (invalid_command_error e))
      | Inr _ \<Rightarrow>
          call_then (run (install_session_keybinds_spec debug (kb_role config)
              (kb_controller config) (kb_window config)))
            (\<lambda>_. returning (Inr ())))"

definition keybinds_clear ::
    "(command_spec \<Rightarrow> ('w, command_output port_result) call) \<Rightarrow> ('w, unit port_result) call" where
  "keybinds_clear run = call_then (run remove_session_keybinds_spec) (\<lambda>_. returning (Inr ()))"

lemma moonlight_class_valid: "window_selector_validate (WindowClass moonlight_window_class) = Inr ()"
  by (simp add: moonlight_window_class_def lit_def is_safe_class_char_def ascii_class_defs)

section \<open>The command executor\<close>

definition contains_str :: "ustr \<Rightarrow> ustr \<Rightarrow> bool" where
  "contains_str s p \<longleftrightarrow> list_ex (\<lambda>n. starts_with (drop n s) p) [0..<Suc (length s)]"

text \<open>
  The output is searched for an ASCII phrase, which the lossy UTF-8 decoding of the source keeps
  byte for byte, so the bytes are searched directly.
\<close>

definition bytes_text :: "8 word list \<Rightarrow> ustr" where
  "bytes_text bs = map unat bs"

definition run_hyprland ::
    "(command_spec \<Rightarrow> ('w, command_output port_result) call) \<Rightarrow> command_spec
       \<Rightarrow> ('w, (8 word list) port_result) call" where
  "run_hyprland run spec = (\<lambda>w. case run spec w of
     (Inl e, w') \<Rightarrow>
       (Inl (port_error_new (lit ''HYPRLAND_UNAVAILABLE'') (perr_message e) (perr_retryable e)), w')
   | (Inr output, w') \<Rightarrow>
       let combined = bytes_text (co_stdout output) @ [10] @ bytes_text (co_stderr output)
       in if contains_str combined (lit ''window not found'')
             \<or> contains_str combined (lit ''not found'')
          then (Inl (port_error_new (lit ''HYPRLAND_TARGET_MISSING'')
                  (lit ''The requested window is no longer available.'') False), w')
          else (Inr (co_stdout output), w'))"

definition eval_batch ::
    "(command_spec \<Rightarrow> ('w, command_output port_result) call) \<Rightarrow> ustr list
       \<Rightarrow> ('w, unit port_result) call" where
  "eval_batch run dispatchers =
     call_then (run_hyprland run (command_spec_new (lit ''hyprctl'')
         [lit ''--batch'', hyprctl_batch_argument dispatchers]))
       (\<lambda>_. returning (Inr ()))"

definition executor_focus_window ::
    "(command_spec \<Rightarrow> ('w, command_output port_result) call) \<Rightarrow> window_selector
       \<Rightarrow> ('w, unit port_result) call" where
  "executor_focus_window run window =
     (case window_selector_validate window of
        Inl e \<Rightarrow> returning (Inl (invalid_command_error e))
      | Inr _ \<Rightarrow> eval_batch run [focus_dispatcher window])"

definition is_hypr_address :: "ustr \<Rightarrow> bool" where
  "is_hypr_address address \<longleftrightarrow>
     option_any (\<lambda>hex. hex \<noteq> [] \<and> list_all is_ascii_hexdigit hex)
       (strip_prefix (lit ''0x'') address)"

definition active_window_address ::
    "(8 word list \<Rightarrow> ustr + ustr option) \<Rightarrow> 8 word list \<Rightarrow> ustr port_result" where
  "active_window_address json_address output =
     (case json_address output of
        Inl error \<Rightarrow> Inl (port_error_new (lit ''HYPRLAND_UNAVAILABLE'')
          (lit ''Hyprland returned an invalid active window: '' @ error) False)
      | Inr value \<Rightarrow>
          ok_or (case value of None \<Rightarrow> None
                 | Some a \<Rightarrow> if is_hypr_address a then Some a else None)
            (port_error_new (lit ''HYPRLAND_TARGET_MISSING'')
              (lit ''The active window is no longer available.'') False))"

definition executor_send_shortcut ::
    "(command_spec \<Rightarrow> ('w, command_output port_result) call)
       \<Rightarrow> (8 word list \<Rightarrow> ustr + ustr option) \<Rightarrow> key_chord \<Rightarrow> window_selector
       \<Rightarrow> ('w, unit port_result) call" where
  "executor_send_shortcut run json_address chord window =
     (let send = (\<lambda>previous. call_then
            (run_hyprland run (hyprctl_eval (timed_shortcut_lua chord window previous)))
            (\<lambda>_. returning (Inr ())))
      in case window of
           ActiveWindow \<Rightarrow> send None
         | _ \<Rightarrow> call_then
             (run_hyprland run (command_spec_new (lit ''hyprctl'') [lit ''activewindow'', lit ''-j'']))
             (\<lambda>output. case active_window_address json_address output of
                Inl e \<Rightarrow> returning (Inl e)
              | Inr address \<Rightarrow> send (Some address)))"

definition not_executable :: port_error where
  "not_executable = port_error_new (lit ''COMMAND_NOT_EXECUTABLE'') (lit ''command is not an action'') False"

definition executor_execute ::
    "(command_spec \<Rightarrow> ('w, command_output port_result) call)
       \<Rightarrow> (8 word list \<Rightarrow> ustr + ustr option) \<Rightarrow> remote_command \<Rightarrow> ('w, unit port_result) call" where
  "executor_execute run json_address command =
     (case command_validate command of
        Inl e \<Rightarrow> returning (Inl (invalid_command_error e))
      | Inr _ \<Rightarrow>
          (case command of
             SendShortcut chord window \<Rightarrow> executor_send_shortcut run json_address chord window
           | CloseWindow window \<Rightarrow>
               (case command_actions command [] of
                  None \<Rightarrow> returning (Inl not_executable)
                | Some actions \<Rightarrow> eval_batch run actions)
           | _ \<Rightarrow> returning (Inl not_executable)))"

section \<open>The keybindings asked for\<close>

text \<open>
  What the agent does about keybindings is what it asks Hyprland to run: the world keeps every
  command given to the runner, newest last, with whether the runner reported it as successful, next
  to the controller the focus is followed for. What Hyprland makes of a command is left open; the
  parameter \<open>answer\<close> answers commands on a world \<open>'x\<close> of its own.
\<close>

record 'x desktop =
  dk_asked :: "(command_spec \<times> bool) list"
  dk_following :: "agent_endpoint option"
  dk_env :: 'x

definition desktop_run ::
    "(command_spec \<Rightarrow> ('x, command_output port_result) call) \<Rightarrow> command_spec
       \<Rightarrow> ('x desktop, command_output port_result) call" where
  "desktop_run answer spec w =
     (case answer spec (dk_env w) of
        (r, x) \<Rightarrow> (r, w\<lparr>dk_env := x, dk_asked := dk_asked w @ [(spec, is_ok r)]\<rparr>))"

definition desktop_follow :: "agent_endpoint option \<Rightarrow> 'x desktop \<Rightarrow> 'x desktop" where
  "desktop_follow controller w = w\<lparr>dk_following := controller\<rparr>"

definition desktop_effects ::
    "(command_spec \<Rightarrow> ('x, command_output port_result) call) \<Rightarrow> bool \<Rightarrow> 'x desktop effects" where
  "desktop_effects answer debug =
     keybind_effects (keybinds_install (desktop_run answer) debug)
       (keybinds_clear (desktop_run answer)) desktop_follow"

definition session_spec :: "bool \<Rightarrow> active_session \<Rightarrow> command_spec" where
  "session_spec debug s =
     install_session_keybinds_spec debug (as_role s) (as_controller s) (as_window s)"

text \<open>
  The keybindings of a session are the last that were reported as installed, and since then only
  removals were asked for, which were reported as failed.
\<close>

definition asked_for :: "bool \<Rightarrow> active_session \<Rightarrow> 'x desktop \<Rightarrow> bool" where
  "asked_for debug s w \<longleftrightarrow>
     (\<exists>before failed. dk_asked w = before @ (session_spec debug s, True) # failed
        \<and> (\<forall>e\<in>set failed. e = (remove_session_keybinds_spec, False)))"

definition removal_asked :: "bool \<Rightarrow> 'x desktop \<Rightarrow> bool" where
  "removal_asked ok w \<longleftrightarrow> (\<exists>before. dk_asked w = before @ [(remove_session_keybinds_spec, ok)])"

lemma foldl_prefix:
  fixes start :: ustr
  assumes "\<And>acc b. \<exists>rest. step acc b = acc @ rest"
  shows "\<exists>rest. foldl step start bs = start @ rest"
proof (induction bs arbitrary: start)
  case (Cons b bs)
  obtain r1 where r1: "step start b = start @ r1" using assms by blast
  obtain r2 where "foldl step (step start b) bs = step start b @ r2" using Cons by blast
  with r1 show ?case by simp
qed simp

lemma install_lua_prefix: "\<exists>rest. install_lua debug role ctl win = (remove_all_lua @ lit ''{}'') @ rest"
  unfolding install_lua_def by (rule foldl_prefix) (simp add: Let_def split: option.splits)

lemma install_is_no_removal:
  "install_session_keybinds_spec debug role ctl win \<noteq> remove_session_keybinds_spec"
proof -
  obtain rest where "install_lua debug role ctl win = (remove_all_lua @ lit ''{}'') @ rest"
    using install_lua_prefix by blast
  then show ?thesis
    by (simp add: install_session_keybinds_spec_def remove_session_keybinds_spec_def
        hyprctl_eval_def command_spec_new_def lit_def)
qed

lemma keybinds_clear_asked:
  "keybinds_clear (desktop_run answer) w = (r, w') \<Longrightarrow>
     dk_asked w' = dk_asked w @ [(remove_session_keybinds_spec, is_ok r)]
     \<and> dk_following w' = dk_following w"
  by (auto simp: keybinds_clear_def call_then_apply desktop_run_def returning_apply
      split: prod.splits sum.splits)

lemma keybinds_install_asked:
  "keybinds_install (desktop_run answer) debug config w = (r, w') \<Longrightarrow>
     dk_following w' = dk_following w
     \<and> (dk_asked w' = dk_asked w @ [(install_session_keybinds_spec debug (kb_role config)
            (kb_controller config) (kb_window config), is_ok r)]
        \<or> \<not> is_ok r \<and> dk_asked w' = dk_asked w)"
  by (auto simp: keybinds_install_def call_then_apply desktop_run_def returning_apply
      split: prod.splits sum.splits)

lemmas keybinds_facts = keybinds_clear_asked keybinds_install_asked

lemma desktop_clear_asked:
  assumes "fx_clear (desktop_effects answer debug) w = (r, w')"
  shows "dk_asked w' = dk_asked w @ [(remove_session_keybinds_spec, is_ok r)]"
    and "dk_following w' = None"
  using assms keybinds_clear_asked [of answer "desktop_follow None w" r w']
  by (simp_all add: desktop_effects_def keybind_effects_def desktop_follow_def)

lemma desktop_install_asked:
  assumes "fx_install (desktop_effects answer debug) s w = (r, w')"
  shows "is_ok r \<Longrightarrow> dk_asked w' = dk_asked w @ [(session_spec debug s, True)]"
    and "dk_following w' = (if is_ok r \<and> as_role s = Remote then as_controller s else dk_following w)"
  using assms
  by (auto simp: desktop_effects_def keybind_effects_def desktop_follow_def session_spec_def
      split: prod.splits sum.splits dest!: keybinds_install_asked)

interpretation desk: session_effects "desktop_effects answer debug" "asked_for debug" removal_asked
  for answer :: "command_spec \<Rightarrow> ('x, command_output port_result) call" and debug
proof unfold_locales
  show "asked_for debug s w'" if "fx_install (desktop_effects answer debug) s w = (Inr u, w')"
    for s u and w w' :: "'x desktop"
    unfolding asked_for_def
    by (rule exI [of _ "dk_asked w"], rule exI [of _ "[]"])
      (use desktop_install_asked(1) [OF that] in simp)
  show "removal_asked (is_ok r) w'" if "fx_clear (desktop_effects answer debug) w = (r, w')"
    for r and w w' :: "'x desktop"
    using desktop_clear_asked(1) [OF that] by (simp add: removal_asked_def)
  show "asked_for debug s w'" if "fx_clear (desktop_effects answer debug) w = (Inl e, w')"
    and "asked_for debug s w" for s e and w w' :: "'x desktop"
    using desktop_clear_asked(1) [OF that(1)] that(2) unfolding asked_for_def by fastforce
qed

interpretation follow: following_effects "desktop_effects answer debug" dk_following
  for answer :: "command_spec \<Rightarrow> ('x, command_output port_result) call" and debug
proof unfold_locales
  fix w :: "'x desktop"
  obtain r w' where "fx_clear (desktop_effects answer debug) w = (r, w')" by fastforce
  with desktop_clear_asked(2) [OF this]
  show "dk_following (snd (fx_clear (desktop_effects answer debug) w)) = None" by simp
qed (auto dest: desktop_install_asked(2))

section \<open>Correctness\<close>

text \<open>
  C5: The keybindings asked for are those of the active session. In every state the coordinator
  reaches from its start, through attaches, detaches, renewals, expiry, release and
  reconciliation, and whatever the runner reports: with an active session, the last keybindings
  reported as installed are that session's, and whatever was asked for since is their removal and
  was reported as failed. With no active session, the removal of all keybindings is the last thing
  that was asked for, unless nothing was done yet.
\<close>

theorem bindings_in_step_with_session:
  assumes "session_reach (desktop_effects answer debug) (coordinator_new lease, w0) (sc, w)"
  shows "case sc_active sc of
      Some s \<Rightarrow> \<exists>before failed. dk_asked w =
          before @ (install_session_keybinds_spec debug (as_role s) (as_controller s) (as_window s), True) # failed
        \<and> (\<forall>e\<in>set failed. e = (remove_session_keybinds_spec, False))
    | None \<Rightarrow> w = w0 \<or> (\<exists>before ok. dk_asked w = before @ [(remove_session_keybinds_spec, ok)])"
  using desk.reach_installed [OF assms]
  by (cases "sc_active sc") (auto simp: asked_for_def removal_asked_def session_spec_def)

text \<open>
  Focus is reported to nobody but the controller of the active remote session. In every
  reachable state, if the agent follows the focus for an endpoint, the active session is a remote
  one with that endpoint as its controller.
\<close>

theorem focus_followed_only_for_controller:
  assumes "session_reach (desktop_effects answer debug) (coordinator_new lease, w0) (sc, w)"
    and "dk_following w0 = None" and "dk_following w = Some c"
  shows "\<exists>s. sc_active sc = Some s \<and> as_role s = Remote \<and> as_controller s = Some c"
  using follow.reach_entitled [OF assms(1)] assms(2,3)
    follow.entitled_None [of w0 "coordinator_new lease"]
  by (simp add: follow.entitled_def)

text \<open>
  A session that was ended was cleaned up after. A detach that is applied, and an expiry that is
  applied, end with the removal of every keybinding, reported as successful, and no session.
\<close>

theorem ended_session_leaves_nothing:
  "(case session_detach (desktop_effects answer debug) owner claim sc w of
      (Inr Applied, sc', w') \<Rightarrow> removal_asked True w' \<and> sc_active sc' = None
    | _ \<Rightarrow> True)
   \<and> (case session_expire_due (desktop_effects answer debug) now sc w of
      (Applied, sc', w') \<Rightarrow> removal_asked True w' \<and> sc_active sc' = None
    | _ \<Rightarrow> True)"
proof
  obtain r sc1 w1 where d: "session_detach (desktop_effects answer debug) owner claim sc w = (r, sc1, w1)"
    by (metis surj_pair)
  show "case session_detach (desktop_effects answer debug) owner claim sc w of
      (Inr Applied, sc', w') \<Rightarrow> removal_asked True w' \<and> sc_active sc' = None | _ \<Rightarrow> True"
    using desk.detach_Applied_cleared [of answer debug owner claim sc w sc1 w1] d
    by (simp split: sum.split session_outcome.split)
  obtain o2 sc2 w2 where e: "session_expire_due (desktop_effects answer debug) now sc w = (o2, sc2, w2)"
    by (metis surj_pair)
  show "case session_expire_due (desktop_effects answer debug) now sc w of
      (Applied, sc', w') \<Rightarrow> removal_asked True w' \<and> sc_active sc' = None | _ \<Rightarrow> True"
    using desk.expire_Applied_cleared [of answer debug now sc w sc2 w2] e
    by (simp split: session_outcome.split)
qed

definition example_answer :: "command_spec \<Rightarrow> (nat, command_output port_result) call" where
  "example_answer spec n = (Inr \<lparr>co_status = 0, co_stdout = [], co_stderr = []\<rparr>, Suc n)"

definition example_desktop :: "nat desktop" where
  "example_desktop = \<lparr>dk_asked = [], dk_following = None, dk_env = 0\<rparr>"

definition example_controller :: agent_endpoint where
  "example_controller = \<lparr>ep_address = V4 100 64 0 2, ep_port = 47960\<rparr>"

definition example_state :: "coordinator \<times> nat desktop" where
  "example_state = session_apply (desktop_effects example_answer False)
     (OpAttach 0 7 (lit ''n1'') Remote (Some example_controller) (WindowClass moonlight_window_class))
     (coordinator_new default_lease, example_desktop)"

lemma example_reach:
  "session_reach (desktop_effects example_answer False)
     (coordinator_new default_lease, example_desktop) (fst example_state, snd example_state)"
  unfolding example_state_def prod.collapse by (rule session_reach.step [OF session_reach.refl])

lemma example_active:
  "sc_active (fst example_state) = Some \<lparr>as_id = 7, as_generation = 1, as_owner = lit ''n1'',
     as_role = Remote, as_controller = Some example_controller,
     as_window = WindowClass moonlight_window_class\<rparr>"
proof -
  have "session_attach (desktop_effects example_answer False) 0 7 (lit ''n1'') Remote
      (Some example_controller) (WindowClass moonlight_window_class)
      (coordinator_new default_lease) example_desktop
    = (Inr \<lparr>grant_id = 7, grant_generation = 1, grant_lease_seconds = 45\<rparr>,
       fst example_state, snd example_state)"
    using moonlight_class_valid
    by (simp add: example_state_def session_attach_def desktop_effects_def keybind_effects_def
        keybinds_install_def keybinds_clear_def desktop_run_def example_answer_def call_then_apply
        coordinator_new_def saturating_add_def default_lease_def Let_def)
  from session_attach_Ok(1,3) [OF this] show ?thesis
    by (simp add: coordinator_new_def saturating_add_def)
qed

theorem bindings_in_step_with_session_witness:
  "\<exists>before failed. dk_asked (snd example_state) = before
     @ (install_session_keybinds_spec False Remote (Some example_controller)
          (WindowClass moonlight_window_class), True) # failed"
  using bindings_in_step_with_session [OF example_reach] example_active by auto

theorem focus_followed_only_for_controller_witness:
  "\<exists>s. sc_active (fst example_state) = Some s \<and> as_controller s = Some example_controller"
proof -
  have "dk_following (snd example_state) = Some example_controller"
    using moonlight_class_valid
    by (simp add: example_state_def session_attach_def desktop_effects_def keybind_effects_def
        keybinds_install_def keybinds_clear_def desktop_run_def example_answer_def call_then_apply
        desktop_follow_def coordinator_new_def Let_def)
  from focus_followed_only_for_controller [OF example_reach _ this] show ?thesis
    by (auto simp: example_desktop_def)
qed

section \<open>Scripts cannot be bent\<close>

text \<open>
  The characters that have a meaning in Lua or in the shell around it. The skeleton of a script is
  what is left of it when all other characters are taken away.
\<close>

definition script_meta :: "ucs \<Rightarrow> bool" where
  "script_meta c \<longleftrightarrow> \<not> (is_ascii_alphanumeric c \<or> c \<in> set (lit ''._-:''))"

definition skeleton :: "ustr \<Rightarrow> ustr" where
  "skeleton s = filter script_meta s"

lemma skeleton_append [simp]: "skeleton (s @ t) = skeleton s @ skeleton t"
  by (simp add: skeleton_def)

lemma skeleton_safe: "safe_text s \<Longrightarrow> skeleton s = []"
  by (auto simp: skeleton_def filter_empty_conv safe_text_def list_all_iff script_meta_def lit_def)

lemma skeleton_Cons [simp]:
  "skeleton (c # s) = (if script_meta c then c # skeleton s else skeleton s)"
  by (simp add: skeleton_def)

lemma ip_text_char_plain: "ip_text_char c \<Longrightarrow> \<not> script_meta c"
  by (auto simp: script_meta_def ip_text_char_def lit_def hexdigit_alphanumeric)

lemma skeleton_ip: "skeleton (show_ip a) = []"
  using show_ip_chars ip_text_char_plain by (auto simp: skeleton_def filter_empty_conv)

lemma skeleton_nat: "skeleton (show_nat n) = []"
  using show_nat_chars ip_text_char_plain by (auto simp: skeleton_def filter_empty_conv)

fun same_shape :: "window_selector \<Rightarrow> window_selector \<Rightarrow> bool" where
  "same_shape ActiveWindow ActiveWindow = True"
| "same_shape (WindowClass _) (WindowClass _) = True"
| "same_shape (WindowAddress _) (WindowAddress _) = True"
| "same_shape _ _ = False"

lemma skeleton_selector:
  assumes "window_selector_validate v = Inr ()" "window_selector_validate w = Inr ()" "same_shape v w"
  shows "skeleton (window_selector_as_hypr v) = skeleton (window_selector_as_hypr w)"
    and "skeleton (window_cli_argument v) = skeleton (window_cli_argument w)"
  using assms valid_selector_texts [of v] valid_selector_texts [of w]
  by (cases v; cases w; simp add: skeleton_safe)+

lemma skeleton_focus:
  "window_selector_validate v = Inr () \<Longrightarrow> window_selector_validate w = Inr () \<Longrightarrow> same_shape v w \<Longrightarrow>
     skeleton (focus_dispatcher v) = skeleton (focus_dispatcher w)"
  by (simp add: focus_dispatcher_def quoted_def skeleton_selector)

lemma hypr_address_safe: "is_hypr_address address \<Longrightarrow> safe_text address"
proof -
  assume "is_hypr_address address"
  then obtain hex where "address = lit ''0x'' @ hex" "list_all is_ascii_hexdigit hex"
    by (auto simp: is_hypr_address_def option_any_def strip_prefix_Some split: option.splits)
  then show ?thesis
    by (auto simp: safe_text_def list_all_iff lit_def hexdigit_alphanumeric ascii_class_defs)
qed

lemma skeleton_nest:
  "list_all2 (\<lambda>a b. skeleton a = skeleton b) as bs \<Longrightarrow> skeleton x = skeleton y \<Longrightarrow>
     skeleton (nest_actions as x) = skeleton (nest_actions bs y)"
proof (induction as arbitrary: bs x y)
  case (Cons a as)
  then obtain b bs' where "bs = b # bs'" "skeleton a = skeleton b"
    "list_all2 (\<lambda>a b. skeleton a = skeleton b) as bs'" by (auto simp: list_all2_Cons1)
  with Cons show ?case by (simp add: dispatch_def)
qed simp

lemma skeleton_key_dispatchers:
  assumes "kc_mods c = kc_mods d" and "skeleton (kc_key c) = skeleton (kc_key d)"
  shows "list_all2 (\<lambda>a b. skeleton a = skeleton b) (shortcut_key_dispatchers c)
    (shortcut_key_dispatchers d)"
  using assms
  by (auto simp: shortcut_key_dispatchers_def key_state_dispatcher_def send_key_state_def quoted_def
      intro!: list_all2_appendI list_all2_refl)

definition chords_alike :: "key_chord \<Rightarrow> key_chord \<Rightarrow> bool" where
  "chords_alike c d \<longleftrightarrow> kc_mods c = kc_mods d \<and> (kc_key c = lit ''Z'' \<longleftrightarrow> kc_key d = lit ''Z'')"

lemma skeleton_last_actions:
  assumes "list_all2 (\<lambda>a b. skeleton a = skeleton b) as bs" and "as \<noteq> []"
  shows "skeleton (nest_actions (rev (butlast as)) (dispatch (last as) @ lit ''; return true''))
    = skeleton (nest_actions (rev (butlast bs)) (dispatch (last bs) @ lit ''; return true''))"
proof (rule skeleton_nest)
  have "bs \<noteq> []" using assms by auto
  with assms have "list_all2 (\<lambda>a b. skeleton a = skeleton b) (butlast as @ [last as]) (butlast bs @ [last bs])"
    by simp
  then have parts: "list_all2 (\<lambda>a b. skeleton a = skeleton b) (butlast as) (butlast bs)"
    "skeleton (last as) = skeleton (last bs)"
    using assms(1) by (auto simp: list_all2_append list_all2_lengthD)
  show "list_all2 (\<lambda>a b. skeleton a = skeleton b) (rev (butlast as)) (rev (butlast bs))"
    using parts(1) by (simp add: list_all2_rev)
  show "skeleton (dispatch (last as) @ lit ''; return true'')
    = skeleton (dispatch (last bs) @ lit ''; return true'')"
    using parts(2) by (simp add: dispatch_def)
qed

text \<open>
  C25: A remote command cannot bend the script it is put in. For two validated shortcuts of the same
  kind the script sent to Hyprland has the same quotes, brackets, spaces and operators in the same
  order: the texts of the request (key, window, restored window) stay inside the strings they are
  written into.
\<close>

theorem shortcut_script_skeleton:
  assumes "command_validate (SendShortcut c v) = Inr ()" "command_validate (SendShortcut d w) = Inr ()"
    and "chords_alike c d" and "same_shape v w"
    and "rel_option (\<lambda>a b. is_hypr_address a \<and> is_hypr_address b) r s"
  shows "skeleton (timed_shortcut_lua c v r) = skeleton (timed_shortcut_lua d w s)"
proof -
  have keys: "skeleton (kc_key c) = []" "skeleton (kc_key d) = []"
    and wins: "window_selector_validate v = Inr ()" "window_selector_validate w = Inr ()"
    using assms(1,2) by (auto simp: result_simps key_chord_validate_def skeleton_safe
        safe_key_token_text split: if_splits)
  have valid: "r = None \<and> s = None \<or> (\<exists>a b. r = Some a \<and> s = Some b \<and> is_hypr_address a \<and> is_hypr_address b)"
    using assms(5) by (cases r; cases s) simp_all
  have restore: "skeleton (restore_focus_dispatcher a) = skeleton (restore_focus_dispatcher [])"
    if "is_hypr_address a" for a
    using that by (simp add: restore_focus_dispatcher_def quoted_def skeleton_safe hypr_address_safe)
  have actions: "list_all2 (\<lambda>a b. skeleton a = skeleton b)
      (shortcut_key_dispatchers c @ (case r of None \<Rightarrow> [] | Some a \<Rightarrow> [restore_focus_dispatcher a]))
      (shortcut_key_dispatchers d @ (case s of None \<Rightarrow> [] | Some a \<Rightarrow> [restore_focus_dispatcher a]))"
  proof (rule list_all2_appendI)
    show "list_all2 (\<lambda>a b. skeleton a = skeleton b) (shortcut_key_dispatchers c) (shortcut_key_dispatchers d)"
      using assms(3) keys by (intro skeleton_key_dispatchers) (simp_all add: chords_alike_def)
  qed (use valid restore in auto)
  have tail: "skeleton (case r of None \<Rightarrow> [] | Some a \<Rightarrow> lit ''; '' @ dispatch (restore_focus_dispatcher a))
      = skeleton (case s of None \<Rightarrow> [] | Some a \<Rightarrow> lit ''; '' @ dispatch (restore_focus_dispatcher a))"
    using valid restore by (auto simp: dispatch_def)
  have focus: "skeleton (case v of ActiveWindow \<Rightarrow> [] | _ \<Rightarrow> dispatch (focus_dispatcher v) @ lit ''; '')
      = skeleton (case w of ActiveWindow \<Rightarrow> [] | _ \<Rightarrow> dispatch (focus_dispatcher w) @ lit ''; '')"
    using assms(4) skeleton_focus [OF wins assms(4)]
    by (cases v; cases w) (simp_all add: dispatch_def)
  have "shortcut_key_dispatchers c \<noteq> []" by (simp add: shortcut_key_dispatchers_def)
  with actions have long: "skeleton (nest_actions
      (rev (butlast (shortcut_key_dispatchers c @ (case r of None \<Rightarrow> [] | Some a \<Rightarrow> [restore_focus_dispatcher a]))))
      (dispatch (last (shortcut_key_dispatchers c @ (case r of None \<Rightarrow> [] | Some a \<Rightarrow> [restore_focus_dispatcher a])))
        @ lit ''; return true''))
    = skeleton (nest_actions
      (rev (butlast (shortcut_key_dispatchers d @ (case s of None \<Rightarrow> [] | Some a \<Rightarrow> [restore_focus_dispatcher a]))))
      (dispatch (last (shortcut_key_dispatchers d @ (case s of None \<Rightarrow> [] | Some a \<Rightarrow> [restore_focus_dispatcher a])))
        @ lit ''; return true''))"
    by (intro skeleton_last_actions) simp_all
  have mods: "modifiers_hypr c = modifiers_hypr d"
    using assms(3) by (simp add: chords_alike_def modifiers_hypr_def)
  show ?thesis
    using assms(3) keys tail focus long mods
    by (auto simp: timed_shortcut_lua_def Let_def chords_alike_def dispatch_def send_key_state_def
        quoted_def)
qed

theorem shortcut_script_skeleton_witness:
  "skeleton (timed_shortcut_lua \<lparr>kc_mods = [Ctrl], kc_key = lit ''F1''\<rparr> (WindowClass (lit ''a'')) None)
   = skeleton (timed_shortcut_lua \<lparr>kc_mods = [Ctrl], kc_key = lit ''q''\<rparr> (WindowClass (lit ''b.c'')) None)"
  by (rule shortcut_script_skeleton)
    (simp_all add: key_chord_validate_def is_safe_key_token_def is_safe_class_char_def lit_def
      ascii_class_defs chords_alike_def)

lemma capture_toggle_chord_eq:
  "capture_toggle_chord = \<lparr>kc_mods = [Ctrl, Alt, Shift], kc_key = lit ''Z''\<rparr>"
  by (simp add: capture_toggle_chord_def key_chord_new_def key_chord_validate_def
      is_safe_key_token_def sort_dedup_def less_eq_key_modifier_def lit_def ascii_class_defs)

text \<open>
  The same holds for the keybindings a session installs: their script has one skeleton for all
  valid windows of a kind and all controller endpoints, so neither the window a controller names
  nor its address can break out of the generated Lua and shell text.
\<close>

theorem install_script_skeleton:
  assumes "window_selector_validate v = Inr ()" "window_selector_validate w = Inr ()"
    and "same_shape v w" and "(ctl = None) = (ctl' = None)"
  shows "skeleton (install_lua debug role ctl v) = skeleton (install_lua debug role ctl' w)"
proof -
  note eqs = skeleton_selector [OF assms(1-3)] skeleton_focus [OF assms(1-3)]
  have cli: "rel_option (\<lambda>a b. skeleton a = skeleton b) (command_cli_invocation (CloseWindow v) e)
      (command_cli_invocation (CloseWindow w) e')"
    "rel_option (\<lambda>a b. skeleton a = skeleton b) (command_cli_invocation (SendShortcut c v) e)
      (command_cli_invocation (SendShortcut c w) e')" for c e e'
    using eqs by (simp_all add: command_cli_invocation_def Let_def skeleton_ip skeleton_nat)
  show ?thesis
  proof (cases role)
    case Controller
    with eqs show ?thesis
      by (simp add: install_lua_def session_keybinds_def capture_toggle_command_def
          controller_action_lua_def command_actions_def hyprctl_batch_argument_def Let_def
          bind_lua_def dispatch_def quoted_def)
  next
    case Remote
    show ?thesis
    proof (cases ctl)
      case None
      with assms(4) Remote show ?thesis
        by (simp add: install_lua_def session_keybinds_def)
    next
      case (Some e)
      with assms(4) obtain e' where "ctl' = Some e'" by auto
      with cli(1) [of e e'] cli(2) [of capture_toggle_chord e e'] Some Remote show ?thesis
        by (cases "command_cli_invocation (CloseWindow v) e";
            cases "command_cli_invocation (CloseWindow w) e'";
            cases "command_cli_invocation (SendShortcut capture_toggle_chord v) e";
            cases "command_cli_invocation (SendShortcut capture_toggle_chord w) e'")
          (simp_all add: install_lua_def session_keybinds_def capture_toggle_command_def
            remote_action_lua_def bind_lua_def quoted_def Let_def)
    qed
  qed
qed

theorem install_script_skeleton_witness:
  "skeleton (install_lua False Remote (Some example_controller) (WindowClass (lit ''a'')))
   = skeleton (install_lua False Remote (Some (example_controller\<lparr>ep_port := 80\<rparr>))
       (WindowClass (lit ''b.c'')))"
  by (rule install_script_skeleton) (simp_all add: is_safe_class_char_def lit_def ascii_class_defs)

end
