(* ===== verification/Authorize.thy ===== *)
theory Authorize
  imports HashMapModel Ports
begin

text \<open>
  \<open>crates/omdesky-agent/src/authorize.rs\<close>: who may send the agent which command. A request is
  refused when its source lies outside the tailnet, exceeds its token bucket, cannot be identified
  through the mesh network, is not on the allowlist, or lacks the capability. Identities and the
  allowlist are cached for a short time.

  The clocks read on the way are arguments. The token counts, \<open>f64\<close> in the source, are exact
  rationals here. \<open>tokio::time::timeout\<close> makes a call return \<open>None\<close> when the time is up.
\<close>

definition identity_cache_ttl :: duration where
  "identity_cache_ttl = from_secs 15"

definition identity_cache_capacity :: nat where
  "identity_cache_capacity = 512"

definition allowlist_cache_ttl :: duration where
  "allowlist_cache_ttl = from_secs 2"

definition rate_limit_burst :: rat where
  "rate_limit_burst = 60"

definition rate_limit_per_second :: rat where
  "rate_limit_per_second = 5"

definition rate_limit_tracked_sources :: nat where
  "rate_limit_tracked_sources = 1024"

record authorized_peer =
  ap_tailnet_node_id :: ustr
  ap_capabilities :: "control_capability list"

definition authorized_peer_allows :: "authorized_peer \<Rightarrow> control_capability \<Rightarrow> bool" where
  "authorized_peer_allows p capability \<longleftrightarrow> List.member (ap_capabilities p) capability"

datatype authorization_error =
    AuthRateLimited | AuthUnavailable | AuthUnauthorized | AuthForbidden
  | AuthAccessStoreFailed | AuthOutsideTailnet

record cached_identity =
  ci_tailnet_node_id :: ustr
  ci_resolved_at :: instant

record cached_allowlist =
  ca_entries :: "allowed_controller list"
  ca_read_at :: instant

section \<open>The rate limiter\<close>

record bucket =
  bk_tokens :: rat
  bk_updated_at :: instant

record rate_limiter =
  lim_buckets :: "(ip_addr, bucket) hash_map"
  lim_burst :: rat
  lim_per_second :: rat
  lim_capacity :: nat

definition rate_limiter_new :: "rat \<Rightarrow> rat \<Rightarrow> nat \<Rightarrow> rate_limiter" where
  "rate_limiter_new burst per_second capacity =
     \<lparr>lim_buckets = hm_empty, lim_burst = burst, lim_per_second = per_second,
      lim_capacity = capacity\<rparr>"

definition as_secs_f64 :: "duration \<Rightarrow> rat" where
  "as_secs_f64 d = of_nat d / of_nat nanos_per_sec"

definition limiter_prune :: "instant \<Rightarrow> rate_limiter \<Rightarrow> rate_limiter" where
  "limiter_prune now l = l\<lparr>lim_buckets := hm_retain
     (\<lambda>_ b. bk_tokens b + as_secs_f64 (now - bk_updated_at b) * lim_per_second l < lim_burst l)
     (lim_buckets l)\<rparr>"

definition limiter_full :: "ip_addr \<Rightarrow> rate_limiter \<Rightarrow> bool" where
  "limiter_full source l \<longleftrightarrow>
     hm_len (lim_buckets l) \<ge> lim_capacity l \<and> hm_get (lim_buckets l) source = None"

definition limiter_admit :: "ip_addr \<Rightarrow> instant \<Rightarrow> rate_limiter \<Rightarrow> bool \<times> rate_limiter" where
  "limiter_admit source now l =
     (let l1 = (if limiter_full source l then limiter_prune now l else l)
      in if limiter_full source l1 then (False, l1)
         else
           let b = unwrap_or (hm_get (lim_buckets l1) source)
                 \<lparr>bk_tokens = lim_burst l1, bk_updated_at = now\<rparr>;
               elapsed = as_secs_f64 (now - bk_updated_at b);
               tokens = min (bk_tokens b + elapsed * lim_per_second l1) (lim_burst l1)
           in if tokens < 1
              then (False, l1\<lparr>lim_buckets := hm_insert source
                     \<lparr>bk_tokens = tokens, bk_updated_at = now\<rparr> (lim_buckets l1)\<rparr>)
              else (True, l1\<lparr>lim_buckets := hm_insert source
                     \<lparr>bk_tokens = tokens - 1, bk_updated_at = now\<rparr> (lim_buckets l1)\<rparr>))"

section \<open>The authorizer\<close>

record authorizer =
  au_identities :: "(ip_addr, cached_identity) hash_map"
  au_allowlist :: "cached_allowlist option"
  au_limiter :: rate_limiter
  au_strict_tailnet_only :: bool

definition authorizer_new :: "bool \<Rightarrow> authorizer" where
  "authorizer_new strict =
     \<lparr>au_identities = hm_empty, au_allowlist = None,
      au_limiter = rate_limiter_new rate_limit_burst rate_limit_per_second
        rate_limit_tracked_sources,
      au_strict_tailnet_only = strict\<rparr>"

text \<open>
  The ports: acquiring a permit of the lookup semaphore and identifying a source, both under a
  timeout, and reading the allowlist.
\<close>

record 'w auth_ports =
  port_acquire :: "('w, (unit + unit) option) call"
  port_identify :: "ip_addr \<Rightarrow> ('w, mesh_node_identity option port_result option) call"
  port_list :: "('w, allowed_controller list port_result) call"

record auth_clock =
  clk_limit :: instant
  clk_identify :: instant
  clk_allowlist :: instant

definition remember_identity :: "instant \<Rightarrow> ip_addr \<Rightarrow> ustr \<Rightarrow> authorizer \<Rightarrow> authorizer" where
  "remember_identity now source node a =
     (let ids = (if hm_len (au_identities a) \<ge> identity_cache_capacity
            then hm_retain (\<lambda>_ c. now - ci_resolved_at c < identity_cache_ttl) (au_identities a)
            else au_identities a)
      in a\<lparr>au_identities :=
           if hm_len ids < identity_cache_capacity
           then hm_insert source \<lparr>ci_tailnet_node_id = node, ci_resolved_at = now\<rparr> ids
           else ids\<rparr>)"

definition lookup_identity ::
    "'w auth_ports \<Rightarrow> ip_addr \<Rightarrow> ('w, authorization_error + mesh_node_identity) call" where
  "lookup_identity ports source = (\<lambda>w.
     case port_acquire ports w of
       (None, w1) \<Rightarrow> (Inl AuthUnavailable, w1)
     | (Some (Inl _), w1) \<Rightarrow> (Inl AuthUnavailable, w1)
     | (Some (Inr _), w1) \<Rightarrow>
         (case port_identify ports source w1 of
            (None, w2) \<Rightarrow> (Inl AuthUnavailable, w2)
          | (Some (Inl _), w2) \<Rightarrow> (Inl AuthUnauthorized, w2)
          | (Some (Inr None), w2) \<Rightarrow> (Inl AuthUnauthorized, w2)
          | (Some (Inr (Some identity)), w2) \<Rightarrow> (Inr identity, w2)))"

definition cached_identity_of :: "instant \<Rightarrow> ip_addr \<Rightarrow> authorizer \<Rightarrow> ustr option" where
  "cached_identity_of now source a =
     (case hm_get (au_identities a) source of
        None \<Rightarrow> None
      | Some c \<Rightarrow> if now - ci_resolved_at c < identity_cache_ttl
          then Some (ci_tailnet_node_id c) else None)"

definition auth_identify ::
    "'w auth_ports \<Rightarrow> instant \<Rightarrow> ip_addr \<Rightarrow> authorizer \<Rightarrow> 'w
       \<Rightarrow> (authorization_error + ustr) \<times> authorizer \<times> 'w" where
  "auth_identify ports now source a w =
     (case cached_identity_of now source a of
        Some node \<Rightarrow> (Inr node, a, w)
      | None \<Rightarrow>
          (case lookup_identity ports source w of
             (Inl e, w1) \<Rightarrow> (Inl e, a, w1)
           | (Inr identity, w1) \<Rightarrow>
               if mni_tailnet_node_id identity = [] then (Inl AuthUnauthorized, a, w1)
               else (Inr (mni_tailnet_node_id identity),
                     remember_identity now source (mni_tailnet_node_id identity) a, w1)))"

definition cached_allowlist_of :: "instant \<Rightarrow> authorizer \<Rightarrow> allowed_controller list option" where
  "cached_allowlist_of now a =
     (case au_allowlist a of
        None \<Rightarrow> None
      | Some c \<Rightarrow> if now - ca_read_at c < allowlist_cache_ttl then Some (ca_entries c) else None)"

definition auth_allowlist ::
    "'w auth_ports \<Rightarrow> instant \<Rightarrow> authorizer \<Rightarrow> 'w
       \<Rightarrow> (authorization_error + allowed_controller list) \<times> authorizer \<times> 'w" where
  "auth_allowlist ports now a w =
     (case cached_allowlist_of now a of
        Some entries \<Rightarrow> (Inr entries, a, w)
      | None \<Rightarrow>
          (case port_list ports w of
             (Inl _, w1) \<Rightarrow> (Inl AuthAccessStoreFailed, a, w1)
           | (Inr entries, w1) \<Rightarrow>
               (Inr entries, a\<lparr>au_allowlist := Some \<lparr>ca_entries = entries, ca_read_at = now\<rparr>\<rparr>, w1)))"

definition authenticate ::
    "'w auth_ports \<Rightarrow> auth_clock \<Rightarrow> ip_addr \<Rightarrow> authorizer \<Rightarrow> 'w
       \<Rightarrow> (authorization_error + authorized_peer) \<times> authorizer \<times> 'w" where
  "authenticate ports clk source a w =
     (if au_strict_tailnet_only a \<and> \<not> is_tailscale_address source
      then (Inl AuthOutsideTailnet, a, w)
      else case limiter_admit source (clk_limit clk) (au_limiter a) of
        (admitted, l) \<Rightarrow>
          (let a1 = a\<lparr>au_limiter := l\<rparr>
           in if \<not> admitted then (Inl AuthRateLimited, a1, w)
           else case auth_identify ports (clk_identify clk) source a1 w of
             (Inl e, a2, w2) \<Rightarrow> (Inl e, a2, w2)
           | (Inr node, a2, w2) \<Rightarrow>
               (case auth_allowlist ports (clk_allowlist clk) a2 w2 of
                  (Inl e, a3, w3) \<Rightarrow> (Inl e, a3, w3)
                | (Inr allowlist, a3, w3) \<Rightarrow>
                    (case find (\<lambda>entry. ac_tailnet_node_id entry = node) allowlist of
                       None \<Rightarrow> (Inl AuthUnauthorized, a3, w3)
                     | Some entry \<Rightarrow>
                         (Inr \<lparr>ap_tailnet_node_id = ac_tailnet_node_id entry,
                               ap_capabilities = ac_capabilities entry\<rparr>, a3, w3)))))"

definition authorize ::
    "'w auth_ports \<Rightarrow> auth_clock \<Rightarrow> ip_addr \<Rightarrow> control_capability \<Rightarrow> authorizer \<Rightarrow> 'w
       \<Rightarrow> (authorization_error + authorized_peer) \<times> authorizer \<times> 'w" where
  "authorize ports clk source required a w =
     (case authenticate ports clk source a w of
        (Inl e, a', w') \<Rightarrow> (Inl e, a', w')
      | (Inr peer, a', w') \<Rightarrow>
          if \<not> List.member (ap_capabilities peer) required then (Inl AuthForbidden, a', w')
          else (Inr peer, a', w'))"

section \<open>Table sizes\<close>

definition limiter_invar :: "rate_limiter \<Rightarrow> bool" where
  "limiter_invar l \<longleftrightarrow> hm_invar (lim_buckets l) \<and> hm_len (lim_buckets l) \<le> lim_capacity l
     \<and> 0 \<le> lim_per_second l \<and> 1 \<le> lim_burst l
     \<and> (\<forall>s b. hm_get (lim_buckets l) s = Some b \<longrightarrow>
          0 \<le> bk_tokens b \<and> bk_tokens b \<le> lim_burst l)"

definition authorizer_invar :: "authorizer \<Rightarrow> bool" where
  "authorizer_invar a \<longleftrightarrow> limiter_invar (au_limiter a)
     \<and> hm_invar (au_identities a) \<and> hm_len (au_identities a) \<le> identity_cache_capacity
     \<and> (\<forall>s c. hm_get (au_identities a) s = Some c \<longrightarrow> ci_tailnet_node_id c \<noteq> [])"

lemma as_secs_f64_nonneg [simp]: "0 \<le> as_secs_f64 d"
  by (simp add: as_secs_f64_def nanos_per_sec_def)

lemma as_secs_f64_0 [simp]: "as_secs_f64 0 = 0"
  by (simp add: as_secs_f64_def)

lemma as_secs_f64_add: "as_secs_f64 (a + b) = as_secs_f64 a + as_secs_f64 b"
  by (simp add: as_secs_f64_def add_divide_distrib)

lemma limiter_frame:
  "lim_burst (snd (limiter_admit s t l)) = lim_burst l"
  "lim_per_second (snd (limiter_admit s t l)) = lim_per_second l"
  "lim_capacity (snd (limiter_admit s t l)) = lim_capacity l"
  by (simp_all add: limiter_admit_def limiter_prune_def Let_def)

lemma limiter_prune_invar: "limiter_invar l \<Longrightarrow> limiter_invar (limiter_prune t l)"
  by (auto simp: limiter_invar_def limiter_prune_def hm.invar_retain hm.capped_retain
      hm.get_retain_Some)


section \<open>Tokens\<close>

text \<open>
  What a source could spend at an instant. A missing bucket counts as a full one, so pruning full
  buckets changes nothing.
\<close>

definition available :: "ip_addr \<Rightarrow> instant \<Rightarrow> rate_limiter \<Rightarrow> rat" where
  "available source now l =
     (case hm_get (lim_buckets l) source of
        None \<Rightarrow> lim_burst l
      | Some b \<Rightarrow> min (bk_tokens b + as_secs_f64 (now - bk_updated_at b) * lim_per_second l)
          (lim_burst l))"

lemma available_le_burst: "available s t l \<le> lim_burst l"
  by (simp add: available_def split: option.splits)

lemma available_nonneg: "limiter_invar l \<Longrightarrow> 0 \<le> available s t l"
  by (auto simp: available_def limiter_invar_def split: option.splits)

lemma available_prune: "limiter_invar l \<Longrightarrow> available s t (limiter_prune t l) = available s t l"
  by (auto simp: available_def limiter_prune_def limiter_invar_def hm.get_retain
      split: option.splits)

lemma elapsed_split:
  assumes p: "0 \<le> (p :: rat)" and t: "t \<le> t'"
  shows "as_secs_f64 (t' - u) * p \<le> as_secs_f64 (t - u) * p + as_secs_f64 (t' - t) * p"
proof -
  have "t' - u \<le> (t - u) + (t' - t)" using t by simp
  then have "as_secs_f64 (t' - u) \<le> as_secs_f64 ((t - u) + (t' - t))"
    unfolding as_secs_f64_def by (intro divide_right_mono) (simp_all only: of_nat_le_iff of_nat_0_le_iff)
  then have "as_secs_f64 (t' - u) * p \<le> (as_secs_f64 (t - u) + as_secs_f64 (t' - t)) * p"
    using p by (simp only: as_secs_f64_add mult_right_mono)
  then show ?thesis by (simp only: distrib_right)
qed

lemma available_growth:
  assumes "0 \<le> lim_per_second l" and "t \<le> t'"
  shows "available s t' l \<le> available s t l + as_secs_f64 (t' - t) * lim_per_second l"
proof -
  let ?d = "as_secs_f64 (t' - t) * lim_per_second l"
  have d: "0 \<le> ?d" using assms(1) by simp
  show ?thesis
  proof (cases "hm_get (lim_buckets l) s")
    case None
    with d show ?thesis by (simp add: available_def)
  next
    case (Some b)
    have "as_secs_f64 (t' - bk_updated_at b) * lim_per_second l
        \<le> as_secs_f64 (t - bk_updated_at b) * lim_per_second l + ?d"
      by (rule elapsed_split [OF assms])
    with d Some show ?thesis by (simp add: available_def min_def)
  qed
qed

text \<open>One request, in terms of the tokens available.\<close>

definition limiter_ready :: "ip_addr \<Rightarrow> instant \<Rightarrow> rate_limiter \<Rightarrow> rate_limiter" where
  "limiter_ready source now l = (if limiter_full source l then limiter_prune now l else l)"

definition spend :: "ip_addr \<Rightarrow> instant \<Rightarrow> rat \<Rightarrow> rate_limiter \<Rightarrow> rate_limiter" where
  "spend source now left l = l\<lparr>lim_buckets := hm_insert source
     \<lparr>bk_tokens = left, bk_updated_at = now\<rparr> (lim_buckets l)\<rparr>"

lemma limiter_admit_eq:
  "limiter_admit s t l =
     (let l1 = limiter_ready s t l; n = available s t l1
      in if limiter_full s l1 then (False, l1)
         else if n < 1 then (False, spend s t n l1) else (True, spend s t (n - 1) l1))"
  by (cases "hm_get (lim_buckets (limiter_ready s t l)) s")
    (simp_all add: limiter_admit_def limiter_ready_def [symmetric] Let_def available_def spend_def)

lemma limiter_ready_invar: "limiter_invar l \<Longrightarrow> limiter_invar (limiter_ready s t l)"
  by (simp add: limiter_ready_def limiter_prune_invar)

lemma available_ready: "limiter_invar l \<Longrightarrow> available s' t (limiter_ready s t l) = available s' t l"
  by (simp add: limiter_ready_def available_prune)

lemma available_spend:
  "available s' t (spend s t n l) = (if s' = s then min n (lim_burst l) else available s' t l)"
  by (simp add: available_def spend_def hm.get_insert split: option.splits)

lemma spend_invar:
  assumes "limiter_invar l" and "\<not> limiter_full s l" and "0 \<le> n" and "n \<le> lim_burst l"
  shows "limiter_invar (spend s t n l)"
  using assms
  by (auto simp: limiter_invar_def spend_def limiter_full_def hm.invar_insert hm.get_insert
      hm.size_insert split: if_splits)

lemma limiter_admit_invar: "limiter_invar l \<Longrightarrow> limiter_invar (snd (limiter_admit s t l))"
  using limiter_ready_invar [of l] available_nonneg [of "limiter_ready s t l" s t]
    available_le_burst [of s t "limiter_ready s t l"]
  by (auto simp: limiter_admit_eq Let_def intro!: spend_invar)

lemma limiter_admit_spends:
  assumes "limiter_invar l"
  shows "available s' t (snd (limiter_admit s t l)) + (if fst (limiter_admit s t l) \<and> s' = s then 1 else 0)
    \<le> available s' t l"
  using available_ready [OF assms, of s' t s]
  by (auto simp: limiter_admit_eq Let_def available_spend)

text \<open>A source with a whole token left is served, unless the table of sources is full.\<close>

lemma limiter_admit_serves:
  assumes "limiter_invar l" and "1 \<le> available s t l"
    and "hm_len (lim_buckets l) < lim_capacity l \<or> hm_get (lim_buckets l) s \<noteq> None"
  shows "fst (limiter_admit s t l)"
  using assms by (auto simp: limiter_admit_eq Let_def limiter_ready_def limiter_full_def)

section \<open>A run of requests\<close>

fun limiter_run :: "(ip_addr \<times> instant) list \<Rightarrow> rate_limiter \<Rightarrow> bool list \<times> rate_limiter" where
  "limiter_run [] l = ([], l)"
| "limiter_run ((s, t) # reqs) l =
     (case limiter_admit s t l of
        (ok, l1) \<Rightarrow> (case limiter_run reqs l1 of (oks, l2) \<Rightarrow> (ok # oks, l2)))"

definition admitted_of :: "ip_addr \<Rightarrow> (ip_addr \<times> instant) list \<Rightarrow> bool list \<Rightarrow> nat" where
  "admitted_of s reqs oks = length (filter (\<lambda>(r, ok). fst r = s \<and> ok) (zip reqs oks))"

lemma limiter_run_bound:
  assumes "limiter_invar l" and "sorted (t0 # map snd reqs)"
    and "\<forall>r\<in>set reqs. snd r \<le> t1" and "t0 \<le> t1"
  shows "of_nat (admitted_of s reqs (fst (limiter_run reqs l)))
    \<le> available s t0 l + as_secs_f64 (t1 - t0) * lim_per_second l"
  using assms
proof (induction reqs arbitrary: l t0)
  case Nil
  then show ?case
    using available_nonneg [OF Nil(1)] by (simp add: admitted_of_def limiter_invar_def)
next
  case (Cons r reqs)
  obtain src t where r: "r = (src, t)" by (cases r)
  let ?l = "snd (limiter_admit src t l)"
  have t: "t0 \<le> t" "t \<le> t1" and p: "0 \<le> lim_per_second l"
    using Cons.prems r by (simp_all add: limiter_invar_def)
  let ?one = "if fst (limiter_admit src t l) \<and> s = src then 1 else 0"
  have "of_nat (admitted_of s reqs (fst (limiter_run reqs ?l)))
      \<le> available s t ?l + as_secs_f64 (t1 - t) * lim_per_second ?l"
    by (rule Cons.IH) (use Cons.prems r t in \<open>auto intro: limiter_admit_invar\<close>)
  moreover have "available s t ?l + ?one \<le> available s t l"
    by (rule limiter_admit_spends [OF Cons.prems(1)])
  moreover have "available s t l \<le> available s t0 l + as_secs_f64 (t - t0) * lim_per_second l"
    by (rule available_growth [OF p t(1)])
  moreover have "as_secs_f64 (t1 - t0) = as_secs_f64 (t - t0) + as_secs_f64 (t1 - t)"
    using t by (simp flip: as_secs_f64_add)
  moreover have "of_nat (admitted_of s (r # reqs) (fst (limiter_run (r # reqs) l)))
      = of_nat (admitted_of s reqs (fst (limiter_run reqs ?l))) + (?one :: rat)"
    using r by (auto simp: admitted_of_def split: prod.splits)
  ultimately show ?case
    by (simp add: limiter_frame distrib_right)
qed

section \<open>Authentication\<close>

lemma remember_identity_invar:
  assumes "authorizer_invar a" and "node \<noteq> []"
  shows "authorizer_invar (remember_identity now source node a)"
proof -
  define ids where "ids = (if hm_len (au_identities a) \<ge> identity_cache_capacity
    then hm_retain (\<lambda>_ c. now - ci_resolved_at c < identity_cache_ttl) (au_identities a)
    else au_identities a)"
  have ids: "hm_invar ids" "hm_len ids \<le> identity_cache_capacity"
    "\<And>s c. hm_get ids s = Some c \<Longrightarrow> ci_tailnet_node_id c \<noteq> []"
    using assms(1)
    by (auto simp: ids_def authorizer_invar_def hm.invar_retain hm.capped_retain
        hm.get_retain_Some split: if_splits)
  have "remember_identity now source node a = a\<lparr>au_identities :=
      if hm_len ids < identity_cache_capacity
      then hm_insert source \<lparr>ci_tailnet_node_id = node, ci_resolved_at = now\<rparr> ids else ids\<rparr>"
    by (simp add: remember_identity_def Let_def ids_def)
  with assms ids show ?thesis
    by (auto simp: authorizer_invar_def hm.invar_insert hm.capped_insert hm.get_insert
        split: if_splits)
qed

lemma authenticate_invar:
  assumes "authorizer_invar a"
  shows "authorizer_invar (fst (snd (authenticate ports clk source a w)))"
proof -
  note rem = remember_identity_invar
  have ident: "authorizer_invar (fst (snd (auth_identify ports now s b v)))"
    if "authorizer_invar b" for now s and b :: authorizer and v
    using that rem
    by (auto simp: auth_identify_def split: option.splits prod.splits sum.splits)
  have allow: "authorizer_invar (fst (snd (auth_allowlist ports now b v)))"
    if "authorizer_invar b" for now and b :: authorizer and v
    using that
    by (auto simp: auth_allowlist_def authorizer_invar_def split: option.splits prod.splits sum.splits)
  have lim: "authorizer_invar (a\<lparr>au_limiter := snd (limiter_admit source (clk_limit clk) (au_limiter a))\<rparr>)"
    using assms by (simp add: authorizer_invar_def limiter_admit_invar)
  show ?thesis
    using assms lim ident [of _ "clk_identify clk" source w] allow [of _ "clk_allowlist clk"]
    by (auto simp: authenticate_def Let_def split: prod.splits sum.splits option.splits)
      (metis fst_conv snd_conv)+
qed

lemma authenticate_capacity:
  "lim_capacity (au_limiter (fst (snd (authenticate ports clk source a w)))) = lim_capacity (au_limiter a)"
  using limiter_frame(3) [of source "clk_limit clk" "au_limiter a"]
  by (auto simp: authenticate_def auth_identify_def auth_allowlist_def remember_identity_def Let_def
      split: prod.splits sum.splits option.splits)

section \<open>Correctness\<close>

text \<open>
  C14: Token bucket. However requests of all sources are interleaved and the table of sources is
  pruned, one source is admitted at most \<open>burst + rate * elapsed\<close> times between two instants: with
  the agent's constants 60 requests plus five per second.
\<close>

theorem token_bucket_bound:
  assumes "limiter_invar l" and "sorted (t0 # map snd reqs)" and "\<forall>r\<in>set reqs. snd r \<le> t1"
    and "t0 \<le> t1"
  shows "of_nat (admitted_of s reqs (fst (limiter_run reqs l)))
    \<le> lim_burst l + as_secs_f64 (t1 - t0) * lim_per_second l"
  using limiter_run_bound [OF assms, of s] available_le_burst [of s t0 l] by linarith

definition example_limiter :: rate_limiter where
  "example_limiter = rate_limiter_new 2 1 4"

lemma example_limiter_invar: "limiter_invar example_limiter"
  by (simp add: limiter_invar_def example_limiter_def rate_limiter_new_def hm.invar_empty
      hm.size_empty hm.get_empty)

theorem token_bucket_bound_witness:
  "of_nat (admitted_of (V4 100 64 0 2) (replicate 4 (V4 100 64 0 2, 0))
     (fst (limiter_run (replicate 4 (V4 100 64 0 2, 0)) example_limiter))) \<le> (2 :: rat)"
  using token_bucket_bound [OF example_limiter_invar, of 0 "replicate 4 (V4 100 64 0 2, 0)" 0
      "V4 100 64 0 2"]
  by (simp add: example_limiter_def rate_limiter_new_def numeral_eq_Suc)

text \<open>
  Honest sources are served. A source with a token left is admitted whenever it is already
  tracked or the table has room; pruning the table never changes what any source may spend.
\<close>

theorem limiter_serves_with_token:
  assumes "limiter_invar l" and "1 \<le> available s t l"
    and "hm_len (lim_buckets l) < lim_capacity l \<or> hm_get (lim_buckets l) s \<noteq> None"
  shows "fst (limiter_admit s t l) \<and> available s' t (limiter_prune t l) = available s' t l"
  using limiter_admit_serves [OF assms] available_prune [OF assms(1)] by simp

theorem limiter_serves_with_token_witness: "fst (limiter_admit (V4 100 64 0 2) 7 example_limiter)"
  using limiter_serves_with_token [OF example_limiter_invar, of "V4 100 64 0 2" 7]
  by (simp add: example_limiter_def rate_limiter_new_def available_def hm.get_empty hm.size_empty)

lemma auth_identify_Ok:
  assumes "auth_identify ports now source a w = (Inr node, a', w')"
  shows "(cached_identity_of now source a = Some node
      \<or> (\<exists>w1 identity. port_identify ports source w1 = (Some (Inr (Some identity)), w')
           \<and> mni_tailnet_node_id identity = node \<and> node \<noteq> []))
    \<and> au_allowlist a' = au_allowlist a"
  using assms
  by (auto simp: auth_identify_def lookup_identity_def remember_identity_def Let_def
      split: option.splits prod.splits sum.splits if_splits)

lemma auth_allowlist_Ok:
  assumes "auth_allowlist ports now a w = (Inr entries, a', w')"
  shows "cached_allowlist_of now a = Some entries \<or> port_list ports w = (Inr entries, w')"
  using assms by (auto simp: auth_allowlist_def split: option.splits prod.splits sum.splits)

lemma cached_allowlist_cong:
  "au_allowlist a = au_allowlist b \<Longrightarrow> cached_allowlist_of now a = cached_allowlist_of now b"
  by (simp add: cached_allowlist_of_def)

text \<open>
  C12: Nobody is authorised by accident. An authorised request came from the tailnet (when only the
  tailnet is allowed), was within its source's rate, was identified by the mesh network now or
  within the cache's time, and the identified device has an entry, in the allowlist read now or
  within the cache's time, that grants the required capability; the peer handed to the handler is
  that entry.
\<close>

theorem authorize_sound:
  assumes "authorize ports clk source required a w = (Inr peer, a', w')"
  shows "(au_strict_tailnet_only a \<longrightarrow> is_tailscale_address source)
    \<and> fst (limiter_admit source (clk_limit clk) (au_limiter a))
    \<and> (cached_identity_of (clk_identify clk) source a = Some (ap_tailnet_node_id peer)
       \<or> (\<exists>w1 w2 identity. port_identify ports source w1 = (Some (Inr (Some identity)), w2)
            \<and> mni_tailnet_node_id identity = ap_tailnet_node_id peer
            \<and> ap_tailnet_node_id peer \<noteq> []))
    \<and> (\<exists>entries entry.
         (cached_allowlist_of (clk_allowlist clk) a = Some entries
            \<or> (\<exists>w1 w2. port_list ports w1 = (Inr entries, w2)))
         \<and> entry \<in> set entries \<and> ac_tailnet_node_id entry = ap_tailnet_node_id peer
         \<and> ac_capabilities entry = ap_capabilities peer \<and> required \<in> set (ac_capabilities entry))"
proof -
  from assms have auth: "authenticate ports clk source a w = (Inr peer, a', w')"
    and cap: "required \<in> set (ap_capabilities peer)"
    by (auto simp: authorize_def split: prod.splits sum.splits if_splits)
  obtain ok l where lim: "limiter_admit source (clk_limit clk) (au_limiter a) = (ok, l)" by fastforce
  let ?a = "a\<lparr>au_limiter := l\<rparr>"
  have cached: "cached_identity_of now source ?a = cached_identity_of now source a" for now
    by (simp add: cached_identity_of_def)
  from auth lim obtain node a2 w2 entries entry where
    strict: "au_strict_tailnet_only a \<longrightarrow> is_tailscale_address source" and ok
    and ident: "auth_identify ports (clk_identify clk) source ?a w = (Inr node, a2, w2)"
    and allow: "auth_allowlist ports (clk_allowlist clk) a2 w2 = (Inr entries, a', w')"
    and entry: "find (\<lambda>e. ac_tailnet_node_id e = node) entries = Some entry"
    and peer: "peer = \<lparr>ap_tailnet_node_id = ac_tailnet_node_id entry,
      ap_capabilities = ac_capabilities entry\<rparr>"
    by (auto simp: authenticate_def Let_def split: if_splits prod.splits sum.splits option.splits)
  have "cached_allowlist_of (clk_allowlist clk) a2 = cached_allowlist_of (clk_allowlist clk) a"
    using auth_identify_Ok [OF ident] by (auto intro: cached_allowlist_cong)
  then show ?thesis
    using strict \<open>ok\<close> lim auth_identify_Ok [OF ident] auth_allowlist_Ok [OF allow]
      find_SomeD [OF entry] peer cap cached by auto
qed

definition example_ports :: "nat auth_ports" where
  "example_ports =
     \<lparr>port_acquire = (\<lambda>w. (Some (Inr ()), w)),
      port_identify = (\<lambda>_ w. (Some (Inr (Some \<lparr>mni_tailnet_node_id = lit ''n1'', mni_user = None,
         mni_hostname = None, mni_addresses = []\<rparr>)), w)),
      port_list = (\<lambda>w. (Inr [allowed_controller_new (lit ''n1'') None 0 capability_all], w))\<rparr>"

definition example_clock :: auth_clock where
  "example_clock = \<lparr>clk_limit = 0, clk_identify = 0, clk_allowlist = 0\<rparr>"

theorem authorize_sound_witness:
  "\<exists>entries entry. (cached_allowlist_of 0 (authorizer_new True) = Some entries
      \<or> (\<exists>w1 w2. port_list example_ports w1 = (Inr entries, w2)))
    \<and> entry \<in> set entries \<and> CapSendShortcut \<in> set (ac_capabilities entry)"
proof -
  let ?r = "authorize example_ports example_clock (V4 100 64 0 2) CapSendShortcut
    (authorizer_new True) 0"
  have "?r = (Inr \<lparr>ap_tailnet_node_id = lit ''n1'', ap_capabilities = capability_all\<rparr>,
      fst (snd ?r), snd (snd ?r))"
    by code_simp
  from authorize_sound [OF this] show ?thesis by (auto simp: example_clock_def)
qed

text \<open>
  The tables the agent keeps about its clients stay bounded whatever arrives: authenticating
  a request keeps at most 512 cached identities and the limiter within its capacity, and never
  caches an empty identity.
\<close>

theorem authenticate_bounded:
  assumes "authorizer_invar a" and "authenticate ports clk source a w = (r, a', w')"
  shows "hm_len (au_identities a') \<le> 512
    \<and> hm_len (lim_buckets (au_limiter a')) \<le> lim_capacity (au_limiter a')
    \<and> hm_get (au_identities a') s \<noteq> Some \<lparr>ci_tailnet_node_id = [], ci_resolved_at = t\<rparr>"
  using authenticate_invar [OF assms(1), of ports clk source w] assms(2)
  by (auto simp: authorizer_invar_def limiter_invar_def identity_cache_capacity_def
      dest!: spec [of _ s])

theorem authenticate_bounded_witness:
  "hm_len (au_identities (fst (snd (authenticate example_ports example_clock (V4 100 64 0 2)
     (authorizer_new True) 0)))) \<le> 512"
proof -
  have "authorizer_invar (authorizer_new True)"
    by (simp add: authorizer_invar_def authorizer_new_def limiter_invar_def rate_limiter_new_def
        hm.invar_empty hm.size_empty hm.get_empty rate_limit_burst_def rate_limit_per_second_def)
  from authenticate_bounded [OF this, of example_ports example_clock "V4 100 64 0 2" 0 _ _ _ "V4 0 0 0 0" 0]
  show ?thesis by (metis prod.collapse)
qed

end
