(* ===== verification/DisplaySwitch.thy ===== *)
theory DisplaySwitch
  imports Keybinds
begin

text \<open>
  \<open>crates/omdesky-platform/src/display.rs\<close>: the displays of the remote desktop as the topology the
  router works on, the controller's side of a display switch (the Sunshine shortcut
  \<open>Ctrl+Alt+Shift+F<n>\<close> for the n-th display) and the remote side (a command sent to the
  controller's agent), where Hyprland's event socket is looked for, and the tests on its events. The
  task that reads it is in the theory \<open>FollowSupervisor\<close>.
\<close>

definition sunshine_max_switch_displays :: nat where
  "sunshine_max_switch_displays = 13"

definition focus_event_prefixes :: "ustr list" where
  "focus_event_prefixes =
     [lit ''focusedmon'', lit ''workspace'', lit ''workspacev2'', lit ''moveworkspace'',
      lit ''moveworkspacev2'', lit ''monitoradded'', lit ''monitoraddedv2'',
      lit ''monitorremoved'', lit ''configreloaded'']"

section \<open>The remote side\<close>

definition hyprland_topology ::
    "('w, display list port_result) call \<Rightarrow> ('w, topology port_result) call" where
  "hyprland_topology desktop_displays =
     call_then desktop_displays (\<lambda>displays. returning (Inr (topology_from_displays displays)))"

definition moonlight_current_display ::
    "('w, display list port_result) call \<Rightarrow> ('w, display_id port_result) call" where
  "moonlight_current_display desktop_displays =
     call_then desktop_displays (\<lambda>displays.
       returning (ok_or (topology_preferred (topology_from_displays displays))
         (port_error_new (lit ''DISPLAY_NOT_FOUND'') (lit ''no displays available'') False)))"

definition moonlight_switch_display ::
    "(agent_endpoint \<Rightarrow> command_request \<Rightarrow> ('w, command_response port_result) call)
       \<Rightarrow> agent_endpoint \<Rightarrow> uuid \<Rightarrow> offset_date_time \<Rightarrow> display_id
       \<Rightarrow> ('w, unit port_result) call" where
  "moonlight_switch_display send_command controller fresh now display =
     (case display_id_validate display of
        Inl e \<Rightarrow> returning (Inl (invalid_command_error e))
      | Inr _ \<Rightarrow>
          call_then (send_command controller
              (command_request_new fresh now (SwitchStreamDisplay display)))
            (\<lambda>_. returning (Inr ())))"

section \<open>The controller's side\<close>

fun position :: "('a \<Rightarrow> bool) \<Rightarrow> 'a list \<Rightarrow> nat option" where
  "position P [] = None"
| "position P (x # xs) = (if P x then Some 0 else map_option Suc (position P xs))"

definition display_switch_index :: "display list \<Rightarrow> display_id \<Rightarrow> nat option" where
  "display_switch_index displays target = position (\<lambda>d. d_id d = display_id_str target) displays"

definition display_switch_shortcut :: "nat \<Rightarrow> remote_command port_result" where
  "display_switch_shortcut index =
     (if index \<ge> sunshine_max_switch_displays then
        Inl (port_error_new (lit ''DISPLAY_NOT_FOUND'')
          (lit ''display index is beyond Sunshine's switchable range'') False)
      else
        try_then
          (map_err invalid_command_error
             (key_chord_new [Ctrl, Alt, Shift] (lit ''F'' @ show_nat (index + 1))))
          (\<lambda>chord. Inr (SendShortcut chord (WindowClass moonlight_window_class))))"

definition resolve_display_switch_shortcut ::
    "display list \<Rightarrow> display_id \<Rightarrow> remote_command port_result" where
  "resolve_display_switch_shortcut displays target =
     try_then
       (ok_or (display_switch_index displays target)
          (port_error_new (lit ''DISPLAY_NOT_FOUND'')
            (lit ''display '' @ display_id_str target @ lit '' is not part of the remote topology'')
            False))
       display_switch_shortcut"

section \<open>Hyprland's events\<close>

definition is_safe_instance_signature :: "ustr \<Rightarrow> bool" where
  "is_safe_instance_signature signature \<longleftrightarrow>
     signature \<noteq> [] \<and> utf8_len signature \<le> 128 \<and> \<not> contains_str signature (lit ''..'')
     \<and> list_all (\<lambda>c. is_ascii_alphanumeric c \<or> c \<in> set (lit ''-_.'')) signature"

definition split_once_arrow :: "ustr \<Rightarrow> ustr option" where
  "split_once_arrow line =
     map_option (\<lambda>n. take n line) (find (\<lambda>n. starts_with (drop n line) (lit ''>>'')) [0..<length line])"

definition is_focus_event :: "ustr \<Rightarrow> bool" where
  "is_focus_event line \<longleftrightarrow>
     List.member focus_event_prefixes (unwrap_or (split_once_arrow line) line)"

text \<open>
  Where Hyprland's event socket is. The environment of the agent's process and the file system are
  the record \<open>socket_env\<close>: a path's metadata says whether it is a socket and whose it is
  (\<open>symlink_metadata\<close>, so a link is not followed), and \<open>se_connects\<close> whether connecting to it
  succeeds. The runtime directory is joined as \<open>PathBuf::join\<close> does with a relative path.
\<close>

record socket_env =
  se_signature :: "ustr option"
  se_runtime_dir :: "ustr option"
  se_metadata :: "ustr \<Rightarrow> (bool \<times> u32) option"
  se_own_uid :: "u32 option"
  se_connects :: "ustr \<Rightarrow> bool"

definition is_own_unix_socket :: "socket_env \<Rightarrow> ustr \<Rightarrow> bool" where
  "is_own_unix_socket env path =
     (case se_metadata env path of
        None \<Rightarrow> False
      | Some (is_socket, uid) \<Rightarrow>
          (case se_own_uid env of
             None \<Rightarrow> False
           | Some own_uid \<Rightarrow> is_socket \<and> uid = own_uid))"

definition path_join :: "ustr \<Rightarrow> ustr \<Rightarrow> ustr" where
  "path_join dir rest =
     (if dir = [] then rest else if last dir = 47 then dir @ rest else dir @ 47 # rest)"

definition event_socket_path :: "socket_env \<Rightarrow> ustr option" where
  "event_socket_path env =
     (case se_signature env of
        None \<Rightarrow> None
      | Some signature \<Rightarrow>
          if \<not> is_safe_instance_signature signature then None
          else (case se_runtime_dir env of
             None \<Rightarrow> None
           | Some runtime_dir \<Rightarrow>
               (let candidate = path_join runtime_dir
                      (lit ''hypr/'' @ signature @ lit ''/.socket2.sock'')
                in if is_own_unix_socket env candidate then Some candidate else None)))"

text \<open>
  A socket that is listened to belongs to the agent's own user, and its name adds to the runtime
  directory no parent directory and no further separator.
\<close>

lemma event_socket_is_own:
  assumes "event_socket_path env = Some path"
  obtains dir signature where "se_runtime_dir env = Some dir" "se_signature env = Some signature"
    "path = path_join dir (lit ''hypr/'' @ signature @ lit ''/.socket2.sock'')"
    "is_own_unix_socket env path" "47 \<notin> set signature" "\<not> contains_str signature (lit ''..'')"
proof -
  from assms obtain dir signature where
    "se_runtime_dir env = Some dir" "se_signature env = Some signature"
    "path = path_join dir (lit ''hypr/'' @ signature @ lit ''/.socket2.sock'')"
    "is_own_unix_socket env path" "is_safe_instance_signature signature"
    by (auto simp: event_socket_path_def Let_def split: option.splits if_splits)
  moreover from this have "47 \<notin> set signature"
    by (auto simp: is_safe_instance_signature_def list_all_iff lit_def is_ascii_alphanumeric_def
        is_ascii_digit_def is_ascii_lowercase_def is_ascii_uppercase_def)
  ultimately show thesis using that by (auto simp: is_safe_instance_signature_def)
qed

section \<open>The shortcut names the display\<close>

lemma position_Some: "position P xs = Some n \<Longrightarrow>
  n < length xs \<and> P (xs ! n) \<and> (\<forall>m<n. \<not> P (xs ! m))"
proof (induction xs arbitrary: n)
  case (Cons x xs)
  show ?case
  proof (cases "P x")
    case False
    with Cons.prems obtain m where m: "position P xs = Some m" "n = Suc m" by auto
    with Cons.IH [OF m(1)] False show ?thesis by (auto simp: less_Suc_eq_0_disj)
  qed (use Cons in auto)
qed simp

lemma position_None: "position P xs = None \<longleftrightarrow> (\<forall>x\<in>set xs. \<not> P x)"
  by (induction xs) auto

lemma show_nat_small: "n < 10 \<Longrightarrow> show_nat n = [48 + n]"
  by (subst show_nat.simps) simp

lemma show_nat_two: "10 \<le> n \<Longrightarrow> n < 100 \<Longrightarrow> show_nat n = [48 + n div 10, 48 + n mod 10]"
  by (subst show_nat.simps) (simp add: show_nat_small)

lemma show_nat_short: "n < 100 \<Longrightarrow> length (show_nat n) \<le> 2"
  by (cases "n < 10") (simp_all add: show_nat_small show_nat_two)

lemma safe_key_token_F:
  assumes "n < 100"
  shows "is_safe_key_token (lit ''F'' @ show_nat n)"
proof -
  have digits: "is_ascii_digit c" if "c \<in> set (show_nat n)" for c
    using that by (rule show_nat_digits)
  have "utf8_len (show_nat n) = length (show_nat n)"
    by (rule utf8_len_ascii) (use digits in \<open>fastforce simp: is_ascii_digit_def\<close>)
  then show ?thesis
    using digits show_nat_short [OF assms]
    by (auto simp: is_safe_key_token_def lit_def list_all_iff is_ascii_alphanumeric_def
        is_ascii_uppercase_def)
qed

lemma sorted_switch_mods: "sort_dedup [Ctrl, Alt, Shift] = [Ctrl, Alt, Shift]"
  by (simp add: sort_dedup_def less_eq_key_modifier_def)

lemma display_switch_shortcut_eq:
  "display_switch_shortcut index =
     (if index < sunshine_max_switch_displays
      then Inr (SendShortcut \<lparr>kc_mods = [Ctrl, Alt, Shift], kc_key = lit ''F'' @ show_nat (index + 1)\<rparr>
             (WindowClass moonlight_window_class))
      else Inl (port_error_new (lit ''DISPLAY_NOT_FOUND'')
             (lit ''display index is beyond Sunshine's switchable range'') False))"
  using safe_key_token_F [of "index + 1"]
  by (simp add: display_switch_shortcut_def key_chord_new_def key_chord_validate_def
      sorted_switch_mods sunshine_max_switch_displays_def)

section \<open>Correctness\<close>

text \<open>
  The controller turns a display switch into a shortcut it can always execute. The command
  resolved for a display is Sunshine's shortcut for the first display of that name, counted from
  one and at most the thirteenth; it passes the validation every command must pass.
\<close>

theorem display_switch_resolves:
  assumes "resolve_display_switch_shortcut displays target = Inr command"
  shows "\<exists>n. n < length displays \<and> n < 13 \<and> d_id (displays ! n) = display_id_str target
    \<and> (\<forall>m<n. d_id (displays ! m) \<noteq> display_id_str target)
    \<and> command = SendShortcut
        \<lparr>kc_mods = [Ctrl, Alt, Shift], kc_key = lit ''F'' @ show_nat (Suc n)\<rparr>
        (WindowClass moonlight_window_class)
    \<and> command_validate command = Inr ()"
proof -
  from assms obtain n where pos: "position (\<lambda>d. d_id d = display_id_str target) displays = Some n"
    and sc: "display_switch_shortcut n = Inr command"
    by (auto simp: resolve_display_switch_shortcut_def display_switch_index_def result_simps)
  have "n < 13" "command = SendShortcut
        \<lparr>kc_mods = [Ctrl, Alt, Shift], kc_key = lit ''F'' @ show_nat (Suc n)\<rparr>
        (WindowClass moonlight_window_class)"
    using sc by (auto simp: display_switch_shortcut_eq sunshine_max_switch_displays_def
        split: if_splits)
  moreover from this have "command_validate command = Inr ()"
    using safe_key_token_F [of "Suc n"] moonlight_class_valid
    by (simp add: key_chord_validate_def)
  ultimately show ?thesis using position_Some [OF pos] by blast
qed

theorem display_switch_resolves_witness:
  "\<exists>n. n < 2 \<and> n < 13 \<and> resolve_display_switch_shortcut
     [\<lparr>d_id = lit ''DP-1'', d_name = [], d_width = 1, d_height = 1, d_refresh_hz = 60, d_focused = True\<rparr>,
      \<lparr>d_id = lit ''DP-2'', d_name = [], d_width = 1, d_height = 1, d_refresh_hz = 60, d_focused = False\<rparr>]
     (DisplayId (lit ''DP-2'')) = Inr (SendShortcut
        \<lparr>kc_mods = [Ctrl, Alt, Shift], kc_key = lit ''F'' @ show_nat (Suc n)\<rparr>
        (WindowClass moonlight_window_class))"
proof -
  let ?ds = "[\<lparr>d_id = lit ''DP-1'', d_name = [], d_width = 1, d_height = 1, d_refresh_hz = 60, d_focused = True\<rparr>,
      \<lparr>d_id = lit ''DP-2'', d_name = [], d_width = 1, d_height = 1, d_refresh_hz = 60, d_focused = False\<rparr>]"
  have "resolve_display_switch_shortcut ?ds (DisplayId (lit ''DP-2'')) = Inr (SendShortcut
      \<lparr>kc_mods = [Ctrl, Alt, Shift], kc_key = lit ''F'' @ show_nat 2\<rparr>
      (WindowClass moonlight_window_class))"
    by (simp add: resolve_display_switch_shortcut_def display_switch_index_def
        display_switch_shortcut_eq sunshine_max_switch_displays_def numeral_2_eq_2)
  from display_switch_resolves [OF this] this show ?thesis by auto
qed

end
