(* ===== verification/Agent.thy ===== *)
theory Agent
  imports Authorize Replay Pairing Session DisplaySwitch
begin

text \<open>
  \<open>crates/omdesky-agent/src/lib.rs\<close> and \<open>error.rs\<close>: the HTTP surface of the agent. A handler is a
  call on the agent's own state paired with the world \<open>'w\<close> behind its ports; the request's
  context carries every clock it reads and every random identifier it draws. Extracting a JSON
  body is serde's and axum's work: the request carries its outcome (\<open>Inl ()\<close> for a rejection),
  which is reported before the handler runs, as axum does.
\<close>

section \<open>Errors of the HTTP surface\<close>

record api_error =
  api_code :: error_code
  api_message :: ustr

definition api_error_new :: "error_code \<Rightarrow> ustr \<Rightarrow> api_error" where
  "api_error_new code message = \<lparr>api_code = code, api_message = message\<rparr>"

lemma api_error_new_code [simp]: "api_code (api_error_new c m) = c"
  by (simp add: api_error_new_def)

definition api_error_from_port :: "port_error \<Rightarrow> api_error" where
  "api_error_from_port e =
     api_error_new (unwrap_or (error_code_from_code (perr_code e)) Internal) (user_message e)"

definition api_error_from_domain :: "domain_error \<Rightarrow> api_error" where
  "api_error_from_domain e =
     api_error_new InvalidCommand (lit ''The requested action is not valid.'')"

definition api_error_from_session :: "session_error \<Rightarrow> api_error" where
  "api_error_from_session e = api_error_new (session_error_code e) (session_error_message e)"

definition api_error_from_pairing :: "pairing_error \<Rightarrow> api_error" where
  "api_error_from_pairing e = api_error_new (pairing_error_code e) (pairing_error_message e)"

definition api_error_from_freshness :: "freshness_error \<Rightarrow> api_error" where
  "api_error_from_freshness e = api_error_new (freshness_error_code e) (freshness_error_message e)"

fun api_error_from_authorization :: "authorization_error \<Rightarrow> api_error" where
  "api_error_from_authorization AuthRateLimited =
     api_error_new RateLimited (lit ''Too many requests. Please slow down.'')"
| "api_error_from_authorization AuthUnavailable =
     api_error_new IdentityUnavailable
       (lit ''This device could not be identified right now. Please try again.'')"
| "api_error_from_authorization AuthForbidden =
     api_error_new CapabilityDenied (lit ''This device is not allowed to perform that action.'')"
| "api_error_from_authorization AuthAccessStoreFailed =
     api_error_new AccessStoreFailed (lit ''The allowed devices list could not be read.'')"
| "api_error_from_authorization AuthOutsideTailnet =
     api_error_new Unauthorized (lit ''This device is not allowed to control Omdesky.'')"
| "api_error_from_authorization AuthUnauthorized =
     api_error_new Unauthorized (lit ''This device is not allowed to control Omdesky.'')"

definition body_rejected :: api_error where
  "body_rejected = api_error_new InvalidCommand (lit ''The request body is not valid.'')"

section \<open>State, ports and request context\<close>

record agent_state =
  st_authorizer :: authorizer
  st_sessions :: coordinator
  st_challenges :: pairing_challenges
  st_replay :: replay_guard

record 'w agent_env =
  env_node :: node_info_response
  env_agent_port :: u16
  env_debug :: bool
  env_auth :: "'w auth_ports"
  env_effects :: "'w effects"
  env_displays :: "('w, display list port_result) call"
  env_workspaces :: "('w, workspace list port_result) call"
  env_windows :: "('w, window list port_result) call"
  env_active_window :: "('w, window option port_result) call"
  env_focus_workspace :: "workspace_target \<Rightarrow> ('w, unit port_result) call"
  env_focus_window :: "ustr \<Rightarrow> ('w, unit port_result) call"
  env_sunshine_status :: "('w, sunshine_status_response port_result) call"
  env_submit_pin :: "ustr \<Rightarrow> ustr \<Rightarrow> ('w, unit port_result) call"
  env_execute :: "remote_command \<Rightarrow> ('w, unit port_result) call"
  env_granted :: "agent_endpoint \<Rightarrow> ('w, control_capability list port_result) call"
  env_client_displays :: "agent_endpoint \<Rightarrow> ('w, display list port_result) call"
  env_send_command ::
    "agent_endpoint \<Rightarrow> command_request \<Rightarrow> ('w, command_response port_result) call"
  env_notify :: "notification \<Rightarrow> ('w, unit port_result) call"

record request_ctx =
  rc_source :: ip_addr
  rc_auth_clock :: auth_clock
  rc_now_utc :: offset_date_time
  rc_replay_now :: instant
  rc_session_now :: instant
  rc_pairing_now :: instant
  rc_fresh_session :: session_id
  rc_fresh_pairing :: ustr
  rc_fresh_request :: uuid

type_synonym ('w, 'a) handler = "(agent_state \<times> 'w, api_error + 'a) call"

text \<open>A port call from a handler: \<open>port(...).await?\<close> converts the error.\<close>

definition through_port :: "('w, 'a port_result) call \<Rightarrow> ('w, 'a) handler" where
  "through_port c = (\<lambda>(st, w). case c w of (r, w') \<Rightarrow> (map_err api_error_from_port r, st, w'))"

definition on_world :: "('w \<Rightarrow> 'w) \<Rightarrow> ('w, 'a) handler \<Rightarrow> ('w, 'a) handler" where
  "on_world f k = (\<lambda>(st, w). k (st, f w))"

definition reply :: "api_error + 'a \<Rightarrow> ('w, 'a) handler" where
  "reply r = returning r"

definition agent_authorize ::
    "'w agent_env \<Rightarrow> request_ctx \<Rightarrow> control_capability \<Rightarrow> ('w, authorized_peer) handler" where
  "agent_authorize env ctx required = (\<lambda>(st, w).
     case authorize (env_auth env) (rc_auth_clock ctx) (rc_source ctx) required
            (st_authorizer st) w of
       (r, a, w') \<Rightarrow> (map_err api_error_from_authorization r, st\<lparr>st_authorizer := a\<rparr>, w'))"

section \<open>Reading handlers\<close>

definition health_handler :: health_response where
  "health_handler =
     \<lparr>hr_status = lit ''ok'', hr_protocol = protocol_version, hr_agent_version = release\<rparr>"

definition node_handler :: "'w agent_env \<Rightarrow> request_ctx \<Rightarrow> ('w, node_info_response) handler" where
  "node_handler env ctx =
     call_then (agent_authorize env ctx CapReadMetadata) (\<lambda>_. reply (Inr (env_node env)))"

definition capabilities_handler ::
    "'w agent_env \<Rightarrow> request_ctx \<Rightarrow> ('w, control_capability list) handler" where
  "capabilities_handler env ctx = (\<lambda>(st, w).
     case authenticate (env_auth env) (rc_auth_clock ctx) (rc_source ctx) (st_authorizer st) w of
       (r, a, w') \<Rightarrow>
         (map_ok ap_capabilities (map_err api_error_from_authorization r),
          st\<lparr>st_authorizer := a\<rparr>, w'))"

definition displays_handler :: "'w agent_env \<Rightarrow> request_ctx \<Rightarrow> ('w, display list) handler" where
  "displays_handler env ctx =
     call_then (agent_authorize env ctx CapReadMetadata) (\<lambda>_. through_port (env_displays env))"

definition workspaces_handler :: "'w agent_env \<Rightarrow> request_ctx \<Rightarrow> ('w, workspace list) handler" where
  "workspaces_handler env ctx =
     call_then (agent_authorize env ctx CapReadMetadata) (\<lambda>_. through_port (env_workspaces env))"

record window_filter =
  wf_workspace :: "i64 option"
  wf_app_id :: "ustr option"

definition filter_matches :: "window \<Rightarrow> window_filter \<Rightarrow> bool" where
  "filter_matches window f =
     (let workspace_ok = option_all (\<lambda>i. win_workspace window = WorkspaceId i) (wf_workspace f);
          app_ok = option_all
            (\<lambda>needle. win_app_id window = Some needle \<or> win_class window = Some needle)
            (wf_app_id f)
      in workspace_ok \<and> app_ok)"

definition windows_handler ::
    "'w agent_env \<Rightarrow> request_ctx \<Rightarrow> window_filter \<Rightarrow> ('w, window list) handler" where
  "windows_handler env ctx f =
     call_then (agent_authorize env ctx CapReadMetadata)
       (\<lambda>_. call_then (through_port (env_windows env))
         (\<lambda>windows. reply (Inr (filter (\<lambda>w. filter_matches w f) windows))))"

definition active_window_handler :: "'w agent_env \<Rightarrow> request_ctx \<Rightarrow> ('w, window option) handler" where
  "active_window_handler env ctx =
     call_then (agent_authorize env ctx CapReadMetadata) (\<lambda>_. through_port (env_active_window env))"

definition sunshine_status_handler ::
    "'w agent_env \<Rightarrow> request_ctx \<Rightarrow> ('w, sunshine_status_response) handler" where
  "sunshine_status_handler env ctx =
     call_then (agent_authorize env ctx CapReadMetadata) (\<lambda>_. through_port (env_sunshine_status env))"

section \<open>Focus\<close>

definition validate_workspace_target :: "workspace_target \<Rightarrow> api_error + unit" where
  "validate_workspace_target target =
     (case target of
        TargetName name \<Rightarrow>
          if name = [] \<or> list_ex is_whitespace name
          then Inl (api_error_new WorkspaceNotFound
                 (lit ''The requested workspace name is not valid.''))
          else Inr ()
      | TargetId _ \<Rightarrow> Inr ())"

definition focus_workspace_handler ::
    "'w agent_env \<Rightarrow> request_ctx \<Rightarrow> unit + workspace_target \<Rightarrow> ('w, bool) handler" where
  "focus_workspace_handler env ctx body =
     (case body of
        Inl _ \<Rightarrow> reply (Inl body_rejected)
      | Inr target \<Rightarrow>
          call_then (agent_authorize env ctx CapFocusWorkspace)
            (\<lambda>_. call_then (reply (validate_workspace_target target))
              (\<lambda>_. call_then (through_port (env_focus_workspace env target))
                (\<lambda>_. reply (Inr True)))))"

definition focus_window_handler ::
    "'w agent_env \<Rightarrow> request_ctx \<Rightarrow> ustr \<Rightarrow> ('w, bool) handler" where
  "focus_window_handler env ctx window_id =
     call_then (agent_authorize env ctx CapFocusWorkspace)
       (\<lambda>_. call_then (through_port (env_focus_window env window_id)) (\<lambda>_. reply (Inr True)))"

section \<open>Session commands\<close>

definition callback_access_missing :: api_error where
  "callback_access_missing = api_error_new CallbackAccessMissing
     (lit ''The controller does not allow this device to send shortcuts back.'')"

definition callback_probe_error :: "port_error \<Rightarrow> api_error" where
  "callback_probe_error e =
     (if perr_code e = lit ''UNAUTHORIZED'' \<or> perr_code e = lit ''CAPABILITY_DENIED''
      then callback_access_missing
      else if perr_code e = lit ''VERSION_INCOMPATIBLE''
      then api_error_new VersionIncompatible (lit ''The controller runs a different Omdesky release.'')
      else api_error_new ControllerUnreachable
             (lit ''This device could not reach the controller's agent.''))"

definition verify_callback_access ::
    "'w agent_env \<Rightarrow> agent_endpoint \<Rightarrow> ('w, unit) handler" where
  "verify_callback_access env controller = (\<lambda>(st, w).
     case env_granted env controller w of
       (Inl e, w') \<Rightarrow> (Inl (callback_probe_error e), st, w')
     | (Inr granted, w') \<Rightarrow>
         let missing = filter (\<lambda>c. \<not> List.member granted c) capability_callback
         in if missing = [] then (Inr (), st, w') else (Inl callback_access_missing, st, w'))"

definition callback_endpoint :: "session_endpoint \<Rightarrow> ip_addr \<Rightarrow> api_error + agent_endpoint" where
  "callback_endpoint endpoint source =
     (if se_address endpoint \<noteq> source
      then Inl (api_error_new InvalidCommand
             (lit ''The controller endpoint must be the address this request came from.''))
      else Inr \<lparr>ep_address = source, ep_port = se_port endpoint\<rparr>)"

definition missing_session_claim :: api_error where
  "missing_session_claim = api_error_new InvalidCommand
     (lit ''This action requires the session it belongs to.'')"

definition transpose_endpoint ::
    "session_endpoint option \<Rightarrow> ip_addr \<Rightarrow> api_error + agent_endpoint option" where
  "transpose_endpoint controller source =
     (case controller of
        None \<Rightarrow> Inr None
      | Some endpoint \<Rightarrow> map_ok Some (callback_endpoint endpoint source))"

definition sessions_attach ::
    "'w agent_env \<Rightarrow> request_ctx \<Rightarrow> ustr \<Rightarrow> session_role \<Rightarrow> agent_endpoint option \<Rightarrow> window_selector
       \<Rightarrow> ('w, session_grant) handler" where
  "sessions_attach env ctx owner role controller window = (\<lambda>(st, w).
     case session_attach (env_effects env) (rc_session_now ctx) (rc_fresh_session ctx) owner role
            controller window (st_sessions st) w of
       (r, sc, w') \<Rightarrow> (map_err api_error_from_session r, st\<lparr>st_sessions := sc\<rparr>, w'))"

definition sessions_detach ::
    "'w agent_env \<Rightarrow> ustr \<Rightarrow> session_claim \<Rightarrow> ('w, session_outcome) handler" where
  "sessions_detach env owner claim = (\<lambda>(st, w).
     case session_detach (env_effects env) owner claim (st_sessions st) w of
       (r, sc, w') \<Rightarrow> (map_err api_error_from_session r, st\<lparr>st_sessions := sc\<rparr>, w'))"

definition sessions_renew ::
    "request_ctx \<Rightarrow> ustr \<Rightarrow> session_claim \<Rightarrow> ('w, session_grant) handler" where
  "sessions_renew ctx owner claim = (\<lambda>(st, w).
     case session_renew (rc_session_now ctx) owner claim (st_sessions st) of
       (r, sc) \<Rightarrow> (map_err api_error_from_session r, st\<lparr>st_sessions := sc\<rparr>, w))"

definition apply_session_command ::
    "'w agent_env \<Rightarrow> request_ctx \<Rightarrow> authorized_peer \<Rightarrow> remote_command \<Rightarrow> session_claim option
       \<Rightarrow> ('w, command_response) handler" where
  "apply_session_command env ctx peer command claim =
     (case command of
        AttachSession role controller window \<Rightarrow>
          call_then (reply (transpose_endpoint controller (rc_source ctx)))
            (\<lambda>controller.
               let window = unwrap_or window (WindowClass moonlight_window_class)
               in call_then
                    (case controller of
                       Some c \<Rightarrow> verify_callback_access env c
                     | None \<Rightarrow> reply (Inr ()))
                    (\<lambda>_. call_then
                       (sessions_attach env ctx (ap_tailnet_node_id peer) role controller window)
                       (\<lambda>grant. reply (Inr (response_granted grant)))))
      | DetachSession \<Rightarrow>
          call_then (reply (ok_or claim missing_session_claim))
            (\<lambda>claim. call_then (sessions_detach env (ap_tailnet_node_id peer) claim)
              (\<lambda>outcome. reply (Inr (case outcome of
                   Applied \<Rightarrow> response_executed
                 | Ignored \<Rightarrow> response_ignored))))
      | RenewSession \<Rightarrow>
          call_then (reply (ok_or claim missing_session_claim))
            (\<lambda>claim. call_then (sessions_renew ctx (ap_tailnet_node_id peer) claim)
              (\<lambda>grant. reply (Inr (response_granted grant))))
      | _ \<Rightarrow> reply (Inr response_ignored))"

section \<open>Commands\<close>

definition debug_notification :: "'w agent_env \<Rightarrow> ustr \<Rightarrow> 'w \<Rightarrow> 'w" where
  "debug_notification env body w =
     (if env_debug env
      then snd (env_notify env \<lparr>nt_summary = lit ''Omdesky debug'', nt_body = body\<rparr> w)
      else w)"

fun controller_command_notification :: "remote_command \<Rightarrow> notification option" where
  "controller_command_notification (SendShortcut _ _) =
     Some \<lparr>nt_summary = lit ''Omdesky'', nt_body = lit ''Remote shortcut capture changed''\<rparr>"
| "controller_command_notification (CloseWindow _) =
     Some \<lparr>nt_summary = lit ''Omdesky'', nt_body = lit ''The remote session was closed''\<rparr>"
| "controller_command_notification _ = None"

definition replay_handler :: "request_ctx \<Rightarrow> command_request \<Rightarrow> ('w, unit) handler" where
  "replay_handler ctx request = (\<lambda>(st, w).
     case replay_admit (rc_now_utc ctx) (rc_replay_now ctx) (cr_request_id request)
            (cr_issued_at request) (st_replay st) of
       (r, g) \<Rightarrow> (map_err api_error_from_freshness r, st\<lparr>st_replay := g\<rparr>, w))"

text \<open>Relaying a command from a remote session to its controller.\<close>

definition relay_command ::
    "'w agent_env \<Rightarrow> request_ctx \<Rightarrow> active_session \<Rightarrow> remote_command
       \<Rightarrow> ('w, command_response) handler" where
  "relay_command env ctx session command =
     call_then (reply (ok_or (as_controller session)
         (api_error_new NoController
           (lit ''remote session has no controller endpoint to relay to''))))
       (\<lambda>controller. call_then
          (through_port (env_send_command env controller
             (command_request_new (rc_fresh_request ctx) (rc_now_utc ctx) command)))
          (\<lambda>_. reply (Inr response_executed)))"

definition switch_display_command ::
    "'w agent_env \<Rightarrow> request_ctx \<Rightarrow> display_id \<Rightarrow> ('w, command_response) handler" where
  "switch_display_command env ctx target =
     (let remote_endpoint = \<lparr>ep_address = rc_source ctx, ep_port = env_agent_port env\<rparr>
      in on_world (debug_notification env
             (lit ''Display switch requested for '' @ display_id_str target))
           (call_then (through_port (env_client_displays env remote_endpoint))
             (\<lambda>displays. call_then
                (reply (map_err api_error_from_port
                   (resolve_display_switch_shortcut displays target)))
                (\<lambda>shortcut (st, w).
                   case env_execute env shortcut w of
                     (outcome, w1) \<Rightarrow>
                       let body = (if is_ok outcome
                             then lit ''Display switch sent for '' @ display_id_str target
                             else lit ''Display switch failed for '' @ display_id_str target);
                           w2 = debug_notification env body w1
                       in case outcome of
                            Inl e \<Rightarrow> (Inl (api_error_from_port e), st, w2)
                          | Inr _ \<Rightarrow> (Inr response_executed, st, w2)))))"

definition execute_command ::
    "'w agent_env \<Rightarrow> remote_command \<Rightarrow> ('w, command_response) handler" where
  "execute_command env command =
     call_then (through_port (env_execute env command))
       (\<lambda>_. on_world (\<lambda>w. case controller_command_notification command of
              Some n \<Rightarrow> snd (env_notify env n w)
            | None \<Rightarrow> w)
          (reply (Inr response_executed)))"

definition run_action ::
    "'w agent_env \<Rightarrow> request_ctx \<Rightarrow> remote_command \<Rightarrow> ('w, command_response) handler" where
  "run_action env ctx command = (\<lambda>(st, w).
     (case session_snapshot (rc_session_now ctx) (st_sessions st) of
        Some session \<Rightarrow>
          if as_role session = Remote then relay_command env ctx session command
          else (case command of
                  SwitchStreamDisplay target \<Rightarrow> switch_display_command env ctx target
                | _ \<Rightarrow> execute_command env command)
      | None \<Rightarrow>
          (case command of
             SwitchStreamDisplay target \<Rightarrow> switch_display_command env ctx target
           | _ \<Rightarrow> execute_command env command)) (st, w))"

definition run_command ::
    "'w agent_env \<Rightarrow> request_ctx \<Rightarrow> unit + command_request \<Rightarrow> ('w, command_response) handler" where
  "run_command env ctx body =
     (case body of
        Inl _ \<Rightarrow> reply (Inl body_rejected)
      | Inr request \<Rightarrow>
          let command = cr_command request
          in call_then (agent_authorize env ctx (required_capability command))
            (\<lambda>peer. call_then (reply (map_err api_error_from_domain (command_validate command)))
              (\<lambda>_. call_then (replay_handler ctx request)
                (\<lambda>_. if is_session_control command
                     then apply_session_command env ctx peer command (cr_session request)
                     else run_action env ctx command))))"

section \<open>Pairing\<close>

definition challenges_issue :: "request_ctx \<Rightarrow> ustr \<Rightarrow> ('w, ustr) handler" where
  "challenges_issue ctx owner = (\<lambda>(st, w).
     case pairing_issue owner (rc_pairing_now ctx) (rc_fresh_pairing ctx) (st_challenges st) of
       (r, pc) \<Rightarrow> (map_err api_error_from_pairing r, st\<lparr>st_challenges := pc\<rparr>, w))"

definition challenges_consume :: "request_ctx \<Rightarrow> ustr \<Rightarrow> ustr \<Rightarrow> ('w, unit) handler" where
  "challenges_consume ctx owner pairing_id = (\<lambda>(st, w).
     case pairing_consume owner (rc_pairing_now ctx) pairing_id (st_challenges st) of
       (r, pc) \<Rightarrow> (map_err api_error_from_pairing r, st\<lparr>st_challenges := pc\<rparr>, w))"

definition pair_challenge_handler ::
    "'w agent_env \<Rightarrow> request_ctx \<Rightarrow> ('w, sunshine_pair_challenge_response) handler" where
  "pair_challenge_handler env ctx =
     call_then (agent_authorize env ctx CapApprovePairing)
       (\<lambda>peer. call_then (challenges_issue ctx (ap_tailnet_node_id peer))
         (\<lambda>pairing_id (st, w).
            (Inr \<lparr>ch_pairing_id = pairing_id,
                  ch_expires_in_seconds = pairing_ttl_seconds (st_challenges st)\<rparr>, st, w)))"

definition pair_handler ::
    "'w agent_env \<Rightarrow> request_ctx \<Rightarrow> unit + sunshine_pair_request \<Rightarrow> ('w, bool) handler" where
  "pair_handler env ctx body =
     (case body of
        Inl _ \<Rightarrow> reply (Inl body_rejected)
      | Inr request \<Rightarrow>
          call_then (agent_authorize env ctx CapApprovePairing)
            (\<lambda>peer. call_then
               (reply (map_err
                  (\<lambda>_. api_error_new InvalidCommand (lit ''The pairing request is not valid.''))
                  (pair_request_validate request)))
               (\<lambda>_. call_then
                  (challenges_consume ctx (ap_tailnet_node_id peer) (pr_pairing_id request))
                  (\<lambda>_. call_then
                     (through_port (env_submit_pin env (pr_pin request) (pr_client_name request)))
                     (\<lambda>_. on_world (\<lambda>w. snd (env_notify env
                              \<lparr>nt_summary = lit ''Omdesky'',
                               nt_body = lit ''Approved stream pairing for '' @ pr_client_name request\<rparr> w))
                        (reply (Inr True)))))))"

section \<open>Routes\<close>

datatype api_request =
    GetHealth
  | GetNode
  | GetCapabilities
  | GetDisplays
  | GetWorkspaces
  | PostFocusWorkspace "unit + workspace_target"
  | GetWindows window_filter
  | GetActiveWindow
  | PostFocusWindow ustr
  | PostCommand "unit + command_request"
  | GetSunshine
  | PostPairChallenge
  | PostPair "unit + sunshine_pair_request"

datatype api_body =
    HealthBody health_response
  | NodeBody node_info_response
  | CapabilitiesBody "control_capability list"
  | DisplaysBody "display list"
  | WorkspacesBody "workspace list"
  | WindowsBody "window list"
  | ActiveWindowBody "window option"
  | FocusBody bool
  | CommandBody command_response
  | SunshineBody sunshine_status_response
  | ChallengeBody sunshine_pair_challenge_response
  | PairBody bool
  | ErrorBody error_envelope

record api_response =
  ar_status :: nat
  ar_body :: api_body
  ar_release :: ustr

definition into_response :: "api_error + api_body \<Rightarrow> nat \<times> api_body" where
  "into_response r =
     (case r of
        Inl e \<Rightarrow> (error_code_http_status (api_code e),
                  ErrorBody (error_envelope_new (api_code e) (api_message e)))
      | Inr body \<Rightarrow> (200, body))"

definition mapped :: "('a \<Rightarrow> api_body) \<Rightarrow> ('w, 'a) handler \<Rightarrow> ('w, api_body) handler" where
  "mapped f h = (\<lambda>s. case h s of (r, s') \<Rightarrow> (map_ok f r, s'))"

fun controlled_route :: "'w agent_env \<Rightarrow> request_ctx \<Rightarrow> api_request \<Rightarrow> ('w, api_body) handler" where
  "controlled_route env ctx GetHealth = reply (Inr (HealthBody health_handler))"
| "controlled_route env ctx GetNode = mapped NodeBody (node_handler env ctx)"
| "controlled_route env ctx GetCapabilities =
     mapped CapabilitiesBody (capabilities_handler env ctx)"
| "controlled_route env ctx GetDisplays = mapped DisplaysBody (displays_handler env ctx)"
| "controlled_route env ctx GetWorkspaces = mapped WorkspacesBody (workspaces_handler env ctx)"
| "controlled_route env ctx (PostFocusWorkspace body) =
     mapped FocusBody (focus_workspace_handler env ctx body)"
| "controlled_route env ctx (GetWindows f) = mapped WindowsBody (windows_handler env ctx f)"
| "controlled_route env ctx GetActiveWindow =
     mapped ActiveWindowBody (active_window_handler env ctx)"
| "controlled_route env ctx (PostFocusWindow i) =
     mapped FocusBody (focus_window_handler env ctx i)"
| "controlled_route env ctx (PostCommand body) = mapped CommandBody (run_command env ctx body)"
| "controlled_route env ctx GetSunshine = mapped SunshineBody (sunshine_status_handler env ctx)"
| "controlled_route env ctx PostPairChallenge =
     mapped ChallengeBody (pair_challenge_handler env ctx)"
| "controlled_route env ctx (PostPair body) = mapped PairBody (pair_handler env ctx body)"

definition release_incompatible :: api_error where
  "release_incompatible = api_error_new VersionIncompatible
     (lit ''this device runs Omdesky '' @ release
      @ lit ''; both computers must run the same release'')"

definition require_compatible_release ::
    "ustr option \<Rightarrow> ('w, api_body) handler \<Rightarrow> ('w, api_body) handler" where
  "require_compatible_release header next =
     (if \<not> option_any is_compatible_release header then reply (Inl release_incompatible) else next)"

text \<open>
  The whole service: \<open>header\<close> is the value of the release header, if there is one in printable
  ASCII. Only \<open>/v1/health\<close> is served without it, and every response carries the release.
\<close>

definition serve ::
    "'w agent_env \<Rightarrow> request_ctx \<Rightarrow> ustr option \<Rightarrow> api_request
       \<Rightarrow> (agent_state \<times> 'w, api_response) call" where
  "serve env ctx header request = (\<lambda>s.
     case (if request = GetHealth then controlled_route env ctx request
           else require_compatible_release header (controlled_route env ctx request)) s of
       (r, s') \<Rightarrow>
         (case into_response r of
            (status, body) \<Rightarrow> (\<lparr>ar_status = status, ar_body = body, ar_release = release\<rparr>, s')))"

end
