(* ===== verification/AgentFacts.thy ===== *)
theory AgentFacts
  imports Agent
begin

text \<open>
  Facts about the whole agent: what a handler may change, the invariant of the agent's state, and
  the histories of requests from which it follows that nobody acts on the desktop without having
  been authorised for it. The handlers are taken apart by the rules in \<open>preserve_intros\<close>, which
  follow their composition.
\<close>

named_theorems preserve_intros \<open>handlers that keep a predicate on the agent's state\<close>

definition preserves :: "(agent_state \<Rightarrow> bool) \<Rightarrow> ('w, 'a) handler \<Rightarrow> bool" where
  "preserves I h \<longleftrightarrow> (\<forall>st w. I st \<longrightarrow> I (fst (snd (h (st, w)))))"

lemma preservesI: "(\<And>st w. I st \<Longrightarrow> I (fst (snd (h (st, w))))) \<Longrightarrow> preserves I h"
  by (simp add: preserves_def)

lemma preservesD: "preserves I h \<Longrightarrow> h (st, w) = (r, st', w') \<Longrightarrow> I st \<Longrightarrow> I st'"
  unfolding preserves_def by (metis fst_conv snd_conv)

lemma preserves_call_then [preserve_intros]:
  assumes "preserves I c" and "\<And>x. preserves I (k x)"
  shows "preserves I (call_then c k)"
proof (rule preservesI)
  fix st w assume "I st"
  obtain r st1 w1 where c: "c (st, w) = (r, st1, w1)" by (metis surj_pair)
  with assms(1) \<open>I st\<close> have "I st1" by (metis preservesD)
  then show "I (fst (snd (call_then c k (st, w))))"
    using c assms(2) by (auto simp: call_then_def preserves_def split: sum.splits)
qed

lemma preserves_reply [preserve_intros]: "preserves I (reply r)"
  by (simp add: preserves_def reply_def)

lemma preserves_port [preserve_intros]: "preserves I (through_port c)"
  by (simp add: preserves_def through_port_def case_prod_beta)

lemma preserves_on_world [preserve_intros]: "preserves I k \<Longrightarrow> preserves I (on_world f k)"
  by (simp add: preserves_def on_world_def)

lemma preserves_mapped [preserve_intros]: "preserves I h \<Longrightarrow> preserves I (mapped f h)"
  by (simp add: preserves_def mapped_def case_prod_beta)

lemma preserves_if [preserve_intros]:
  "preserves I a \<Longrightarrow> preserves I b \<Longrightarrow> preserves I (if P then a else b)"
  by simp

lemma preserves_sum [preserve_intros]:
  "(\<And>x. preserves I (f x)) \<Longrightarrow> (\<And>x. preserves I (g x)) \<Longrightarrow>
     preserves I (case s of Inl x \<Rightarrow> f x | Inr x \<Rightarrow> g x)"
  by (cases s) simp_all

lemma preserves_option [preserve_intros]:
  "preserves I f \<Longrightarrow> (\<And>x. preserves I (g x)) \<Longrightarrow>
     preserves I (case s of None \<Rightarrow> f | Some x \<Rightarrow> g x)"
  by (cases s) simp_all

lemma preserves_let [preserve_intros]: "preserves I (f x) \<Longrightarrow> preserves I (let y = x in f y)"
  by simp

section \<open>Predicates that follow from their components\<close>

lemma authorize_state: "snd (authorize ports clk src cap a w) = snd (authenticate ports clk src a w)"
  by (auto simp: authorize_def split: prod.splits sum.splits)

text \<open>
  A predicate that survives authentication, replay checks and pairing survives every request that
  is not a session command; one that also survives the three session operations survives every
  request.
\<close>

locale request_predicate =
  fixes I :: "agent_state \<Rightarrow> bool" and world :: "'w itself"
  assumes auth: "\<And>(ports :: 'w auth_ports) clk src st w. I st \<Longrightarrow>
      I (st\<lparr>st_authorizer := fst (snd (authenticate ports clk src (st_authorizer st) w))\<rparr>)"
    and replay: "I st \<Longrightarrow> I (st\<lparr>st_replay := snd (replay_admit u t i issued (st_replay st))\<rparr>)"
    and issue: "I st \<Longrightarrow>
      I (st\<lparr>st_challenges := snd (pairing_issue owner now fresh (st_challenges st))\<rparr>)"
    and consume: "I st \<Longrightarrow>
      I (st\<lparr>st_challenges := snd (pairing_consume owner now i' (st_challenges st))\<rparr>)"
begin

lemma keeps_authorize: "preserves I (agent_authorize (env :: 'w agent_env) ctx cap)"
proof (rule preservesI)
  fix st w assume "I st"
  then show "I (fst (snd (agent_authorize env ctx cap (st, w))))"
    by (simp add: agent_authorize_def case_prod_beta authorize_state auth)
qed

lemma keeps_capabilities: "preserves I (capabilities_handler (env :: 'w agent_env) ctx)"
proof (rule preservesI)
  fix st w assume "I st"
  then show "I (fst (snd (capabilities_handler env ctx (st, w))))"
    by (simp add: capabilities_handler_def case_prod_beta auth)
qed

lemma keeps_replay: "preserves I (replay_handler ctx request)"
  by (simp add: preserves_def replay_handler_def case_prod_beta replay)

lemma keeps_issue: "preserves I (challenges_issue ctx owner)"
  by (simp add: preserves_def challenges_issue_def case_prod_beta issue)

lemma keeps_consume: "preserves I (challenges_consume ctx owner i)"
  by (simp add: preserves_def challenges_consume_def case_prod_beta consume)

lemma keeps_run_action: "preserves I (run_action (env :: 'w agent_env) ctx command)"
proof -
  have switch: "preserves I (switch_display_command env ctx target)" for target
    unfolding switch_display_command_def Let_def
    by (intro preserve_intros) (auto simp: preserves_def Let_def split: prod.splits sum.splits)
  have exec: "preserves I (execute_command env c)" for c
    unfolding execute_command_def by (intro preserve_intros)
  have relay: "preserves I (relay_command env ctx s c)" for s c
    unfolding relay_command_def by (intro preserve_intros)
  have other: "preserves I (case command of SwitchStreamDisplay target \<Rightarrow> switch_display_command env ctx target
      | _ \<Rightarrow> execute_command env command)"
    by (cases command) (simp_all add: switch exec)
  show ?thesis
    using other relay by (auto simp: preserves_def run_action_def split: option.splits)
qed

lemma keeps_pairing:
  "preserves I (pair_challenge_handler (env :: 'w agent_env) ctx)"
  "preserves I (pair_handler env ctx body)"
  unfolding pair_challenge_handler_def pair_handler_def
  by (intro preserve_intros keeps_authorize keeps_issue keeps_consume, simp add: preserves_def)
    (intro preserve_intros keeps_authorize keeps_consume)

lemmas keeps_handlers = keeps_authorize keeps_capabilities keeps_replay keeps_pairing

lemma keeps_other_routes:
  assumes "\<And>body. request \<noteq> PostCommand body"
  shows "preserves I (controlled_route (env :: 'w agent_env) ctx request)"
  using assms
  by (cases request)
    (auto simp: node_handler_def displays_handler_def workspaces_handler_def windows_handler_def
      active_window_handler_def focus_workspace_handler_def focus_window_handler_def
      sunshine_status_handler_def intro!: preserve_intros keeps_handlers)

lemma keeps_action_commands:
  assumes "\<And>request. body = Inr request \<Longrightarrow> \<not> is_session_control (cr_command request)"
  shows "preserves I (run_command (env :: 'w agent_env) ctx body)"
  using assms
  by (auto simp: run_command_def Let_def intro!: preserve_intros keeps_authorize keeps_replay
      keeps_run_action split: sum.splits)

end

locale service_predicate = request_predicate I world
  for I :: "agent_state \<Rightarrow> bool" and world :: "'w itself" +
  assumes attach: "\<And>(fx :: 'w effects) now i owner role ctl win st w. I st \<Longrightarrow>
      I (st\<lparr>st_sessions := fst (snd (session_attach fx now i owner role ctl win (st_sessions st) w))\<rparr>)"
    and detach: "\<And>(fx :: 'w effects) owner claim st w. I st \<Longrightarrow>
      I (st\<lparr>st_sessions := fst (snd (session_detach fx owner claim (st_sessions st) w))\<rparr>)"
    and renew: "I st \<Longrightarrow>
      I (st\<lparr>st_sessions := snd (session_renew now owner claim (st_sessions st))\<rparr>)"
begin

lemma keeps_sessions:
  "preserves I (sessions_attach (env :: 'w agent_env) ctx owner role ctl win)"
  "preserves I (sessions_detach env owner claim)"
  "preserves I (sessions_renew ctx owner claim :: ('w, session_grant) handler)"
  by (simp_all add: preserves_def sessions_attach_def sessions_detach_def sessions_renew_def
      case_prod_beta attach detach renew)

lemma keeps_verify: "preserves I (verify_callback_access (env :: 'w agent_env) c)"
  by (auto simp: preserves_def verify_callback_access_def Let_def split: prod.splits sum.splits)

lemma keeps_session_command:
  "preserves I (apply_session_command (env :: 'w agent_env) ctx peer command claim)"
  unfolding apply_session_command_def
  by (cases command)
    (auto simp: Let_def intro!: preserve_intros keeps_sessions keeps_verify)

lemma keeps_route: "preserves I (controlled_route (env :: 'w agent_env) ctx request)"
proof (cases "\<exists>body. request = PostCommand body")
  case True
  have "preserves I (run_command env ctx body)" for body
    unfolding run_command_def Let_def
    by (intro preserve_intros keeps_authorize keeps_replay keeps_run_action keeps_session_command)
  with True show ?thesis by (auto intro!: preserve_intros)
qed (use keeps_other_routes in blast)

lemma keeps_serve:
  assumes "serve (env :: 'w agent_env) ctx header request (st, w) = (r, st', w')" and "I st"
  shows "I st'"
proof -
  let ?h = "if request = GetHealth then controlled_route env ctx request
    else require_compatible_release header (controlled_route env ctx request)"
  obtain r1 where "?h (st, w) = (r1, st', w')"
    using assms(1) unfolding serve_def by (auto simp del: controlled_route.simps split: prod.splits)
  moreover have "preserves I ?h"
    unfolding require_compatible_release_def by (intro preserve_intros keeps_route)
  ultimately show ?thesis using assms(2) by (meson preservesD)
qed

end

section \<open>The invariant of the agent's state\<close>

definition agent_invar :: "agent_state \<Rightarrow> bool" where
  "agent_invar st \<longleftrightarrow> authorizer_invar (st_authorizer st) \<and> coordinator_invar (st_sessions st)
     \<and> pairing_invar (st_challenges st) \<and> replay_invar (st_replay st)
     \<and> rg_capacity (st_replay st) = max_tracked_requests
     \<and> lim_capacity (au_limiter (st_authorizer st)) = rate_limit_tracked_sources"

lemma session_ops_invar:
  assumes "coordinator_invar sc"
  shows "coordinator_invar (fst (snd (session_attach fx now i owner role ctl win sc w)))"
    and "coordinator_invar (fst (snd (session_detach fx owner claim sc w)))"
    and "coordinator_invar (snd (session_renew now owner claim sc))"
  using session_apply_invar [OF assms, of fx "OpAttach now i owner role ctl win" w]
    session_apply_invar [OF assms, of fx "OpDetach owner claim" w]
    session_apply_invar [OF assms, of _ "OpRenew now owner claim"]
  by simp_all

interpretation invar: service_predicate agent_invar world for world :: "'w itself"
  by unfold_locales
    (simp_all add: agent_invar_def authenticate_invar replay_admit_invar pairing_issue_invar
      pairing_consume_invar session_ops_invar replay_admit_frame authenticate_capacity)

interpretation same_sessions: request_predicate "\<lambda>st. st_sessions st = sc" world
  for sc and world :: "'w itself"
  by unfold_locales simp_all

section \<open>Commands\<close>

text \<open>A command is admissible when it is authorised, valid and fresh.\<close>

definition command_admissible ::
    "'w agent_env \<Rightarrow> request_ctx \<Rightarrow> command_request \<Rightarrow> agent_state \<Rightarrow> 'w \<Rightarrow> bool" where
  "command_admissible env ctx request st w \<longleftrightarrow>
     is_ok (fst (authorize (env_auth env) (rc_auth_clock ctx) (rc_source ctx)
       (required_capability (cr_command request)) (st_authorizer st) w))
     \<and> is_ok (command_validate (cr_command request))
     \<and> is_ok (fst (replay_admit (rc_now_utc ctx) (rc_replay_now ctx) (cr_request_id request)
         (cr_issued_at request) (st_replay st)))"

definition admitted_state ::
    "'w agent_env \<Rightarrow> request_ctx \<Rightarrow> command_request \<Rightarrow> agent_state \<Rightarrow> 'w \<Rightarrow> agent_state" where
  "admitted_state env ctx request st w = st
     \<lparr>st_authorizer := fst (snd (authenticate (env_auth env) (rc_auth_clock ctx) (rc_source ctx)
        (st_authorizer st) w)),
      st_replay := snd (replay_admit (rc_now_utc ctx) (rc_replay_now ctx) (cr_request_id request)
         (cr_issued_at request) (st_replay st))\<rparr>"

lemma run_command_admissible:
  assumes "command_admissible env ctx request st w"
  obtains peer where
    "fst (authorize (env_auth env) (rc_auth_clock ctx) (rc_source ctx)
       (required_capability (cr_command request)) (st_authorizer st) w) = Inr peer"
    and "run_command env ctx (Inr request) (st, w) =
      (if is_session_control (cr_command request)
       then apply_session_command env ctx peer (cr_command request) (cr_session request)
       else run_action env ctx (cr_command request))
        (admitted_state env ctx request st w,
         snd (snd (authenticate (env_auth env) (rc_auth_clock ctx) (rc_source ctx)
           (st_authorizer st) w)))"
  using assms
    authorize_state [of "env_auth env" "rc_auth_clock ctx" "rc_source ctx"
      "required_capability (cr_command request)" "st_authorizer st" w]
  by (auto simp: command_admissible_def is_ok_iff run_command_def Let_def call_then_apply
      agent_authorize_def reply_def replay_handler_def admitted_state_def case_prod_beta)

lemma run_command_refused_state:
  assumes "\<not> command_admissible env ctx request st w"
    and "run_command env ctx (Inr request) (st, w) = (r, st', w')"
  shows "\<not> is_ok r \<and> st_sessions st' = st_sessions st \<and> st_challenges st' = st_challenges st
    \<and> w' = snd (snd (authenticate (env_auth env) (rc_auth_clock ctx) (rc_source ctx)
        (st_authorizer st) w))"
  using assms
    authorize_state [of "env_auth env" "rc_auth_clock ctx" "rc_source ctx"
      "required_capability (cr_command request)" "st_authorizer st" w]
  by (auto simp: command_admissible_def is_ok_iff run_command_def Let_def call_then_apply
      agent_authorize_def reply_def replay_handler_def case_prod_beta
      split: sum.splits)

section \<open>Where an active session comes from\<close>

lemma session_attach_active:
  assumes "session_attach fx now i owner role ctl win sc w = (r, sc', w')"
    and "sc_active sc' = Some s"
  shows "sc_active sc = Some s
    \<or> as_id s = i \<and> as_owner s = owner \<and> as_role s = role \<and> as_controller s = ctl"
  using assms by (auto simp: session_attach_def Let_def split: prod.splits sum.splits if_splits)

lemma session_detach_active:
  "sc_active (fst (snd (session_detach fx owner claim sc w))) = Some s \<Longrightarrow> sc_active sc = Some s"
  by (auto simp: session_detach_def split: option.splits prod.splits sum.splits if_splits)

lemma session_renew_active: "sc_active (snd (session_renew now owner claim sc)) = sc_active sc"
  by (auto simp: session_renew_def split: option.splits)

lemma transpose_endpoint_Ok:
  "transpose_endpoint controller source = Inr ctl \<Longrightarrow>
     (ctl = None \<longleftrightarrow> controller = None) \<and> (\<forall>c. ctl = Some c \<longrightarrow> ep_address c = source)"
  by (auto simp: transpose_endpoint_def callback_endpoint_def split: option.splits if_splits)

lemma verify_callback_state: "snd (verify_callback_access env c (st, w)) = (st, snd (env_granted env c w))"
  by (simp add: verify_callback_access_def Let_def case_prod_beta split: sum.splits)

lemma attach_command_active:
  assumes "apply_session_command env ctx peer (AttachSession role controller window) claim (st, w)
      = (r, st', w')"
    and "sc_active (st_sessions st') = Some s"
  shows "sc_active (st_sessions st) = Some s
    \<or> as_id s = rc_fresh_session ctx \<and> as_owner s = ap_tailnet_node_id peer \<and> as_role s = role
      \<and> transpose_endpoint controller (rc_source ctx) = Inr (as_controller s)"
proof (cases "transpose_endpoint controller (rc_source ctx)")
  case (Inl e)
  with assms show ?thesis
    by (simp add: apply_session_command_def call_then_apply reply_def)
next
  case (Inr ctl)
  let ?probe = "case ctl of Some c \<Rightarrow> verify_callback_access env c | None \<Rightarrow> reply (Inr ())"
  obtain q w1 where probe: "?probe (st, w) = (q, st, w1)"
    using verify_callback_state [of env _ st w]
    by (cases ctl) (auto simp: reply_def, metis prod.collapse)
  from assms(1) probe Inr consider
      (refused) "st' = st"
    | (attached) sc w2 q' where "session_attach (env_effects env) (rc_session_now ctx)
        (rc_fresh_session ctx) (ap_tailnet_node_id peer) role ctl
        (unwrap_or window (WindowClass moonlight_window_class)) (st_sessions st) w1 = (q', sc, w2)"
        "st_sessions st' = sc"
    by (auto simp: apply_session_command_def call_then_apply reply_def sessions_attach_def Let_def
        split: sum.splits prod.splits)
  then show ?thesis
  proof cases
    case attached
    with assms(2) session_attach_active [OF attached(1)] Inr show ?thesis by auto
  qed (use assms(2) in simp)
qed

text \<open>
  What a request that made a session active was, for the agent's state and the world it arrived at:
  an attach command, sent over a compatible release, which the authorizer as it was then authorised
  to control sessions as the device recorded as owner, which was valid, and which the replay guard
  as it was then admitted; a controller endpoint can only be the address of that request, and a
  remote session has one.
\<close>

definition attached_by ::
    "'w agent_env \<Rightarrow> request_ctx \<Rightarrow> ustr option \<Rightarrow> api_request \<Rightarrow> agent_state \<times> 'w
       \<Rightarrow> active_session \<Rightarrow> bool" where
  "attached_by env ctx header request reached s \<longleftrightarrow>
     option_any is_compatible_release header
     \<and> (\<exists>req controller window peer.
          request = PostCommand (Inr req)
          \<and> cr_command req = AttachSession (as_role s) controller window
          \<and> fst (authorize (env_auth env) (rc_auth_clock ctx) (rc_source ctx) CapControlSession
               (st_authorizer (fst reached)) (snd reached)) = Inr peer
          \<and> as_owner s = ap_tailnet_node_id peer
          \<and> command_validate (cr_command req) = Inr ()
          \<and> fst (replay_admit (rc_now_utc ctx) (rc_replay_now ctx) (cr_request_id req)
               (cr_issued_at req) (st_replay (fst reached))) = Inr ())
     \<and> as_id s = rc_fresh_session ctx
     \<and> (\<forall>c. as_controller s = Some c \<longrightarrow> ep_address c = rc_source ctx)
     \<and> (as_role s = Remote \<longrightarrow> as_controller s \<noteq> None)"

lemma remote_attach_has_controller:
  "command_validate (AttachSession Remote controller window) = Inr () \<Longrightarrow> controller \<noteq> None"
  by (auto simp: result_simps)

lemma session_command_active:
  assumes "run_command env ctx (Inr req) (st, w) = (r, st', w')"
    and "sc_active (st_sessions st') = Some s"
    and "option_any is_compatible_release header"
  shows "sc_active (st_sessions st) = Some s
    \<or> attached_by env ctx header (PostCommand (Inr req)) (st, w) s"
proof (cases "is_session_control (cr_command req) \<and> command_admissible env ctx req st w")
  case False
  then consider (action) "\<not> is_session_control (cr_command req)"
    | (refused) "\<not> command_admissible env ctx req st w" by blast
  then have "st_sessions st' = st_sessions st"
  proof cases
    case action
    then have "preserves (\<lambda>x. st_sessions x = st_sessions st) (run_command env ctx (Inr req))"
      by (intro same_sessions.keeps_action_commands) simp
    then show ?thesis using assms(1) by (auto dest: preservesD)
  next
    case refused
    from run_command_refused_state [OF this assms(1)] show ?thesis by simp
  qed
  with assms(2) show ?thesis by simp
next
  case True
  then have adm: "command_admissible env ctx req st w" ..
  let ?st = "admitted_state env ctx req st w"
  let ?w = "snd (snd (authenticate (env_auth env) (rc_auth_clock ctx) (rc_source ctx)
    (st_authorizer st) w))"
  have same: "st_sessions ?st = st_sessions st" by (simp add: admitted_state_def)
  obtain peer where peer:
    "fst (authorize (env_auth env) (rc_auth_clock ctx) (rc_source ctx)
       (required_capability (cr_command req)) (st_authorizer st) w) = Inr peer"
    and run: "apply_session_command env ctx peer (cr_command req) (cr_session req) (?st, ?w)
      = (r, st', w')"
    by (rule run_command_admissible [OF adm]) (use True assms(1) in simp)
  show ?thesis
  proof (cases "cr_command req")
    case (AttachSession role controller window)
    then have valid: "command_validate (AttachSession role controller window) = Inr ()"
      and fresh: "fst (replay_admit (rc_now_utc ctx) (rc_replay_now ctx) (cr_request_id req)
        (cr_issued_at req) (st_replay st)) = Inr ()"
      using adm by (simp_all add: command_admissible_def is_ok_iff)
    have ctl: "(as_controller s = None \<longleftrightarrow> controller = None)
        \<and> (\<forall>c. as_controller s = Some c \<longrightarrow> ep_address c = rc_source ctx)"
      if "transpose_endpoint controller (rc_source ctx) = Inr (as_controller s)"
      using transpose_endpoint_Ok [OF that] .
    have rem: "controller \<noteq> None" if "role = Remote"
      using valid that remote_attach_has_controller by blast
    consider (before) "sc_active (st_sessions st) = Some s"
      | (now) "as_id s = rc_fresh_session ctx" "as_owner s = ap_tailnet_node_id peer" "as_role s = role"
          "transpose_endpoint controller (rc_source ctx) = Inr (as_controller s)"
      using attach_command_active [OF run [unfolded AttachSession] assms(2)] same by auto
    then show ?thesis
    proof cases
      case now
      with AttachSession peer valid fresh ctl rem assms(3) show ?thesis
        by (simp add: attached_by_def)
    qed simp
  next
    case DetachSession
    with run assms(2) same session_detach_active show ?thesis
      by (auto simp: apply_session_command_def call_then_apply reply_def sessions_detach_def
          case_prod_beta split: sum.splits)
  next
    case RenewSession
    with run assms(2) same show ?thesis
      by (auto simp: apply_session_command_def call_then_apply reply_def sessions_renew_def
          case_prod_beta session_renew_active split: sum.splits)
  qed (use True in simp_all)
qed

lemma serve_active:
  assumes "serve env ctx header request (st, w) = (resp, st', w')"
    and "sc_active (st_sessions st') = Some s"
  shows "sc_active (st_sessions st) = Some s \<or> attached_by env ctx header request (st, w) s"
proof (cases "request = GetHealth \<or> \<not> option_any is_compatible_release header")
  case True
  with assms show ?thesis
    by (auto simp: serve_def require_compatible_release_def reply_def split: if_splits prod.splits)
next
  case False
  then obtain q where q: "controlled_route env ctx request (st, w) = (q, st', w')"
    using assms(1) by (auto simp: serve_def require_compatible_release_def split: prod.splits)
  show ?thesis
  proof (cases "\<exists>req. request = PostCommand (Inr req)")
    case True
    then obtain req where req: "request = PostCommand (Inr req)" ..
    with q obtain q' where "run_command env ctx (Inr req) (st, w) = (q', st', w')"
      by (auto simp: mapped_def split: prod.splits)
    from session_command_active [OF this assms(2)] req False show ?thesis by auto
  next
    case other: False
    have "preserves (\<lambda>x. st_sessions x = st_sessions st) (controlled_route env ctx request)"
    proof (cases "\<exists>body. request = PostCommand body")
      case True
      with other obtain u where "request = PostCommand (Inl u)"
        by (metis obj_sumE)
      then show ?thesis by (auto intro!: preserve_intros simp: run_command_def)
    qed (use same_sessions.keeps_other_routes in blast)
    with q have "st_sessions st' = st_sessions st" by (auto dest: preservesD)
    with assms(2) show ?thesis by simp
  qed
qed

section \<open>Histories of the agent\<close>

text \<open>
  The life of an agent after startup: requests, ticks of the lease expiry task, and the release
  of the session at shutdown.
\<close>

datatype agent_event =
    EvRequest request_ctx "ustr option" api_request
  | EvExpiry instant
  | EvRelease

fun agent_step :: "'w agent_env \<Rightarrow> agent_event \<Rightarrow> agent_state \<times> 'w \<Rightarrow> agent_state \<times> 'w" where
  "agent_step env (EvRequest ctx header request) s = snd (serve env ctx header request s)"
| "agent_step env (EvExpiry now) (st, w) =
     (case session_expire_due (env_effects env) now (st_sessions st) w of
        (_, sc, w') \<Rightarrow> (st\<lparr>st_sessions := sc\<rparr>, w'))"
| "agent_step env EvRelease (st, w) =
     (case session_release (env_effects env) (st_sessions st) w of
        (sc, w') \<Rightarrow> (st\<lparr>st_sessions := sc\<rparr>, w'))"

definition agent_start :: "bool \<Rightarrow> agent_state" where
  "agent_start strict =
     \<lparr>st_authorizer = authorizer_new strict, st_sessions = coordinator_new default_lease,
      st_challenges = pairing_default, st_replay = replay_guard_default\<rparr>"

inductive agent_reach ::
    "'w agent_env \<Rightarrow> agent_state \<times> 'w \<Rightarrow> agent_event list \<Rightarrow> agent_state \<times> 'w \<Rightarrow> bool"
  for env s0 where
  start: "agent_reach env s0 [] s0"
| step: "agent_reach env s0 hist s \<Longrightarrow> agent_reach env s0 (hist @ [ev]) (agent_step env ev s)"

lemma expiry_release_invar:
  assumes "coordinator_invar sc"
  shows "coordinator_invar (fst (snd (session_expire_due fx now sc w)))"
    and "coordinator_invar (fst (session_release fx sc w))"
  using session_apply_invar [OF assms, of fx "OpExpire now" w]
    session_apply_invar [OF assms, of fx OpRelease w]
  by simp_all

lemma agent_step_invar: "agent_invar st \<Longrightarrow> agent_invar (fst (agent_step env ev (st, w)))"
proof (cases ev)
  case (EvRequest ctx header request)
  assume "agent_invar st"
  moreover obtain r st' w' where "serve env ctx header request (st, w) = (r, st', w')"
    by (metis surj_pair)
  ultimately show ?thesis using invar.keeps_serve EvRequest by fastforce
qed (simp_all add: agent_invar_def case_prod_beta expiry_release_invar)

lemma authorizer_invar_new: "authorizer_invar (authorizer_new strict)"
  by (simp add: authorizer_invar_def authorizer_new_def limiter_invar_def rate_limiter_new_def
      hm.invar_empty hm.size_empty hm.get_empty rate_limit_burst_def rate_limit_per_second_def)

lemma agent_start_invar: "agent_invar (agent_start strict)"
  by (simp add: agent_invar_def agent_start_def authorizer_invar_new coordinator_invar_new
      pairing_default_def pairing_invar_new replay_guard_default_def replay_invar_new)
    (simp add: replay_guard_new_def authorizer_new_def rate_limiter_new_def)

lemma agent_reach_state_invar:
  "agent_reach env s0 hist s \<Longrightarrow> agent_invar (fst s0) \<Longrightarrow> agent_invar (fst s)"
proof (induction rule: agent_reach.induct)
  case (step hist s ev)
  then show ?case using agent_step_invar [of "fst s" env ev "snd s"] by simp
qed

lemma expire_release_active:
  "sc_active (fst (snd (session_expire_due fx now sc w))) = Some s \<Longrightarrow> sc_active sc = Some s"
  "sc_active (fst (session_release fx sc w)) = Some s \<Longrightarrow> sc_active sc = Some s"
  by (auto simp: session_expire_due_def session_release_def Let_def
      split: prod.splits sum.splits if_splits)

lemma agent_step_active:
  assumes "sc_active (st_sessions (fst (agent_step env ev (st, w)))) = Some s"
  shows "sc_active (st_sessions st) = Some s
    \<or> (\<exists>ctx header request. ev = EvRequest ctx header request
          \<and> attached_by env ctx header request (st, w) s)"
proof (cases ev)
  case (EvRequest ctx header request)
  obtain r st' w' where "serve env ctx header request (st, w) = (r, st', w')"
    by (metis surj_pair)
  with serve_active [OF this] assms EvRequest show ?thesis by auto
qed (use assms expire_release_active in \<open>auto simp: case_prod_beta\<close>)

text \<open>Where in a history a session was made: the events before, and the state they led to.\<close>

definition attached_in ::
    "'w agent_env \<Rightarrow> agent_state \<times> 'w \<Rightarrow> agent_event list \<Rightarrow> active_session \<Rightarrow> bool" where
  "attached_in env s0 hist s \<longleftrightarrow>
     (\<exists>before ctx header request after reached.
        hist = before @ EvRequest ctx header request # after
        \<and> agent_reach env s0 before reached \<and> attached_by env ctx header request reached s)"

lemma attached_in_append: "attached_in env s0 hist s \<Longrightarrow> attached_in env s0 (hist @ later) s"
  unfolding attached_in_def by (metis append_Cons append_assoc)

lemma agent_reach_attached:
  "agent_reach env s0 hist s \<Longrightarrow> sc_active (st_sessions (fst s0)) = None \<Longrightarrow>
     sc_active (st_sessions (fst s)) = Some a \<Longrightarrow> attached_in env s0 hist a"
proof (induction rule: agent_reach.induct)
  case (step hist s ev)
  consider (before) "sc_active (st_sessions (fst s)) = Some a"
    | (now) ctx header request where "ev = EvRequest ctx header request"
        "attached_by env ctx header request s a"
    using agent_step_active [of env ev "fst s" "snd s" a] step.prems(2) by auto
  then show ?case
  proof cases
    case before
    with step.IH step.prems(1) show ?thesis by (simp add: attached_in_append)
  next
    case now
    with step.hyps show ?thesis unfolding attached_in_def by blast
  qed
qed simp

section \<open>An example agent\<close>

text \<open>A world that counts the calls that act on the desktop, and one known device, for the witnesses.\<close>

definition example_env :: "nat agent_env" where
  "example_env =
     \<lparr>env_node = \<lparr>ni_node_id = [], ni_hostname = [], ni_omarchy_version = [],
        ni_agent_version = release, ni_capabilities = []\<rparr>,
      env_agent_port = 47960, env_debug = False, env_auth = example_ports,
      env_effects = \<lparr>fx_install = (\<lambda>_ w. (Inr (), w + 1)), fx_clear = (\<lambda>w. (Inr (), w))\<rparr>,
      env_displays = (\<lambda>w. (Inr [], w)), env_workspaces = (\<lambda>w. (Inr [], w)),
      env_windows = (\<lambda>w. (Inr [], w)), env_active_window = (\<lambda>w. (Inr None, w)),
      env_focus_workspace = (\<lambda>_ w. (Inr (), w + 1)), env_focus_window = (\<lambda>_ w. (Inr (), w + 1)),
      env_sunshine_status = (\<lambda>w. (Inl (port_error_new (lit ''SUNSHINE_NOT_INSTALLED'') [] False), w)),
      env_submit_pin = (\<lambda>_ _ w. (Inr (), w + 1)), env_execute = (\<lambda>_ w. (Inr (), w + 1)),
      env_granted = (\<lambda>_ w. (Inr capability_callback, w)),
      env_client_displays = (\<lambda>_ w. (Inr [], w)),
      env_send_command = (\<lambda>_ _ w. (Inr response_executed, w + 1)),
      env_notify = (\<lambda>_ w. (Inr (), w))\<rparr>"

definition example_ctx :: "ip_addr \<Rightarrow> request_ctx" where
  "example_ctx source = \<lparr>rc_source = source, rc_auth_clock = example_clock,
     rc_now_utc = 0, rc_replay_now = 0, rc_session_now = 0, rc_pairing_now = 0,
     rc_fresh_session = 7, rc_fresh_pairing = lit ''ab'', rc_fresh_request = 9\<rparr>"

definition example_attach :: command_request where
  "example_attach = command_request_new 1 0
     (AttachSession Remote (Some \<lparr>se_address = V4 100 64 0 2, se_port = 47960\<rparr>) None)"

definition attach_event :: agent_event where
  "attach_event = EvRequest (example_ctx (V4 100 64 0 2)) (Some release)
     (PostCommand (Inr example_attach))"

lemma attach_example_reach:
  "agent_reach example_env (agent_start True, 0) ([] @ [attach_event])
     (agent_step example_env attach_event (agent_start True, 0))"
  by (rule agent_reach.step [OF agent_reach.start])

section \<open>Correctness\<close>

text \<open>
  C1: Nobody gets the desktop without having asked for it by the rules. In any life of the agent,
  whatever requests arrive from whom, an active session was made by an attach command in that
  history, sent over a compatible release. In the state the agent had reached when the command
  arrived, its sender was authorised to control sessions as the device recorded as owner, the
  command was valid, and the replay guard admitted it; the controller it reports to can only be the
  address the command came from, and a remote session has one.
\<close>

theorem active_session_was_authorised:
  assumes "agent_reach env (agent_start strict, w0) hist (st, w)"
    and "sc_active (st_sessions st) = Some s"
  shows "\<exists>before ctx header request after reached.
      hist = before @ EvRequest ctx header request # after
      \<and> agent_reach env (agent_start strict, w0) before reached
      \<and> attached_by env ctx header request reached s"
  using agent_reach_attached [OF assms(1)] assms(2)
  by (simp add: agent_start_def coordinator_new_def attached_in_def)

theorem active_session_was_authorised_witness:
  "\<exists>s ctx header request reached. sc_active (st_sessions (fst (agent_step example_env attach_event
       (agent_start True, 0)))) = Some s
     \<and> attach_event = EvRequest ctx header request \<and> attached_by example_env ctx header request reached s"
proof -
  let ?s = "agent_step example_env attach_event (agent_start True, 0)"
  have "sc_active (st_sessions (fst ?s)) \<noteq> None" by code_simp
  then obtain s where s: "sc_active (st_sessions (fst ?s)) = Some s" by blast
  have "agent_reach example_env (agent_start True, 0) [attach_event] (fst ?s, snd ?s)"
    using attach_example_reach by simp
  from active_session_was_authorised [OF this s] obtain ctx header request reached where
    "attach_event = EvRequest ctx header request" "attached_by example_env ctx header request reached s"
    by (auto simp: Cons_eq_append_conv)
  with s show ?thesis by metis
qed

text \<open>
  C29: The state of the agent stays well-formed and bounded in every reachable state: at most 4096
  remembered requests, 1024 rate-limited sources, 512 cached identities and 256 devices with
  pairing attempts, at most two challenges per device, and a session exactly while there is a
  lease for it, carrying the current generation.
\<close>

theorem agent_state_bounded:
  assumes "agent_reach env (agent_start strict, w0) hist (st, w)"
  shows "hm_len (rg_seen (st_replay st)) \<le> 4096
    \<and> hm_len (lim_buckets (au_limiter (st_authorizer st))) \<le> 1024
    \<and> hm_len (au_identities (st_authorizer st)) \<le> 512
    \<and> hm_len (pc_counters (st_challenges st)) \<le> 256
    \<and> hm_count (\<lambda>c. chl_owner c = owner) (pc_issued (st_challenges st)) \<le> 2
    \<and> (sc_active (st_sessions st) = None \<longleftrightarrow> sc_expires_at (st_sessions st) = None)
    \<and> option_all (\<lambda>s. as_generation s = sc_generation (st_sessions st)) (sc_active (st_sessions st))"
proof -
  have "agent_invar st" using agent_reach_state_invar [OF assms] agent_start_invar by simp
  then show ?thesis
    by (auto simp: agent_invar_def replay_invar_def authorizer_invar_def limiter_invar_def
        pairing_invar_def coordinator_invar_def option_all_def max_tracked_requests_def
        rate_limit_tracked_sources_def identity_cache_capacity_def max_tracked_owners_def
        max_outstanding_per_owner_def split: option.splits)
qed

theorem agent_state_bounded_witness:
  "hm_len (rg_seen (st_replay (fst (agent_step example_env attach_event (agent_start True, 0))))) \<le> 4096"
  using agent_state_bounded [of example_env True 0 "[attach_event]"
      "fst (agent_step example_env attach_event (agent_start True, 0))"
      "snd (agent_step example_env attach_event (agent_start True, 0))"] attach_example_reach
  by simp

text \<open>
  C2: A command acts only when it is authorised for its capability, valid and fresh. Otherwise the
  answer is an error, the session and the pairing challenges are as before, and nothing happened
  outside but the lookup of the sender's identity and of the allowlist.
\<close>

theorem inadmissible_command_has_no_effect:
  assumes "\<not> command_admissible env ctx request st w"
    and "run_command env ctx (Inr request) (st, w) = (r, st', w')"
  shows "\<not> is_ok r \<and> st_sessions st' = st_sessions st \<and> st_challenges st' = st_challenges st
    \<and> w' = snd (snd (authenticate (env_auth env) (rc_auth_clock ctx) (rc_source ctx)
        (st_authorizer st) w))"
  using assms by (rule run_command_refused_state)

theorem inadmissible_command_has_no_effect_witness:
  "\<not> is_ok (fst (run_command example_env (example_ctx (V4 10 0 0 1)) (Inr example_attach)
     (agent_start True, 0)))"
proof -
  have "\<not> command_admissible example_env (example_ctx (V4 10 0 0 1)) example_attach (agent_start True) 0"
    by code_simp
  from inadmissible_command_has_no_effect [OF this] show ?thesis by (metis prod.collapse)
qed

text \<open>
  A computer of another release gets nothing. Every request but the health check is refused
  with \<open>VERSION_INCOMPATIBLE\<close> when its release header is missing or not of this release line, and
  the refusal changes neither the agent nor the world; the answer names the release.
\<close>

theorem incompatible_release_is_refused:
  assumes "request \<noteq> GetHealth" and "\<not> option_any is_compatible_release header"
  shows "serve env ctx header request s =
    (\<lparr>ar_status = 409,
      ar_body = ErrorBody (error_envelope_new VersionIncompatible (api_message release_incompatible)),
      ar_release = release\<rparr>, s)"
  using assms
  by (simp add: serve_def require_compatible_release_def reply_def into_response_def
      release_incompatible_def api_error_new_def error_code_http_status_def)

theorem incompatible_release_is_refused_witness:
  "snd (serve example_env (example_ctx (V4 100 64 0 2)) None PostPairChallenge (agent_start True, 0))
     = (agent_start True, 0)"
  by (subst incompatible_release_is_refused) simp_all

lemma authorize_Inl: "fst (authenticate ports clk src a w) = Inl e \<Longrightarrow>
  authorize ports clk src cap a w = (Inl e, snd (authenticate ports clk src a w))"
  by (auto simp: authorize_def split: prod.splits)

lemma agent_authorize_fails:
  assumes "fst (authenticate (env_auth env) (rc_auth_clock ctx) (rc_source ctx) (st_authorizer st) w)
      = Inl e"
  shows "agent_authorize env ctx cap (st, w) = (Inl (api_error_from_authorization e),
      st\<lparr>st_authorizer := fst (snd (authenticate (env_auth env) (rc_auth_clock ctx) (rc_source ctx)
         (st_authorizer st) w))\<rparr>,
      snd (snd (authenticate (env_auth env) (rc_auth_clock ctx) (rc_source ctx) (st_authorizer st) w)))"
  using authorize_Inl [OF assms] by (simp add: agent_authorize_def case_prod_beta)

text \<open>
  Strangers only reach the health check. When the sender cannot be authenticated, every other
  request is answered with an error, and afterwards the agent differs at most in its authorizer
  and the world at most by the lookups of the authentication: no read port is called, nothing is
  remembered about the request, and no session or challenge changes.
\<close>

theorem unauthenticated_request_is_refused:
  assumes "fst (authenticate (env_auth env) (rc_auth_clock ctx) (rc_source ctx) (st_authorizer st) w)
      = Inl e"
    and "request \<noteq> GetHealth"
    and "serve env ctx header request (st, w) = (resp, st', w')"
  shows "(\<exists>envelope. ar_body resp = ErrorBody envelope)
    \<and> st' \<in> {st, st\<lparr>st_authorizer := fst (snd (authenticate (env_auth env) (rc_auth_clock ctx)
          (rc_source ctx) (st_authorizer st) w))\<rparr>}
    \<and> w' \<in> {w, snd (snd (authenticate (env_auth env) (rc_auth_clock ctx) (rc_source ctx)
          (st_authorizer st) w))}"
proof -
  have refused: "\<exists>x. controlled_route env ctx request (st, w) = (Inl x, st', w')
      \<and> (st', w') \<in> {(st, w), (st\<lparr>st_authorizer := fst (snd (authenticate (env_auth env)
          (rc_auth_clock ctx) (rc_source ctx) (st_authorizer st) w))\<rparr>,
          snd (snd (authenticate (env_auth env) (rc_auth_clock ctx) (rc_source ctx)
            (st_authorizer st) w)))}"
    if "controlled_route env ctx request (st, w) = (q, st', w')" for q
    using that assms(2) agent_authorize_fails [OF assms(1)] assms(1)
    by (cases request)
      (auto simp: mapped_def node_handler_def capabilities_handler_def displays_handler_def
        workspaces_handler_def windows_handler_def active_window_handler_def
        focus_workspace_handler_def focus_window_handler_def sunshine_status_handler_def
        pair_challenge_handler_def pair_handler_def run_command_def Let_def reply_def
        call_then_apply case_prod_beta split: sum.splits)
  show ?thesis
  proof (cases "option_any is_compatible_release header")
    case True
    then obtain q where q: "controlled_route env ctx request (st, w) = (q, st', w')"
      and resp: "(ar_status resp, ar_body resp) = into_response q"
      using assms(2,3) by (auto simp: serve_def require_compatible_release_def split: prod.splits)
    from refused [OF q] q resp show ?thesis by (auto simp: into_response_def)
  next
    case False
    with assms(2,3) show ?thesis
      by (auto simp: serve_def require_compatible_release_def reply_def into_response_def)
  qed
qed

theorem unauthenticated_request_is_refused_witness:
  "\<exists>envelope. ar_body (fst (serve example_env (example_ctx (V4 10 0 0 1)) (Some release)
     PostPairChallenge (agent_start True, 0))) = ErrorBody envelope"
proof -
  have "fst (authenticate (env_auth example_env) (rc_auth_clock (example_ctx (V4 10 0 0 1)))
      (rc_source (example_ctx (V4 10 0 0 1))) (st_authorizer (agent_start True)) 0)
    = Inl AuthOutsideTailnet"
    by code_simp
  from unauthenticated_request_is_refused [OF this, of PostPairChallenge "Some release"] show ?thesis
    by (metis api_request.distinct(21) prod.collapse)
qed

text \<open>
  C17: A pairing PIN reaches Sunshine only through a challenge. When a pairing request is approved,
  its sender was authorised to approve pairing, its fields are valid, and it consumed a challenge
  issued to it; when consuming fails, nothing happens outside.
\<close>

theorem pairing_needs_challenge:
  assumes "pair_handler env ctx (Inr request) (st, w) = (r, st', w')"
    and "w' \<noteq> snd (snd (authenticate (env_auth env) (rc_auth_clock ctx) (rc_source ctx)
        (st_authorizer st) w)) \<or> is_ok r"
  shows "\<exists>peer. fst (authorize (env_auth env) (rc_auth_clock ctx) (rc_source ctx) CapApprovePairing
        (st_authorizer st) w) = Inr peer
    \<and> pair_request_validate request = Inr ()
    \<and> fst (pairing_consume (ap_tailnet_node_id peer) (rc_pairing_now ctx) (pr_pairing_id request)
        (st_challenges st)) = Inr ()"
  using assms
    authorize_state [of "env_auth env" "rc_auth_clock ctx" "rc_source ctx" CapApprovePairing
      "st_authorizer st" w]
  by (auto simp: pair_handler_def call_then_apply agent_authorize_def reply_def case_prod_beta
      challenges_consume_def split: sum.splits)

definition example_paired_state :: agent_state where
  "example_paired_state = fst (snd (pair_challenge_handler example_env (example_ctx (V4 100 64 0 2))
     (agent_start True, 0)))"

definition example_pair_request :: sunshine_pair_request where
  "example_pair_request = \<lparr>pr_pairing_id = lit ''ab'', pr_pin = lit ''0427'', pr_client_name = lit ''pc''\<rparr>"

theorem pairing_needs_challenge_witness:
  "\<exists>peer :: authorized_peer. fst (pairing_consume (ap_tailnet_node_id peer) 0 (lit ''ab'')
     (st_challenges example_paired_state)) = Inr ()"
proof -
  let ?r = "pair_handler example_env (example_ctx (V4 100 64 0 2)) (Inr example_pair_request)
    (example_paired_state, 0)"
  have ok: "is_ok (fst ?r)" by code_simp
  have "?r = (fst ?r, fst (snd ?r), snd (snd ?r))" by simp
  from pairing_needs_challenge [OF this disjI2 [OF ok]] show ?thesis
    by (auto simp: example_ctx_def example_pair_request_def)
qed

text \<open>
  C18: A session that would send shortcuts back is granted only to a controller that accepts them.
  When an attach command with a controller endpoint is granted, the endpoint is the sender's own
  address and the agent there reported both callback capabilities for this device.
\<close>

theorem attach_verifies_callbacks:
  assumes "apply_session_command env ctx peer (AttachSession role (Some endpoint) window) claim (st, w)
      = (Inr resp, st', w')"
  shows "se_address endpoint = rc_source ctx
    \<and> (\<exists>granted w1. env_granted env \<lparr>ep_address = rc_source ctx, ep_port = se_port endpoint\<rparr> w
          = (Inr granted, w1)
        \<and> CapSendShortcut \<in> set granted \<and> CapCloseStream \<in> set granted)
    \<and> resp_session resp \<noteq> None"
  using assms
  by (auto simp: apply_session_command_def call_then_def reply_def transpose_endpoint_def
      callback_endpoint_def verify_callback_access_def capability_callback_def Let_def
      response_granted_def returning_def split: prod.splits sum.splits if_splits)

theorem attach_verifies_callbacks_witness:
  "\<exists>granted w1. env_granted example_env \<lparr>ep_address = V4 100 64 0 2, ep_port = 47960\<rparr> 0
     = (Inr granted, w1) \<and> CapSendShortcut \<in> set granted"
proof -
  let ?peer = "\<lparr>ap_tailnet_node_id = lit ''n1'', ap_capabilities = capability_all\<rparr>"
  let ?r = "apply_session_command example_env (example_ctx (V4 100 64 0 2)) ?peer
    (AttachSession Remote (Some \<lparr>se_address = V4 100 64 0 2, se_port = 47960\<rparr>) None) None
    (agent_start True, 0)"
  have "is_ok (fst ?r)" by code_simp
  then obtain resp where "?r = (Inr resp, fst (snd ?r), snd (snd ?r))"
    by (auto simp: is_ok_iff) (metis prod.collapse)
  from attach_verifies_callbacks [OF this] show ?thesis by (auto simp: example_ctx_def)
qed

end
