(* ===== verification/Target.thy ===== *)
theory Target
  imports Core IpText
begin

text \<open>
  \<open>crates/omdesky-application/src/target.rs\<close>: a name or an address given on the command line
  selects exactly one device of the tailnet, or the lookup fails. \<open>parse_ip\<close> (theory \<open>IpText\<close>) is
  the standard library's parser of IP addresses.
\<close>

datatype peer_lookup_error = PeerNotFound | PeerAmbiguous "ustr list"

definition is_full_stop :: "ucs \<Rightarrow> bool" where
  "is_full_stop c \<longleftrightarrow> c = 46"

definition full_dns_name :: "ustr \<Rightarrow> ustr" where
  "full_dns_name dns_name = trim_end_matches is_full_stop dns_name"

definition unique_name :: "mesh_peer \<Rightarrow> ustr" where
  "unique_name peer = unwrap_or (map_option full_dns_name (mp_dns_name peer)) (mp_tailnet_node_id peer)"

definition peer_display_name :: "mesh_peer \<Rightarrow> ustr" where
  "peer_display_name peer =
     unwrap_or (or_else (mp_hostname peer) (map_option full_dns_name (mp_dns_name peer)))
       (mp_tailnet_node_id peer)"

definition names_peer :: "mesh_peer \<Rightarrow> ustr \<Rightarrow> bool" where
  "names_peer peer target \<longleftrightarrow>
     (if target = [] then False
      else if mp_tailnet_node_id peer = target then True
      else
        let hostname_matches =
              option_any (\<lambda>hostname. eq_ignore_ascii_case hostname target) (mp_hostname peer);
            dns_matches = option_any
              (\<lambda>dns_name.
                 let full = full_dns_name dns_name;
                     short = unwrap_or (list_first (split_on is_full_stop full)) full
                 in eq_ignore_ascii_case full (trim_end_matches is_full_stop target)
                    \<or> eq_ignore_ascii_case short target)
              (mp_dns_name peer)
        in hostname_matches \<or> dns_matches)"

definition peer_matches :: "mesh_peer list \<Rightarrow> ustr \<Rightarrow> mesh_peer list" where
  "peer_matches peers target =
     (case parse_ip target of
        Some address \<Rightarrow> filter (\<lambda>p. List.member (mp_ips p) address) peers
      | None \<Rightarrow> filter (\<lambda>p. names_peer p target) peers)"

definition find_peer :: "mesh_peer list \<Rightarrow> ustr \<Rightarrow> peer_lookup_error + mesh_peer" where
  "find_peer peers target =
     (let target = trim target; matches = peer_matches peers target
      in case matches of
           [] \<Rightarrow> Inl PeerNotFound
         | [peer] \<Rightarrow> Inr peer
         | _ \<Rightarrow> Inl (PeerAmbiguous (map unique_name matches)))"

section \<open>The lookup is decided by the matches\<close>

lemma find_peer_Ok: "find_peer peers target = Inr p \<longleftrightarrow> peer_matches peers (trim target) = [p]"
  by (auto simp: find_peer_def Let_def split: list.splits)

lemma peer_matches_subset: "set (peer_matches peers target) \<subseteq> set peers"
  by (auto simp: peer_matches_def split: option.splits)

lemma peer_matches_singleton:
  assumes "peer_matches peers target = [p]" and "q \<in> set peers" and "q \<noteq> p"
  shows "q \<notin> set (peer_matches peers target)"
  using assms by simp

lemma names_peer_case:
  "eq_ignore_ascii_case s t \<Longrightarrow> mp_hostname peer = Some t \<Longrightarrow> s \<noteq> [] \<Longrightarrow> names_peer peer s"
  by (auto simp: names_peer_def Let_def eq_ignore_ascii_case_def)

section \<open>Correctness\<close>

text \<open>
  A name selects one device or none. A successful lookup returns a device of the list that the
  target names or whose address it is, and no other device of the list does; with two candidates
  the lookup fails and lists them, with none it fails, so a command never reaches a device by
  guess.
\<close>

theorem find_peer_unambiguous:
  "(case find_peer peers target of
      Inr p \<Rightarrow> p \<in> set peers \<and> filter (\<lambda>q. case parse_ip (trim target) of
                Some a \<Rightarrow> a \<in> set (mp_ips q) | None \<Rightarrow> names_peer q (trim target)) peers = [p]
    | Inl PeerNotFound \<Rightarrow> peer_matches peers (trim target) = []
    | Inl (PeerAmbiguous names) \<Rightarrow> names = map unique_name (peer_matches peers (trim target))
        \<and> 2 \<le> length names)"
proof (cases "peer_matches peers (trim target)" rule: remdups_adj.cases)
  case (2 p)
  then have "find_peer peers target = Inr p" by (simp add: find_peer_Ok)
  moreover have "p \<in> set peers" using 2 peer_matches_subset [of peers "trim target"] by simp
  ultimately show ?thesis
    using 2 by (simp add: peer_matches_def List.member_iff split: option.splits)
qed (simp_all add: find_peer_def Let_def)

end
