(* ===== verification/FollowFocus.thy ===== *)
theory FollowFocus
  imports Ports
begin

text \<open>
  \<open>crates/omdesky-application/src/display.rs\<close>: the router that follows the focused display of the
  remote desktop. A focus signal re-reads the topology and arms a timer; when the timer fires, the
  stream is switched. The \<open>select!\<close> loop is a list of events, each with the instant it happens; a
  timer event does nothing before the deadline, as a sleeping timer does not fire.
\<close>

record 'w router =
  ro_current_display :: "('w, display_id port_result) call"
  ro_switch_display :: "display_id \<Rightarrow> ('w, unit port_result) call"
  ro_topology :: "('w, topology port_result) call"
  ro_notify :: "notification \<Rightarrow> ('w, unit port_result) call"
  ro_debounce :: duration

record routing_state =
  rt_streamed :: "display_id option"
  rt_pending :: "display_id option"
  rt_deadline :: "instant option"

definition routing_initial :: "display_id option \<Rightarrow> routing_state" where
  "routing_initial streamed = \<lparr>rt_streamed = streamed, rt_pending = None, rt_deadline = None\<rparr>"

definition route_topology :: "duration \<Rightarrow> instant \<Rightarrow> topology \<Rightarrow> routing_state \<Rightarrow> routing_state" where
  "route_topology debounce now topo s =
     (case or_else (rt_streamed s) (topology_preferred topo) of
        None \<Rightarrow> s
      | Some streamed \<Rightarrow>
          (case follow_focus_target topo streamed of
             Some target \<Rightarrow> \<lparr>rt_streamed = Some streamed, rt_pending = Some target,
                             rt_deadline = Some (now + debounce)\<rparr>
           | None \<Rightarrow> \<lparr>rt_streamed = Some streamed, rt_pending = None, rt_deadline = None\<rparr>))"

definition reevaluate :: "'w router \<Rightarrow> instant \<Rightarrow> routing_state \<Rightarrow> 'w \<Rightarrow> routing_state \<times> 'w" where
  "reevaluate r now s w =
     (case ro_topology r w of
        (Inl _, w') \<Rightarrow> (s, w')
      | (Inr topo, w') \<Rightarrow> (route_topology (ro_debounce r) now topo s, w'))"

definition switch_failed_notification :: notification where
  "switch_failed_notification =
     \<lparr>nt_summary = lit ''Omdesky'',
      nt_body = lit ''The streamed display could not be changed. The current display will stay active.''\<rparr>"

definition commit_pending :: "'w router \<Rightarrow> routing_state \<Rightarrow> 'w \<Rightarrow> routing_state \<times> 'w" where
  "commit_pending r s w =
     (case rt_pending s of
        None \<Rightarrow> (s\<lparr>rt_deadline := None\<rparr>, w)
      | Some target \<Rightarrow>
          (let s1 = s\<lparr>rt_deadline := None, rt_pending := None\<rparr>
           in case ro_switch_display r target w of
                (Inr _, w1) \<Rightarrow> (s1\<lparr>rt_streamed := Some target\<rparr>, w1)
              | (Inl _, w1) \<Rightarrow> (s1, snd (ro_notify r switch_failed_notification w1))))"

datatype router_event = Signal instant | Timer instant

fun router_step :: "'w router \<Rightarrow> router_event \<Rightarrow> routing_state \<times> 'w \<Rightarrow> routing_state \<times> 'w" where
  "router_step r (Signal now) (s, w) = reevaluate r now s w"
| "router_step r (Timer now) (s, w) =
     (case rt_deadline s of
        Some deadline \<Rightarrow> if deadline \<le> now then commit_pending r s w else (s, w)
      | None \<Rightarrow> (s, w))"

definition router_run :: "'w router \<Rightarrow> router_event list \<Rightarrow> 'w \<Rightarrow> routing_state \<times> 'w" where
  "router_run r events w =
     (case ro_current_display r w of
        (result, w') \<Rightarrow> foldl (\<lambda>st e. router_step r e st) (routing_initial (result_ok result), w') events)"

section \<open>The state between events\<close>

text \<open>
  A switch is pending exactly while the timer is armed, and never to the display that is already
  being streamed.
\<close>

definition routing_invar :: "routing_state \<Rightarrow> bool" where
  "routing_invar s \<longleftrightarrow> (rt_pending s = None \<longleftrightarrow> rt_deadline s = None)
     \<and> (rt_pending s \<noteq> None \<longrightarrow> rt_streamed s \<noteq> None \<and> rt_pending s \<noteq> rt_streamed s)"

lemma follow_focus_target_Some:
  "follow_focus_target topo streamed = Some target \<longleftrightarrow>
     topology_preferred topo = Some target \<and> target \<noteq> streamed"
  by (auto simp: follow_focus_target_def split: option.splits)

lemma route_topology_invar: "routing_invar s \<Longrightarrow> routing_invar (route_topology d now topo s)"
  by (auto simp: route_topology_def routing_invar_def follow_focus_target_Some
      split: option.splits)

lemma router_step_invar: "routing_invar (fst st) \<Longrightarrow> routing_invar (fst (router_step r e st))"
proof (cases e)
  case (Signal now)
  assume "routing_invar (fst st)"
  with Signal route_topology_invar show ?thesis
    by (cases st) (auto simp: reevaluate_def split: prod.splits sum.splits)
next
  case (Timer now)
  assume "routing_invar (fst st)"
  with Timer show ?thesis
    by (cases st) (auto simp: commit_pending_def routing_invar_def Let_def
        split: option.splits prod.splits sum.splits)
qed

lemma routing_initial_invar: "routing_invar (routing_initial streamed)"
  by (simp add: routing_invar_def routing_initial_def)

lemma router_run_invar: "routing_invar (fst (router_run r events w))"
proof -
  have "routing_invar (fst st) \<Longrightarrow> routing_invar (fst (foldl (\<lambda>st e. router_step r e st) st es))"
    for es st
    by (induction es arbitrary: st) (simp_all add: router_step_invar)
  then show ?thesis
    by (simp add: router_run_def case_prod_beta routing_initial_invar)
qed

text \<open>What is pending depends on the last topology alone, so a burst of signals means one switch.\<close>

lemma route_topology_streamed:
  "rt_streamed s = Some d \<Longrightarrow> rt_streamed (route_topology db now topo s) = Some d"
  by (auto simp: route_topology_def split: option.splits)

lemma route_topology_last:
  "rt_streamed s = rt_streamed s' \<Longrightarrow> rt_streamed s \<noteq> None \<Longrightarrow>
     route_topology db now topo s = route_topology db now topo s'"
  by (auto simp: route_topology_def split: option.splits)

section \<open>Correctness\<close>

text \<open>
  In every state the router reaches, whatever signals, topologies and failures occur, a switch
  is pending exactly while its timer is armed, and never to the display that is being streamed.
\<close>

theorem router_never_switches_in_place:
  "(rt_pending (fst (router_run r events w)) = None \<longleftrightarrow> rt_deadline (fst (router_run r events w)) = None)
   \<and> \<not> (\<exists>d. rt_pending (fst (router_run r events w)) = Some d
          \<and> rt_streamed (fst (router_run r events w)) \<in> {None, Some d})"
  using router_run_invar [of r events w] unfolding routing_invar_def by auto

fun signal_burst :: "duration \<Rightarrow> (instant \<times> topology) list \<Rightarrow> routing_state \<Rightarrow> routing_state" where
  "signal_burst debounce [] s = s"
| "signal_burst debounce ((now, topo) # rest) s =
     signal_burst debounce rest (route_topology debounce now topo s)"

lemma signal_burst_last:
  assumes "rt_streamed s = Some d"
  shows "signal_burst debounce (burst @ [(now, topo)]) s = route_topology debounce now topo s"
  using assms
proof (induction burst arbitrary: s)
  case (Cons e burst)
  obtain t topo' where e: "e = (t, topo')" by (cases e)
  let ?s = "route_topology debounce t topo' s"
  have "rt_streamed ?s = Some d" by (rule route_topology_streamed [OF Cons.prems])
  with Cons.IH [of ?s] e Cons.prems route_topology_last [of ?s s debounce now topo] show ?case
    by simp
qed simp

text \<open>
  A burst of focus changes means at most one switch. After any burst of signals with any
  topologies in between, only the last topology counts: a timer before its deadline does nothing,
  and the one after it asks for exactly the display that topology prefers, unless that is the one
  already streamed, in which case nothing is asked for.
\<close>

theorem burst_switches_once:
  assumes "rt_streamed s = Some d"
    and "now \<le> t1" and "t1 < now + ro_debounce r" and "now + ro_debounce r \<le> t2"
  shows "(let s' = signal_burst (ro_debounce r) (burst @ [(now, topo)]) s
          in router_step r (Timer t1) (s', w) = (s', w)
           \<and> router_step r (Timer t2) (s', w) =
               (case topology_preferred topo of
                  None \<Rightarrow> (s', w)
                | Some target \<Rightarrow> if target = d then (s', w) else commit_pending r s' w)
           \<and> rt_pending s' = (case topology_preferred topo of
                  None \<Rightarrow> None
                | Some target \<Rightarrow> if target = d then None else Some target))"
  using assms
  by (auto simp: signal_burst_last [OF assms(1)] Let_def route_topology_def follow_focus_target_def
      split: option.splits)

definition example_router :: "display_id list router" where
  "example_router =
     \<lparr>ro_current_display = (\<lambda>w. (Inr (DisplayId (lit ''DP-1'')), w)),
      ro_switch_display = (\<lambda>d w. (Inr (), w @ [d])),
      ro_topology = (\<lambda>w. (Inr (topology_new [] None), w)),
      ro_notify = (\<lambda>_ w. (Inr (), w)), ro_debounce = 50\<rparr>"

theorem burst_switches_once_witness:
  "let s' = signal_burst 50 ([(0, topology_new [] (Some (DisplayId (lit ''DP-2''))))]
        @ [(10, topology_new [] (Some (DisplayId (lit ''DP-3''))))])
        (routing_initial (Some (DisplayId (lit ''DP-1''))))
   in router_step example_router (Timer 70) (s', []) = commit_pending example_router s' []"
  using burst_switches_once [of "routing_initial (Some (DisplayId (lit ''DP-1'')))" "DisplayId (lit ''DP-1'')"
      10 59 example_router 70 "[(0, topology_new [] (Some (DisplayId (lit ''DP-2''))))]"
      "topology_new [] (Some (DisplayId (lit ''DP-3'')))" "[]"]
  by (simp add: routing_initial_def example_router_def topology_preferred_def topology_new_def Let_def)

end
