(* ===== verification/AppAccess.thy ===== *)
theory AppAccess
  imports Ports
begin

text \<open>
  \<open>crates/omdesky-application/src/access.rs\<close> and \<open>readiness.rs\<close>: what a controller checks before it
  connects. The remote device must hold the callback capabilities on this computer, and both the
  local agent and Sunshine must be ready.
\<close>

definition missing_callback_capabilities ::
    "allowed_controller list \<Rightarrow> ustr \<Rightarrow> control_capability list" where
  "missing_callback_capabilities allowlist node_id =
     (let entry = find (\<lambda>e. ac_tailnet_node_id e = node_id) allowlist
      in filter (\<lambda>c. \<not> option_any (\<lambda>e. allowed_controller_allows e c) entry) capability_callback)"

definition callback_access_error :: "control_capability list \<Rightarrow> port_error" where
  "callback_access_error missing =
     port_error_new (lit ''CALLBACK_ACCESS_MISSING'')
       (lit ''the controller does not grant '' @ join (lit '','') (map capability_as_str missing)
        @ lit '' to the remote device'') False"

definition callback_access_verify ::
    "(ip_addr \<Rightarrow> ('w, mesh_node_identity option port_result) call)
       \<Rightarrow> ('w, allowed_controller list port_result) call \<Rightarrow> ip_addr
       \<Rightarrow> ('w, unit port_result) call" where
  "callback_access_verify identify_source access_list address =
     call_then (identify_source address)
       (\<lambda>identity. call_then
          (returning (ok_or identity
             (port_error_new (lit ''PEER_IDENTITY_UNKNOWN'')
               (lit ''Tailscale does not know the remote address'') False)))
          (\<lambda>identity. call_then access_list
             (\<lambda>allowlist.
                let missing = missing_callback_capabilities allowlist (mni_tailnet_node_id identity)
                in if missing = [] then returning (Inr ())
                   else returning (Inl (callback_access_error missing)))))"

section \<open>Readiness\<close>

definition ensure_compatible_agent :: "health_response \<Rightarrow> unit port_result" where
  "ensure_compatible_agent health =
     (if hr_protocol health = protocol_version \<and> is_compatible_release (hr_agent_version health)
      then Inr ()
      else Inl (port_error_new (lit ''VERSION_INCOMPATIBLE'')
        (lit ''the device runs Omdesky '' @ hr_agent_version health
         @ lit '' and this computer runs '' @ release) False))"

definition ensure_controller_ready ::
    "health_response port_result \<Rightarrow> bool \<Rightarrow> unit port_result" where
  "ensure_controller_ready local_agent sunshine_configured =
     try_then
       (map_err (\<lambda>_. port_error_new (lit ''LOCAL_AGENT_UNAVAILABLE'')
           (lit ''the local omdesky-agent is not running'') True) local_agent)
       (\<lambda>health. try_then
          (map_err (\<lambda>e. port_error_new (lit ''LOCAL_AGENT_INCOMPATIBLE'') (perr_message e) False)
             (ensure_compatible_agent health))
          (\<lambda>_. if \<not> sunshine_configured
             then Inl (port_error_new (lit ''LOCAL_SUNSHINE_UNCONFIGURED'')
               (lit ''Sunshine credentials are not configured on this controller'') False)
             else Inr ()))"

section \<open>Facts\<close>

lemma missing_callback_set:
  "set (missing_callback_capabilities allowlist node_id) =
     {c \<in> {CapSendShortcut, CapCloseStream}.
        \<not> (\<exists>e. find (\<lambda>e. ac_tailnet_node_id e = node_id) allowlist = Some e
              \<and> c \<in> set (ac_capabilities e))}"
  by (cases "find (\<lambda>e. ac_tailnet_node_id e = node_id) allowlist")
    (auto simp: missing_callback_capabilities_def capability_callback_def Let_def
      allowed_controller_allows_def)

lemma callback_verify_Ok:
  assumes "callback_access_verify identify access_list address w = (Inr u, w')"
  shows "\<exists>identity w1 allowlist entry.
      identify address w = (Inr (Some identity), w1) \<and> access_list w1 = (Inr allowlist, w')
      \<and> find (\<lambda>e. ac_tailnet_node_id e = mni_tailnet_node_id identity) allowlist = Some entry
      \<and> set capability_callback \<subseteq> set (ac_capabilities entry)"
proof -
  from assms obtain identity w1 allowlist where
    steps: "identify address w = (Inr (Some identity), w1)" "access_list w1 = (Inr allowlist, w')"
    and none: "missing_callback_capabilities allowlist (mni_tailnet_node_id identity) = []"
    by (auto simp: callback_access_verify_def call_then_def Let_def
        split: prod.splits sum.splits option.splits if_splits)
  let ?entry = "find (\<lambda>e. ac_tailnet_node_id e = mni_tailnet_node_id identity) allowlist"
  from none have all: "\<forall>c\<in>{CapSendShortcut, CapCloseStream}.
      \<exists>e. ?entry = Some e \<and> c \<in> set (ac_capabilities e)"
    using missing_callback_set [of allowlist "mni_tailnet_node_id identity"] by simp blast
  then obtain entry where "?entry = Some entry" by blast
  moreover from this all have "set capability_callback \<subseteq> set (ac_capabilities entry)"
    by (simp add: capability_callback_def)
  ultimately obtain entry where "?entry = Some entry"
    "set capability_callback \<subseteq> set (ac_capabilities entry)" by blast
  with steps show ?thesis by blast
qed

lemma ensure_controller_ready_Ok:
  "ensure_controller_ready agent configured = Inr () \<longleftrightarrow>
     configured \<and> (\<exists>h. agent = Inr h \<and> hr_protocol h = protocol_version
       \<and> is_compatible_release (hr_agent_version h))"
  by (cases agent) (auto simp: ensure_controller_ready_def ensure_compatible_agent_def result_simps)

section \<open>Correctness\<close>

text \<open>
  A controller connects only to a device that may send shortcuts back: the check of the local
  allowlist succeeds only when the mesh network knows the address and the entry of that device
  grants both callback capabilities.
\<close>

theorem callback_access_sound:
  assumes "callback_access_verify identify access_list address w = (Inr u, w')"
  shows "\<exists>identity w1 allowlist entry.
      identify address w = (Inr (Some identity), w1) \<and> access_list w1 = (Inr allowlist, w')
      \<and> find (\<lambda>e. ac_tailnet_node_id e = mni_tailnet_node_id identity) allowlist = Some entry
      \<and> {CapSendShortcut, CapCloseStream} \<subseteq> set (ac_capabilities entry)"
  using callback_verify_Ok [OF assms] by (simp add: capability_callback_def)

definition example_identity :: mesh_node_identity where
  "example_identity = \<lparr>mni_tailnet_node_id = lit ''n2'', mni_user = None, mni_hostname = None,
     mni_addresses = []\<rparr>"

theorem callback_access_sound_witness:
  "\<exists>identity w1 allowlist entry.
      ((Inr (Some example_identity), ()) :: mesh_node_identity option port_result \<times> unit)
        = (Inr (Some identity), w1)
      \<and> ((Inr [allowed_controller_new (lit ''n2'') None 0 [CapCloseStream, CapSendShortcut]], w1)
           :: allowed_controller list port_result \<times> unit) = (Inr allowlist, ())
      \<and> find (\<lambda>e. ac_tailnet_node_id e = mni_tailnet_node_id identity) allowlist = Some entry
      \<and> {CapSendShortcut, CapCloseStream} \<subseteq> set (ac_capabilities entry)"
proof -
  have "callback_access_verify (\<lambda>_ w. (Inr (Some example_identity), w))
      (\<lambda>w. (Inr [allowed_controller_new (lit ''n2'') None 0 [CapCloseStream, CapSendShortcut]], w))
      (V4 100 64 0 3) () = (Inr (), ())"
    by (simp add: callback_access_verify_def call_then_def returning_def Let_def
        missing_callback_capabilities_def example_identity_def allowed_controller_new_def
        capability_callback_def allowed_controller_allows_def)
  then show ?thesis by (rule callback_access_sound)
qed

text \<open>
  A computer is ready to control others exactly when its own agent answers with this protocol
  version and release line and Sunshine is configured.
\<close>

theorem controller_ready_iff:
  "ensure_controller_ready agent configured = Inr () \<longleftrightarrow>
     configured \<and> (\<exists>h. agent = Inr h \<and> hr_protocol h = 2 \<and> is_compatible_release (hr_agent_version h))"
  using ensure_controller_ready_Ok by (simp add: protocol_version_def)

end
