(* ===== verification/Discovery.thy ===== *)
theory Discovery
  imports AppAccess "HOL-Library.Product_Lexorder" "HOL-Library.Multiset"
begin

text \<open>
  \<open>crates/omdesky-application/src/discovery.rs\<close>: the list of devices of the tailnet with what
  stands in the way of connecting to each. Probing only reads, so the answers of the agents
  (\<open>health\<close>, \<open>node_info\<close>) and the time a health check takes are functions of the endpoint. Probes
  finish in any order: \<open>finish\<close> is the order in which \<open>buffer_unordered\<close> hands them out.
\<close>

definition max_discovery_peers :: nat where
  "max_discovery_peers = 1024"

record discovered_node =
  dn_tailnet_node_id :: ustr
  dn_name :: ustr
  dn_address :: ip_addr
  dn_status :: node_status
  dn_blockers :: "node_blocker list"
  dn_connection :: connection_kind
  dn_latency_ms :: "u32 option"
  dn_agent_version :: "ustr option"
  dn_omarchy_version :: "ustr option"
  dn_capabilities :: node_capabilities
  dn_is_local :: bool

definition node_from_peer :: "mesh_peer \<Rightarrow> ustr \<Rightarrow> ip_addr \<Rightarrow> bool \<Rightarrow> discovered_node" where
  "node_from_peer peer name address is_local =
     \<lparr>dn_tailnet_node_id = mp_tailnet_node_id peer, dn_name = name, dn_address = address,
      dn_status = Unavailable, dn_blockers = [], dn_connection = mp_connection peer,
      dn_latency_ms = mp_latency_ms peer, dn_agent_version = None, dn_omarchy_version = None,
      dn_capabilities = node_capabilities_default, dn_is_local = is_local\<rparr>"

definition node_with_status :: "node_status \<Rightarrow> discovered_node \<Rightarrow> discovered_node" where
  "node_with_status status n = n\<lparr>dn_status := status\<rparr>"

definition node_with_blockers :: "node_blocker list \<Rightarrow> discovered_node \<Rightarrow> discovered_node" where
  "node_with_blockers blockers n =
     n\<lparr>dn_status := if blockers = [] then Ready else Blocked, dn_blockers := blockers\<rparr>"

definition node_with_info :: "node_info_response option \<Rightarrow> discovered_node \<Rightarrow> discovered_node" where
  "node_with_info info n =
     (case info of
        None \<Rightarrow> n
      | Some i \<Rightarrow> n\<lparr>dn_agent_version := Some (ni_agent_version i),
          dn_omarchy_version := Some (ni_omarchy_version i),
          dn_capabilities := node_capabilities_new (ni_capabilities i)\<rparr>)"

definition is_connectable :: "discovered_node \<Rightarrow> bool" where
  "is_connectable n \<longleftrightarrow> \<not> dn_is_local n \<and> dn_status n = Ready"

record discovery_context =
  dc_allowlist :: "allowed_controller list"
  dc_local_name :: ustr
  dc_include_all :: bool

record agent_answers =
  aa_health :: "agent_endpoint \<Rightarrow> health_response port_result"
  aa_node_info :: "agent_endpoint \<Rightarrow> node_info_response port_result"
  aa_elapsed :: "agent_endpoint \<Rightarrow> duration"

section \<open>Blockers\<close>

fun blocker_message :: "ustr \<Rightarrow> node_blocker \<Rightarrow> ustr" where
  "blocker_message node_name blocker =
     (let fixing = blk_fix blocker;
          place = (case blk_side blocker of
            LocalSide \<Rightarrow> lit ''on this computer''
          | RemoteSide \<Rightarrow> lit ''on '' @ node_name)
      in case blk_code blocker of
           Incompatible \<Rightarrow>
             node_name @ lit '' runs a different Omdesky release. '' @ fixing @ lit '' '' @ place @ lit ''.''
         | Denied \<Rightarrow>
             node_name @ lit '' does not allow this computer. Run `'' @ fixing @ lit ''` '' @ place @ lit ''.''
         | NeedsAccess \<Rightarrow>
             lit ''This computer does not accept shortcuts from '' @ node_name @ lit ''. Run `''
             @ fixing @ lit ''` '' @ place @ lit ''.'')"

definition incompatible_blocker :: "ustr \<Rightarrow> bool \<Rightarrow> node_blocker" where
  "incompatible_blocker remote_version is_local =
     (if is_local then
        \<lparr>blk_code = Incompatible, blk_side = LocalSide, blk_fix = lit ''Restart omdesky-agent''\<rparr>
      else
        let remote_is_newer = (case (release_line_parse remote_version, release_line_current) of
              (Some remote, Some local) \<Rightarrow> release_line_greater remote local
            | _ \<Rightarrow> False)
        in if remote_is_newer then
             \<lparr>blk_code = Incompatible, blk_side = LocalSide,
              blk_fix = lit ''Install Omdesky '' @ remote_version\<rparr>
           else
             \<lparr>blk_code = Incompatible, blk_side = RemoteSide,
              blk_fix = lit ''Install Omdesky '' @ release\<rparr>)"

definition access_blockers ::
    "port_error option \<Rightarrow> discovery_context \<Rightarrow> ustr \<Rightarrow> ustr \<Rightarrow> node_blocker list" where
  "access_blockers info_error context node_id remote_name =
     (if option_any
           (\<lambda>e. perr_code e = lit ''UNAUTHORIZED'' \<or> perr_code e = lit ''CAPABILITY_DENIED'') info_error
      then [\<lparr>blk_code = Denied, blk_side = RemoteSide,
             blk_fix = lit ''omdesky access allow '' @ dc_local_name context\<rparr>]
      else [])
     @ (if missing_callback_capabilities (dc_allowlist context) node_id \<noteq> []
        then [\<lparr>blk_code = NeedsAccess, blk_side = LocalSide,
               blk_fix = lit ''omdesky access allow '' @ remote_name\<rparr>]
        else [])"

definition measured_latency_ms :: "duration \<Rightarrow> bool \<Rightarrow> u32" where
  "measured_latency_ms elapsed is_local =
     (if is_local then 0
      else
        let ms = elapsed div 1000000
        in max (if ms < 2 ^ 32 then of_nat ms else - 1) 1)"

section \<open>Probing one device\<close>

definition preferred_ip :: "ip_addr list \<Rightarrow> ip_addr option" where
  "preferred_ip ips = or_else (find is_ipv4 ips) (list_first ips)"

definition probe ::
    "agent_answers \<Rightarrow> u16 \<Rightarrow> mesh_peer \<Rightarrow> bool \<Rightarrow> discovery_context \<Rightarrow> discovered_node option" where
  "probe answers port peer is_local context =
     (case preferred_ip (mp_ips peer) of
        None \<Rightarrow> None
      | Some address \<Rightarrow>
          let name = unwrap_or (or_else (mp_hostname peer) (mp_dns_name peer))
                (mp_tailnet_node_id peer);
              node = node_from_peer peer name address is_local
          in if \<not> mp_online peer then
               if dc_include_all context then Some (node_with_status Offline node) else None
             else
               let endpoint = \<lparr>ep_address = address, ep_port = port\<rparr>
               in case aa_health answers endpoint of
                    Inl _ \<Rightarrow> if dc_include_all context then Some node else None
                  | Inr health \<Rightarrow>
                      let latency = measured_latency_ms (aa_elapsed answers endpoint) is_local;
                          node = node\<lparr>dn_latency_ms := Some latency,
                            dn_agent_version := Some (hr_agent_version health)\<rparr>
                      in if \<not> is_ok (ensure_compatible_agent health) then
                           Some (node_with_blockers
                             [incompatible_blocker (hr_agent_version health) is_local] node)
                         else
                           let info = aa_node_info answers endpoint;
                               blockers = (case info of
                                 Inl e \<Rightarrow>
                                   if perr_code e = lit ''VERSION_INCOMPATIBLE''
                                   then [incompatible_blocker (hr_agent_version health) is_local]
                                   else if is_local then []
                                   else access_blockers (Some e) context (dn_tailnet_node_id node)
                                          (dn_name node)
                               | Inr _ \<Rightarrow>
                                   if is_local then []
                                   else access_blockers None context (dn_tailnet_node_id node)
                                          (dn_name node))
                           in Some (node_with_info (result_ok info)
                                (node_with_blockers blockers node)))"

section \<open>The whole tailnet\<close>

definition local_peer :: "mesh_node_identity \<Rightarrow> mesh_peer" where
  "local_peer l =
     \<lparr>mp_tailnet_node_id = mni_tailnet_node_id l, mp_dns_name = None, mp_hostname = mni_hostname l,
      mp_ips = mni_addresses l, mp_online = True, mp_connection = Direct, mp_latency_ms = Some 0\<rparr>"

definition discovery_order :: "discovered_node list \<Rightarrow> discovered_node list" where
  "discovery_order = sort_key (\<lambda>n. (\<not> dn_is_local n, dn_name n))"

definition peer_limit_error :: port_error where
  "peer_limit_error = port_error_new (lit ''DISCOVERY_PEER_LIMIT'')
     (lit ''the tailnet contains too many peers to discover safely'') False"

definition discover ::
    "mesh_node_identity port_result \<Rightarrow> mesh_peer list port_result
       \<Rightarrow> allowed_controller list port_result \<Rightarrow> agent_answers \<Rightarrow> u16
       \<Rightarrow> (discovered_node option list \<Rightarrow> discovered_node option list) \<Rightarrow> bool
       \<Rightarrow> discovered_node list port_result" where
  "discover local_node mesh_peers access_list answers port finish include_all =
     try_then local_node (\<lambda>l. try_then mesh_peers (\<lambda>peers.
       if length peers > max_discovery_peers then Inl peer_limit_error
       else
         let context = \<lparr>dc_allowlist = (case access_list of Inl _ \<Rightarrow> [] | Inr entries \<Rightarrow> entries),
               dc_local_name = unwrap_or (mni_hostname l) (mni_tailnet_node_id l),
               dc_include_all = include_all\<rparr>;
             self = (case probe answers port (local_peer l) True context of
                 Some n \<Rightarrow> [n] | None \<Rightarrow> []);
             found = List.map_filter id
               (finish (map (\<lambda>p. probe answers port p False context) peers))
         in Inr (discovery_order (self @ found))))"

section \<open>Facts\<close>

lemma node_with_info_frame [simp]:
  "dn_status (node_with_info i n) = dn_status n"
  "dn_is_local (node_with_info i n) = dn_is_local n"
  "dn_blockers (node_with_info i n) = dn_blockers n"
  "dn_name (node_with_info i n) = dn_name n"
  "dn_tailnet_node_id (node_with_info i n) = dn_tailnet_node_id n"
  by (simp_all add: node_with_info_def split: option.splits)

lemma preferred_ip_Some: "preferred_ip ips = Some a \<Longrightarrow> a \<in> set ips"
  by (cases "find is_ipv4 ips"; cases ips)
    (auto simp: preferred_ip_def list_first_def find_Some_iff split: if_splits)

lemma access_blockers_Nil:
  "access_blockers err context node_id name = [] \<longleftrightarrow>
     \<not> option_any (\<lambda>e. perr_code e = lit ''UNAUTHORIZED'' \<or> perr_code e = lit ''CAPABILITY_DENIED'') err
     \<and> missing_callback_capabilities (dc_allowlist context) node_id = []"
  by (simp add: access_blockers_def)

lemma measured_latency_remote: "1 \<le> measured_latency_ms elapsed False"
  by (simp add: measured_latency_ms_def Let_def)

text \<open>Every node found is ready, blocked with its reasons, offline or unreachable.\<close>

lemma probe_status:
  assumes "probe answers port peer is_local context = Some n"
  shows "(dn_status n = Ready \<longrightarrow> dn_blockers n = [])
    \<and> (dn_status n = Blocked \<longleftrightarrow> dn_blockers n \<noteq> [])
    \<and> (dn_status n = Offline \<longrightarrow> dc_include_all context \<and> \<not> mp_online peer)
    \<and> (dn_status n = Unavailable \<longrightarrow> dc_include_all context)
    \<and> dn_is_local n = is_local"
  using assms
  by (auto simp: probe_def Let_def node_from_peer_def node_with_status_def node_with_blockers_def
      split: option.splits sum.splits if_splits)

lemma probe_ready:
  assumes "probe answers port peer False context = Some n" and "dn_status n = Ready"
  shows "mp_online peer \<and> (\<exists>address health.
      address \<in> set (mp_ips peer)
      \<and> aa_health answers \<lparr>ep_address = address, ep_port = port\<rparr> = Inr health
      \<and> hr_protocol health = protocol_version \<and> is_compatible_release (hr_agent_version health)
      \<and> missing_callback_capabilities (dc_allowlist context) (mp_tailnet_node_id peer) = []
      \<and> (\<forall>e. aa_node_info answers \<lparr>ep_address = address, ep_port = port\<rparr> = Inl e \<longrightarrow>
           perr_code e \<notin> {lit ''VERSION_INCOMPATIBLE'', lit ''UNAUTHORIZED'', lit ''CAPABILITY_DENIED''}))"
proof -
  obtain address where address: "preferred_ip (mp_ips peer) = Some address"
    using assms(1) by (auto simp: probe_def split: option.splits)
  from assms address obtain health where
    "mp_online peer" "aa_health answers \<lparr>ep_address = address, ep_port = port\<rparr> = Inr health"
    "is_ok (ensure_compatible_agent health)"
    "missing_callback_capabilities (dc_allowlist context) (mp_tailnet_node_id peer) = []"
    "\<forall>e. aa_node_info answers \<lparr>ep_address = address, ep_port = port\<rparr> = Inl e \<longrightarrow>
       perr_code e \<notin> {lit ''VERSION_INCOMPATIBLE'', lit ''UNAUTHORIZED'', lit ''CAPABILITY_DENIED''}"
    by (auto simp: probe_def Let_def node_from_peer_def node_with_status_def node_with_blockers_def
        access_blockers_Nil split: sum.splits if_splits)
  with address preferred_ip_Some [OF address] show ?thesis
    by (auto simp: ensure_compatible_agent_def split: if_splits)
qed

lemma set_map_filter_id: "set (List.map_filter id xs) = {x. Some x \<in> set xs}"
  by (force simp: List.map_filter_def)

lemma discovery_order_facts:
  "set (discovery_order ns) = set ns"
  "sorted (map (\<lambda>n. (\<not> dn_is_local n, dn_name n)) (discovery_order ns))"
  by (simp_all add: discovery_order_def)

section \<open>Correctness\<close>

text \<open>
  A device shown as ready can be connected to: it is online, its agent answered at one of its
  own addresses with this protocol version and release line, it did not refuse this computer, and
  the allowlist grants it both callback capabilities.
\<close>

theorem ready_node_is_reachable:
  assumes "probe answers port peer False context = Some n" and "is_connectable n"
  shows "mp_online peer \<and> (\<exists>address health.
      address \<in> set (mp_ips peer)
      \<and> aa_health answers \<lparr>ep_address = address, ep_port = port\<rparr> = Inr health
      \<and> hr_protocol health = protocol_version \<and> is_compatible_release (hr_agent_version health)
      \<and> missing_callback_capabilities (dc_allowlist context) (mp_tailnet_node_id peer) = []
      \<and> (\<forall>e. aa_node_info answers \<lparr>ep_address = address, ep_port = port\<rparr> = Inl e \<longrightarrow>
           perr_code e \<notin> {lit ''VERSION_INCOMPATIBLE'', lit ''UNAUTHORIZED'', lit ''CAPABILITY_DENIED''}))"
  using probe_ready [OF assms(1)] assms(2) by (simp add: is_connectable_def)

definition example_peer :: mesh_peer where
  "example_peer = \<lparr>mp_tailnet_node_id = lit ''n2'', mp_dns_name = None, mp_hostname = None,
     mp_ips = [V4 100 64 0 3], mp_online = True, mp_connection = Direct, mp_latency_ms = None\<rparr>"

definition example_answers :: agent_answers where
  "example_answers =
     \<lparr>aa_health = (\<lambda>_. Inr \<lparr>hr_status = lit ''ok'', hr_protocol = protocol_version,
        hr_agent_version = release\<rparr>),
      aa_node_info = (\<lambda>_. Inl (port_error_new (lit ''RATE_LIMITED'') [] True)),
      aa_elapsed = (\<lambda>_. 0)\<rparr>"

definition example_context :: discovery_context where
  "example_context = \<lparr>dc_allowlist = [allowed_controller_new (lit ''n2'') None 0 capability_all],
     dc_local_name = lit ''me'', dc_include_all = False\<rparr>"

lemma release_compatible: "is_compatible_release release"
  using release_line_current_eq by (simp add: is_compatible_release_def release_line_current_def)

theorem ready_node_is_reachable_witness: "mp_online example_peer"
proof -
  obtain n where n: "probe example_answers 1 example_peer False example_context = Some n"
    and "dn_status n = Ready" "\<not> dn_is_local n"
    using release_compatible
    by (simp add: probe_def example_peer_def example_answers_def example_context_def
        preferred_ip_def ensure_compatible_agent_def node_from_peer_def node_with_blockers_def
        access_blockers_def missing_callback_capabilities_def allowed_controller_new_def
        capability_all_def capability_callback_def allowed_controller_allows_def Let_def)
  then show ?thesis
    using ready_node_is_reachable [OF n] by (simp add: is_connectable_def)
qed

text \<open>
  The status of a device is its list of blockers: it is blocked exactly when something blocks
  it, a ready device has no blockers, and devices that are offline or do not answer appear only
  when all devices were asked for.
\<close>

theorem node_status_matches_blockers:
  assumes "probe answers port peer is_local context = Some n"
  shows "(dn_status n = Blocked \<longleftrightarrow> dn_blockers n \<noteq> [])
    \<and> (dn_status n = Offline \<longrightarrow> dc_include_all context \<and> \<not> mp_online peer)
    \<and> (dn_status n = Unavailable \<longrightarrow> dc_include_all context)
    \<and> dn_is_local n = is_local"
  using probe_status [OF assms] by blast

theorem node_status_matches_blockers_witness:
  "\<exists>n. probe example_answers 1 (example_peer\<lparr>mp_online := False\<rparr>) False
      (example_context\<lparr>dc_include_all := True\<rparr>) = Some n \<and> dn_blockers n = []"
proof -
  obtain n where n: "probe example_answers 1 (example_peer\<lparr>mp_online := False\<rparr>) False
      (example_context\<lparr>dc_include_all := True\<rparr>) = Some n" and "dn_status n = Offline"
    by (simp add: probe_def example_peer_def example_context_def preferred_ip_def
        node_with_status_def Let_def)
  with node_status_matches_blockers [OF n] show ?thesis by auto
qed

text \<open>
  Discovery lists the device of every probe that found one, exactly once, this computer first
  and the others by name, whatever order the probes finish in; it refuses more than 1024 peers.
\<close>

theorem discovery_lists_all:
  assumes "discover (Inr l) (Inr peers) allow answers port finish include_all = Inr nodes"
    and "\<And>xs. mset (finish xs) = mset xs"
  shows "length peers \<le> 1024
    \<and> sorted (map (\<lambda>n. (\<not> dn_is_local n, dn_name n)) nodes)
    \<and> (\<exists>ctx. dc_include_all ctx = include_all
         \<and> mset nodes = mset (List.map_filter id (probe answers port (local_peer l) True ctx
              # map (\<lambda>p. probe answers port p False ctx) peers)))"
proof -
  define ctx where "ctx = \<lparr>dc_allowlist = (case allow of Inl _ \<Rightarrow> [] | Inr entries \<Rightarrow> entries),
    dc_local_name = unwrap_or (mni_hostname l) (mni_tailnet_node_id l), dc_include_all = include_all\<rparr>"
  let ?probes = "map (\<lambda>p. probe answers port p False ctx) peers"
  from assms(1) have len: "length peers \<le> max_discovery_peers"
    and nodes: "nodes = discovery_order
       ((case probe answers port (local_peer l) True ctx of Some n \<Rightarrow> [n] | None \<Rightarrow> [])
        @ List.map_filter id (finish ?probes))"
    by (auto simp: discover_def Let_def ctx_def split: if_splits)
  have "mset (List.map_filter id (finish ?probes)) = mset (List.map_filter id ?probes)"
    by (simp add: List.map_filter_def assms(2))
  then have "mset nodes = mset (List.map_filter id (probe answers port (local_peer l) True ctx # ?probes))"
    unfolding nodes discovery_order_def
    by (simp add: List.map_filter_simps split: option.splits)
  moreover have "dc_include_all ctx = include_all" by (simp add: ctx_def)
  moreover have "length peers \<le> 1024" using len by (simp add: max_discovery_peers_def)
  moreover have "sorted (map (\<lambda>n. (\<not> dn_is_local n, dn_name n)) nodes)"
    unfolding nodes by (rule discovery_order_facts(2))
  ultimately show ?thesis by blast
qed

theorem discovery_lists_all_witness:
  "\<exists>nodes. discover (Inr \<lparr>mni_tailnet_node_id = lit ''n1'', mni_user = None, mni_hostname = None,
      mni_addresses = []\<rparr>) (Inr []) (Inr []) example_answers 1 rev False = Inr nodes
    \<and> sorted (map (\<lambda>n. (\<not> dn_is_local n, dn_name n)) nodes)"
proof -
  obtain nodes where n: "discover (Inr \<lparr>mni_tailnet_node_id = lit ''n1'', mni_user = None,
      mni_hostname = None, mni_addresses = []\<rparr>) (Inr []) (Inr []) example_answers 1 rev False
      = Inr nodes"
    by (simp add: discover_def Let_def)
  from discovery_lists_all [OF n] show ?thesis using n by auto
qed

end
