(* ===== verification/Services.thy ===== *)
theory Services
  imports AppAccess
begin

text \<open>
  \<open>crates/omdesky-application/src/services.rs\<close>: pairing with a remote Sunshine and running one
  stream from launch to exit, with the desktop session attached, renewed and detached around it.
  Every port is a call on the world \<open>'w\<close>. What happens while the stream runs is a list of events:
  rounds of the health monitor, ticks of the heartbeat, and the exit of the process.
\<close>

definition stream_window_class :: ustr where
  "stream_window_class = lit ''com.moonlight_stream.Moonlight''"

record pending_pairing =
  pp_pin :: ustr
  pp_handle :: nat

record stream_process =
  proc_handle :: nat
  proc_id :: "u32 option"

record 'w stream_ports =
  sp_identify :: "ip_addr \<Rightarrow> ('w, mesh_node_identity option port_result) call"
  sp_access_list :: "('w, allowed_controller list port_result) call"
  sp_status :: "agent_endpoint \<Rightarrow> ('w, sunshine_status_response port_result) call"
  sp_challenge :: "agent_endpoint \<Rightarrow> ('w, sunshine_pair_challenge_response port_result) call"
  sp_pair :: "agent_endpoint \<Rightarrow> sunshine_pair_request \<Rightarrow> ('w, unit port_result) call"
  sp_focus_workspace :: "agent_endpoint \<Rightarrow> workspace_target \<Rightarrow> ('w, unit port_result) call"
  sp_focus_window :: "agent_endpoint \<Rightarrow> ustr \<Rightarrow> ('w, unit port_result) call"
  sp_health :: "agent_endpoint \<Rightarrow> ('w, health_response port_result) call"
  sp_send_command ::
    "agent_endpoint \<Rightarrow> command_request \<Rightarrow> ('w, command_response port_result) call"
  sp_pairing_state :: "stream_host_descriptor \<Rightarrow> ('w, pairing_state port_result) call"
  sp_begin_pairing :: "stream_host_descriptor \<Rightarrow> ('w, pending_pairing port_result) call"
  sp_complete_pairing :: "pending_pairing \<Rightarrow> ('w, unit port_result) call"
  sp_launch :: "stream_launch_request \<Rightarrow> ('w, stream_process port_result) call"
  sp_terminate :: "stream_process \<Rightarrow> ('w, unit port_result) call"
  sp_install :: "session_keybind_config \<Rightarrow> ('w, unit port_result) call"
  sp_clear :: "('w, unit port_result) call"
  sp_notify :: "notification \<Rightarrow> ('w, unit port_result) call"
  sp_windows :: "(u32 \<Rightarrow> ('w, window_selector option port_result) call) option"
  sp_client_name :: ustr

section \<open>Pairing\<close>

definition desktop_application :: ustr where
  "desktop_application = lit ''Desktop''"

definition sunshine_not_running :: port_error where
  "sunshine_not_running = port_error_new (lit ''SUNSHINE_NOT_RUNNING'')
     (lit ''Sunshine is not running on the remote node'') True"

definition sunshine_api_unavailable :: port_error where
  "sunshine_api_unavailable = port_error_new (lit ''SUNSHINE_API_UNAVAILABLE'')
     (lit ''Sunshine admin credentials are missing on the remote host. Configure them on that machine (Settings -> Configure Sunshine credentials, or `omdesky setup`), not on this controller.'')
     False"

definition moonlight_pairing_failed :: port_error where
  "moonlight_pairing_failed = port_error_new (lit ''MOONLIGHT_PAIRING_FAILED'')
     (lit ''Moonlight did not report the host as paired'') True"

definition pair_stream :: "'w stream_ports \<Rightarrow> agent_endpoint \<Rightarrow> ('w, unit port_result) call" where
  "pair_stream p endpoint =
     (let host = \<lparr>sh_address = ep_address endpoint, sh_application = desktop_application\<rparr>
      in call_then (sp_pairing_state p host) (\<lambda>state.
        if state = Paired then returning (Inr ())
        else call_then (sp_status p endpoint) (\<lambda>status.
          if \<not> ss_running status then returning (Inl sunshine_not_running)
          else if \<not> ss_pairing_api_available status then returning (Inl sunshine_api_unavailable)
          else call_then (sp_challenge p endpoint) (\<lambda>challenge.
            call_then (sp_begin_pairing p host) (\<lambda>pending.
              call_then (sp_pair p endpoint
                  \<lparr>pr_pairing_id = ch_pairing_id challenge, pr_pin = pp_pin pending,
                   pr_client_name = sp_client_name p\<rparr>) (\<lambda>_.
                call_then (sp_complete_pairing p pending) (\<lambda>_.
                  call_then (sp_pairing_state p host) (\<lambda>state.
                    returning (if state = Paired then Inr ()
                               else Inl moonlight_pairing_failed)))))))))"

section \<open>Connecting\<close>

record connect_request =
  cn_endpoint :: agent_endpoint
  cn_controller_endpoint :: agent_endpoint
  cn_profile :: stream_profile
  cn_fullscreen :: bool
  cn_input_mode :: input_mode
  cn_focus_workspace :: "workspace_target option"
  cn_focus_window :: "ustr option"
  cn_auto_pair :: bool

definition stream_window_lookup_attempts :: nat where
  "stream_window_lookup_attempts = 20"

fun window_lookup ::
    "nat \<Rightarrow> (u32 \<Rightarrow> ('w, window_selector option port_result) call) \<Rightarrow> u32
       \<Rightarrow> ('w, window_selector) call" where
  "window_lookup 0 window_for_process pid w = (WindowClass stream_window_class, w)"
| "window_lookup (Suc attempts) window_for_process pid w =
     (case window_for_process pid w of
        (Inr (Some window), w') \<Rightarrow> (window, w')
      | (Inr None, w') \<Rightarrow> window_lookup attempts window_for_process pid w'
      | (Inl _, w') \<Rightarrow> (WindowClass stream_window_class, w'))"

definition locate_stream_window ::
    "'w stream_ports \<Rightarrow> u32 option \<Rightarrow> ('w, window_selector) call" where
  "locate_stream_window p pid =
     (case (sp_windows p, pid) of
        (Some window_for_process, Some i) \<Rightarrow>
          window_lookup stream_window_lookup_attempts window_for_process i
      | _ \<Rightarrow> returning (WindowClass stream_window_class))"

definition session_not_granted :: port_error where
  "session_not_granted = port_error_new (lit ''SESSION_NOT_GRANTED'')
     (lit ''the remote agent accepted the session without issuing a lease'') False"

definition attach_session ::
    "'w stream_ports \<Rightarrow> uuid \<Rightarrow> offset_date_time \<Rightarrow> connect_request \<Rightarrow> window_selector
       \<Rightarrow> ('w, session_grant port_result) call" where
  "attach_session p fresh now request window =
     call_then (sp_install p \<lparr>kb_role = Controller, kb_controller = None, kb_window = window\<rparr>)
       (\<lambda>_ w.
          let controller = \<lparr>se_address = ep_address (cn_controller_endpoint request),
                se_port = ep_port (cn_controller_endpoint request)\<rparr>
          in case sp_send_command p (cn_endpoint request)
                 (command_request_new fresh now
                    (AttachSession Remote (Some controller) (Some window))) w of
               (Inr response, w') \<Rightarrow> (ok_or (resp_session response) session_not_granted, w')
             | (Inl e, w') \<Rightarrow> (Inl e, snd (sp_clear p w')))"

definition detach_session ::
    "'w stream_ports \<Rightarrow> uuid \<Rightarrow> offset_date_time \<Rightarrow> connect_request \<Rightarrow> session_grant
       \<Rightarrow> ('w, unit port_result) call" where
  "detach_session p fresh now request grant = (\<lambda>w.
     case sp_clear p w of
       (local, w1) \<Rightarrow>
         (case sp_send_command p (cn_endpoint request)
              (command_request_for_session fresh now DetachSession (session_grant_claim grant)) w1 of
            (remote, w2) \<Rightarrow> (try_then local (\<lambda>_. map_ok (\<lambda>_. ()) remote), w2)))"

section \<open>Watching the agents\<close>

definition min_renewal_interval :: duration where
  "min_renewal_interval = from_secs 2"

definition renewal_interval :: "nat \<Rightarrow> duration" where
  "renewal_interval lease_seconds = max (from_secs (max lease_seconds 1 div 3)) min_renewal_interval"

definition agent_health_failure_limit :: "8 word" where
  "agent_health_failure_limit = 2"

definition agent_health_failure :: "8 word \<Rightarrow> 8 word \<Rightarrow> 8 word \<Rightarrow> port_error option" where
  "agent_health_failure local_failures remote_failures failure_limit =
     (if local_failures \<ge> failure_limit then
        Some (port_error_new (lit ''LOCAL_AGENT_UNAVAILABLE'')
          (lit ''the local omdesky-agent stopped responding'') True)
      else if remote_failures \<ge> failure_limit then
        Some (port_error_new (lit ''REMOTE_AGENT_UNAVAILABLE'')
          (lit ''the remote omdesky-agent stopped responding'') True)
      else None)"

definition verify_agents ::
    "'w stream_ports \<Rightarrow> agent_endpoint \<Rightarrow> agent_endpoint \<Rightarrow> ('w, unit port_result) call" where
  "verify_agents p controller remote = (\<lambda>w.
     case sp_health p controller w of
       (local_result, w1) \<Rightarrow>
         (case sp_health p remote w1 of
            (remote_result, w2) \<Rightarrow>
              (case agent_health_failure (if is_ok local_result then 0 else 1)
                     (if is_ok remote_result then 0 else 1) 1 of
                 Some e \<Rightarrow> (Inl e, w2)
               | None \<Rightarrow> (Inr (), w2))))"

text \<open>One round of the monitor, from whether the two health checks succeeded.\<close>

definition monitor_round :: "bool \<Rightarrow> bool \<Rightarrow> 8 word \<times> 8 word \<Rightarrow> (8 word \<times> 8 word) \<times> port_error option" where
  "monitor_round local_ok remote_ok failures =
     (let l = (if local_ok then 0 else fst failures + 1);
          r = (if remote_ok then 0 else snd failures + 1)
      in ((l, r), agent_health_failure l r agent_health_failure_limit))"

datatype stream_event =
    HealthRound
  | HeartbeatTick uuid offset_date_time
  | ProcessExit "int port_result"

text \<open>
  \<open>wait_for_process_or_monitor\<close> with the heartbeat beside it: the first of the process exit and
  the monitor's verdict ends the wait; the latter terminates the process. \<open>None\<close> means that the
  stream is still running after the given events.
\<close>

fun stream_wait ::
    "'w stream_ports \<Rightarrow> connect_request \<Rightarrow> session_grant option \<Rightarrow> stream_process
       \<Rightarrow> 8 word \<times> 8 word \<Rightarrow> stream_event list \<Rightarrow> 'w \<Rightarrow> int port_result option \<times> 'w" where
  "stream_wait p request grant process failures [] w = (None, w)"
| "stream_wait p request grant process failures (ProcessExit r # es) w = (Some r, w)"
| "stream_wait p request grant process failures (HeartbeatTick fresh now # es) w =
     stream_wait p request grant process failures es
       (case grant of
          None \<Rightarrow> w
        | Some g \<Rightarrow> snd (sp_send_command p (cn_endpoint request)
            (command_request_for_session fresh now RenewSession (session_grant_claim g)) w))"
| "stream_wait p request grant process failures (HealthRound # es) w =
     (case sp_health p (cn_controller_endpoint request) w of
        (local_result, w1) \<Rightarrow>
          (case sp_health p (cn_endpoint request) w1 of
             (remote_result, w2) \<Rightarrow>
               (case monitor_round (is_ok local_result) (is_ok remote_result) failures of
                  (_, Some e) \<Rightarrow> (Some (Inl e), snd (sp_terminate p process w2))
                | (failures', None) \<Rightarrow> stream_wait p request grant process failures' es w2)))"

section \<open>One stream\<close>

definition omdesky_notification :: "ustr \<Rightarrow> notification" where
  "omdesky_notification body = \<lparr>nt_summary = lit ''Omdesky'', nt_body = body\<rparr>"

definition notify_world :: "'w stream_ports \<Rightarrow> ustr \<Rightarrow> 'w \<Rightarrow> 'w" where
  "notify_world p body w = snd (sp_notify p (omdesky_notification body) w)"

text \<open>The checks before the launch, up to the request that starts the stream.\<close>

definition prepare_stream ::
    "'w stream_ports \<Rightarrow> connect_request \<Rightarrow> ('w, stream_launch_request port_result) call" where
  "prepare_stream p request =
     call_then (callback_access_verify (sp_identify p) (sp_access_list p)
         (ep_address (cn_endpoint request))) (\<lambda>_.
       call_then (sp_status p (cn_endpoint request)) (\<lambda>status.
         if \<not> ss_ready status then
           returning (Inl (port_error_new (lit ''SUNSHINE_NOT_READY'')
             (lit ''Sunshine is not ready to stream on the remote node'') True))
         else
           let host = \<lparr>sh_address = ep_address (cn_endpoint request),
                 sh_application = unwrap_or (ss_desktop_app status) desktop_application\<rparr>
           in call_then (sp_pairing_state p host) (\<lambda>state.
             call_then
               (if state = Paired then returning (Inr ())
                else if cn_auto_pair request then pair_stream p (cn_endpoint request)
                else returning (Inl (port_error_new (lit ''MOONLIGHT_PAIRING_REQUIRED'')
                  (lit ''Moonlight is not paired with the host; run `omdesky pair` first'') False)))
               (\<lambda>_. call_then
                  (case cn_focus_workspace request of
                     Some target \<Rightarrow> sp_focus_workspace p (cn_endpoint request) target
                   | None \<Rightarrow> returning (Inr ()))
                  (\<lambda>_. call_then
                     (case cn_focus_window request of
                        Some window \<Rightarrow> sp_focus_window p (cn_endpoint request) window
                      | None \<Rightarrow> returning (Inr ()))
                     (\<lambda>_. call_then
                        (verify_agents p (cn_controller_endpoint request) (cn_endpoint request))
                        (\<lambda>_. returning (Inr
                           \<lparr>sl_host = host, sl_profile = cn_profile request,
                            sl_fullscreen = cn_fullscreen request,
                            sl_input_mode = cn_input_mode request\<rparr>))))))))"

record stream_ctx =
  sx_fresh_attach :: uuid
  sx_now_attach :: offset_date_time
  sx_fresh_detach :: uuid
  sx_now_detach :: offset_date_time

text \<open>Attaching the session; a failure is reported and the stream goes on without it.\<close>

definition setup_shortcuts ::
    "'w stream_ports \<Rightarrow> stream_ctx \<Rightarrow> connect_request \<Rightarrow> u32 option
       \<Rightarrow> ('w, session_grant option) call" where
  "setup_shortcuts p sx request pid = (\<lambda>w.
     if cn_input_mode request = RemoteInput then
       (case locate_stream_window p pid w of
          (window, w1) \<Rightarrow>
            (case attach_session p (sx_fresh_attach sx) (sx_now_attach sx) request window w1 of
               (Inr grant, w2) \<Rightarrow>
                 (Some grant, notify_world p
                    (lit ''Remote shortcuts are ready. Press SUPER+R to switch shortcut capture.'') w2)
             | (Inl e, w2) \<Rightarrow>
                 (None, notify_world p
                    (lit ''The stream started, but remote shortcuts are unavailable. ''
                     @ user_message e) w2)))
     else (None, w))"

definition restore_shortcuts ::
    "'w stream_ports \<Rightarrow> stream_ctx \<Rightarrow> connect_request \<Rightarrow> session_grant option \<Rightarrow> 'w \<Rightarrow> 'w" where
  "restore_shortcuts p sx request grant w =
     (case grant of
        None \<Rightarrow> w
      | Some g \<Rightarrow>
          (case detach_session p (sx_fresh_detach sx) (sx_now_detach sx) request g w of
             (Inr _, w1) \<Rightarrow> notify_world p
                (lit ''The stream ended and your local shortcuts were restored.'') w1
           | (Inl _, w1) \<Rightarrow> notify_world p
                (lit ''The stream ended, but local shortcuts could not be restored. Restart Hyprland before reconnecting.'') w1))"

definition connect_node ::
    "'w stream_ports \<Rightarrow> stream_ctx \<Rightarrow> (u32 option \<Rightarrow> 'w \<Rightarrow> 'w) \<Rightarrow> connect_request
       \<Rightarrow> stream_event list \<Rightarrow> 'w \<Rightarrow> int port_result option \<times> 'w" where
  "connect_node p sx on_started request events w =
     (case call_then (prepare_stream p request) (sp_launch p) w of
        (Inl e, w1) \<Rightarrow> (Some (Inl e), w1)
      | (Inr process, w1) \<Rightarrow>
          (case setup_shortcuts p sx request (proc_id process) w1 of
             (grant, w2) \<Rightarrow>
               (case stream_wait p request grant process (0, 0) events
                       (on_started (proc_id process) w2) of
                  (None, w3) \<Rightarrow> (None, w3)
                | (Some exit, w3) \<Rightarrow> (Some exit, restore_shortcuts p sx request grant w3))))"

definition connect_node_execute ::
    "'w stream_ports \<Rightarrow> stream_ctx \<Rightarrow> connect_request \<Rightarrow> stream_event list
       \<Rightarrow> 'w \<Rightarrow> int port_result option \<times> 'w" where
  "connect_node_execute p sx = connect_node p sx (\<lambda>_ w. w)"

text \<open>The displays of a node are asked of its agent.\<close>

definition connect_node_displays ::
    "(agent_endpoint \<Rightarrow> ('w, display list port_result) call)
       \<Rightarrow> agent_endpoint \<Rightarrow> ('w, display list port_result) call" where
  "connect_node_displays agent_displays endpoint = agent_displays endpoint"

section \<open>The monitor and its verdict\<close>

text \<open>\<open>monitor_agents\<close> over the outcomes of its rounds; \<open>None\<close> means it is still watching.\<close>

fun monitor_agents :: "8 word \<times> 8 word \<Rightarrow> (bool \<times> bool) list \<Rightarrow> port_error option" where
  "monitor_agents failures [] = None"
| "monitor_agents failures ((local_ok, remote_ok) # rounds) =
     (case monitor_round local_ok remote_ok failures of
        (_, Some e) \<Rightarrow> Some e
      | (failures', None) \<Rightarrow> monitor_agents failures' rounds)"

fun two_failures_in_a_row :: "bool list \<Rightarrow> bool" where
  "two_failures_in_a_row (a # b # rest) \<longleftrightarrow> (\<not> a \<and> \<not> b) \<or> two_failures_in_a_row (b # rest)"
| "two_failures_in_a_row _ \<longleftrightarrow> False"

lemma two_failures_Cons:
  "two_failures_in_a_row (a # rest) \<longleftrightarrow>
     (\<not> a \<and> rest \<noteq> [] \<and> \<not> hd rest) \<or> two_failures_in_a_row rest"
  by (cases rest) auto

lemma monitor_round_eq:
  assumes "l \<in> {0, 1}" and "r \<in> {0, 1}"
  shows "monitor_round lo ro (l, r) =
    ((if lo then 0 else l + 1, if ro then 0 else r + 1),
     if \<not> lo \<and> l = 1 then agent_health_failure 2 0 2
     else if \<not> ro \<and> r = 1 then agent_health_failure 0 2 2 else None)"
  using assms
  by (auto simp: monitor_round_def agent_health_failure_def agent_health_failure_limit_def Let_def
      word_le_nat_alt)

lemma monitor_agents_from:
  assumes "l \<in> {0, 1}" and "r \<in> {0, 1}"
  shows "monitor_agents (l, r) rounds \<noteq> None \<longleftrightarrow>
    two_failures_in_a_row ((l = 0) # map fst rounds) \<or> two_failures_in_a_row ((r = 0) # map snd rounds)"
  using assms
proof (induction rounds arbitrary: l r)
  case (Cons round rounds)
  obtain lo ro where round: "round = (lo, ro)" by (cases round)
  show ?case
  proof (cases "(\<not> lo \<and> l = 1) \<or> (\<not> ro \<and> r = 1)")
    case True
    then show ?thesis
      using Cons.prems by (auto simp: round monitor_round_eq agent_health_failure_def)
  next
    case False
    have next_counts: "(if lo then 0 else l + 1) \<in> {0, 1}" "(if ro then 0 else r + 1) \<in> {0, 1}"
      using Cons.prems False by auto
    have "monitor_agents (l, r) (round # rounds) =
        monitor_agents (if lo then 0 else l + 1, if ro then 0 else r + 1) rounds"
      using Cons.prems False by (auto simp: round monitor_round_eq)
    with Cons.IH [OF next_counts] Cons.prems False show ?thesis
      by (auto simp: round two_failures_Cons)
  qed
qed simp

text \<open>
  The stream is given up exactly after two failed health checks in a row of the same agent: a
  single missed check of either, or alternating misses, never ends it, and the 8-bit counters
  cannot wrap.
\<close>

theorem monitor_gives_up_after_two:
  "monitor_agents (0, 0) rounds \<noteq> None \<longleftrightarrow>
     two_failures_in_a_row (map fst rounds) \<or> two_failures_in_a_row (map snd rounds)"
  using monitor_agents_from [of 0 0 rounds] by (simp add: two_failures_Cons)

lemma is_ok_call: "is_ok (fst (c w)) \<longleftrightarrow> (\<exists>x w'. c w = (Inr x, w'))"
  by (cases "c w") (auto simp: is_ok_iff)

lemma verify_agents_Ok:
  "verify_agents p controller remote w = (Inr u, w') \<Longrightarrow>
     \<exists>h1 w1 h2. sp_health p controller w = (Inr h1, w1) \<and> sp_health p remote w1 = (Inr h2, w')"
  by (auto simp: verify_agents_def agent_health_failure_def is_ok_iff
      split: prod.splits option.splits if_splits)

lemma pair_stream_Ok:
  assumes "pair_stream p endpoint w = (Inr u, w')"
  shows "\<exists>w1 w2. sp_pairing_state p \<lparr>sh_address = ep_address endpoint,
      sh_application = desktop_application\<rparr> w1 = (Inr Paired, w2)"
  using assms
  by (auto simp: pair_stream_def Let_def call_then_Inr returning_def split: if_splits)

text \<open>
  A stream is launched only when everything it needs was checked: the device may send
  shortcuts back, its Sunshine reported ready, Moonlight reported the host paired (by itself or
  after pairing), both agents answered, and the launch request carries the application Sunshine
  named and the caller's profile.
\<close>

theorem launch_is_prepared:
  assumes "prepare_stream p request w = (Inr launch, w')"
  shows "(\<exists>w1. callback_access_verify (sp_identify p) (sp_access_list p)
        (ep_address (cn_endpoint request)) w = (Inr (), w1))
    \<and> (\<exists>status w1 w2. sp_status p (cn_endpoint request) w1 = (Inr status, w2) \<and> ss_ready status
        \<and> sh_application (sl_host launch) = unwrap_or (ss_desktop_app status) desktop_application)
    \<and> (\<exists>host w1 w2. sh_address host = ep_address (cn_endpoint request)
        \<and> sp_pairing_state p host w1 = (Inr Paired, w2))
    \<and> (\<exists>h w1 w2. sp_health p (cn_controller_endpoint request) w1 = (Inr h, w2))
    \<and> (\<exists>h w1. sp_health p (cn_endpoint request) w1 = (Inr h, w'))
    \<and> sh_address (sl_host launch) = ep_address (cn_endpoint request)
    \<and> sl_profile launch = cn_profile request"
proof -
  let ?host = "\<lambda>status. \<lparr>sh_address = ep_address (cn_endpoint request),
      sh_application = unwrap_or (ss_desktop_app status) desktop_application\<rparr>"
  from assms obtain u w1 status w2 state w3 v w4 x w5 y w6 z where
    callback: "callback_access_verify (sp_identify p) (sp_access_list p)
        (ep_address (cn_endpoint request)) w = (Inr u, w1)"
    and status: "sp_status p (cn_endpoint request) w1 = (Inr status, w2)" "ss_ready status"
    and state: "sp_pairing_state p (?host status) w2 = (Inr state, w3)"
    and paired: "(if state = Paired then returning (Inr ())
        else if cn_auto_pair request then pair_stream p (cn_endpoint request)
        else returning (Inl (port_error_new (lit ''MOONLIGHT_PAIRING_REQUIRED'')
          (lit ''Moonlight is not paired with the host; run `omdesky pair` first'') False))) w3
        = (Inr v, w4)"
    and agents: "verify_agents p (cn_controller_endpoint request) (cn_endpoint request) w6 = (Inr z, w')"
    and launch: "launch = \<lparr>sl_host = ?host status, sl_profile = cn_profile request,
        sl_fullscreen = cn_fullscreen request, sl_input_mode = cn_input_mode request\<rparr>"
    unfolding prepare_stream_def Let_def call_then_Inr returning_def
    by (auto simp: call_then_Inr returning_def split: if_splits)
  have "\<exists>host w1 w2. sh_address host = ep_address (cn_endpoint request)
      \<and> sp_pairing_state p host w1 = (Inr Paired, w2)"
  proof (cases "state = Paired")
    case True
    with state show ?thesis by (intro exI [of _ "?host status"]) auto
  next
    case False
    with paired have "pair_stream p (cn_endpoint request) w3 = (Inr v, w4)"
      by (auto split: if_splits)
    from pair_stream_Ok [OF this] show ?thesis by (metis stream_host_descriptor.select_convs(1))
  qed
  then show ?thesis
    using callback status launch verify_agents_Ok [OF agents] by auto
qed

text \<open>Ports that grant everything, answering a command with \<open>response\<close>; the world counts the commands.\<close>

definition stream_example :: "command_response \<Rightarrow> nat stream_ports" where
  "stream_example response =
     \<lparr>sp_identify = (\<lambda>_ w. (Inr (Some example_identity), w)),
      sp_access_list = (\<lambda>w. (Inr [allowed_controller_new (lit ''n2'') None 0 capability_callback], w)),
      sp_status = (\<lambda>_ w. (Inr \<lparr>ss_installed = True, ss_running = True, ss_ready = True,
         ss_desktop_app = None, ss_pairing_api_available = True\<rparr>, w)),
      sp_challenge = (\<lambda>_ w. (Inr \<lparr>ch_pairing_id = lit ''ab'', ch_expires_in_seconds = 120\<rparr>, w)),
      sp_pair = (\<lambda>_ _ w. (Inr (), w)), sp_focus_workspace = (\<lambda>_ _ w. (Inr (), w)),
      sp_focus_window = (\<lambda>_ _ w. (Inr (), w)),
      sp_health = (\<lambda>_ w. (Inr \<lparr>hr_status = lit ''ok'', hr_protocol = 2, hr_agent_version = release\<rparr>, w)),
      sp_send_command = (\<lambda>_ _ w. (Inr response, Suc w)),
      sp_pairing_state = (\<lambda>_ w. (Inr Paired, w)),
      sp_begin_pairing = (\<lambda>_ w. (Inr \<lparr>pp_pin = lit ''0427'', pp_handle = 0\<rparr>, w)),
      sp_complete_pairing = (\<lambda>_ w. (Inr (), w)),
      sp_launch = (\<lambda>_ w. (Inr \<lparr>proc_handle = 0, proc_id = None\<rparr>, w)),
      sp_terminate = (\<lambda>_ w. (Inr (), w)),
      sp_install = (\<lambda>_ w. (Inr (), w)), sp_clear = (\<lambda>w. (Inr (), w)),
      sp_notify = (\<lambda>_ w. (Inr (), w)), sp_windows = None, sp_client_name = lit ''pc''\<rparr>"

definition stream_request :: connect_request where
  "stream_request = \<lparr>cn_endpoint = \<lparr>ep_address = V4 100 64 0 3, ep_port = 47960\<rparr>,
     cn_controller_endpoint = \<lparr>ep_address = V4 100 64 0 2, ep_port = 47960\<rparr>, cn_profile = stream_profile_default,
     cn_fullscreen = True, cn_input_mode = RemoteInput, cn_focus_workspace = None,
     cn_focus_window = None, cn_auto_pair = False\<rparr>"

lemmas stream_example_defs = stream_example_def stream_request_def prepare_stream_def
  callback_access_verify_def call_then_def returning_def example_identity_def
  missing_callback_capabilities_def allowed_controller_new_def capability_callback_def
  allowed_controller_allows_def verify_agents_def agent_health_failure_def

theorem launch_is_prepared_witness:
  "\<exists>launch. prepare_stream (stream_example response_executed) stream_request 0 = (Inr launch, 0)
    \<and> sh_address (sl_host launch) = V4 100 64 0 3 \<and> sl_profile launch = stream_profile_default"
proof -
  have "prepare_stream (stream_example response_executed) stream_request 0
      = (Inr \<lparr>sl_host = \<lparr>sh_address = V4 100 64 0 3, sh_application = desktop_application\<rparr>,
          sl_profile = stream_profile_default, sl_fullscreen = True, sl_input_mode = RemoteInput\<rparr>, 0)"
    by (simp add: stream_example_defs Let_def)
  from this launch_is_prepared [OF this] show ?thesis by (auto simp: stream_request_def)
qed

text \<open>
  The heartbeat renews a lease three times before it ends: for every lease of six seconds or
  more three renewal intervals fit into it, and the interval is never shorter than two seconds.
\<close>

theorem renewal_interval_bounds:
  "from_secs 2 \<le> renewal_interval lease
     \<and> (3 * renewal_interval lease \<le> from_secs lease \<longleftrightarrow> 6 \<le> lease)"
proof -
  have interval: "renewal_interval lease = from_secs (max (max lease 1 div 3) 2)"
    by (auto simp: renewal_interval_def min_renewal_interval_def from_secs_def max_def)
  have "3 * from_secs n \<le> from_secs lease \<longleftrightarrow> 3 * n \<le> lease" for n
    by (simp add: from_secs_def nanos_per_sec_def)
  moreover have "3 * max (max lease 1 div 3) 2 \<le> lease \<longleftrightarrow> 6 \<le> lease"
    by (auto simp: max_def)
  ultimately show ?thesis
    unfolding interval by (simp add: from_secs_def nanos_per_sec_def)
qed

end
