(* ===== verification/StreamSession.thy ===== *)
theory StreamSession
  imports Services Keybinds AgentFacts
begin

text \<open>
  The session around a stream, across components: what the connecting computer has asked of its own
  Hyprland about keybindings when a stream has ended (\<open>services.rs\<close> over \<open>input.rs\<close>), and how the heartbeat of the
  controller keeps the lease of the remote coordinator alive (\<open>services.rs\<close> over
  \<open>session.rs\<close>).
\<close>

section \<open>The local keybindings\<close>

definition keeps :: "('w \<Rightarrow> 'i) \<Rightarrow> ('w, 'a) call \<Rightarrow> bool" where
  "keeps shown c \<longleftrightarrow> (\<forall>w. shown (snd (c w)) = shown w)"

named_theorems keeps_intros \<open>calls that leave the keybindings alone\<close>

lemma keepsD: "keeps shown c \<Longrightarrow> c w = (r, w') \<Longrightarrow> shown w' = shown w"
  unfolding keeps_def by (metis snd_conv)

lemma keeps_returning [keeps_intros]: "keeps shown (returning x)"
  by (simp add: keeps_def)

lemma keeps_call_then [keeps_intros]:
  "keeps shown c \<Longrightarrow> (\<And>x. keeps shown (k x)) \<Longrightarrow> keeps shown (call_then c k)"
  by (auto simp: keeps_def call_then_apply split: sum.splits)

lemma keeps_if [keeps_intros]:
  "keeps shown a \<Longrightarrow> keeps shown b \<Longrightarrow> keeps shown (if P then a else b)"
  by simp

lemma keeps_option [keeps_intros]:
  "keeps shown f \<Longrightarrow> (\<And>x. keeps shown (g x)) \<Longrightarrow>
     keeps shown (case s of None \<Rightarrow> f | Some x \<Rightarrow> g x)"
  by (cases s) simp_all

lemma keeps_let [keeps_intros]: "keeps shown (f x) \<Longrightarrow> keeps shown (let y = x in f y)"
  by simp

text \<open>
  What the ports of a stream leave alone: every port but the two for the keybindings keeps the
  part \<open>shown\<close> of the world.
\<close>

locale stream_frame =
  fixes p :: "'w stream_ports" and shown :: "'w \<Rightarrow> 'i"
  assumes keep_identify: "keeps shown (sp_identify p a)"
    and keep_access: "keeps shown (sp_access_list p)"
    and keep_status: "keeps shown (sp_status p e)"
    and keep_challenge: "keeps shown (sp_challenge p e)"
    and keep_pair: "keeps shown (sp_pair p e pr)"
    and keep_focus: "keeps shown (sp_focus_workspace p e t)" "keeps shown (sp_focus_window p e i)"
    and keep_health: "keeps shown (sp_health p e)"
    and keep_send: "keeps shown (sp_send_command p e request)"
    and keep_pairing: "keeps shown (sp_pairing_state p h)" "keeps shown (sp_begin_pairing p h)"
      "keeps shown (sp_complete_pairing p pending)"
    and keep_process: "keeps shown (sp_launch p l)" "keeps shown (sp_terminate p process)"
    and keep_notify: "keeps shown (sp_notify p n)"
    and keep_windows: "sp_windows p = Some f \<Longrightarrow> keeps shown (f pid)"
begin

lemmas keep_ports = keep_identify keep_access keep_status keep_challenge keep_pair keep_focus
  keep_health keep_send keep_pairing keep_process keep_notify

lemma keeps_callback: "keeps shown (callback_access_verify (sp_identify p) (sp_access_list p) a)"
  unfolding callback_access_verify_def by (intro keeps_intros keep_ports)

lemma keeps_pair_stream: "keeps shown (pair_stream p e)"
  unfolding pair_stream_def by (intro keeps_intros keep_ports)

lemma keeps_verify_agents: "keeps shown (verify_agents p a b)"
  using keepsD [OF keep_health]
  by (auto simp: keeps_def verify_agents_def split: prod.splits option.splits)

lemma keeps_prepare: "keeps shown (prepare_stream p request)"
  unfolding prepare_stream_def
  by (intro keeps_intros keep_ports keeps_callback keeps_pair_stream keeps_verify_agents)

lemma keeps_lookup: "sp_windows p = Some f \<Longrightarrow> shown (snd (window_lookup n f pid w)) = shown w"
proof (induction n arbitrary: w)
  case (Suc n)
  then show ?case
    using keepsD [OF keep_windows [OF Suc.prems]]
    by (auto split: prod.splits sum.splits option.splits)
qed simp

lemma keeps_locate: "keeps shown (locate_stream_window p pid)"
  by (auto simp: keeps_def locate_stream_window_def keeps_lookup split: option.splits)

lemma notify_shown: "shown (notify_world p body w) = shown w"
  using keep_notify by (simp add: notify_world_def keeps_def)

lemma wait_keeps:
  "shown (snd (stream_wait p request grant process failures events w)) = shown w"
proof (induction events arbitrary: failures w)
  case (Cons e events)
  show ?case
  proof (cases e)
    case HealthRound
    obtain r1 w1 r2 w2 where h: "sp_health p (cn_controller_endpoint request) w = (r1, w1)"
      "sp_health p (cn_endpoint request) w1 = (r2, w2)" by fastforce
    then have "shown w2 = shown w" using keepsD [OF keep_health] by metis
    moreover have "shown (snd (sp_terminate p process w2)) = shown w2"
      using keep_process(2) by (simp add: keeps_def)
    ultimately show ?thesis
      using HealthRound h Cons.IH by (simp split: prod.split option.split)
  next
    case (HeartbeatTick fresh now)
    have "shown (snd (sp_send_command p (cn_endpoint request) c w)) = shown w" for c
      using keep_send by (simp add: keeps_def)
    with HeartbeatTick Cons.IH show ?thesis by (simp split: option.split)
  qed simp
qed simp

end

text \<open>
  What running a stream needs of the keybinding ports, where \<open>owed\<close> says that keybindings were
  installed which nobody asked to remove since: an installation that fails adds nothing to that,
  asking for the removal settles it, and the remote agent answers an attach it accepts with a lease.
\<close>

locale stream_bindings = stream_frame p owed
  for p :: "'w stream_ports" and owed :: "'w \<Rightarrow> bool" +
  assumes install_Err: "sp_install p c w = (Inl e', w') \<Longrightarrow> owed w' = owed w"
    and clear_settles: "\<not> owed (snd (sp_clear p w))"
    and leased: "sp_send_command p e request w = (Inr response, w') \<Longrightarrow>
          cr_command request = AttachSession role ctl win \<Longrightarrow> resp_session response \<noteq> None"
begin

lemma attach_Err:
  assumes "attach_session p fresh now request window w = (Inl e, w')" and "\<not> owed w"
  shows "\<not> owed w'"
  using assms install_Err keepsD [OF keep_send] leased clear_settles
  by (fastforce simp: attach_session_def call_then_def Let_def ok_or_def command_request_new_def
      split: prod.splits sum.splits option.splits)

lemma setup_owed:
  assumes "setup_shortcuts p sx request pid w = (grant, w')" and "\<not> owed w"
  shows "grant \<noteq> None \<or> \<not> owed w'"
proof (cases "cn_input_mode request = RemoteInput")
  case True
  obtain window w1 where loc: "locate_stream_window p pid w = (window, w1)" by fastforce
  then have "\<not> owed w1" using keepsD [OF keeps_locate] assms(2) by simp
  with assms(1) True loc attach_Err show ?thesis
    by (auto simp: setup_shortcuts_def notify_shown split: prod.splits sum.splits)
qed (use assms in \<open>simp add: setup_shortcuts_def\<close>)

lemma restore_owed:
  "owed (restore_shortcuts p sx request grant w) \<longleftrightarrow> grant = None \<and> owed w"
proof (cases grant)
  case (Some g)
  have "\<not> owed (snd (detach_session p fresh now request g w))" for fresh now
    using clear_settles [of w] keep_send by (simp add: detach_session_def case_prod_beta keeps_def)
  with Some show ?thesis
    by (simp add: restore_shortcuts_def notify_shown case_prod_beta split: sum.split)
qed (simp add: restore_shortcuts_def)

text \<open>A stream that has ended owes no removal.\<close>

lemma ended_stream_settled:
  assumes "connect_node p sx on_started request events w = (Some exit, w')"
    and "\<not> owed w" and "\<And>pid v. owed (on_started pid v) = owed v"
  shows "\<not> owed w'"
proof -
  obtain r w1 where prep: "call_then (prepare_stream p request) (sp_launch p) w = (r, w1)" by fastforce
  have k: "keeps owed (call_then (prepare_stream p request) (sp_launch p))"
    by (intro keeps_intros keeps_prepare keep_process(1))
  have w1: "\<not> owed w1" using keepsD [OF k prep] assms(2) by simp
  show ?thesis
  proof (cases r)
    case (Inr process)
    obtain grant w2 where prepared: "setup_shortcuts p sx request (proc_id process) w1 = (grant, w2)"
      by fastforce
    obtain res w3 where wait: "stream_wait p request grant process (0, 0) events
        (on_started (proc_id process) w2) = (res, w3)" by fastforce
    have "owed w3 = owed w2"
      using wait_keeps [of request grant process "(0, 0)" events "on_started (proc_id process) w2"]
        wait assms(3) by simp
    moreover have "w' = restore_shortcuts p sx request grant w3"
      using assms(1) prep Inr prepared wait by (auto simp: connect_node_def split: option.splits)
    ultimately show ?thesis
      using setup_owed [OF prepared w1] restore_owed [of sx request grant w3] by auto
  qed (use assms(1) prep w1 in \<open>simp add: connect_node_def\<close>)
qed

end

text \<open>
  When the keybinding ports leave it alone as well, only the callback of a started stream changes
  that part of the world, and it is called at most once: never when the stream does not start.
\<close>

locale stream_reports = stream_frame p shown
  for p :: "'w stream_ports" and shown :: "'w \<Rightarrow> 'i" +
  assumes keep_keybindings: "keeps shown (sp_install p c)" "keeps shown (sp_clear p)"
begin

lemma keeps_attach: "keeps shown (attach_session p fresh now request window)"
  using keep_keybindings keep_send
  by (auto simp: keeps_def attach_session_def call_then_def Let_def split: prod.splits sum.splits)
    (metis snd_conv)+

lemma keeps_setup: "shown (snd (setup_shortcuts p sx request pid w)) = shown w"
proof (cases "cn_input_mode request = RemoteInput")
  case True
  obtain window w1 where loc: "locate_stream_window p pid w = (window, w1)" by fastforce
  obtain r w2 where att: "attach_session p (sx_fresh_attach sx) (sx_now_attach sx) request window w1 = (r, w2)"
    by fastforce
  have "shown w2 = shown w" using keepsD [OF keeps_locate loc] keepsD [OF keeps_attach att] by simp
  with True loc att show ?thesis by (simp add: setup_shortcuts_def notify_shown split: sum.split)
qed (simp add: setup_shortcuts_def)

lemma keeps_restore: "shown (restore_shortcuts p sx request grant w) = shown w"
proof (cases grant)
  case (Some g)
  have "shown (snd (detach_session p fresh now request g w)) = shown w" for fresh now
    using keep_keybindings(2) keep_send by (simp add: detach_session_def case_prod_beta keeps_def)
  with Some show ?thesis
    by (simp add: restore_shortcuts_def notify_shown case_prod_beta split: sum.split)
qed (simp add: restore_shortcuts_def)

lemma connect_reports:
  assumes "connect_node p sx on_started request events w = (r, w')"
    and "\<And>pid v. shown (on_started pid v) = report pid (shown v)"
  shows "(\<exists>e. r = Some (Inl e)) \<and> shown w' = shown w \<or> (\<exists>pid. shown w' = report pid (shown w))"
proof -
  obtain q w1 where prep: "call_then (prepare_stream p request) (sp_launch p) w = (q, w1)" by fastforce
  have "keeps shown (call_then (prepare_stream p request) (sp_launch p))"
    by (intro keeps_intros keeps_prepare keep_process(1))
  then have w1: "shown w1 = shown w" using prep by (rule keepsD)
  show ?thesis
  proof (cases q)
    case (Inr process)
    obtain grant w2 where prepared: "setup_shortcuts p sx request (proc_id process) w1 = (grant, w2)"
      by fastforce
    obtain res w3 where wait: "stream_wait p request grant process (0, 0) events
        (on_started (proc_id process) w2) = (res, w3)" by fastforce
    have "shown w3 = report (proc_id process) (shown w)"
      using wait_keeps [of request grant process "(0, 0)" events "on_started (proc_id process) w2"]
        wait assms(2) keeps_setup [of sx request "proc_id process" w1] prepared w1 by simp
    then show ?thesis
      using assms(1) prep Inr prepared wait keeps_restore [of sx request grant w3]
      by (auto simp: connect_node_def split: option.splits)
  qed (use assms(1) prep w1 in \<open>auto simp: connect_node_def\<close>)
qed

end

section \<open>The ports of a connecting computer\<close>

text \<open>
  The ports over the desktop of theory \<open>Keybinds\<close>: the two keybinding ports are the code's own
  functions, everything else happens outside the desktop, in the part of the world that
  \<open>answer\<close> and the ports \<open>q\<close> work on.
\<close>

definition outside :: "('x, 'a) call \<Rightarrow> ('x desktop, 'a) call" where
  "outside c w = (case c (dk_env w) of (r, x) \<Rightarrow> (r, w\<lparr>dk_env := x\<rparr>))"

definition desktop_ports ::
    "(command_spec \<Rightarrow> ('x, command_output port_result) call) \<Rightarrow> bool \<Rightarrow> 'x stream_ports
       \<Rightarrow> 'x desktop stream_ports" where
  "desktop_ports answer debug q =
     \<lparr>sp_identify = (\<lambda>a. outside (sp_identify q a)),
      sp_access_list = outside (sp_access_list q),
      sp_status = (\<lambda>e. outside (sp_status q e)),
      sp_challenge = (\<lambda>e. outside (sp_challenge q e)),
      sp_pair = (\<lambda>e r. outside (sp_pair q e r)),
      sp_focus_workspace = (\<lambda>e t. outside (sp_focus_workspace q e t)),
      sp_focus_window = (\<lambda>e i. outside (sp_focus_window q e i)),
      sp_health = (\<lambda>e. outside (sp_health q e)),
      sp_send_command = (\<lambda>e c. outside (sp_send_command q e c)),
      sp_pairing_state = (\<lambda>h. outside (sp_pairing_state q h)),
      sp_begin_pairing = (\<lambda>h. outside (sp_begin_pairing q h)),
      sp_complete_pairing = (\<lambda>h. outside (sp_complete_pairing q h)),
      sp_launch = (\<lambda>l. outside (sp_launch q l)),
      sp_terminate = (\<lambda>h. outside (sp_terminate q h)),
      sp_install = keybinds_install (desktop_run answer) debug,
      sp_clear = keybinds_clear (desktop_run answer),
      sp_notify = (\<lambda>n. outside (sp_notify q n)),
      sp_windows = map_option (\<lambda>f pid. outside (f pid)) (sp_windows q),
      sp_client_name = sp_client_name q\<rparr>"

text \<open>
  Whether keybindings are owed a removal: some were reported as installed, and their removal was
  not asked for since.
\<close>

definition removal_owed :: "(command_spec \<times> bool) list \<Rightarrow> bool" where
  "removal_owed asked =
     foldl (\<lambda>owed (spec, ok). spec \<noteq> remove_session_keybinds_spec \<and> (owed \<or> ok)) False asked"

lemma removal_owed_snoc [simp]:
  "removal_owed (asked @ [(spec, ok)]) \<longleftrightarrow>
     spec \<noteq> remove_session_keybinds_spec \<and> (removal_owed asked \<or> ok)"
  by (simp add: removal_owed_def)

lemma removal_owed_iff:
  "removal_owed asked \<longleftrightarrow> (\<exists>before spec after. asked = before @ (spec, True) # after
     \<and> spec \<noteq> remove_session_keybinds_spec \<and> (\<forall>e\<in>set after. fst e \<noteq> remove_session_keybinds_spec))"
proof (induction asked rule: rev_induct)
  case (snoc e asked)
  note snoc_IH = snoc.IH
  obtain spec ok where e: "e = (spec, ok)" by (cases e)
  show ?case
  proof
    assume "removal_owed (asked @ [e])"
    with e consider (now) "spec \<noteq> remove_session_keybinds_spec" "ok"
      | (before) "spec \<noteq> remove_session_keybinds_spec" "removal_owed asked" by auto
    then show "\<exists>before spec after. asked @ [e] = before @ (spec, True) # after
        \<and> spec \<noteq> remove_session_keybinds_spec \<and> (\<forall>e\<in>set after. fst e \<noteq> remove_session_keybinds_spec)"
    proof cases
      case now
      with e show ?thesis by (intro exI [of _ asked] exI [of _ spec] exI [of _ "[]"]) simp
    next
      case before
      with snoc.IH obtain pre sp post where "asked = pre @ (sp, True) # post"
        "sp \<noteq> remove_session_keybinds_spec" "\<forall>e\<in>set post. fst e \<noteq> remove_session_keybinds_spec" by blast
      with e before(1) show ?thesis
        by (intro exI [of _ pre] exI [of _ sp] exI [of _ "post @ [e]"]) auto
    qed
  next
    assume "\<exists>before spec after. asked @ [e] = before @ (spec, True) # after
        \<and> spec \<noteq> remove_session_keybinds_spec \<and> (\<forall>e\<in>set after. fst e \<noteq> remove_session_keybinds_spec)"
    then obtain pre sp post where split: "asked @ [e] = pre @ (sp, True) # post"
      "sp \<noteq> remove_session_keybinds_spec" "\<forall>e\<in>set post. fst e \<noteq> remove_session_keybinds_spec" by blast
    show "removal_owed (asked @ [e])"
    proof (cases post rule: rev_cases)
      case Nil
      with split e show ?thesis by simp
    next
      case (snoc rest final)
      with split(1) have "asked = pre @ (sp, True) # rest" "e = final" by auto
      from split(2,3) snoc have "removal_owed asked"
        by (subst snoc_IH, intro exI [of _ pre] exI [of _ sp] exI [of _ rest])
          (use \<open>asked = pre @ (sp, True) # rest\<close> in simp)
      moreover have "spec \<noteq> remove_session_keybinds_spec"
        using split(3) snoc e \<open>e = final\<close> by auto
      ultimately show ?thesis using e by simp
    qed
  qed
qed (simp add: removal_owed_def)

text \<open>The remote agent answers every attach it accepts with a lease.\<close>

definition attaches_leased :: "'x stream_ports \<Rightarrow> bool" where
  "attaches_leased q \<longleftrightarrow> (\<forall>e request x role ctl win.
     cr_command request = AttachSession role ctl win \<longrightarrow>
     (case fst (sp_send_command q e request x) of
        Inr response \<Rightarrow> resp_session response \<noteq> None | Inl _ \<Rightarrow> True))"

lemma keeps_outside: "keeps (\<lambda>w. f (dk_asked w)) (outside c)"
  by (simp add: keeps_def outside_def case_prod_beta)

interpretation framed: stream_frame "desktop_ports answer debug q" "\<lambda>w. removal_owed (dk_asked w)"
  for answer :: "command_spec \<Rightarrow> ('x, command_output port_result) call" and debug
    and q :: "'x stream_ports"
  by unfold_locales (auto simp: desktop_ports_def keeps_outside)

locale leased_desktop =
  fixes q :: "'x stream_ports"
  assumes leases: "attaches_leased q"
begin

lemma lease_of_attach:
  assumes "sp_send_command (desktop_ports answer debug q) e request w = (Inr response, w')"
    and "cr_command request = AttachSession role ctl win"
  shows "resp_session response \<noteq> None"
proof -
  obtain x where "sp_send_command q e request (dk_env w) = (Inr response, x)"
    using assms(1) by (auto simp: desktop_ports_def outside_def split: prod.splits)
  then show ?thesis
    using leases assms(2) unfolding attaches_leased_def
    by (auto dest!: spec [of _ e] spec [of _ request] spec [of _ "dk_env w"])
qed

end

sublocale leased_desktop \<subseteq> stream_bindings "desktop_ports answer debug q"
    "\<lambda>w. removal_owed (dk_asked w)"
  for answer :: "command_spec \<Rightarrow> ('x, command_output port_result) call" and debug
proof unfold_locales
  show "\<And>request e w response w' role ctl win.
      sp_send_command (desktop_ports answer debug q) e request w = (Inr response, w') \<Longrightarrow>
      cr_command request = AttachSession role ctl win \<Longrightarrow> resp_session response \<noteq> None"
    by (rule lease_of_attach)
  show "\<not> removal_owed (dk_asked (snd (sp_clear (desktop_ports answer debug q) w)))"
    for w :: "'x desktop"
    using keybinds_clear_asked [OF surjective_pairing, of answer w] by (simp add: desktop_ports_def)
qed (auto simp: desktop_ports_def install_is_no_removal dest!: keybinds_install_asked)

context leased_desktop
begin

lemma ended_desktop_settled:
  assumes "connect_node (desktop_ports answer debug q) sx on_started request events w = (Some exit, w')"
    and "\<not> removal_owed (dk_asked w)"
    and "\<And>pid v. removal_owed (dk_asked (on_started pid v)) = removal_owed (dk_asked v)"
  shows "\<not> removal_owed (dk_asked w')"
  using assms by (rule ended_stream_settled)

end

text \<open>
  The interpretation: the commands of the stream are answered by the agent of theory \<open>Agent\<close>
  itself (\<open>as_port_error\<close> is the HTTP client's translation of its errors).
\<close>

definition agent_answers_command ::
    "'w agent_env \<Rightarrow> (command_request \<Rightarrow> request_ctx) \<Rightarrow> (api_error \<Rightarrow> port_error)
       \<Rightarrow> agent_endpoint \<Rightarrow> command_request
       \<Rightarrow> (agent_state \<times> 'w, command_response port_result) call" where
  "agent_answers_command env ctx as_port_error endpoint request s =
     (case run_command env (ctx request) (Inr request) s of
        (r, s') \<Rightarrow> (map_err as_port_error r, s'))"

lemma unleased_setup:
  assumes remote: "cn_input_mode request = RemoteInput"
    and works: "\<And>spec x. is_ok (fst (answer spec x))"
    and valid: "\<And>v. window_selector_validate
          (fst (locate_stream_window (desktop_ports answer debug q) pid v)) = Inr ()"
    and unleased: "\<And>e c x role ctl win. cr_command c = AttachSession role ctl win \<Longrightarrow>
           \<exists>response. fst (sp_send_command q e c x) = Inr response \<and> resp_session response = None"
    and run: "setup_shortcuts (desktop_ports answer debug q) sx request pid w = (grant, w')"
  shows "grant = None \<and> removal_owed (dk_asked w')"
proof -
  let ?p = "desktop_ports answer debug q"
  obtain window w1 where loc: "locate_stream_window ?p pid w = (window, w1)" by fastforce
  let ?config = "\<lparr>kb_role = Controller, kb_controller = None, kb_window = window\<rparr>"
  obtain r w2 where inst: "keybinds_install (desktop_run answer) debug ?config w1 = (r, w2)" by fastforce
  have "window_selector_validate window = Inr ()" using valid [of w] loc by simp
  moreover have "is_ok (fst (desktop_run answer spec v))" for spec v
    using works by (simp add: desktop_run_def case_prod_beta)
  ultimately have ok: "r = Inr ()"
    using inst by (auto simp: keybinds_install_def call_then_apply is_ok_def split: prod.splits sum.splits)
      (metis fst_conv sum.simps(5))
  then have owed: "removal_owed (dk_asked w2)"
    using keybinds_install_asked [OF inst] install_is_no_removal by auto
  obtain answered w3 where att: "attach_session ?p (sx_fresh_attach sx) (sx_now_attach sx) request window w1
      = (answered, w3)" by fastforce
  let ?c = "command_request_new (sx_fresh_attach sx) (sx_now_attach sx) (AttachSession Remote
      (Some \<lparr>se_address = ep_address (cn_controller_endpoint request),
        se_port = ep_port (cn_controller_endpoint request)\<rparr>) (Some window))"
  obtain response where "fst (sp_send_command q (cn_endpoint request) ?c (dk_env w2)) = Inr response"
    "resp_session response = None"
    using unleased [of ?c Remote "Some \<lparr>se_address = ep_address (cn_controller_endpoint request),
        se_port = ep_port (cn_controller_endpoint request)\<rparr>" "Some window" "cn_endpoint request" "dk_env w2"]
    by (auto simp: command_request_new_def)
  with att inst ok have "(\<exists>e. answered = Inl e) \<and> dk_asked w3 = dk_asked w2"
    by (auto simp: attach_session_def call_then_apply desktop_ports_def outside_def Let_def ok_or_def
        split: prod.splits)
  with run remote loc att owed framed.notify_shown [of answer debug q _ w3] show ?thesis
    by (auto simp: setup_shortcuts_def)
qed

lemma agent_leases_attaches:
  assumes "run_command env ctx (Inr request) s = (Inr response, s')"
    and "cr_command request = AttachSession role ctl win"
  shows "resp_session response \<noteq> None"
proof -
  obtain st w where s: "s = (st, w)" by (cases s)
  obtain st' w' where s': "s' = (st', w')" by (cases s')
  have adm: "command_admissible env ctx request st w"
    using run_command_refused_state [of env ctx request st w "Inr response" st' w'] assms(1) s s' by auto
  obtain peer where "run_command env ctx (Inr request) (st, w) =
      apply_session_command env ctx peer (AttachSession role ctl win) (cr_session request)
        (admitted_state env ctx request st w, snd (snd (authenticate (env_auth env)
           (rc_auth_clock ctx) (rc_source ctx) (st_authorizer st) w)))"
    by (rule run_command_admissible [OF adm]) (simp add: assms(2))
  with assms(1) s show ?thesis
    by (auto simp: apply_session_command_def call_then_Inr reply_def returning_def
        response_granted_def Let_def)
qed

interpretation connected: leased_desktop
    "q\<lparr>sp_send_command := agent_answers_command env ctx as_port_error\<rparr>"
  for q :: "(agent_state \<times> 'w) stream_ports" and env ctx as_port_error
proof
  show "attaches_leased (q\<lparr>sp_send_command := agent_answers_command env ctx as_port_error\<rparr>)"
    unfolding attaches_leased_def
  proof (intro allI impI)
    fix e and request :: command_request and x role ctl win
    assume cmd: "cr_command request = AttachSession role ctl win"
    obtain r s' where run: "run_command env (ctx request) (Inr request) x = (r, s')"
      by (rule prod.exhaust)
    show "case fst (sp_send_command (q\<lparr>sp_send_command := agent_answers_command env ctx as_port_error\<rparr>)
        e request x) of Inl _ \<Rightarrow> True | Inr response \<Rightarrow> resp_session response \<noteq> None"
      using agent_leases_attaches [of env "ctx request" request x _ s'] run cmd
      by (cases r) (simp_all add: agent_answers_command_def)
  qed
qed

section \<open>Correctness\<close>

text \<open>
  C10: When a stream has ended, the removal of the session keybindings was asked of Hyprland after
  every installation that was reported to have worked, if that was so before the stream: whether
  the stream could not be prepared or launched, the shortcuts could not be set up, the process
  exited or the monitor gave up, and however heartbeats and health checks went in between. The
  condition is that the remote agent answers an attach it accepts with a lease, as the agent of
  this program does (\<open>connected\<close>). Nothing is claimed of what Hyprland makes of the removal: it may
  fail, and the stream then ends with a notice that the shortcuts could not be restored.
\<close>

theorem ended_stream_asks_removal:
  assumes "attaches_leased q"
    and "connect_node (desktop_ports answer debug q) sx on_started request events w = (Some exit, w')"
    and "\<not> removal_owed (dk_asked w)" and "\<And>pid v. dk_asked (on_started pid v) = dk_asked v"
  shows "\<forall>before spec after. dk_asked w' = before @ (spec, True) # after
    \<and> spec \<noteq> remove_session_keybinds_spec \<longrightarrow> remove_session_keybinds_spec \<in> fst ` set after"
proof -
  have "\<not> removal_owed (dk_asked w')"
    using leased_desktop.ended_desktop_settled [OF leased_desktop.intro [OF assms(1)] assms(2,3)] assms(4)
    by simp
  then have settled: "\<nexists>before spec after. dk_asked w' = before @ (spec, True) # after
      \<and> spec \<noteq> remove_session_keybinds_spec \<and> (\<forall>e\<in>set after. fst e \<noteq> remove_session_keybinds_spec)"
    unfolding removal_owed_iff .
  show ?thesis
  proof (intro allI impI, elim conjE, rule ccontr)
    fix before spec after
    assume "dk_asked w' = before @ (spec, True) # after" "spec \<noteq> remove_session_keybinds_spec"
      "remove_session_keybinds_spec \<notin> fst ` set after"
    with settled show False by (metis imageI)
  qed
qed

lemma stream_window_class_eq: "stream_window_class = moonlight_window_class"
  by (simp add: stream_window_class_def moonlight_window_class_def)

definition stream_ctx_example :: stream_ctx where
  "stream_ctx_example = \<lparr>sx_fresh_attach = 1, sx_now_attach = 0, sx_fresh_detach = 2, sx_now_detach = 9\<rparr>"

definition stream_start :: "nat desktop" where
  "stream_start = \<lparr>dk_asked = [], dk_following = None, dk_env = 0\<rparr>"

lemmas desktop_example_defs = stream_example_defs stream_ctx_example_def
  stream_start_def desktop_ports_def outside_def

lemma stream_example_prepared:
  "call_then (prepare_stream (desktop_ports answer debug (stream_example r)) stream_request)
     (sp_launch (desktop_ports answer debug (stream_example r))) stream_start
   = (Inr \<lparr>proc_handle = 0, proc_id = None\<rparr>, stream_start)"
  by (simp add: desktop_example_defs Let_def)

lemma stream_example_exits:
  "\<exists>w'. connect_node (desktop_ports answer debug (stream_example r)) stream_ctx_example
      (\<lambda>_ v. v) stream_request [HealthRound, ProcessExit (Inr 0)] stream_start = (Some (Inr 0), w')"
  by (cases "setup_shortcuts (desktop_ports answer debug (stream_example r)) stream_ctx_example
        stream_request None stream_start")
    (simp add: connect_node_def stream_example_prepared,
     simp add: desktop_ports_def stream_example_def outside_def monitor_round_def
       agent_health_failure_def agent_health_failure_limit_def Let_def)

theorem ended_stream_asks_removal_witness:
  "\<exists>exit w'. connect_node (desktop_ports example_answer False
      (stream_example (response_granted \<lparr>grant_id = 7, grant_generation = 1, grant_lease_seconds = 45\<rparr>)))
      stream_ctx_example (\<lambda>_ v. v) stream_request [HealthRound, ProcessExit (Inr 0)] stream_start
      = (Some exit, w')
    \<and> (\<forall>before spec after. dk_asked w' = before @ (spec, True) # after
         \<and> spec \<noteq> remove_session_keybinds_spec \<longrightarrow> remove_session_keybinds_spec \<in> fst ` set after)"
proof -
  let ?q = "stream_example (response_granted \<lparr>grant_id = 7, grant_generation = 1, grant_lease_seconds = 45\<rparr>)"
  have leased: "attaches_leased ?q"
    by (simp add: attaches_leased_def stream_example_def response_granted_def)
  obtain w' where ended: "connect_node (desktop_ports example_answer False ?q) stream_ctx_example
      (\<lambda>_ v. v) stream_request [HealthRound, ProcessExit (Inr 0)] stream_start = (Some (Inr 0), w')"
    using stream_example_exits by blast
  have "\<not> removal_owed (dk_asked stream_start)" by (simp add: stream_start_def removal_owed_def)
  from ended_stream_asks_removal [OF leased ended this HOL.refl] ended show ?thesis by blast
qed

text \<open>
  C38: The condition on the lease is needed. When every command given to Hyprland is reported to work
  and the window of the stream has a valid selector, so that its shortcuts are installed, and the
  remote agent accepts the attach but returns no lease, then the stream runs on without a session,
  and when it has ended, however it went, nobody has asked Hyprland to remove those keybindings.
\<close>

theorem unleased_attach_leaves_keybindings:
  assumes "cn_input_mode request = RemoteInput"
    and "call_then (prepare_stream (desktop_ports answer debug q) request)
           (sp_launch (desktop_ports answer debug q)) w = (Inr process, w1)"
    and "\<And>spec x. is_ok (fst (answer spec x))"
    and "\<And>v. window_selector_validate
          (fst (locate_stream_window (desktop_ports answer debug q) (proc_id process) v)) = Inr ()"
    and "\<And>e c x role ctl win. cr_command c = AttachSession role ctl win \<Longrightarrow>
           \<exists>response. fst (sp_send_command q e c x) = Inr response \<and> resp_session response = None"
    and "connect_node (desktop_ports answer debug q) sx on_started request events w = (Some exit, w')"
    and "\<And>pid v. dk_asked (on_started pid v) = dk_asked v"
  shows "\<exists>before spec after. dk_asked w' = before @ (spec, True) # after
    \<and> spec \<noteq> remove_session_keybinds_spec \<and> remove_session_keybinds_spec \<notin> fst ` set after"
proof -
  let ?p = "desktop_ports answer debug q"
  obtain grant w2 where prepared: "setup_shortcuts ?p sx request (proc_id process) w1 = (grant, w2)"
    by fastforce
  then have unleased: "grant = None" "removal_owed (dk_asked w2)"
    using unleased_setup [OF assms(1,3-5) prepared] by simp_all
  obtain res w3 where wait: "stream_wait ?p request grant process (0, 0) events
      (on_started (proc_id process) w2) = (res, w3)" by fastforce
  have "removal_owed (dk_asked w3)"
    using framed.wait_keeps [of answer debug q request grant process "(0, 0)" events
        "on_started (proc_id process) w2"] wait assms(7) unleased(2) by simp
  moreover have "w' = w3"
    using assms(2,6) prepared wait unleased(1)
    by (auto simp: connect_node_def restore_shortcuts_def split: option.splits)
  ultimately obtain before spec after where "dk_asked w' = before @ (spec, True) # after"
    "spec \<noteq> remove_session_keybinds_spec" "\<forall>e\<in>set after. fst e \<noteq> remove_session_keybinds_spec"
    unfolding removal_owed_iff by blast
  then show ?thesis by (intro exI [of _ before] exI [of _ spec] exI [of _ after]) auto
qed

theorem unleased_attach_leaves_keybindings_witness:
  "\<exists>w'. connect_node (desktop_ports example_answer False (stream_example response_executed))
      stream_ctx_example (\<lambda>_ v. v) stream_request [HealthRound, ProcessExit (Inr 0)] stream_start
      = (Some (Inr 0), w')
    \<and> (\<exists>before spec after. dk_asked w' = before @ (spec, True) # after
         \<and> spec \<noteq> remove_session_keybinds_spec \<and> remove_session_keybinds_spec \<notin> fst ` set after)"
proof -
  let ?q = "stream_example response_executed"
  obtain w' where ended: "connect_node (desktop_ports example_answer False ?q) stream_ctx_example
      (\<lambda>_ v. v) stream_request [HealthRound, ProcessExit (Inr 0)] stream_start = (Some (Inr 0), w')"
    using stream_example_exits by blast
  have mode: "cn_input_mode stream_request = RemoteInput" by (simp add: stream_request_def)
  have works: "is_ok (fst (example_answer spec x))" for spec x by (simp add: example_answer_def)
  have valid: "window_selector_validate (fst (locate_stream_window
      (desktop_ports example_answer False ?q) (proc_id \<lparr>proc_handle = 0, proc_id = None\<rparr>) v)) = Inr ()" for v
    using moonlight_class_valid
    by (simp add: locate_stream_window_def desktop_ports_def stream_example_def stream_window_class_eq)
  have unleased: "\<exists>response. fst (sp_send_command ?q e c x) = Inr response \<and> resp_session response = None"
    for e c x by (simp add: stream_example_def response_executed_def)
  show ?thesis
    using unleased_attach_leaves_keybindings [OF mode stream_example_prepared works valid unleased ended HOL.refl]
      ended by blast
qed

text \<open>The renewals of one controller, at the given instants.\<close>

definition renew_all :: "ustr \<Rightarrow> session_claim \<Rightarrow> instant list \<Rightarrow> coordinator \<Rightarrow> coordinator" where
  "renew_all owner claim beats sc = foldl (\<lambda>sc t. snd (session_renew t owner claim sc)) sc beats"

lemma renew_all_live:
  assumes "sc_active sc = Some s" and "as_owner s = owner" and "matches_claim s claim"
    and "sc_expires_at sc = Some (t0 + sc_lease sc)"
    and "successively (\<lambda>a b. b < a + sc_lease sc) (t0 # beats)"
  shows "sc_active (renew_all owner claim beats sc) = Some s
    \<and> sc_expires_at (renew_all owner claim beats sc) = Some (last (t0 # beats) + sc_lease sc)
    \<and> sc_lease (renew_all owner claim beats sc) = sc_lease sc"
  using assms
proof (induction beats arbitrary: sc t0)
  case (Cons t beats)
  have "snd (session_renew t owner claim sc) = sc\<lparr>sc_expires_at := Some (t + sc_lease sc)\<rparr>"
    using Cons.prems by (auto simp: session_renew_def lease_elapsed_def matches_claim_def)
  with Cons.IH [of "sc\<lparr>sc_expires_at := Some (t + sc_lease sc)\<rparr>" t] Cons.prems show ?case
    by (simp add: renew_all_def)
qed (simp add: renew_all_def)

text \<open>
  C27: A controller that keeps its heartbeat keeps its session, even when every other beat is lost.
  If renewals reach the coordinator at most two renewal intervals apart, then at every instant up
  to two intervals after the last one the session is still live, and the expiry task leaves it
  alone.
\<close>

theorem heartbeat_keeps_session:
  assumes "sc_active sc = Some s" and "as_owner s = owner" and "matches_claim s claim"
    and "sc_lease sc = from_secs lease" and "6 \<le> lease"
    and "sc_expires_at sc = Some (t0 + sc_lease sc)"
    and "successively (\<lambda>a b. b \<le> a + 2 * renewal_interval lease) (t0 # beats)"
    and "now \<le> last (t0 # beats) + 2 * renewal_interval lease"
  shows "sc_active (renew_all owner claim beats sc) = Some s
    \<and> live now (renew_all owner claim beats sc)
    \<and> session_expire_due fx now (renew_all owner claim beats sc) w
        = (Ignored, renew_all owner claim beats sc, w)"
proof -
  have interval: "renewal_interval lease = from_secs (lease div 3)"
    using assms(5) by (auto simp: renewal_interval_def min_renewal_interval_def from_secs_def max_def
        nanos_per_sec_def)
  have "2 * renewal_interval lease < from_secs lease"
    unfolding interval using assms(5) by (simp add: from_secs_def nanos_per_sec_def)
  then have short: "2 * renewal_interval lease < sc_lease sc" using assms(4) by simp
  have "successively (\<lambda>a b. b < a + sc_lease sc) (t0 # beats)"
    using assms(7) by (rule successively_mono) (use short in linarith)
  from renew_all_live [OF assms(1-3) assms(6) this]
  have "sc_active (renew_all owner claim beats sc) = Some s"
    and "sc_expires_at (renew_all owner claim beats sc) = Some (last (t0 # beats) + sc_lease sc)"
    by simp_all
  moreover from this(2) have "\<not> lease_elapsed (renew_all owner claim beats sc) now"
    using assms(8) short by (simp add: lease_elapsed_def del: last.simps)
  ultimately show ?thesis by (simp add: live_def session_expire_due_def Let_def)
qed

theorem heartbeat_keeps_session_witness:
  "live (from_secs 95) (renew_all (lit ''n1'') \<lparr>claim_id = 7, claim_generation = 1\<rparr>
     [from_secs 30, from_secs 60, from_secs 75] example_coordinator)"
proof -
  have "sc_active example_coordinator = Some \<lparr>as_id = 7, as_generation = 1, as_owner = lit ''n1'',
      as_role = Controller, as_controller = None, as_window = ActiveWindow\<rparr>"
    "sc_lease example_coordinator = from_secs 45"
    "sc_expires_at example_coordinator = Some (0 + sc_lease example_coordinator)"
    by code_simp+
  note facts = heartbeat_keeps_session [OF this(1) _ _ this(2) _ this(3),
      of "lit ''n1''" "\<lparr>claim_id = 7, claim_generation = 1\<rparr>"
        "[from_secs 30, from_secs 60, from_secs 75]" "from_secs 95"]
  show ?thesis
    by (rule facts [THEN conjunct2, THEN conjunct1])
      (simp_all add: matches_claim_def renewal_interval_def min_renewal_interval_def from_secs_def
        nanos_per_sec_def)
qed

end
