(* ===== verification/Utf8.thy ===== *)
theory Utf8
  imports RustStr
begin

text \<open>
  UTF-8 as \<open>std\<close> decodes it. One step looks at the first bytes: it yields the character they
  encode, or, for \<open>String::from_utf8_lossy\<close>, the length of the longest prefix that could still
  have started a character. \<open>String::from_utf8\<close> accepts exactly what has no invalid step.
\<close>

type_synonym byte = "8 word"

definition is_scalar :: "ucs \<Rightarrow> bool" where
  "is_scalar c \<longleftrightarrow> c < 0x110000 \<and> \<not> (0xd800 \<le> c \<and> c < 0xe000)"

definition encode_char :: "ucs \<Rightarrow> nat list" where
  "encode_char c =
     (if c < 0x80 then [c]
      else if c < 0x800 then [192 + c div 64, 128 + c mod 64]
      else if c < 0x10000 then [224 + c div 4096, 128 + c div 64 mod 64, 128 + c mod 64]
      else [240 + c div 262144, 128 + c div 4096 mod 64, 128 + c div 64 mod 64, 128 + c mod 64])"

definition as_bytes :: "ustr \<Rightarrow> byte list" where
  "as_bytes s = map of_nat (concat (map encode_char s))"

text \<open>How many bytes a lead byte announces, and the second bytes it allows.\<close>

definition sequence_width :: "nat \<Rightarrow> nat" where
  "sequence_width b =
     (if b < 0x80 then 1 else if 0xc2 \<le> b \<and> b \<le> 0xdf then 2
      else if 0xe0 \<le> b \<and> b \<le> 0xef then 3 else if 0xf0 \<le> b \<and> b \<le> 0xf4 then 4 else 0)"

definition second_byte :: "nat \<Rightarrow> nat \<Rightarrow> bool" where
  "second_byte lead b \<longleftrightarrow>
     (if lead = 0xe0 then 0xa0 else if lead = 0xf0 then 0x90 else 0x80) \<le> b
     \<and> b \<le> (if lead = 0xed then 0x9f else if lead = 0xf4 then 0x8f else 0xbf)"

definition continuation :: "nat \<Rightarrow> bool" where
  "continuation b \<longleftrightarrow> 0x80 \<le> b \<and> b \<le> 0xbf"

fun decode_step :: "nat list \<Rightarrow> ucs option \<times> nat" where
  "decode_step [] = (None, 0)"
| "decode_step (b # bs) =
     (let n = sequence_width b
      in if n = 1 then (Some b, 1)
         else if n = 0 then (None, 1)
         else case bs of
           [] \<Rightarrow> (None, 1)
         | c # cs \<Rightarrow>
             if \<not> second_byte b c then (None, 1)
             else if n = 2 then (Some ((b - 192) * 64 + (c - 128)), 2)
             else case cs of
               [] \<Rightarrow> (None, 2)
             | d # ds \<Rightarrow>
                 if \<not> continuation d then (None, 2)
                 else if n = 3 then
                   (Some ((b - 224) * 4096 + (c - 128) * 64 + (d - 128)), 3)
                 else case ds of
                   [] \<Rightarrow> (None, 3)
                 | e # _ \<Rightarrow>
                     if \<not> continuation e then (None, 3)
                     else (Some ((b - 240) * 262144 + (c - 128) * 4096 + (d - 128) * 64 + (e - 128)), 4))"

lemma decode_step_width: "0 < snd (decode_step (b # bs))"
  by (auto simp: Let_def split: list.splits)

function decode_chars :: "nat list \<Rightarrow> ucs option list" where
  "decode_chars bs =
     (if bs = [] then []
      else case decode_step bs of (c, n) \<Rightarrow> c # decode_chars (drop n bs))"
  by auto
termination
proof (relation "measure length")
  fix bs c n
  assume "bs \<noteq> []" "(c, n) = decode_step bs"
  then show "(drop n bs, bs) \<in> measure length"
    using decode_step_width [of "hd bs" "tl bs"] by (cases bs) (auto dest: sym)
qed simp

declare decode_chars.simps [simp del]

definition from_utf8 :: "byte list \<Rightarrow> ustr option" where
  "from_utf8 bs =
     (let cs = decode_chars (map unat bs)
      in if None \<in> set cs then None else Some (map the cs))"

definition from_utf8_lossy :: "byte list \<Rightarrow> ustr" where
  "from_utf8_lossy bs = map (case_option 0xfffd id) (decode_chars (map unat bs))"

section \<open>Decoding what was encoded\<close>

lemma div64: "c div 64 = c div 4096 * 64 + c div 64 mod 64" for c :: nat
  using div_mult_mod_eq [of "c div 64" 64] by (simp add: div_mult2_eq [symmetric])

lemma digits64: "c = c div 4096 * 4096 + c div 64 mod 64 * 64 + c mod 64" for c :: nat
  using div64 [of c] div_mult_mod_eq [of c 64] by linarith

lemma decode_step_encode:
  assumes "is_scalar c"
  shows "decode_step (encode_char c @ rest) = (Some c, length (encode_char c))"
proof -
  consider "c < 0x80" | "0x80 \<le> c" "c < 0x800" | "0x800 \<le> c" "c < 0x10000" | "0x10000 \<le> c" "c < 0x110000"
    using assms by (fastforce simp: is_scalar_def)
  then show ?thesis
  proof cases
    case 1
    then show ?thesis by (simp add: encode_char_def sequence_width_def)
  next
    case 2
    have "2 \<le> c div 64" "c div 64 < 32" using 2 by (simp_all add: less_mult_imp_div_less)
    then show ?thesis
      using 2 by (simp add: encode_char_def sequence_width_def second_byte_def)
  next
    case 3
    define q where "q = c div 4096"
    define r where "r = c div 64 mod 64"
    define s where "s = c mod 64"
    have c: "c = q * 4096 + r * 64 + s" and b: "q < 16" "r < 64" "s < 64"
      using 3 digits64 [of c] unfolding q_def r_def s_def
      by (simp_all add: less_mult_imp_div_less)
    have "q = 0 \<Longrightarrow> 32 \<le> r" and "q = 13 \<Longrightarrow> r < 32"
      using 3 assms c b by (auto simp: is_scalar_def)
    then show ?thesis
      using 3 c b unfolding encode_char_def q_def [symmetric] r_def [symmetric] s_def [symmetric]
      by (auto simp: sequence_width_def second_byte_def continuation_def)
  next
    case 4
    define p where "p = c div 262144"
    define q where "q = c div 4096 mod 64"
    define r where "r = c div 64 mod 64"
    define s where "s = c mod 64"
    have c: "c = p * 262144 + q * 4096 + r * 64 + s" and b: "p < 5" "q < 64" "r < 64" "s < 64"
      using 4 digits64 [of c] div64 [of "c div 64"]
      unfolding p_def q_def r_def s_def
      by (simp_all add: less_mult_imp_div_less div_mult2_eq [symmetric])
    have "p = 0 \<Longrightarrow> 16 \<le> q" and "p = 4 \<Longrightarrow> q < 16"
      using 4 c b by auto
    then show ?thesis
      using 4 c b unfolding encode_char_def p_def [symmetric] q_def [symmetric] r_def [symmetric]
        s_def [symmetric]
      by (auto simp: sequence_width_def second_byte_def continuation_def)
  qed
qed

lemma encode_char_neq_Nil [simp]: "encode_char c \<noteq> []"
  by (simp add: encode_char_def)

lemma decode_chars_encode:
  "list_all is_scalar s \<Longrightarrow> decode_chars (concat (map encode_char s)) = map Some s"
proof (induction s)
  case (Cons c s)
  then have "decode_step (encode_char c @ concat (map encode_char s)) = (Some c, length (encode_char c))"
    by (simp add: decode_step_encode)
  with Cons show ?case by (subst decode_chars.simps) simp
qed (simp add: decode_chars.simps)

lemma length_encode_char: "length (encode_char c) = utf8_width c"
  by (simp add: encode_char_def utf8_width_def)

lemma length_as_bytes [simp]: "length (as_bytes s) = utf8_len s"
  by (induction s) (simp_all add: as_bytes_def length_encode_char)

lemma encode_char_small: "is_scalar c \<Longrightarrow> b \<in> set (encode_char c) \<Longrightarrow> b < 256"
  by (auto simp: encode_char_def is_scalar_def less_mult_imp_div_less split: if_splits)

lemma unat_as_bytes: "list_all is_scalar s \<Longrightarrow> map unat (as_bytes s) = concat (map encode_char s)"
proof (induction s)
  case (Cons c s)
  have "map (unat \<circ> (of_nat :: nat \<Rightarrow> byte)) (encode_char c) = encode_char c"
    using Cons.prems encode_char_small [of c] by (intro map_idI) (auto simp: unat_of_nat)
  with Cons show ?case by (simp add: as_bytes_def)
qed (simp add: as_bytes_def)

lemma from_utf8_as_bytes: "list_all is_scalar s \<Longrightarrow> from_utf8 (as_bytes s) = Some s"
  by (simp add: from_utf8_def unat_as_bytes decode_chars_encode comp_def)

lemma from_utf8_lossy_as_bytes: "list_all is_scalar s \<Longrightarrow> from_utf8_lossy (as_bytes s) = s"
  by (simp add: from_utf8_lossy_def unat_as_bytes decode_chars_encode comp_def)

lemma lit_scalar [simp]: "list_all is_scalar (lit s)"
proof -
  have "is_scalar n" if "n < 256" for n using that by (simp add: is_scalar_def)
  then show ?thesis by (simp add: lit_def list_all_iff)
qed

end
