(* ===== verification/Disk.thy ===== *)
theory Disk
  imports Utf8
begin

text \<open>
  \<open>crates/omdesky-platform/src/state.rs\<close>: reading files up to a limit and replacing them
  atomically. The disk maps paths, lists of plain components, to files and directories; every
  system call is one operation on it and may fail by itself (\<open>faults\<close>). A file remembers whether
  it was synced: what a power loss leaves of an unsynced file is arbitrary. The umask is not
  modelled, so a mode is the one that was asked for; modes are decimal (384 is octal 600, 420 octal 644, 448 octal 700).
\<close>

type_synonym path = "ustr list"

datatype io_kind = KindNotFound | KindAlreadyExists | KindOther

record io_error =
  ioe_kind :: io_kind
  ioe_text :: ustr

datatype state_error =
    MissingParent
  | NotARegularFile
  | TooLarge nat
  | NotUtf8
  | StateIo io_error
  | StateJson ustr

fun state_error_text :: "state_error \<Rightarrow> ustr" where
  "state_error_text MissingParent = lit ''state path has no parent directory''"
| "state_error_text NotARegularFile = lit ''state path is not a regular file''"
| "state_error_text (TooLarge limit) =
     lit ''state file is larger than '' @ show_nat limit @ lit '' bytes''"
| "state_error_text NotUtf8 = lit ''state file is not valid UTF-8''"
| "state_error_text (StateIo e) = ioe_text e"
| "state_error_text (StateJson e) = e"

definition max_state_bytes :: nat where
  "max_state_bytes = 1024 * 1024"

record disk_file =
  fl_bytes :: "byte list"
  fl_mode :: nat
  fl_synced :: bool

record disk =
  ds_files :: "path \<rightharpoonup> disk_file"
  ds_dirs :: "path \<rightharpoonup> nat"

definition parent_of :: "path \<Rightarrow> path option" where
  "parent_of p = (if p = [] then None else Some (butlast p))"

section \<open>System calls\<close>

datatype disk_op =
    MakeDirs path
  | OpenNew path nat
  | Append path "byte list"
  | SyncFile path
  | Rename path path
  | SyncDir path
  | RemoveFile path

text \<open>A failing call, and for a failing write how many bytes it wrote before.\<close>

type_synonym faults = "nat \<Rightarrow> (io_error \<times> nat) option"

definition no_faults :: faults where
  "no_faults i = None"

definition append_bytes :: "path \<Rightarrow> byte list \<Rightarrow> disk \<Rightarrow> disk" where
  "append_bytes p bs d =
     d\<lparr>ds_files := (ds_files d)(p := map_option
        (\<lambda>f. f\<lparr>fl_bytes := fl_bytes f @ bs, fl_synced := False\<rparr>) (ds_files d p))\<rparr>"

definition io_failure :: "io_kind \<Rightarrow> io_error" where
  "io_failure kind = \<lparr>ioe_kind = kind, ioe_text =
     (case kind of KindNotFound \<Rightarrow> lit ''No such file or directory (os error 2)''
      | KindAlreadyExists \<Rightarrow> lit ''File exists (os error 17)''
      | KindOther \<Rightarrow> lit ''Not a directory (os error 20)'')\<rparr>"

fun disk_step :: "(io_error \<times> nat) option \<Rightarrow> disk_op \<Rightarrow> disk \<Rightarrow> (io_error + unit) \<times> disk" where
  "disk_step (Some (e, n)) (Append p bs) d = (Inl e, append_bytes p (take n bs) d)"
| "disk_step (Some (e, n)) op d = (Inl e, d)"
| "disk_step None (MakeDirs p) d =
     (if list_ex (\<lambda>n. ds_files d (take n p) \<noteq> None) [0..<Suc (length p)]
      then (Inl (io_failure KindOther), d)
      else (Inr (), d\<lparr>ds_dirs := (\<lambda>q. if ds_dirs d q = None \<and> q = take (length q) p
                                     then Some 448 else ds_dirs d q)\<rparr>))"
| "disk_step None (OpenNew p mode) d =
     (if ds_files d p \<noteq> None \<or> ds_dirs d p \<noteq> None then (Inl (io_failure KindAlreadyExists), d)
      else if ds_dirs d (butlast p) = None then (Inl (io_failure KindNotFound), d)
      else (Inr (), d\<lparr>ds_files := (ds_files d)(p \<mapsto>
              \<lparr>fl_bytes = [], fl_mode = mode, fl_synced = False\<rparr>)\<rparr>))"
| "disk_step None (Append p bs) d = (Inr (), append_bytes p bs d)"
| "disk_step None (SyncFile p) d =
     (Inr (), d\<lparr>ds_files := (ds_files d)(p := map_option (\<lambda>f. f\<lparr>fl_synced := True\<rparr>) (ds_files d p))\<rparr>)"
| "disk_step None (Rename p q) d =
     (case ds_files d p of
        None \<Rightarrow> (Inl (io_failure KindNotFound), d)
      | Some f \<Rightarrow>
          if ds_dirs d q \<noteq> None then (Inl (io_failure KindOther), d)
          else (Inr (), d\<lparr>ds_files := (ds_files d)(p := None, q := Some f)\<rparr>))"
| "disk_step None (SyncDir p) d = (Inr (), d)"
| "disk_step None (RemoveFile p) d =
     (if ds_files d p = None then (Inl (io_failure KindNotFound), d)
      else (Inr (), d\<lparr>ds_files := (ds_files d)(p := None)\<rparr>))"

text \<open>Running calls until the first that fails; its index is reported with its error.\<close>

fun run_ops :: "faults \<Rightarrow> nat \<Rightarrow> disk_op list \<Rightarrow> disk \<Rightarrow> ((nat \<times> io_error) + unit) \<times> disk" where
  "run_ops fs i [] d = (Inr (), d)"
| "run_ops fs i (op # ops) d =
     (case disk_step (fs i) op d of
        (Inl e, d') \<Rightarrow> (Inl (i, e), d')
      | (Inr _, d') \<Rightarrow> run_ops fs (Suc i) ops d')"

section \<open>Replacing a file\<close>

definition temporary_path :: "path \<Rightarrow> ustr \<Rightarrow> path" where
  "temporary_path p fresh = butlast p @ [lit ''.'' @ last p @ lit ''.tmp-'' @ fresh]"

definition private_mode :: "bool \<Rightarrow> nat" where
  "private_mode secret = (if secret then 384 else 420)"

definition prepare_ops :: "path \<Rightarrow> ustr \<Rightarrow> byte list list \<Rightarrow> bool \<Rightarrow> disk_op list" where
  "prepare_ops p fresh chunks secret =
     OpenNew (temporary_path p fresh) (private_mode secret)
     # map (Append (temporary_path p fresh)) chunks @ [SyncFile (temporary_path p fresh)]"

definition replace_ops :: "path \<Rightarrow> ustr \<Rightarrow> disk_op list" where
  "replace_ops p fresh = [Rename (temporary_path p fresh) p, SyncDir (butlast p)]"

definition atomic_write ::
    "(nat \<Rightarrow> io_error \<Rightarrow> state_error) \<Rightarrow> faults \<Rightarrow> ustr \<Rightarrow> path \<Rightarrow> byte list list \<Rightarrow> bool \<Rightarrow> disk
       \<Rightarrow> (state_error + unit) \<times> disk" where
  "atomic_write wrap fs fresh p chunks secret d =
     (case parent_of p of
        None \<Rightarrow> (Inl MissingParent, d)
      | Some parent \<Rightarrow>
          (case disk_step (fs 0) (MakeDirs parent) d of
             (Inl e, d1) \<Rightarrow> (Inl (StateIo e), d1)
           | (Inr _, d1) \<Rightarrow>
               let ops = prepare_ops p fresh chunks secret @ replace_ops p fresh
               in case run_ops fs 1 ops d1 of
                    (Inr _, d2) \<Rightarrow> (Inr (), d2)
                  | (Inl (i, e), d2) \<Rightarrow>
                      (Inl (wrap i e),
                       snd (disk_step (fs (Suc (length ops))) (RemoveFile (temporary_path p fresh)) d2))))"

definition atomic_write_bytes ::
    "faults \<Rightarrow> ustr \<Rightarrow> path \<Rightarrow> byte list \<Rightarrow> bool \<Rightarrow> disk \<Rightarrow> (state_error + unit) \<times> disk" where
  "atomic_write_bytes fs fresh p contents secret d =
     atomic_write (\<lambda>_. StateIo) fs fresh p [contents] secret d"

text \<open>
  \<open>serde_json\<close> writes through the file and reports a failing write as its own error; \<open>encode\<close> is
  its pretty printer.
\<close>

definition atomic_write_json ::
    "('a \<Rightarrow> byte list) \<Rightarrow> faults \<Rightarrow> ustr \<Rightarrow> path \<Rightarrow> 'a \<Rightarrow> bool \<Rightarrow> disk
       \<Rightarrow> (state_error + unit) \<times> disk" where
  "atomic_write_json encode fs fresh p value secret d =
     atomic_write (\<lambda>i e. if i = 2 then StateJson (ioe_text e) else StateIo e)
       fs fresh p [encode value, [10]] secret d"

section \<open>Reading a file\<close>

record open_file =
  of_regular :: bool
  of_len :: nat
  of_contents :: "byte list"

definition disk_open :: "io_error option \<Rightarrow> path \<Rightarrow> disk \<Rightarrow> io_error + open_file" where
  "disk_open fault p d =
     (case fault of
        Some e \<Rightarrow> Inl e
      | None \<Rightarrow>
          (case ds_files d p of
             Some f \<Rightarrow> Inr \<lparr>of_regular = True, of_len = length (fl_bytes f), of_contents = fl_bytes f\<rparr>
           | None \<Rightarrow>
               if ds_dirs d p \<noteq> None then Inr \<lparr>of_regular = False, of_len = 0, of_contents = []\<rparr>
               else Inl (io_failure KindNotFound)))"

text \<open>The open file may have grown since its length was asked for.\<close>

definition read_open :: "nat \<Rightarrow> open_file \<Rightarrow> state_error + byte list" where
  "read_open limit f =
     (if \<not> of_regular f then Inl NotARegularFile
      else if of_len f > limit then Inl (TooLarge limit)
      else
        let contents = take (limit + 1) (of_contents f)
        in if length contents > limit then Inl (TooLarge limit) else Inr contents)"

definition read_limited :: "io_error option \<Rightarrow> nat \<Rightarrow> path \<Rightarrow> disk \<Rightarrow> state_error + byte list" where
  "read_limited fault limit p d = try_then (map_err StateIo (disk_open fault p d)) (read_open limit)"

definition read_limited_to_string ::
    "io_error option \<Rightarrow> nat \<Rightarrow> path \<Rightarrow> disk \<Rightarrow> state_error + ustr" where
  "read_limited_to_string fault limit p d =
     try_then (read_limited fault limit p d) (\<lambda>bs. ok_or (from_utf8 bs) NotUtf8)"

definition read_json ::
    "(byte list \<Rightarrow> ustr + 'a) \<Rightarrow> io_error option \<Rightarrow> path \<Rightarrow> disk \<Rightarrow> state_error + 'a" where
  "read_json decode fault p d =
     try_then (read_limited fault max_state_bytes p d) (\<lambda>bs. map_err StateJson (decode bs))"

section \<open>The temporary file\<close>

lemma temporary_path_neq: "p \<noteq> [] \<Longrightarrow> temporary_path p fresh \<noteq> p"
proof
  assume "p \<noteq> []" and "temporary_path p fresh = p"
  then have "last (temporary_path p fresh) = last p" by simp
  then have "lit ''.'' @ last p @ lit ''.tmp-'' @ fresh = last p" by (simp add: temporary_path_def)
  then have "length (lit ''.'' @ last p @ lit ''.tmp-'' @ fresh) = length (last p)" by simp
  then show False by (simp add: lit_def)
qed

text \<open>The only files an operation can change.\<close>

fun touched :: "disk_op \<Rightarrow> path set" where
  "touched (OpenNew p _) = {p}"
| "touched (Append p _) = {p}"
| "touched (SyncFile p) = {p}"
| "touched (Rename p q) = {p, q}"
| "touched (RemoveFile p) = {p}"
| "touched _ = {}"

lemma disk_step_frame: "q \<notin> touched op \<Longrightarrow> ds_files (snd (disk_step f op d)) q = ds_files d q"
  by (cases op; cases f) (auto simp: append_bytes_def split: option.split)

lemma run_ops_frame:
  "(\<And>op. op \<in> set ops \<Longrightarrow> q \<notin> touched op) \<Longrightarrow>
     ds_files (snd (run_ops fs i ops d)) q = ds_files d q"
proof (induction ops arbitrary: i d)
  case (Cons op ops)
  have "ds_files (snd (disk_step (fs i) op d)) q = ds_files d q"
    using Cons.prems by (simp add: disk_step_frame)
  with Cons show ?case by (auto split: prod.split sum.split)
qed simp

lemma run_ops_append:
  "run_ops fs i (xs @ ys) d =
     (case run_ops fs i xs d of
        (Inl e, d') \<Rightarrow> (Inl e, d')
      | (Inr _, d') \<Rightarrow> run_ops fs (i + length xs) ys d')"
  by (induction xs arbitrary: i d) (auto split: prod.split sum.split)

lemma run_appends:
  "run_ops fs i (map (Append p) chunks) d = (Inr u, d') \<Longrightarrow> ds_files d p = Some f \<Longrightarrow> \<not> fl_synced f \<Longrightarrow>
     ds_files d' = (ds_files d)(p \<mapsto> f\<lparr>fl_bytes := fl_bytes f @ concat chunks\<rparr>)"
proof (induction chunks arbitrary: i d f)
  case (Cons bs chunks)
  from Cons.prems(1) have none: "fs i = None"
    by (cases "fs i") (auto split: prod.splits)
  then have run: "run_ops fs (Suc i) (map (Append p) chunks) (append_bytes p bs d) = (Inr u, d')"
    using Cons.prems(1) by simp
  have "ds_files (append_bytes p bs d) p = Some (f\<lparr>fl_bytes := fl_bytes f @ bs\<rparr>)"
    using Cons.prems(2,3) by (simp add: append_bytes_def)
  from Cons.IH [OF run this] Cons.prems(3) show ?case
    by (auto simp: append_bytes_def fun_eq_iff)
qed auto

definition new_file :: "byte list list \<Rightarrow> bool \<Rightarrow> disk_file" where
  "new_file chunks secret =
     \<lparr>fl_bytes = concat chunks, fl_mode = private_mode secret, fl_synced = True\<rparr>"

lemma run_prepare:
  assumes "run_ops fs i (prepare_ops p fresh chunks secret) d = (Inr u, d')"
  shows "ds_files d (temporary_path p fresh) = None"
    and "ds_files d' = (ds_files d)(temporary_path p fresh \<mapsto> new_file chunks secret)"
proof -
  let ?t = "temporary_path p fresh"
  from assms have none: "fs i = None" by (cases "fs i") (auto simp: prepare_ops_def split: prod.splits)
  define d1 where "d1 = d\<lparr>ds_files := (ds_files d)(?t \<mapsto>
     \<lparr>fl_bytes = [], fl_mode = private_mode secret, fl_synced = False\<rparr>)\<rparr>"
  from assms none show free: "ds_files d ?t = None"
    by (auto simp: prepare_ops_def split: if_splits)
  have "run_ops fs (Suc i) (map (Append ?t) chunks @ [SyncFile ?t]) d1 = (Inr u, d')"
    using assms none by (auto simp: prepare_ops_def d1_def split: if_splits)
  then obtain v d2 where appends: "run_ops fs (Suc i) (map (Append ?t) chunks) d1 = (Inr v, d2)"
    and sync: "run_ops fs (Suc i + length chunks) [SyncFile ?t] d2 = (Inr u, d')"
    by (auto simp: run_ops_append simp del: run_ops.simps split: prod.splits sum.splits)
  have "ds_files d2 = (ds_files d1)(?t \<mapsto>
      \<lparr>fl_bytes = concat chunks, fl_mode = private_mode secret, fl_synced = False\<rparr>)"
    using run_appends [OF appends, of "\<lparr>fl_bytes = [], fl_mode = private_mode secret, fl_synced = False\<rparr>"]
    by (simp add: d1_def)
  moreover have "fs (Suc i + length chunks) = None"
    using sync by (cases "fs (Suc i + length chunks)") (auto split: prod.splits)
  ultimately show "ds_files d' = (ds_files d)(?t \<mapsto> new_file chunks secret)"
    using sync by (auto simp: d1_def new_file_def)
qed

lemma prepare_touched: "op \<in> set (prepare_ops p fresh chunks secret) \<Longrightarrow> touched op = {temporary_path p fresh}"
  by (auto simp: prepare_ops_def)

section \<open>Crashes\<close>

text \<open>
  The disk after a crash: the first \<open>k\<close> calls were made, and if the next one is a write, its first
  \<open>n\<close> bytes were written. A power loss then leaves anything in the files that were not synced.
\<close>

definition write_ops :: "path \<Rightarrow> ustr \<Rightarrow> byte list list \<Rightarrow> bool \<Rightarrow> disk_op list" where
  "write_ops p fresh chunks secret =
     (MakeDirs (butlast p) # prepare_ops p fresh chunks secret) @ replace_ops p fresh"

definition crashed :: "faults \<Rightarrow> nat \<Rightarrow> nat \<Rightarrow> disk_op list \<Rightarrow> disk \<Rightarrow> disk" where
  "crashed fs k n ops d =
     (case (run_ops fs 0 (take k ops) d, drop k ops) of
        ((Inr _, d'), Append p bs # _) \<Rightarrow> append_bytes p (take n bs) d'
      | ((_, d'), _) \<Rightarrow> d')"

definition power_loss :: "(path \<Rightarrow> byte list) \<Rightarrow> disk \<Rightarrow> disk" where
  "power_loss g d =
     d\<lparr>ds_files := (\<lambda>p. map_option (\<lambda>f. if fl_synced f then f else f\<lparr>fl_bytes := g p\<rparr>) (ds_files d p))\<rparr>"

lemma make_dirs_files: "ds_files (snd (disk_step f (MakeDirs q) d)) = ds_files d"
  by (cases f) auto

lemma run_replace:
  assumes "run_ops fs i (take m (replace_ops p fresh)) d = (r, d')"
    and "ds_files d (temporary_path p fresh) = Some f" and "p \<noteq> []"
  shows "ds_files d' = ds_files d
    \<or> ds_files d' = (ds_files d)(temporary_path p fresh := None, p \<mapsto> f)"
    and "r = Inr u \<Longrightarrow> 0 < m \<Longrightarrow> ds_files d' = (ds_files d)(temporary_path p fresh := None, p \<mapsto> f)"
proof -
  consider "m = 0" | "m = 1" | "2 \<le> m" by linarith
  note cs = this
  show "ds_files d' = ds_files d
    \<or> ds_files d' = (ds_files d)(temporary_path p fresh := None, p \<mapsto> f)"
    using assms(1,2)
    by (cases rule: cs; cases "fs i"; cases "fs (Suc i)")
      (auto simp: replace_ops_def take_Cons' split: if_splits prod.splits)
  show "r = Inr u \<Longrightarrow> 0 < m \<Longrightarrow> ds_files d' = (ds_files d)(temporary_path p fresh := None, p \<mapsto> f)"
    using assms(1,2)
    by (cases rule: cs; cases "fs i"; cases "fs (Suc i)")
      (auto simp: replace_ops_def take_Cons' split: if_splits prod.splits)
qed

lemma run_write_prefix:
  assumes "run_ops fs 0 (take k (write_ops p fresh chunks secret)) d = (r, d')"
    and "p \<noteq> []" and "q \<noteq> temporary_path p fresh"
  shows "ds_files d' q = ds_files d q \<or> (q = p \<and> ds_files d' p = Some (new_file chunks secret))"
proof -
  let ?A = "MakeDirs (butlast p) # prepare_ops p fresh chunks secret"
  have frame: "ds_files (snd (run_ops fs 0 (take n ?A) d)) q = ds_files d q" for n
    by (rule run_ops_frame) (use assms(3) prepare_touched in \<open>auto dest!: in_set_takeD\<close>)
  show ?thesis
  proof (cases "k \<le> length ?A")
    case True
    then have "take k (write_ops p fresh chunks secret) = take k ?A"
      unfolding write_ops_def take_append by simp
    then show ?thesis using frame [of k] assms(1) by simp
  next
    case False
    define m where "m = k - length ?A"
    have split: "take k (write_ops p fresh chunks secret) = ?A @ take m (replace_ops p fresh)"
      using False unfolding write_ops_def take_append m_def by simp
    obtain r1 d1 where A: "run_ops fs 0 ?A d = (r1, d1)" by (metis surj_pair)
    show ?thesis
    proof (cases r1)
      case (Inl e)
      then show ?thesis
        using assms(1) A frame [of "length ?A"] unfolding split run_ops_append
        by (simp del: run_ops.simps)
    next
      case (Inr u)
      obtain d0 where dirs: "run_ops fs 1 (prepare_ops p fresh chunks secret) d0 = (Inr u, d1)"
        and d0: "ds_files d0 = ds_files d"
        using A Inr make_dirs_files [of "fs 0" "butlast p" d]
        by (auto split: prod.splits sum.splits)
      have files: "ds_files d1 = (ds_files d)(temporary_path p fresh \<mapsto> new_file chunks secret)"
        using run_prepare(2) [OF dirs] d0 by simp
      have "run_ops fs (length ?A) (take m (replace_ops p fresh)) d1 = (r, d')"
        using assms(1) A Inr unfolding split run_ops_append by (simp del: run_ops.simps)
      from run_replace(1) [OF this, of "new_file chunks secret"] files assms(2,3)
      show ?thesis by (auto split: if_splits)
    qed
  qed
qed

lemma append_other: "q \<noteq> p \<Longrightarrow> ds_files (append_bytes p bs d) q = ds_files d q"
  by (simp add: append_bytes_def)

lemma write_ops_append:
  "Append q bs \<in> set (write_ops p fresh chunks secret) \<Longrightarrow> q = temporary_path p fresh"
  by (auto simp: write_ops_def prepare_ops_def replace_ops_def)

lemma crashed_other:
  assumes "p \<noteq> []" and "q \<noteq> temporary_path p fresh"
  shows "ds_files (crashed fs k n (write_ops p fresh chunks secret) d) q = ds_files d q
    \<or> (q = p \<and> ds_files (crashed fs k n (write_ops p fresh chunks secret) d) p
         = Some (new_file chunks secret))"
proof -
  let ?ops = "write_ops p fresh chunks secret"
  obtain r d' where run: "run_ops fs 0 (take k ?ops) d = (r, d')" by (metis surj_pair)
  have "crashed fs k n ?ops d = d'
    \<or> (\<exists>bs. crashed fs k n ?ops d = append_bytes (temporary_path p fresh) bs d')"
  proof (cases "drop k ?ops")
    case (Cons op rest)
    then have mem: "op \<in> set ?ops" by (metis in_set_dropD list.set_intros(1))
    show ?thesis
    proof (cases "\<exists>q bs. op = Append q bs")
      case True
      then obtain bs where "op = Append (temporary_path p fresh) bs"
        using mem write_ops_append by blast
      with Cons run show ?thesis by (cases r) (auto simp: crashed_def)
    next
      case False
      with Cons run show ?thesis
        by (cases r) (auto simp: crashed_def split: disk_op.split)
    qed
  qed (use run in \<open>auto simp: crashed_def split: sum.split\<close>)
  then show ?thesis
    using run_write_prefix [OF run assms] assms temporary_path_neq [OF assms(1), of fresh]
    by (auto simp: append_other)
qed

lemma atomic_write_run:
  assumes "atomic_write wrap fs fresh p chunks secret d = (r, d')" and "p \<noteq> []"
  shows "(r = Inr () \<and> run_ops fs 0 (write_ops p fresh chunks secret) d = (Inr (), d'))
    \<or> (\<exists>e i d1 f. r = Inl e \<and> run_ops fs 0 (write_ops p fresh chunks secret) d = (Inl i, d1)
         \<and> (d' = d1 \<or> d' = snd (disk_step f (RemoveFile (temporary_path p fresh)) d1)))"
proof -
  obtain r1 d1 where mk: "disk_step (fs 0) (MakeDirs (butlast p)) d = (r1, d1)" by (metis surj_pair)
  show ?thesis
  proof (cases r1)
    case (Inl e)
    then show ?thesis using assms mk by (auto simp: atomic_write_def parent_of_def write_ops_def)
  next
    case (Inr u)
    obtain r2 d2 where run: "run_ops fs 1 (prepare_ops p fresh chunks secret @ replace_ops p fresh) d1
        = (r2, d2)" by (metis surj_pair)
    then show ?thesis
      using assms mk Inr
      by (cases r2) (auto simp: atomic_write_def parent_of_def write_ops_def Let_def split: prod.splits)
  qed
qed

lemma atomic_write_Ok:
  assumes "atomic_write wrap fs fresh p chunks secret d = (Inr (), d')"
  shows "ds_files d' = (ds_files d)(p \<mapsto> new_file chunks secret)"
proof -
  have p: "p \<noteq> []" using assms by (auto simp: atomic_write_def parent_of_def)
  have "run_ops fs 0 (write_ops p fresh chunks secret) d = (Inr (), d')"
    using atomic_write_run [OF assms p] by auto
  then obtain d0 d1 where d0: "disk_step (fs 0) (MakeDirs (butlast p)) d = (Inr (), d0)"
    and prepare: "run_ops fs 1 (prepare_ops p fresh chunks secret) d0 = (Inr (), d1)"
    and replace: "run_ops fs (1 + length (prepare_ops p fresh chunks secret)) (replace_ops p fresh) d1
      = (Inr (), d')"
    by (auto simp: write_ops_def run_ops_append split: prod.splits sum.splits)
  have files: "ds_files d0 = ds_files d"
    using make_dirs_files [of "fs 0" "butlast p" d] d0 by simp
  note prep = run_prepare [OF prepare]
  have "run_ops fs (1 + length (prepare_ops p fresh chunks secret)) (take 2 (replace_ops p fresh)) d1
      = (Inr (), d')"
    using replace by (simp add: replace_ops_def)
  from run_replace(2) [OF this _ p, of "new_file chunks secret" "()"] prep files
    temporary_path_neq [OF p, of fresh]
  show ?thesis by (auto simp: fun_eq_iff)
qed

lemma atomic_write_other:
  assumes "atomic_write wrap fs fresh p chunks secret d = (r, d')"
    and "q \<noteq> temporary_path p fresh"
  shows "ds_files d' q = ds_files d q \<or> (q = p \<and> ds_files d' p = Some (new_file chunks secret))"
proof (cases "p = []")
  case False
  obtain r1 d1 where run: "run_ops fs 0 (write_ops p fresh chunks secret) d = (r1, d1)"
    by (metis surj_pair)
  then have prefix: "run_ops fs 0 (take (length (write_ops p fresh chunks secret))
      (write_ops p fresh chunks secret)) d = (r1, d1)" by simp
  have "ds_files d' q = ds_files d1 q" and "p \<noteq> temporary_path p fresh \<Longrightarrow> ds_files d' p = ds_files d1 p"
    using atomic_write_run [OF assms(1) False] run assms(2)
      disk_step_frame [of q "RemoveFile (temporary_path p fresh)" _ d1]
      disk_step_frame [of p "RemoveFile (temporary_path p fresh)" _ d1]
    by auto
  then show ?thesis
    using run_write_prefix [OF prefix False assms(2)] temporary_path_neq [OF False, of fresh] by auto
qed (use assms in \<open>simp add: atomic_write_def parent_of_def\<close>)

section \<open>Correctness\<close>

text \<open>
  C34: Replacing a file survives crashes. Whatever calls fail, wherever the program or the computer
  stops, and even if a power loss destroys what was not synced, the file that is replaced has
  its old content or the whole new content, with the mode asked for, and no other file but the
  temporary one changes.
\<close>

theorem replaced_file_is_never_torn:
  assumes "p \<noteq> []" and "option_all fl_synced (ds_files d p)"
  shows "ds_files (power_loss g (crashed fs k n (write_ops p fresh chunks secret) d)) p
      \<in> {ds_files d p, Some (new_file chunks secret)}
    \<and> (q \<notin> {p, temporary_path p fresh} \<longrightarrow>
        ds_files (crashed fs k n (write_ops p fresh chunks secret) d) q = ds_files d q)"
proof -
  have "p \<noteq> temporary_path p fresh" using temporary_path_neq [OF assms(1)] by metis
  from crashed_other [OF assms(1) this, of fs k n chunks secret d]
  have "ds_files (crashed fs k n (write_ops p fresh chunks secret) d) p
      \<in> {ds_files d p, Some (new_file chunks secret)}" by auto
  moreover have "fl_synced (new_file chunks secret)" by (simp add: new_file_def)
  moreover have "ds_files d p = Some f \<Longrightarrow> fl_synced f" for f
    using assms(2) by (simp add: option_all_def)
  ultimately have "ds_files (power_loss g (crashed fs k n (write_ops p fresh chunks secret) d)) p
      \<in> {ds_files d p, Some (new_file chunks secret)}"
    by (cases "ds_files d p") (auto simp: power_loss_def)
  then show ?thesis
    using crashed_other [OF assms(1), of q fresh fs k n chunks secret d] by auto
qed

text \<open>
  What a caller may rely on: a write that reports success replaced the file and left no temporary
  file; one that reports an error left the old content, or the new one if only the sync of the
  directory failed.
\<close>

theorem atomic_write_reports:
  "(case atomic_write_bytes fs fresh p contents secret d of
      (Inr _, d') \<Rightarrow> ds_files d' = (ds_files d)(p \<mapsto> new_file [contents] secret)
    | (Inl _, d') \<Rightarrow> ds_files d' p \<in> {ds_files d p, Some (new_file [contents] secret)})"
proof -
  obtain r d' where w: "atomic_write (\<lambda>_. StateIo) fs fresh p [contents] secret d = (r, d')"
    by (metis surj_pair)
  show ?thesis
  proof (cases "p = []")
    case False
    then have "p \<noteq> temporary_path p fresh" using temporary_path_neq by metis
    then show ?thesis
      using atomic_write_Ok [of "\<lambda>_. StateIo" fs fresh p "[contents]" secret d d']
        atomic_write_other [OF w, of p] w
      by (cases r) (auto simp: atomic_write_bytes_def)
  qed (simp add: atomic_write_bytes_def atomic_write_def parent_of_def)
qed

theorem replaced_file_is_never_torn_witness:
  "ds_files (power_loss (\<lambda>_. []) (crashed no_faults 4 0 (write_ops [lit ''etc'', lit ''a''] (lit ''1'')
      [[7]] True) \<lparr>ds_files = (\<lambda>_. None), ds_dirs = (\<lambda>_. None)\<rparr>)) [lit ''etc'', lit ''a'']
   \<in> {None, Some (new_file [[7]] True)}"
  using replaced_file_is_never_torn [of "[lit ''etc'', lit ''a'']"
      "\<lparr>ds_files = (\<lambda>_. None), ds_dirs = (\<lambda>_. None)\<rparr>" "\<lambda>_. []" no_faults 4 0 "lit ''1''" "[[7]]" True "[]"]
  by (simp add: option_all_def)

text \<open>Reading never yields more than its limit, even of a file that grows while it is read.\<close>

theorem read_open_bounded:
  "(case read_open limit f of
      Inr bs \<Rightarrow> length bs \<le> limit \<and> of_regular f \<and> bs = of_contents f
    | Inl e \<Rightarrow> e \<in> {NotARegularFile, TooLarge limit})"
  by (auto simp: read_open_def Let_def)

end
