(* ===== verification/AccessStore.thy ===== *)
theory AccessStore
  imports Disk Authorize
begin

text \<open>
  \<open>crates/omdesky-platform/src/access.rs\<close>: the allowlist of controllers in a JSON file. The mutex
  of the store makes every operation one step on the disk. \<open>st_encode\<close> and \<open>st_decode\<close> are
  serde_json's printer and parser for the list. What a client relies on is the locale
  \<open>access_store\<close>: the store holds a list, of which an operation that succeeds makes the new list,
  and one that fails makes the old or the new one. Its client here is the authorizer of the agent.
\<close>

record access_file =
  af_path :: path
  af_encode :: "allowed_controller list \<Rightarrow> byte list"
  af_decode :: "byte list \<Rightarrow> ustr + allowed_controller list"

text \<open>What can go wrong in one operation: a lost blocking task, and the calls to the system.\<close>

record store_faults =
  sf_read_lost :: bool
  sf_open :: "io_error option"
  sf_write_lost :: bool
  sf_write :: faults
  sf_fresh :: ustr

definition access_store_error :: "ustr \<Rightarrow> port_error" where
  "access_store_error text = port_error_new (lit ''ACCESS_STORE_FAILED'') text False"

definition access_read_blocking ::
    "access_file \<Rightarrow> store_faults \<Rightarrow> disk \<Rightarrow> allowed_controller list port_result" where
  "access_read_blocking st f d =
     (case read_json (af_decode st) (sf_open f) (af_path st) d of
        Inr controllers \<Rightarrow> Inr controllers
      | Inl e \<Rightarrow>
          (case e of
             StateIo error \<Rightarrow>
               if ioe_kind error = KindNotFound then Inr []
               else Inl (access_store_error (state_error_text e))
           | _ \<Rightarrow> Inl (access_store_error (state_error_text e))))"

definition access_read_all ::
    "access_file \<Rightarrow> store_faults \<Rightarrow> disk \<Rightarrow> allowed_controller list port_result" where
  "access_read_all st f d =
     (if sf_read_lost f then Inl (access_store_error (lit ''the allowlist could not be read''))
      else access_read_blocking st f d)"

text \<open>A blocking task that is lost may have run: what it wrote stays.\<close>

definition access_write_all ::
    "access_file \<Rightarrow> store_faults \<Rightarrow> allowed_controller list \<Rightarrow> disk \<Rightarrow> unit port_result \<times> disk" where
  "access_write_all st f controllers d =
     (case atomic_write_json (af_encode st) (sf_write f) (sf_fresh f) (af_path st) controllers True d of
        (r, d') \<Rightarrow>
          (if sf_write_lost f then Inl (access_store_error (lit ''the allowlist could not be written''))
           else map_err (\<lambda>e. access_store_error (state_error_text e)) r, d'))"

definition access_list ::
    "access_file \<Rightarrow> store_faults \<Rightarrow> disk \<Rightarrow> allowed_controller list port_result \<times> disk" where
  "access_list st f d = (access_read_all st f d, d)"

definition without_controller :: "ustr \<Rightarrow> allowed_controller list \<Rightarrow> allowed_controller list" where
  "without_controller node_id = filter (\<lambda>c. ac_tailnet_node_id c \<noteq> node_id)"

definition access_allow ::
    "access_file \<Rightarrow> store_faults \<Rightarrow> allowed_controller \<Rightarrow> disk \<Rightarrow> unit port_result \<times> disk" where
  "access_allow st f controller d =
     (case access_read_all st f d of
        Inl e \<Rightarrow> (Inl e, d)
      | Inr controllers \<Rightarrow>
          access_write_all st f
            (without_controller (ac_tailnet_node_id controller) controllers @ [controller]) d)"

definition access_revoke ::
    "access_file \<Rightarrow> store_faults \<Rightarrow> ustr \<Rightarrow> disk \<Rightarrow> unit port_result \<times> disk" where
  "access_revoke st f node_id d =
     (case access_read_all st f d of
        Inl e \<Rightarrow> (Inl e, d)
      | Inr controllers \<Rightarrow> access_write_all st f (without_controller node_id controllers) d)"

section \<open>What the store holds\<close>

definition access_view :: "access_file \<Rightarrow> disk \<Rightarrow> allowed_controller list option" where
  "access_view st d =
     (case ds_files d (af_path st) of
        None \<Rightarrow> Some []
      | Some f \<Rightarrow> result_ok (af_decode st (fl_bytes f)))"

text \<open>serde_json reads back what it printed, with the newline the code adds.\<close>

definition faithful_codec :: "access_file \<Rightarrow> bool" where
  "faithful_codec st \<longleftrightarrow> (\<forall>xs. af_decode st (af_encode st xs @ [10]) = Inr xs)"

text \<open>The system reports a missing file only when there is none.\<close>

definition honest_open :: "access_file \<Rightarrow> store_faults \<Rightarrow> disk \<Rightarrow> bool" where
  "honest_open st f d \<longleftrightarrow>
     option_all (\<lambda>e. ioe_kind e = KindNotFound \<longrightarrow> ds_files d (af_path st) = None) (sf_open f)"

lemma read_all_view:
  assumes "access_read_all st f d = Inr xs" and "honest_open st f d"
  shows "access_view st d = Some xs"
proof -
  from assms(1) have read: "access_read_blocking st f d = Inr xs"
    by (simp add: access_read_all_def split: if_splits)
  show ?thesis
  proof (cases "ds_files d (af_path st)")
    case None
    with read have "xs = []"
      by (auto simp: access_read_blocking_def read_json_def read_limited_def disk_open_def
          read_open_def io_failure_def split: option.splits if_splits)
    with None show ?thesis by (simp add: access_view_def)
  next
    case (Some stored)
    with read assms(2) have "af_decode st (fl_bytes stored) = Inr xs"
      by (auto simp: access_read_blocking_def read_json_def read_limited_def disk_open_def Let_def
          read_open_def honest_open_def option_all_def try_then_Inr try_then_Inl map_err_def
          split: option.splits if_splits sum.splits state_error.splits)
    with Some show ?thesis by (simp add: access_view_def)
  qed
qed

lemma write_all_view:
  assumes "access_write_all st f xs d = (r, d')" and "faithful_codec st" and "af_path st \<noteq> []"
  shows "access_view st d' \<in> {access_view st d, Some xs}"
    and "r = Inr u \<Longrightarrow> access_view st d' = Some xs"
proof -
  obtain r1 where w: "atomic_write_json (af_encode st) (sf_write f) (sf_fresh f) (af_path st) xs True d
      = (r1, d')" and r: "r = Inr u \<Longrightarrow> r1 = Inr u"
    using assms(1) by (auto simp: access_write_all_def split: prod.splits if_splits)
  have new: "ds_files d' (af_path st) = Some (new_file [af_encode st xs, [10]] True) \<Longrightarrow>
      access_view st d' = Some xs"
    using assms(2) by (simp add: access_view_def new_file_def faithful_codec_def)
  note w' = w [unfolded atomic_write_json_def]
  have "af_path st \<noteq> temporary_path (af_path st) (sf_fresh f)"
    using temporary_path_neq [OF assms(3)] by metis
  from atomic_write_other [OF w' this] new
  show "access_view st d' \<in> {access_view st d, Some xs}" by (auto simp: access_view_def)
  show "access_view st d' = Some xs" if "r = Inr u"
  proof -
    have "atomic_write (\<lambda>i e. if i = 2 then StateJson (ioe_text e) else StateIo e) (sf_write f)
        (sf_fresh f) (af_path st) [af_encode st xs, [10]] True d = (Inr (), d')"
      using w' r [OF that] by simp
    from atomic_write_Ok [OF this] show ?thesis by (intro new) simp
  qed
qed

section \<open>Lists as maps\<close>

definition entry_map :: "allowed_controller list \<Rightarrow> ustr \<rightharpoonup> allowed_controller" where
  "entry_map xs i = find (\<lambda>c. ac_tailnet_node_id c = i) xs"

lemma find_without: "find (\<lambda>c. ac_tailnet_node_id c = i) (without_controller j xs) =
    (if i = j then None else find (\<lambda>c. ac_tailnet_node_id c = i) xs)"
  by (induction xs) (auto simp: without_controller_def)

lemma find_append: "find P (xs @ ys) = (case find P xs of None \<Rightarrow> find P ys | Some x \<Rightarrow> Some x)"
  by (induction xs) auto

lemma distinct_without:
  "distinct (map ac_tailnet_node_id xs) \<Longrightarrow> distinct (map ac_tailnet_node_id (without_controller i xs))"
  by (simp add: without_controller_def distinct_map_filter)

lemma without_ids: "i \<notin> ac_tailnet_node_id ` set (without_controller i xs)"
  by (auto simp: without_controller_def)

lemma entry_map_revoke: "entry_map (without_controller i xs) = (entry_map xs)(i := None)"
  by (auto simp: entry_map_def find_without fun_eq_iff)

lemma entry_map_allow:
  "entry_map (without_controller (ac_tailnet_node_id c) xs @ [c])
     = (entry_map xs)(ac_tailnet_node_id c \<mapsto> c)"
  by (auto simp: entry_map_def find_append find_without fun_eq_iff split: option.split)

lemma entry_map_None: "entry_map xs i = None \<longleftrightarrow> i \<notin> ac_tailnet_node_id ` set xs"
  by (auto simp: entry_map_def find_None_iff)

section \<open>The contract\<close>

locale access_store =
  fixes listing :: "'f \<Rightarrow> 'w \<Rightarrow> allowed_controller list port_result \<times> 'w"
    and allow :: "'f \<Rightarrow> allowed_controller \<Rightarrow> 'w \<Rightarrow> unit port_result \<times> 'w"
    and revoke :: "'f \<Rightarrow> ustr \<Rightarrow> 'w \<Rightarrow> unit port_result \<times> 'w"
    and view :: "'w \<Rightarrow> allowed_controller list option"
    and usable :: "'f \<Rightarrow> 'w \<Rightarrow> bool"
  assumes listing_frame: "snd (listing f w) = w"
    and listing_Ok: "usable f w \<Longrightarrow> listing f w = (Inr xs, w') \<Longrightarrow> view w = Some xs"
    and allow_Ok: "usable f w \<Longrightarrow> allow f c w = (Inr u, w') \<Longrightarrow>
          \<exists>xs. view w = Some xs \<and> view w' = Some (without_controller (ac_tailnet_node_id c) xs @ [c])"
    and allow_Err: "usable f w \<Longrightarrow> allow f c w = (Inl e, w') \<Longrightarrow>
          view w' = view w \<or> (\<exists>xs. view w = Some xs \<and>
            view w' = Some (without_controller (ac_tailnet_node_id c) xs @ [c]))"
    and revoke_Ok: "usable f w \<Longrightarrow> revoke f i w = (Inr u, w') \<Longrightarrow>
          \<exists>xs. view w = Some xs \<and> view w' = Some (without_controller i xs)"
    and revoke_Err: "usable f w \<Longrightarrow> revoke f i w = (Inl e, w') \<Longrightarrow>
          view w' = view w \<or> (\<exists>xs. view w = Some xs \<and> view w' = Some (without_controller i xs))"
begin

text \<open>The abstract store is a map from devices to entries, and no device has two.\<close>

definition single :: "'w \<Rightarrow> bool" where
  "single w \<longleftrightarrow> option_all (\<lambda>xs. distinct (map ac_tailnet_node_id xs)) (view w)"

end

context access_store
begin

lemma allow_entries:
  assumes "usable f w" and "allow f c w = (Inr u, w')" and "map_option entry_map (view w) = Some m"
  shows "map_option entry_map (view w') = Some (m(ac_tailnet_node_id c \<mapsto> c))"
  using allow_Ok [OF assms(1,2)] assms(3) by (auto simp: entry_map_allow)

lemma revoke_entries:
  assumes "usable f w" and "revoke f i w = (Inr u, w')" and "map_option entry_map (view w) = Some m"
  shows "map_option entry_map (view w') = Some (m(i := None))"
  using revoke_Ok [OF assms(1,2)] assms(3) by (auto simp: entry_map_revoke)

lemma allow_single: "usable f w \<Longrightarrow> allow f c w = (r, w') \<Longrightarrow> single w \<Longrightarrow> single w'"
  using allow_Ok [of f w c _ w'] allow_Err [of f w c _ w']
  by (cases r) (fastforce simp: single_def option_all_def distinct_without without_ids
      split: option.splits)+

lemma revoke_single: "usable f w \<Longrightarrow> revoke f i w = (r, w') \<Longrightarrow> single w \<Longrightarrow> single w'"
  using revoke_Ok [of f w i _ w'] revoke_Err [of f w i _ w']
  by (cases r) (fastforce simp: single_def option_all_def distinct_without split: option.splits)+

text \<open>A device that is not in the store is not in any list the store gives.\<close>

lemma listing_absent:
  assumes "usable f w" and "listing f w = (Inr xs, w')" and "map_option entry_map (view w) = Some m"
    and "m i = None"
  shows "i \<notin> ac_tailnet_node_id ` set xs"
  using listing_Ok [OF assms(1,2)] assms(3,4) entry_map_None by auto

lemma revoked_not_listed:
  assumes "usable f w" and "revoke f i w = (Inr u, w')" and "usable g w'"
    and "listing g w' = (Inr xs, w'')"
  shows "i \<notin> ac_tailnet_node_id ` set xs"
proof -
  obtain ys where "view w' = Some (without_controller i ys)" using revoke_Ok [OF assms(1,2)] by blast
  then show ?thesis using listing_Ok [OF assms(3,4)] without_ids by fastforce
qed

end

text \<open>The contract holds for the file of the agent, whatever faults occur.\<close>

definition usable_store :: "access_file \<Rightarrow> store_faults \<Rightarrow> disk \<Rightarrow> bool" where
  "usable_store st f d \<longleftrightarrow> faithful_codec st \<and> af_path st \<noteq> [] \<and> honest_open st f d"

interpretation file_store: access_store "access_list st" "access_allow st" "access_revoke st"
    "access_view st" "usable_store st" for st
proof unfold_locales
  fix f d c i u e xs d'
  assume usable: "usable_store st f d"
  note read = read_all_view [of st f d]
  note written = write_all_view [of st f _ d _ d']
  show "access_list st f d = (Inr xs, d') \<Longrightarrow> access_view st d = Some xs"
    using usable read by (auto simp: access_list_def usable_store_def)
  show "access_allow st f c d = (Inr u, d') \<Longrightarrow> \<exists>xs. access_view st d = Some xs
      \<and> access_view st d' = Some (without_controller (ac_tailnet_node_id c) xs @ [c])"
    using usable read written(2) by (auto simp: access_allow_def usable_store_def split: sum.splits)
  show "access_allow st f c d = (Inl e, d') \<Longrightarrow> access_view st d' = access_view st d
      \<or> (\<exists>xs. access_view st d = Some xs
           \<and> access_view st d' = Some (without_controller (ac_tailnet_node_id c) xs @ [c]))"
    using usable read written(1) by (fastforce simp: access_allow_def usable_store_def split: sum.splits)
  show "access_revoke st f i d = (Inr u, d') \<Longrightarrow> \<exists>xs. access_view st d = Some xs
      \<and> access_view st d' = Some (without_controller i xs)"
    using usable read written(2) by (auto simp: access_revoke_def usable_store_def split: sum.splits)
  show "access_revoke st f i d = (Inl e, d') \<Longrightarrow> access_view st d' = access_view st d
      \<or> (\<exists>xs. access_view st d = Some xs \<and> access_view st d' = Some (without_controller i xs))"
    using usable read written(1) by (fastforce simp: access_revoke_def usable_store_def split: sum.splits)
qed (simp add: access_list_def)

section \<open>The store and the authorizer\<close>

lemma authorize_lists:
  assumes "authorize ports clk source required a w = (Inr peer, a', w')"
    and "cached_allowlist_of (clk_allowlist clk) a = None"
    and "\<And>v. snd (port_acquire ports v) = v" and "\<And>s v. snd (port_identify ports s v) = v"
  shows "\<exists>xs. port_list ports w = (Inr xs, w') \<and> ap_tailnet_node_id peer \<in> ac_tailnet_node_id ` set xs"
proof -
  from assms(1) have "authenticate ports clk source a w = (Inr peer, a', w')"
    by (auto simp: authorize_def split: prod.splits sum.splits if_splits)
  then obtain l node a2 w2 entries entry where
    ident: "auth_identify ports (clk_identify clk) source (a\<lparr>au_limiter := l\<rparr>) w = (Inr node, a2, w2)"
    and listed: "auth_allowlist ports (clk_allowlist clk) a2 w2 = (Inr entries, a', w')"
    and entry: "find (\<lambda>e. ac_tailnet_node_id e = node) entries = Some entry"
    and peer: "ap_tailnet_node_id peer = ac_tailnet_node_id entry"
    by (auto simp: authenticate_def Let_def split: if_splits prod.splits sum.splits option.splits)
  have "w2 = w"
    using ident assms(3) [of w] assms(4) [of source w]
    by (auto simp: auth_identify_def lookup_identity_def split: option.splits prod.splits sum.splits if_splits)
  moreover have "cached_allowlist_of (clk_allowlist clk) a2 = None"
    using auth_identify_Ok [OF ident] assms(2) by (simp add: cached_allowlist_of_def)
  ultimately have "port_list ports w = (Inr entries, w')"
    using auth_allowlist_Ok [OF listed] by simp
  moreover have "entry \<in> set entries" using entry by (auto simp: find_Some_iff)
  ultimately show ?thesis using peer by auto
qed

text \<open>A history of successful operations on the store, and what it means for the map.\<close>

datatype store_op = OpAllow allowed_controller | OpRevoke ustr

fun store_apply :: "access_file \<Rightarrow> store_faults \<times> store_op \<Rightarrow> disk \<Rightarrow> unit port_result \<times> disk" where
  "store_apply st (f, OpAllow c) d = access_allow st f c d"
| "store_apply st (f, OpRevoke i) d = access_revoke st f i d"

fun store_run :: "access_file \<Rightarrow> (store_faults \<times> store_op) list \<Rightarrow> disk \<Rightarrow> disk option" where
  "store_run st [] d = Some d"
| "store_run st (op # ops) d =
     (case store_apply st op d of
        (Inr _, d') \<Rightarrow> if honest_open st (fst op) d then store_run st ops d' else None
      | (Inl _, d') \<Rightarrow> None)"

fun map_apply :: "store_op \<Rightarrow> (ustr \<rightharpoonup> allowed_controller) \<Rightarrow> ustr \<rightharpoonup> allowed_controller" where
  "map_apply (OpAllow c) m = m(ac_tailnet_node_id c \<mapsto> c)"
| "map_apply (OpRevoke i) m = m(i := None)"

section \<open>Correctness\<close>

text \<open>
  C30: The allowlist file implements a map from devices to entries: a history of operations that
  succeed leaves the file with the entries that the same history gives a map, and no device with
  two entries.
\<close>

theorem allowlist_file_refines_map:
  assumes "store_run st ops d = Some d'" and "faithful_codec st" and "af_path st \<noteq> []"
    and "access_view st d = Some xs" and "distinct (map ac_tailnet_node_id xs)"
  shows "\<exists>ys. access_view st d' = Some ys \<and> distinct (map ac_tailnet_node_id ys)
    \<and> entry_map ys = fold map_apply (map snd ops) (entry_map xs)"
  using assms(1,4,5)
proof (induction ops arbitrary: d xs)
  case (Cons op ops)
  obtain f o1 where op: "op = (f, o1)" by (cases op)
  obtain u d1 where step: "store_apply st (f, o1) d = (Inr u, d1)" and rest: "store_run st ops d1 = Some d'"
    and usable: "usable_store st f d"
    using Cons.prems(1) op assms(2,3) by (auto simp: usable_store_def split: prod.splits sum.splits if_splits)
  have single: "file_store.single st d" using Cons.prems by (simp add: file_store.single_def option_all_def)
  obtain zs where zs: "access_view st d1 = Some zs" "distinct (map ac_tailnet_node_id zs)"
    "entry_map zs = map_apply o1 (entry_map xs)"
  proof (cases o1)
    case (OpAllow c)
    with step file_store.allow_entries [OF usable, of c u d1 "entry_map xs"]
      file_store.allow_single [OF usable _ single, of c "Inr u" d1] Cons.prems(2)
    show thesis by (auto intro!: that simp: file_store.single_def option_all_def)
  next
    case (OpRevoke i)
    with step file_store.revoke_entries [OF usable, of i u d1 "entry_map xs"]
      file_store.revoke_single [OF usable _ single, of i "Inr u" d1] Cons.prems(2)
    show thesis by (auto intro!: that simp: file_store.single_def option_all_def)
  qed
  from Cons.IH [OF rest zs(1,2)] zs(3) op show ?case by simp
qed simp

text \<open>
  C31: Revoking takes effect. Once a device was revoked and the cached allowlist is out of date, the
  authorizer, reading the same file, authorises that device for nothing, whatever it asks for.
\<close>

theorem revoked_device_is_refused:
  assumes "access_revoke st f node d = (Inr u, d')"
    and "usable_store st f d" and "usable_store st g d'"
    and "port_list ports = access_list st g"
    and "\<And>v. snd (port_acquire ports v) = v" and "\<And>s v. snd (port_identify ports s v) = v"
    and "cached_allowlist_of (clk_allowlist clk) a = None"
    and "authorize ports clk source required a d' = (Inr peer, a', d'')"
  shows "ap_tailnet_node_id peer \<noteq> node"
proof -
  obtain xs where "access_list st g d' = (Inr xs, d'')"
    and "ap_tailnet_node_id peer \<in> ac_tailnet_node_id ` set xs"
    using authorize_lists [OF assms(8,7,5,6)] assms(4) by auto
  with file_store.revoked_not_listed [OF assms(2,1,3)] show ?thesis by blast
qed

section \<open>A codec\<close>

text \<open>
  A printer and a parser that satisfy the law, to show that the hypotheses can hold: a list of
  numbers in unary, with lengths before their lists.
\<close>

definition put_numbers :: "nat list \<Rightarrow> byte list" where
  "put_numbers ns = concat (map (\<lambda>n. replicate n 1 @ [0]) ns)"

fun get_numbers :: "nat \<Rightarrow> byte list \<Rightarrow> nat list" where
  "get_numbers k [] = []"
| "get_numbers k (b # bs) = (if b = 1 then get_numbers (Suc k) bs else k # get_numbers 0 bs)"

definition put_text :: "nat list \<Rightarrow> nat list" where
  "put_text xs = length xs # xs"

definition put_controller :: "allowed_controller \<Rightarrow> nat list" where
  "put_controller c =
     put_text (ac_tailnet_node_id c)
     @ (case ac_label c of None \<Rightarrow> [0] | Some l \<Rightarrow> 1 # put_text l)
     @ [nat (ac_added_at c), nat (- ac_added_at c)] @ put_text (map capability_index (ac_capabilities c))"

definition get_controller :: "nat list \<Rightarrow> allowed_controller \<times> nat list" where
  "get_controller ns =
     (let node = take (hd ns) (tl ns); r1 = drop (hd ns) (tl ns);
          (label, r2) = (if hd r1 = 0 then (None, tl r1)
            else (Some (take (hd (tl r1)) (tl (tl r1))), drop (hd (tl r1)) (tl (tl r1))));
          r3 = tl (tl r2)
      in (\<lparr>ac_tailnet_node_id = node, ac_label = label, ac_added_at = int (hd r2) - int (hd (tl r2)),
           ac_capabilities = map ((!) capability_all) (take (hd r3) (tl r3))\<rparr>,
          drop (hd r3) (tl r3)))"

fun get_controllers :: "nat \<Rightarrow> nat list \<Rightarrow> allowed_controller list" where
  "get_controllers 0 ns = []"
| "get_controllers (Suc k) ns =
     (case get_controller ns of (c, rest) \<Rightarrow> c # get_controllers k rest)"

definition example_file :: access_file where
  "example_file = \<lparr>af_path = [lit ''state'', lit ''allowlist.json''],
     af_encode = (\<lambda>cs. put_numbers (length cs # concat (map put_controller cs))),
     af_decode = (\<lambda>bs. case get_numbers 0 (butlast bs) of
        [] \<Rightarrow> Inl [] | n # ns \<Rightarrow> Inr (get_controllers n ns))\<rparr>"

lemma get_numbers_ones: "get_numbers k (replicate n 1 @ bs) = get_numbers (k + n) bs"
  by (induction n arbitrary: k) auto

lemma get_put_numbers: "get_numbers 0 (put_numbers ns) = ns"
  by (induction ns) (simp_all add: put_numbers_def get_numbers_ones)

lemma capability_all_index: "capability_all ! capability_index c = c"
  by (cases c) (simp_all add: capability_all_def)

lemma get_put_controller: "get_controller (put_controller c @ rest) = (c, rest)"
  by (cases "ac_label c"; cases "0 \<le> ac_added_at c")
    (simp_all add: get_controller_def put_controller_def put_text_def comp_def capability_all_index)

lemma get_put_controllers:
  "get_controllers (length cs) (concat (map put_controller cs) @ rest) = cs"
  by (induction cs) (simp_all add: get_put_controller)

lemma example_codec: "faithful_codec example_file"
  using get_put_controllers [of _ "[]"]
  by (simp add: faithful_codec_def example_file_def get_put_numbers)

section \<open>Witnesses\<close>

definition steady :: store_faults where
  "steady = \<lparr>sf_read_lost = False, sf_open = None, sf_write_lost = False, sf_write = no_faults,
     sf_fresh = lit ''t''\<rparr>"

definition empty_disk :: disk where
  "empty_disk = \<lparr>ds_files = (\<lambda>_. None), ds_dirs = (\<lambda>_. None)\<rparr>"

definition laptop :: allowed_controller where
  "laptop = allowed_controller_new (lit ''n2'') None 0 [CapReadMetadata]"

lemma example_usable: "usable_store example_file steady d"
  using example_codec by (simp add: usable_store_def honest_open_def steady_def option_all_def example_file_def)

text \<open>The disks of the examples: nothing but the allowlist, and its directory at most.\<close>

definition holds :: "allowed_controller list \<Rightarrow> disk \<Rightarrow> bool" where
  "holds xs d \<longleftrightarrow>
     (ds_files d = (\<lambda>_. None) \<and> xs = []
      \<or> ds_files d = [af_path example_file \<mapsto> new_file [af_encode example_file xs, [10]] True])
     \<and> (\<forall>q. ds_dirs d q \<noteq> None \<longrightarrow> q \<in> {[], [lit ''state'']})"

lemma holds_empty: "holds [] empty_disk"
  by (simp add: holds_def empty_disk_def)

lemma example_write:
  assumes "holds ys d"
  shows "\<exists>d'. access_write_all example_file steady xs d = (Inr (), d') \<and> holds xs d'"
proof -
  let ?p = "[lit ''state'', lit ''allowlist.json'']"
  let ?t = "temporary_path ?p (lit ''t'')"
  have p: "af_path example_file = ?p" by (simp add: example_file_def)
  have t: "?t = [lit ''state'', lit ''.'' @ lit ''allowlist.json'' @ lit ''.tmp-'' @ lit ''t'']"
    by (simp add: temporary_path_def)
  have neq: "?t \<noteq> ?p" "lit ''.'' @ lit ''allowlist.json'' @ lit ''.tmp-'' @ lit ''t'' \<noteq> lit ''allowlist.json''"
    using temporary_path_neq [of ?p] by simp_all (simp add: lit_def)
  have files: "ds_files d q = None" if "q \<noteq> ?p" for q
    using assms that by (auto simp: holds_def p)
  have dirs: "ds_dirs d q = None" if "q \<notin> {[], [lit ''state'']}" for q
    using assms that by (auto simp: holds_def)
  define dd where "dd = (\<lambda>q. if ds_dirs d q = None \<and> q = take (length q) [lit ''state''] then Some 448
      else ds_dirs d q)"
  have tk: "q \<in> {[], [lit ''state'']}" if "q = take (length q) [lit ''state'']" for q
    using that by (cases q) (auto dest: sym)
  have dd4: "q \<in> {[], [lit ''state'']}" if "dd q \<noteq> None" for q
  proof (cases "ds_dirs d q = None")
    case True
    with that tk show ?thesis by (auto simp: dd_def split: if_splits)
  next
    case False
    then show ?thesis by (rule contrapos_np) (rule dirs)
  qed
  have dd: "dd ?t = None" "dd ?p = None" 
    by (rule contrapos_np [OF _ dd4]; simp add: t)+
  have dd3: "dd [lit ''state''] \<noteq> None" by (simp add: dd_def)
  have mk: "disk_step None (MakeDirs [lit ''state'']) d = (Inr (), d\<lparr>ds_dirs := dd\<rparr>)"
  proof -
    have "take n [lit ''state''] \<noteq> ?p" for n by (cases n) simp_all
    then have "\<not> list_ex (\<lambda>n. ds_files d (take n [lit ''state'']) \<noteq> None) [0..<Suc (length [lit ''state''])]"
      using files by (simp add: list_ex_iff)
    then show ?thesis by (simp only: disk_step.simps dd_def if_False)
  qed
  have "\<exists>d'. access_write_all example_file steady xs d = (Inr (), d')
      \<and> ds_files d' = (ds_files d)(?p \<mapsto> new_file [af_encode example_file xs, [10]] True)
      \<and> ds_dirs d' = dd"
    using mk dd dd3 files [OF neq(1)] neq
    by (simp add: access_write_all_def steady_def atomic_write_json_def atomic_write_def no_faults_def
        parent_of_def p t prepare_ops_def replace_ops_def Let_def append_bytes_def new_file_def
        private_mode_def fun_eq_iff del: disk_step.simps(3))
  then obtain d' where "access_write_all example_file steady xs d = (Inr (), d')"
    and "ds_files d' = (ds_files d)(?p \<mapsto> new_file [af_encode example_file xs, [10]] True)"
    and "ds_dirs d' = dd" by blast
  moreover from this(2) have "ds_files d' = [?p \<mapsto> new_file [af_encode example_file xs, [10]] True]"
    using files by (auto simp: fun_eq_iff)
  ultimately show ?thesis using dd4 by (auto simp: holds_def p)
qed

lemma example_read:
  assumes "holds xs d" and "length (af_encode example_file xs) < 1048576"
  shows "access_read_all example_file steady d = Inr xs"
proof -
  have "af_decode example_file (af_encode example_file xs @ [10]) = Inr xs"
    using example_codec by (simp add: faithful_codec_def)
  moreover have "ds_dirs d (af_path example_file) = None"
    using assms(1) by (auto simp: holds_def example_file_def)
  ultimately show ?thesis
    using assms
    by (auto simp: holds_def access_read_all_def access_read_blocking_def steady_def read_json_def
        read_limited_def disk_open_def read_open_def max_state_bytes_def new_file_def
        io_failure_def Let_def)
qed

lemma length_put_numbers: "length (put_numbers ns) = sum_list ns + length ns"
  by (induction ns) (simp_all add: put_numbers_def)

lemma example_small:
  "length (af_encode example_file []) < 1048576" "length (af_encode example_file [laptop]) < 1048576"
  by (simp_all add: example_file_def length_put_numbers laptop_def put_controller_def put_text_def
      allowed_controller_new_def sort_dedup_def lit_def)

lemma example_view: "holds xs d \<Longrightarrow> access_view example_file d = Some xs"
  using example_codec by (auto simp: holds_def access_view_def faithful_codec_def new_file_def)

lemma example_allow:
  "\<exists>d. access_allow example_file steady laptop empty_disk = (Inr (), d) \<and> holds [laptop] d"
  using example_write [OF holds_empty, of "[laptop]"] example_read [OF holds_empty example_small(1)]
  by (simp add: access_allow_def without_controller_def)

lemma example_revoke:
  assumes "holds [laptop] d"
  shows "\<exists>d'. access_revoke example_file steady node d = (Inr (), d')
    \<and> holds (if node = lit ''n2'' then [] else [laptop]) d'"
  using example_write [OF assms, of "if node = lit ''n2'' then [] else [laptop]"]
    example_read [OF assms example_small(2)]
  by (cases "node = lit ''n2''")
    (auto simp: access_revoke_def without_controller_def laptop_def allowed_controller_new_def)

theorem allowlist_file_refines_map_witness:
  "\<exists>d ys. store_run example_file [(steady, OpAllow laptop), (steady, OpRevoke (lit ''n2''))] empty_disk
      = Some d \<and> access_view example_file d = Some ys \<and> entry_map ys (lit ''n2'') = None"
proof -
  obtain d1 d2 where "access_allow example_file steady laptop empty_disk = (Inr (), d1)"
    and "access_revoke example_file steady (lit ''n2'') d1 = (Inr (), d2)"
    using example_allow example_revoke [of _ "lit ''n2''"] by blast
  then have "store_run example_file [(steady, OpAllow laptop), (steady, OpRevoke (lit ''n2''))] empty_disk
      = Some d2"
    by (simp add: honest_open_def steady_def option_all_def)
  from this allowlist_file_refines_map [OF this example_codec _ example_view [OF holds_empty]]
  show ?thesis by (auto simp: example_file_def)
qed

definition store_ports :: "disk auth_ports" where
  "store_ports =
     \<lparr>port_acquire = (\<lambda>w. (Some (Inr ()), w)),
      port_identify = (\<lambda>_ w. (Some (Inr (Some \<lparr>mni_tailnet_node_id = lit ''n2'', mni_user = None,
         mni_hostname = None, mni_addresses = []\<rparr>)), w)),
      port_list = access_list example_file steady\<rparr>"

theorem revoked_device_is_refused_witness:
  "\<exists>d d' peer. access_revoke example_file steady (lit ''n1'') d = (Inr (), d')
    \<and> fst (authorize store_ports example_clock (V4 100 64 0 2) CapReadMetadata (authorizer_new True) d')
        = Inr peer
    \<and> ap_tailnet_node_id peer \<noteq> lit ''n1''"
proof -
  obtain d where d: "holds [laptop] d" using example_allow by blast
  obtain d' where rev: "access_revoke example_file steady (lit ''n1'') d = (Inr (), d')"
    and holds: "holds [laptop] d'"
    using example_revoke [OF d, of "lit ''n1''"] by auto
  have listed: "access_list example_file steady d' = (Inr [laptop], d')"
    using example_read [OF holds example_small(2)] by (simp add: access_list_def)
  define a0 where "a0 = authorizer_new True"
  have fresh: "au_identities a0 = hm_empty" "au_allowlist a0 = None"
    by (simp_all add: a0_def authorizer_new_def)
  have "fst (limiter_admit (V4 100 64 0 2) 0 (au_limiter a0))"
    unfolding a0_def by code_simp
  then obtain l where lim: "limiter_admit (V4 100 64 0 2) 0 (au_limiter a0) = (True, l)"
    by (metis (full_types) prod.collapse)
  obtain a where auth: "authorize store_ports example_clock (V4 100 64 0 2) CapReadMetadata a0 d'
      = (Inr \<lparr>ap_tailnet_node_id = lit ''n2'', ap_capabilities = [CapReadMetadata]\<rparr>, a, d')"
    using listed lim fresh
    by (simp add: authorize_def authenticate_def example_clock_def auth_identify_def
        cached_identity_of_def lookup_identity_def store_ports_def auth_allowlist_def
        cached_allowlist_of_def remember_identity_def hm.get_empty Let_def
        laptop_def allowed_controller_new_def sort_dedup_def)
  have "ap_tailnet_node_id \<lparr>ap_tailnet_node_id = lit ''n2'', ap_capabilities = [CapReadMetadata]\<rparr>
      \<noteq> lit ''n1''"
    by (rule revoked_device_is_refused [OF rev example_usable example_usable _ _ _ _ auth])
      (simp_all add: store_ports_def example_clock_def fresh cached_allowlist_of_def)
  with rev auth show ?thesis unfolding a0_def by force
qed

end
