(* ===== verification/Process.thy ===== *)
theory Process
  imports Ports HashMapModel Utf8
begin

text \<open>
  \<open>crates/omdesky-platform/src/process.rs\<close>: finding a program in a trusted directory, the
  environment and the pipes it is started with, and running it under a timeout with bounded
  output. The \<open>select!\<close> of \<open>run\<close> is a list of events, in the order they are seen; the timeout is
  one of them. The system is asked through \<open>is_file\<close> and \<open>kill\<close>; a killed child is waited for.
\<close>

definition trusted_program_directories :: "ustr list" where
  "trusted_program_directories =
     [lit ''/usr/local/bin'', lit ''/usr/bin'', lit ''/bin'', lit ''/usr/local/sbin'']"

definition trusted_path :: ustr where
  "trusted_path = lit ''/usr/local/bin:/usr/bin:/bin''"

definition session_environment_keys :: "ustr list" where
  "session_environment_keys =
     [lit ''HOME'', lit ''USER'', lit ''LOGNAME'', lit ''LANG'', lit ''TERM'', lit ''XDG_RUNTIME_DIR'',
      lit ''XDG_CONFIG_HOME'', lit ''XDG_STATE_HOME'', lit ''XDG_DATA_HOME'', lit ''XDG_SESSION_TYPE'',
      lit ''WAYLAND_DISPLAY'', lit ''HYPRLAND_INSTANCE_SIGNATURE'', lit ''DISPLAY'',
      lit ''DBUS_SESSION_BUS_ADDRESS'']"

definition loader_environment_keys :: "ustr list" where
  "loader_environment_keys =
     [lit ''LD_PRELOAD'', lit ''LD_LIBRARY_PATH'', lit ''LD_AUDIT'', lit ''LD_DEBUG'',
      lit ''LD_DEBUG_OUTPUT'', lit ''LD_PROFILE'', lit ''LD_ORIGIN_PATH'', lit ''GCONV_PATH'']"

section \<open>Finding the program\<close>

type_synonym program_cache = "(ustr, ustr) hash_map"

definition slash :: ucs where
  "slash = 47"

definition resolve_program ::
    "(ustr \<Rightarrow> bool) \<Rightarrow> ustr \<Rightarrow> program_cache \<Rightarrow> ustr port_result \<times> program_cache" where
  "resolve_program is_file program cache =
     (if slash \<in> set program then (Inr program, cache)
      else case hm_get cache program of
        Some p \<Rightarrow> (Inr p, cache)
      | None \<Rightarrow>
          (case find is_file (map (\<lambda>directory. directory @ [slash] @ program) trusted_program_directories) of
             None \<Rightarrow> (Inl (port_error_new (lit ''COMMAND_NOT_AVAILABLE'')
               (program @ lit '' was not found in a trusted program directory'') False), cache)
           | Some resolved \<Rightarrow> (Inr resolved, hm_insert program resolved cache)))"

section \<open>The command to spawn\<close>

type_synonym environment = "ustr \<rightharpoonup> ustr"

datatype pipe = NullPipe | InheritedPipe | Piped

record built_command =
  bc_program :: ustr
  bc_args :: "ustr list"
  bc_environment :: environment
  bc_directory :: "ustr option"
  bc_stdin :: pipe
  bc_stdout :: pipe
  bc_stderr :: pipe
  bc_kill_on_drop :: bool

definition without_keys :: "ustr list \<Rightarrow> environment \<Rightarrow> environment" where
  "without_keys keys env = foldl (\<lambda>e key. e(key := None)) env keys"

definition session_environment :: "environment \<Rightarrow> environment" where
  "session_environment own =
     foldl (\<lambda>e key. case own key of Some value \<Rightarrow> e(key \<mapsto> value) | None \<Rightarrow> e)
       [lit ''PATH'' \<mapsto> trusted_path] session_environment_keys"

definition apply_environment_policy :: "environment_policy \<Rightarrow> environment \<Rightarrow> environment" where
  "apply_environment_policy policy own =
     (case policy of
        EmptyEnvironment \<Rightarrow> Map.empty
      | SessionEnvironment \<Rightarrow> session_environment own
      | InheritedEnvironment \<Rightarrow>
          without_keys loader_environment_keys (own(lit ''PATH'' \<mapsto> trusted_path)))"

definition build_command ::
    "(ustr \<Rightarrow> bool) \<Rightarrow> environment \<Rightarrow> command_spec \<Rightarrow> program_cache
       \<Rightarrow> built_command port_result \<times> program_cache" where
  "build_command is_file own spec cache =
     (case resolve_program is_file (cs_program spec) cache of
        (Inl e, cache') \<Rightarrow> (Inl e, cache')
      | (Inr program, cache') \<Rightarrow>
          (let output = (case cs_capture spec of
                 CaptureBoth \<Rightarrow> Piped | CaptureInherit \<Rightarrow> InheritedPipe | CaptureDiscard \<Rightarrow> NullPipe)
           in (Inr \<lparr>bc_program = program, bc_args = cs_args spec,
                    bc_environment = apply_environment_policy (cs_environment_policy spec) own
                      ++ map_of (rev (cs_environment spec)),
                    bc_directory = cs_working_directory spec,
                    bc_stdin = (case cs_stdin spec of
                      StdinNull \<Rightarrow> NullPipe | StdinInherit \<Rightarrow> InheritedPipe),
                    bc_stdout = output, bc_stderr = output, bc_kill_on_drop = True\<rparr>, cache')))"

section \<open>Running it\<close>

definition timeout_error :: "ustr \<Rightarrow> duration \<Rightarrow> port_error" where
  "timeout_error program duration = port_error_new (lit ''COMMAND_TIMEOUT'')
     (program @ lit '' exceeded timeout of '' @ show_nat (as_secs duration) @ lit '' seconds'') True"

definition terminate_error :: "ustr \<Rightarrow> ustr \<Rightarrow> port_error" where
  "terminate_error program error = port_error_new (lit ''PROCESS_TERMINATE_FAILED'')
     (lit ''unable to terminate '' @ program @ lit '': '' @ error) False"

definition spawn_error :: "ustr \<Rightarrow> ustr \<Rightarrow> port_error" where
  "spawn_error program error = port_error_new (lit ''COMMAND_NOT_AVAILABLE'')
     (lit ''unable to execute '' @ program @ lit '': '' @ error) False"

definition output_limit_error :: "nat \<Rightarrow> port_error" where
  "output_limit_error limit = port_error_new (lit ''COMMAND_OUTPUT_LIMIT'')
     (lit ''command output exceeded '' @ show_nat limit @ lit '' bytes'') False"

text \<open>
  What one read of a pipe yields is an error or the bytes read, none at the end of the stream; a
  list of reads that ends means that the next one has not returned yet.
\<close>

fun read_stream :: "nat \<Rightarrow> byte list \<Rightarrow> (ustr + byte list) list \<Rightarrow> byte list port_result option" where
  "read_stream limit acc [] = None"
| "read_stream limit acc (Inl error # reads) =
     Some (Inl (port_error_new (lit ''COMMAND_OUTPUT_FAILED'') error False))"
| "read_stream limit acc (Inr bytes # reads) =
     (if bytes = [] then Some (Inr acc)
      else if length acc + length bytes > limit then Some (Inl (output_limit_error limit))
      else read_stream limit (acc @ bytes) reads)"

definition read_pipe :: "nat \<Rightarrow> (ustr + byte list) list option \<Rightarrow> byte list port_result option" where
  "read_pipe limit stream =
     (case stream of None \<Rightarrow> Some (Inr []) | Some reads \<Rightarrow> read_stream limit [] reads)"

text \<open>An exit status: the code, if the process was not ended by a signal.\<close>

type_synonym exit_status = "int option"

definition status_code :: "exit_status \<Rightarrow> int" where
  "status_code status = unwrap_or status (- 1)"

datatype run_event =
    Exited "ustr + exit_status"
  | ReaderFinished bool "byte list port_result"
  | ReadersLost
  | TimedOut

type_synonym run_progress = "exit_status option \<times> byte list option \<times> byte list option"

text \<open>
  Where a run stands: in its loop, or waiting for a child it has killed, after a failed reader (the
  time still runs then) or after the timeout.
\<close>

datatype run_state = Looping run_progress | KillingReader port_error | KillingTimeout

definition finished :: "run_state \<Rightarrow> (exit_status \<times> byte list \<times> byte list) option" where
  "finished s =
     (case s of Looping (Some status, Some out, Some err) \<Rightarrow> Some (status, out, err) | _ \<Rightarrow> None)"

text \<open>
  Killing the child: the error of sending the signal, if that fails, then waiting until the child has
  exited, which it has when its status is known. \<open>error\<close> is what is reported afterwards.
\<close>

definition kill_child ::
    "command_spec \<Rightarrow> ustr option \<Rightarrow> exit_status option \<Rightarrow> port_error \<Rightarrow> run_state \<Rightarrow> run_state port_result" where
  "kill_child spec failure status error waiting =
     (case failure of
        Some e \<Rightarrow> Inl (terminate_error (cs_program spec) e)
      | None \<Rightarrow> if status \<noteq> None then Inl error else Inr waiting)"

definition child_reaped :: "command_spec \<Rightarrow> port_error \<Rightarrow> ustr + exit_status \<Rightarrow> port_error" where
  "child_reaped spec error outcome =
     (case outcome of Inl e \<Rightarrow> terminate_error (cs_program spec) e | Inr _ \<Rightarrow> error)"

text \<open>
  One turn of the loop; \<open>kill\<close> is the error of sending the kill signal, if that fails, at an event
  and with what is known of the child's status. The guards of the \<open>select!\<close> make an event that is
  no longer waited for have no effect.
\<close>

fun run_step ::
    "command_spec \<Rightarrow> (run_event \<Rightarrow> exit_status option \<Rightarrow> ustr option) \<Rightarrow> run_event \<Rightarrow> run_state
       \<Rightarrow> run_state port_result" where
  "run_step spec kill event (Looping (status, out, err)) =
     (case event of
        TimedOut \<Rightarrow>
          kill_child spec (kill event status) status (timeout_error (cs_program spec) (cs_timeout spec)) KillingTimeout
      | Exited r \<Rightarrow>
          if status \<noteq> None then Inr (Looping (status, out, err))
          else (case r of
            Inl error \<Rightarrow> Inl (spawn_error (cs_program spec) error)
          | Inr code \<Rightarrow> Inr (Looping (Some code, out, err)))
      | ReadersLost \<Rightarrow>
          if out \<noteq> None \<and> err \<noteq> None then Inr (Looping (status, out, err))
          else Inl (port_error_new (lit ''COMMAND_OUTPUT_FAILED'')
            (lit ''command output reader stopped unexpectedly'') False)
      | ReaderFinished is_stdout r \<Rightarrow>
          if out \<noteq> None \<and> err \<noteq> None then Inr (Looping (status, out, err))
          else (case r of
            Inl error \<Rightarrow> kill_child spec (kill event status) status error (KillingReader error)
          | Inr bytes \<Rightarrow>
              Inr (Looping (if is_stdout then (status, Some bytes, err) else (status, out, Some bytes)))))"
| "run_step spec kill event (KillingReader error) =
     (case event of
        TimedOut \<Rightarrow>
          kill_child spec (kill event None) None (timeout_error (cs_program spec) (cs_timeout spec)) KillingTimeout
      | Exited r \<Rightarrow> Inl (child_reaped spec error r)
      | _ \<Rightarrow> Inr (KillingReader error))"
| "run_step spec kill event KillingTimeout =
     (case event of
        Exited r \<Rightarrow> Inl (child_reaped spec (timeout_error (cs_program spec) (cs_timeout spec)) r)
      | _ \<Rightarrow> Inr KillingTimeout)"

text \<open>\<open>None\<close>: the call has not returned after these events.\<close>

fun run_loop ::
    "command_spec \<Rightarrow> (run_event \<Rightarrow> exit_status option \<Rightarrow> ustr option) \<Rightarrow> run_state \<Rightarrow> run_event list
       \<Rightarrow> (exit_status \<times> byte list \<times> byte list) port_result option" where
  "run_loop spec kill s [] = map_option Inr (finished s)"
| "run_loop spec kill s (event # events) =
     (case finished s of
        Some r \<Rightarrow> Some (Inr r)
      | None \<Rightarrow>
          (case run_step spec kill event s of
             Inl e \<Rightarrow> Some (Inl e)
           | Inr s' \<Rightarrow> run_loop spec kill s' events))"

definition run_result ::
    "command_spec \<Rightarrow> exit_status \<times> byte list \<times> byte list \<Rightarrow> command_output port_result" where
  "run_result spec s =
     (case s of (status, out, err) \<Rightarrow>
        if status \<noteq> Some 0 then
          Inl (port_error_new (lit ''COMMAND_FAILED'')
            (cs_program spec @ lit '' exited with status ''
             @ show_int (status_code status)) False)
        else Inr \<lparr>co_status = status_code status, co_stdout = out, co_stderr = err\<rparr>)"

definition command_run ::
    "(ustr \<Rightarrow> bool) \<Rightarrow> environment \<Rightarrow> (built_command \<Rightarrow> ustr option)
       \<Rightarrow> (run_event \<Rightarrow> exit_status option \<Rightarrow> ustr option) \<Rightarrow> command_spec \<Rightarrow> run_event list
       \<Rightarrow> program_cache \<Rightarrow> command_output port_result option \<times> program_cache" where
  "command_run is_file own spawn_fault kill spec events cache =
     (case build_command is_file own spec cache of
        (Inl e, cache') \<Rightarrow> (Some (Inl e), cache')
      | (Inr command, cache') \<Rightarrow>
          (case spawn_fault command of
             Some error \<Rightarrow> (Some (Inl (spawn_error (cs_program spec) error)), cache')
           | None \<Rightarrow>
               (map_option (\<lambda>r. try_then r (run_result spec))
                  (run_loop spec kill (Looping (None, None, None)) events), cache')))"

section \<open>Long-running children\<close>

definition command_spawn ::
    "(ustr \<Rightarrow> bool) \<Rightarrow> environment \<Rightarrow> (built_command \<Rightarrow> ustr + 'child) \<Rightarrow> command_spec
       \<Rightarrow> program_cache \<Rightarrow> 'child port_result \<times> program_cache" where
  "command_spawn is_file own spawn spec cache =
     (case build_command is_file own spec cache of
        (Inl e, cache') \<Rightarrow> (Inl e, cache')
      | (Inr command, cache') \<Rightarrow> (map_err (spawn_error (cs_program spec)) (spawn command), cache'))"

definition child_wait :: "ustr + exit_status \<Rightarrow> int port_result" where
  "child_wait outcome =
     map_err (\<lambda>e. port_error_new (lit ''PROCESS_WAIT_FAILED'') e False) (map_ok status_code outcome)"

definition child_terminate :: "ustr + unit \<Rightarrow> unit port_result" where
  "child_terminate outcome =
     map_err (\<lambda>e. port_error_new (lit ''PROCESS_TERMINATE_FAILED'') e False) outcome"

section \<open>Facts\<close>

lemma without_keys_apply:
  "without_keys keys env key = (if key \<in> set keys then None else env key)"
  by (induction keys arbitrary: env) (auto simp: without_keys_def)

lemma session_fold:
  "foldl (\<lambda>e key. case own key of Some value \<Rightarrow> e(key \<mapsto> value) | None \<Rightarrow> e) start keys k =
     (if k \<in> set keys \<and> own k \<noteq> None then own k else start k)"
  by (induction keys arbitrary: start) (auto split: option.splits)

lemma session_environment_apply:
  "session_environment own key =
     (if key \<in> set session_environment_keys \<and> own key \<noteq> None then own key
      else if key = lit ''PATH'' then Some trusted_path else None)"
  unfolding session_environment_def session_fold by simp

lemma loader_keys_disjoint:
  "key \<in> set loader_environment_keys \<Longrightarrow> key \<notin> set session_environment_keys \<and> key \<noteq> lit ''PATH''"
  by (auto simp: loader_environment_keys_def session_environment_keys_def)

lemma policy_no_loader:
  "key \<in> set loader_environment_keys \<Longrightarrow> apply_environment_policy policy own key = None"
  using loader_keys_disjoint [of key]
  by (cases policy) (auto simp: apply_environment_policy_def without_keys_apply session_environment_apply)

lemma policy_path:
  "policy \<noteq> EmptyEnvironment \<Longrightarrow> apply_environment_policy policy own (lit ''PATH'') = Some trusted_path"
  by (cases policy)
    (auto simp: apply_environment_policy_def without_keys_apply session_environment_apply
      loader_environment_keys_def session_environment_keys_def)

definition trusted_location :: "ustr \<Rightarrow> ustr \<Rightarrow> bool" where
  "trusted_location program p \<longleftrightarrow>
     (\<exists>directory \<in> set trusted_program_directories. p = directory @ [slash] @ program)"

definition cache_invar :: "program_cache \<Rightarrow> bool" where
  "cache_invar cache \<longleftrightarrow> (\<forall>program p. hm_get cache program = Some p \<longrightarrow> trusted_location program p)"

lemma resolve_program_invar:
  assumes "cache_invar cache" and "resolve_program is_file program cache = (r, cache')"
  shows "cache_invar cache'"
    and "slash \<notin> set program \<Longrightarrow> r = Inr p \<Longrightarrow> trusted_location program p"
proof -
  have found: "trusted_location program q"
    if "find is_file (map (\<lambda>directory. directory @ [slash] @ program) trusted_program_directories) = Some q"
    for q
    using that by (auto simp: trusted_location_def find_Some_iff)
  show "cache_invar cache'"
    using assms found
    by (auto simp: resolve_program_def cache_invar_def hm.get_insert split: if_splits option.splits)
  show "slash \<notin> set program \<Longrightarrow> r = Inr p \<Longrightarrow> trusted_location program p"
    using assms found
    by (auto simp: resolve_program_def cache_invar_def split: option.splits)
qed

lemma read_stream_exact:
  assumes "\<forall>bs\<in>set chunks. bs \<noteq> []"
  shows "read_stream limit acc (map Inr chunks @ Inr [] # rest) =
    Some (if length acc + length (concat chunks) \<le> limit \<or> chunks = [] then Inr (acc @ concat chunks)
          else Inl (output_limit_error limit))"
  using assms by (induction chunks arbitrary: acc) auto

lemma finished_Some [simp]:
  "finished s = Some (status, out, err) \<longleftrightarrow> s = Looping (Some status, Some out, Some err)"
  by (auto simp: finished_def split: run_state.splits prod.splits option.splits)

lemma finished_waiting [simp]: "finished (KillingReader error) = None" "finished KillingTimeout = None"
  by (simp_all add: finished_def)

lemmas kill_simps = kill_child_def child_reaped_def

lemma waiting_fails:
  "s = KillingReader error \<or> s = KillingTimeout \<Longrightarrow> run_loop spec kill s events \<noteq> Some (Inr r)"
proof (induction events arbitrary: s)
  case (Cons event events)
  from Cons.prems show ?case
    by (elim disjE; cases event) (auto simp: kill_simps Cons.IH split: option.split)
qed auto

lemma run_loop_Ok:
  "run_loop spec kill (Looping s) events = Some (Inr (status, out, err)) \<Longrightarrow>
     (fst s = Some status \<or> Exited (Inr status) \<in> set events)
     \<and> (fst (snd s) = Some out \<or> ReaderFinished True (Inr out) \<in> set events)
     \<and> (snd (snd s) = Some err \<or> ReaderFinished False (Inr err) \<in> set events)"
proof (induction events arbitrary: s)
  case (Cons event events)
  obtain st o1 e1 where s: "s = (st, o1, e1)" by (cases s)
  show ?case
  proof (cases "finished (Looping s)")
    case None
    with Cons.prems obtain s' where step: "run_step spec kill event (Looping s) = Inr s'"
      and rest: "run_loop spec kill s' events = Some (Inr (status, out, err))"
      by (auto split: sum.splits)
    then obtain t where t: "s' = Looping t" using waiting_fails by (cases s') blast+
    show ?thesis
      using Cons.IH [of t] rest step s t
      by (cases event) (auto simp: kill_simps split: if_splits sum.splits option.splits)
  qed (use Cons.prems in auto)
qed auto

text \<open>
  What is known of a run that has not returned after some events: its child has not exited unless
  the loop still waits for its output.
\<close>

fun run_open :: "(run_event \<Rightarrow> exit_status option \<Rightarrow> ustr option) \<Rightarrow> bool \<Rightarrow> run_state \<Rightarrow> bool" where
  "run_open kill exited (Looping (status, out, err)) \<longleftrightarrow> (status \<noteq> None) = exited"
| "run_open kill exited (KillingReader error) \<longleftrightarrow> \<not> exited"
| "run_open kill exited KillingTimeout \<longleftrightarrow> \<not> exited \<and> kill TimedOut None = None"

lemma run_step_open:
  assumes "run_step spec kill event s = Inr s'" and "run_open kill exited s"
  shows "run_open kill (exited \<or> (\<exists>r. event = Exited r)) s'"
  using assms
  by (cases s; cases event)
    (auto simp: kill_simps split: prod.splits if_splits sum.splits option.splits)

lemma run_loop_open:
  assumes "run_loop spec kill s events = None" and "run_open kill exited s"
  obtains s' where "finished s' = None" "run_open kill (exited \<or> (\<exists>r. Exited r \<in> set events)) s'"
    "\<And>rest. run_loop spec kill s (events @ rest) = run_loop spec kill s' rest"
  using assms
proof (induction events arbitrary: s exited thesis)
  case Nil
  then show ?case by (simp add: Nil(1) [of s])
next
  case (Cons event events)
  then obtain s1 where fin: "finished s = None" and step: "run_step spec kill event s = Inr s1"
    and rest: "run_loop spec kill s1 events = None"
    by (auto split: option.splits sum.splits)
  show ?case
  proof (rule Cons.IH [OF _ rest run_step_open [OF step Cons.prems(3)]])
    fix s'
    assume s': "finished s' = None"
      "run_open kill ((exited \<or> (\<exists>r. event = Exited r)) \<or> (\<exists>r. Exited r \<in> set events)) s'"
      "\<And>rest. run_loop spec kill s1 (events @ rest) = run_loop spec kill s' rest"
    have "((exited \<or> (\<exists>r. event = Exited r)) \<or> (\<exists>r. Exited r \<in> set events))
        = (exited \<or> (\<exists>r. Exited r \<in> set (event # events)))" by auto
    with s' fin step show thesis by (intro Cons.prems(1) [of s']) simp_all
  qed
qed

definition ended_error :: "port_error \<Rightarrow> bool" where
  "ended_error e \<longleftrightarrow> perr_code e = lit ''COMMAND_TIMEOUT'' \<or> perr_code e = lit ''PROCESS_TERMINATE_FAILED''"

lemma ended_error_simps [simp]: "ended_error (timeout_error program d)" "ended_error (terminate_error program e)"
  by (simp_all add: ended_error_def timeout_error_def terminate_error_def port_error_new_def)

lemma killing_timeout_run:
  "(run_loop spec kill KillingTimeout events = None \<longleftrightarrow> (\<forall>r. Exited r \<notin> set events))
   \<and> (\<forall>r. run_loop spec kill KillingTimeout events = Some r \<longrightarrow> (\<exists>e. r = Inl e \<and> ended_error e))"
proof (induction events)
  case (Cons event events)
  then show ?case by (cases event) (auto simp: kill_simps split: sum.split)
qed simp

lemma timed_out_run:
  assumes "finished s = None" and "run_open kill exited s"
  shows "(run_loop spec kill s (TimedOut # after) = None
      \<longleftrightarrow> kill TimedOut None = None \<and> \<not> exited \<and> (\<forall>r. Exited r \<notin> set after))
    \<and> (\<forall>r. run_loop spec kill s (TimedOut # after) = Some r \<longrightarrow> (\<exists>e. r = Inl e \<and> ended_error e))"
proof -
  show ?thesis
  proof (cases s)
    case (Looping t)
    with assms killing_timeout_run [of spec kill after] show ?thesis
      by (cases t; cases "kill TimedOut (fst t)") (auto simp: kill_simps)
  qed (use assms killing_timeout_run [of spec kill after] in \<open>auto simp: kill_simps split: option.splits\<close>)
qed

lemma read_stream_bounded:
  "read_stream limit acc reads = Some (Inr bytes) \<Longrightarrow> length acc \<le> limit \<Longrightarrow> length bytes \<le> limit"
  by (induction limit acc reads rule: read_stream.induct) (auto split: if_splits)

lemma read_pipe_bounded: "read_pipe limit stream = Some (Inr bytes) \<Longrightarrow> length bytes \<le> limit"
  using read_stream_bounded [of limit "[]"] by (auto simp: read_pipe_def split: option.splits)

text \<open>The readers report what reading their pipes yields.\<close>

definition reads_pipes :: "command_spec \<Rightarrow> run_event list \<Rightarrow> bool" where
  "reads_pipes spec events \<longleftrightarrow>
     (\<forall>is_stdout r. ReaderFinished is_stdout r \<in> set events \<longrightarrow>
        (\<exists>stream. read_pipe (if is_stdout then cs_stdout_limit spec else cs_stderr_limit spec) stream = Some r))"

definition resolve_all :: "((ustr \<Rightarrow> bool) \<times> ustr) list \<Rightarrow> program_cache" where
  "resolve_all requests =
     foldl (\<lambda>cache (is_file, program). snd (resolve_program is_file program cache)) hm_empty requests"

lemma resolve_all_invar: "cache_invar (resolve_all requests)"
proof -
  have "cache_invar cache \<Longrightarrow>
      cache_invar (foldl (\<lambda>cache (is_file, program). snd (resolve_program is_file program cache)) cache requests)"
    for cache
    by (induction requests arbitrary: cache) (auto intro: resolve_program_invar(1) [OF _ surjective_pairing])
  then show ?thesis unfolding resolve_all_def by this (simp add: cache_invar_def hm.get_empty)
qed

section \<open>Correctness\<close>

text \<open>
  A program named without a slash is taken from a trusted directory, whatever was looked up and
  cached before and whatever the files were then.
\<close>

theorem resolved_program_is_trusted:
  assumes "slash \<notin> set program"
    and "fst (resolve_program is_file program (resolve_all requests)) = Inr p"
  shows "\<exists>directory \<in> {lit ''/usr/local/bin'', lit ''/usr/bin'', lit ''/bin'', lit ''/usr/local/sbin''}.
    p = directory @ lit ''/'' @ program"
proof -
  obtain cache' where "resolve_program is_file program (resolve_all requests) = (Inr p, cache')"
    using assms(2) by (metis prod.collapse)
  from resolve_program_invar(2) [OF resolve_all_invar this assms(1)]
  show ?thesis by (auto simp: trusted_location_def trusted_program_directories_def slash_def lit_def)
qed

theorem resolved_program_is_trusted_witness:
  "fst (resolve_program (\<lambda>_. False) (lit ''tailscale'') (resolve_all [(\<lambda>_. True, lit ''tailscale'')]))
     = Inr (lit ''/usr/local/bin/tailscale'')
   \<and> (\<exists>directory \<in> {lit ''/usr/local/bin'', lit ''/usr/bin'', lit ''/bin'', lit ''/usr/local/sbin''}.
        lit ''/usr/local/bin/tailscale'' = directory @ lit ''/'' @ lit ''tailscale'')"
proof -
  have "fst (resolve_program (\<lambda>_. False) (lit ''tailscale'') (resolve_all [(\<lambda>_. True, lit ''tailscale'')]))
     = Inr (lit ''/usr/local/bin/tailscale'')"
    by code_simp
  moreover have "slash \<notin> set (lit ''tailscale'')" by code_simp
  ultimately show ?thesis using resolved_program_is_trusted by blast
qed

text \<open>
  No program inherits a way to load foreign code: the variables that steer the dynamic loader
  reach a child only if the caller put them into the command itself, and the search path is the
  trusted one unless the caller replaced it or asked for an empty environment.
\<close>

theorem child_environment_is_clean:
  assumes "build_command is_file own spec cache = (Inr command, cache')"
  shows "(key \<in> set loader_environment_keys \<longrightarrow>
      bc_environment command key = map_of (rev (cs_environment spec)) key)
    \<and> (cs_environment_policy spec \<noteq> EmptyEnvironment
         \<and> map_of (rev (cs_environment spec)) (lit ''PATH'') = None \<longrightarrow>
       bc_environment command (lit ''PATH'') = Some trusted_path)"
proof -
  have "bc_environment command = apply_environment_policy (cs_environment_policy spec) own
      ++ map_of (rev (cs_environment spec))"
    using assms by (auto simp: build_command_def Let_def split: prod.splits sum.splits)
  then show ?thesis
    using policy_no_loader [of key "cs_environment_policy spec" own]
      policy_path [of "cs_environment_policy spec" own]
    by (auto simp: map_add_def split: option.split)
qed

theorem child_environment_is_clean_witness:
  "\<exists>command. fst (build_command (\<lambda>_. True) [lit ''LD_PRELOAD'' \<mapsto> lit ''evil.so'']
      (command_spec_new (lit ''hyprctl'') []) hm_empty) = Inr command
    \<and> bc_environment command (lit ''LD_PRELOAD'') = None
    \<and> bc_environment command (lit ''PATH'') = Some trusted_path"
proof -
  obtain command cache' where built: "build_command (\<lambda>_. True) [lit ''LD_PRELOAD'' \<mapsto> lit ''evil.so'']
      (command_spec_new (lit ''hyprctl'') []) hm_empty = (Inr command, cache')"
  proof -
    have "is_ok (fst (build_command (\<lambda>_. True) [lit ''LD_PRELOAD'' \<mapsto> lit ''evil.so'']
        (command_spec_new (lit ''hyprctl'') []) hm_empty))"
      by code_simp
    then show thesis using that by (metis is_ok_iff prod.collapse)
  qed
  from child_environment_is_clean [OF this, of "lit ''LD_PRELOAD''"] built show ?thesis
    by (simp add: command_spec_new_def loader_environment_keys_def)
qed

text \<open>
  C36: Running a command ends with its process. If the call has not returned when its timeout has
  passed, it never reports a success any more. It returns at once when the kill signal cannot be
  sent; otherwise it returns exactly if the process exits, before the timeout or after it, and
  reports the timeout, or that the process could not be killed or waited for. Pipes that stay open
  do not hold it back, and a process that does not die of the signal does.
\<close>

theorem command_run_returns:
  assumes "fst (command_run is_file own spawn_fault kill spec before cache) = None"
  shows "(fst (command_run is_file own spawn_fault kill spec (before @ TimedOut # after) cache) = None
      \<longleftrightarrow> kill TimedOut None = None \<and> (\<forall>r. Exited r \<notin> set (before @ after)))
    \<and> (\<forall>r. fst (command_run is_file own spawn_fault kill spec (before @ TimedOut # after) cache) = Some r \<longrightarrow>
         (\<exists>e. r = Inl e \<and> (perr_code e = lit ''COMMAND_TIMEOUT'' \<or> perr_code e = lit ''PROCESS_TERMINATE_FAILED'')))"
proof -
  obtain command cache' where built: "build_command is_file own spec cache = (Inr command, cache')"
    and "spawn_fault command = None"
    using assms by (auto simp: command_run_def split: prod.splits sum.splits option.splits)
  then have run: "fst (command_run is_file own spawn_fault kill spec events cache) =
      map_option (\<lambda>r. try_then r (run_result spec)) (run_loop spec kill (Looping (None, None, None)) events)" for events
    by (simp add: command_run_def)
  let ?start = "Looping (None, None, None)"
  have "run_loop spec kill ?start before = None" "run_open kill False ?start" using assms unfolding run by simp_all
  then obtain s where s: "finished s = None" "run_open kill (False \<or> (\<exists>r. Exited r \<in> set before)) s"
    "\<And>rest. run_loop spec kill ?start (before @ rest) = run_loop spec kill s rest"
    by (rule run_loop_open) (rule that)
  show ?thesis
    using timed_out_run [OF s(1,2), of spec after] unfolding run s(3)
    by (cases "run_loop spec kill s (TimedOut # after)")
      (auto simp: ended_error_def simp del: run_loop.simps)
qed

theorem command_run_returns_witness:
  "fst (command_run (\<lambda>_. True) Map.empty (\<lambda>_. None) (\<lambda>_ _. None) (command_spec_new (lit ''pacman'') [])
     ([ReaderFinished True (Inr [])] @ TimedOut # [ReaderFinished False (Inr [])]) hm_empty) = None"
proof -
  have running: "fst (command_run (\<lambda>_. True) Map.empty (\<lambda>_. None) (\<lambda>_ _. None) (command_spec_new (lit ''pacman'') [])
     [ReaderFinished True (Inr [])] hm_empty) = None"
    by code_simp
  show ?thesis
    using command_run_returns [OF running, of "[ReaderFinished False (Inr [])]"] by simp
qed

text \<open>
  C35: A success is real: the output returned is what the two readers delivered, within the limits of
  the command, and the process exited by itself with status zero.
\<close>

theorem command_run_sound:
  assumes "command_run is_file own spawn_fault kill spec events cache = (Some (Inr result), cache')"
    and "reads_pipes spec events"
  shows "co_status result = 0 \<and> Exited (Inr (Some 0)) \<in> set events
    \<and> ReaderFinished True (Inr (co_stdout result)) \<in> set events
    \<and> ReaderFinished False (Inr (co_stderr result)) \<in> set events
    \<and> length (co_stdout result) \<le> cs_stdout_limit spec
    \<and> length (co_stderr result) \<le> cs_stderr_limit spec"
proof -
  from assms(1) obtain status out err where
    loop: "run_loop spec kill (Looping (None, None, None)) events = Some (Inr (status, out, err))"
    and result: "run_result spec (status, out, err) = Inr result"
    by (auto simp: command_run_def try_then_Inr split: prod.splits sum.splits option.splits)
  from result have eq: "status = Some 0" "co_status result = 0" "co_stdout result = out"
      "co_stderr result = err"
    by (auto simp: run_result_def status_code_def unwrap_or_def split: if_splits)
  from run_loop_Ok [OF loop] have mem: "Exited (Inr status) \<in> set events"
    "ReaderFinished True (Inr out) \<in> set events" "ReaderFinished False (Inr err) \<in> set events"
    by simp_all
  with assms(2) obtain s1 s2 where "read_pipe (cs_stdout_limit spec) s1 = Some (Inr out)"
    and "read_pipe (cs_stderr_limit spec) s2 = Some (Inr err)"
    unfolding reads_pipes_def by (metis (full_types))
  then show ?thesis using read_pipe_bounded mem eq by auto
qed

theorem command_run_sound_witness:
  "\<exists>result. fst (command_run (\<lambda>_. True) Map.empty (\<lambda>_. None) (\<lambda>_ _. None) (command_spec_new (lit ''pacman'') [])
      [ReaderFinished True (Inr [52]), Exited (Inr (Some 0)), ReaderFinished False (Inr [])] hm_empty)
      = Some (Inr result) \<and> co_stdout result = [52] \<and> length (co_stdout result) \<le> 1048576"
proof -
  let ?spec = "command_spec_new (lit ''pacman'') []"
  let ?events = "[ReaderFinished True (Inr [52]), Exited (Inr (Some 0)), ReaderFinished False (Inr [])]"
  obtain cache' where run: "command_run (\<lambda>_. True) Map.empty (\<lambda>_. None) (\<lambda>_ _. None) ?spec ?events hm_empty
      = (Some (Inr \<lparr>co_status = 0, co_stdout = [52], co_stderr = []\<rparr>), cache')"
  proof -
    have "fst (command_run (\<lambda>_. True) Map.empty (\<lambda>_. None) (\<lambda>_ _. None) ?spec ?events hm_empty)
        = Some (Inr \<lparr>co_status = 0, co_stdout = [52], co_stderr = []\<rparr>)"
      by code_simp
    then show thesis using that by (metis prod.collapse)
  qed
  have "read_pipe 1048576 (Some [Inr [52], Inr []]) = Some (Inr [52])"
    by (simp add: read_pipe_def)
  moreover have "read_pipe (cs_stderr_limit ?spec) None = Some (Inr [])" by (simp add: read_pipe_def)
  ultimately have "reads_pipes ?spec ?events"
    unfolding reads_pipes_def by (auto simp: command_spec_new_def)
  from command_run_sound [OF run this] run show ?thesis by (simp add: command_spec_new_def)
qed

end
