(* ===== verification/HttpClient.thy ===== *)
theory HttpClient
  imports AgentFacts Utf8 IpText
begin

text \<open>
  \<open>crates/omdesky-platform/src/agent_client.rs\<close>: the client of another agent's HTTP service, with
  the routes of the service (\<open>router\<close> in \<open>crates/omdesky-agent/src/lib.rs\<close>) it speaks to. The HTTP
  library is a call on the world that yields a response or an error; serde_json is the records
  \<open>wire_format\<close>, with one parser per answer, and \<open>request_format\<close>, with the printer and the parsers
  of the bodies of requests. The last section joins the client to the modelled
  agent: what the client returns is what the agent answered.
\<close>

definition probe_timeout :: duration where
  "probe_timeout = from_secs 2"

definition request_timeout :: duration where
  "request_timeout = from_secs 10"

definition max_response_bytes :: nat where
  "max_response_bytes = 1024 * 1024"

definition max_node_field_bytes :: nat where
  "max_node_field_bytes = 256"

definition max_version_bytes :: nat where
  "max_version_bytes = 128"

definition max_capabilities :: nat where
  "max_capabilities = 128"

definition max_capability_bytes :: nat where
  "max_capability_bytes = 128"

section \<open>Requests and responses\<close>

datatype http_method = HttpGet | HttpPost

text \<open>The body of a request, as the value the client prints.\<close>

datatype client_body =
    NoBody
  | EmptyObject
  | FocusRequest workspace_target
  | PairRequest sunshine_pair_request
  | CommandRequestBody command_request

record http_request =
  hq_method :: http_method
  hq_url :: ustr
  hq_release :: ustr
  hq_timeout :: duration
  hq_body :: client_body

text \<open>
  A response: its status, the release header if it is printable, and the chunks of its body, of
  which one may be an error.
\<close>

record http_response =
  hp_status :: nat
  hp_release :: "ustr option"
  hp_chunks :: "(ustr + byte list) list"

type_synonym 'w http_link = "http_request \<Rightarrow> ('w, ustr + http_response) call"

record wire_format =
  js_health :: "byte list \<Rightarrow> health_response option"
  js_node :: "byte list \<Rightarrow> node_info_response option"
  js_capabilities :: "byte list \<Rightarrow> ustr list option"
  js_displays :: "byte list \<Rightarrow> display list option"
  js_workspaces :: "byte list \<Rightarrow> workspace list option"
  js_windows :: "byte list \<Rightarrow> window list option"
  js_active_window :: "byte list \<Rightarrow> window option option"
  js_focus :: "byte list \<Rightarrow> bool option"
  js_command :: "byte list \<Rightarrow> command_response option"
  js_sunshine :: "byte list \<Rightarrow> sunshine_status_response option"
  js_challenge :: "byte list \<Rightarrow> sunshine_pair_challenge_response option"
  js_pair :: "byte list \<Rightarrow> bool option"
  js_envelope :: "byte list \<Rightarrow> error_envelope option"
  js_status_text :: "nat \<Rightarrow> ustr"

definition agent_url :: "agent_endpoint \<Rightarrow> ustr \<Rightarrow> ustr" where
  "agent_url endpoint path =
     (let address = (if is_ipv4 (ep_address endpoint) then show_ip (ep_address endpoint)
                     else lit ''['' @ show_ip (ep_address endpoint) @ lit '']'')
      in lit ''http://'' @ address @ lit '':'' @ show_nat (unat (ep_port endpoint)) @ path)"

definition network_error :: port_error where
  "network_error = port_error_new (lit ''AGENT_UNREACHABLE'') (lit ''the device could not be reached'') True"

definition response_limit_error :: port_error where
  "response_limit_error = port_error_new (lit ''AGENT_RESPONSE_LIMIT'')
     (lit ''the device response exceeded the maximum size'') False"

definition protocol_invalid_error :: port_error where
  "protocol_invalid_error = port_error_new (lit ''AGENT_PROTOCOL_INVALID'')
     (lit ''the device returned an incompatible response'') False"

definition field_limit_error :: port_error where
  "field_limit_error = port_error_new (lit ''AGENT_FIELD_LIMIT'')
     (lit ''the device response contained an oversized field'') False"

definition http_error :: "wire_format \<Rightarrow> nat \<Rightarrow> error_envelope option \<Rightarrow> port_error" where
  "http_error js status envelope =
     (case envelope of
        Some e \<Rightarrow>
          (case protocol_error_known_code (envelope_error e) of
             Some code \<Rightarrow>
               port_error_new (error_code_as_str code) (pe_message (envelope_error e)) (pe_retryable (envelope_error e))
           | None \<Rightarrow>
               port_error_new (lit ''AGENT_REQUEST_FAILED'') (pe_message (envelope_error e))
                 (pe_retryable (envelope_error e)))
      | None \<Rightarrow>
          port_error_new (lit ''AGENT_REQUEST_FAILED'') (lit ''agent returned HTTP '' @ js_status_text js status)
            (500 \<le> status \<and> status < 600))"

fun read_body :: "byte list \<Rightarrow> (ustr + byte list) list \<Rightarrow> byte list port_result" where
  "read_body body [] = Inr body"
| "read_body body (Inl e # chunks) = Inl network_error"
| "read_body body (Inr chunk # chunks) =
     (if length body + length chunk > max_response_bytes then Inl response_limit_error
      else read_body (body @ chunk) chunks)"

definition parse_response :: "wire_format \<Rightarrow> (byte list \<Rightarrow> 'a option) \<Rightarrow> http_response \<Rightarrow> 'a port_result" where
  "parse_response js decode response =
     try_then (read_body [] (hp_chunks response))
       (\<lambda>body.
          if \<not> (200 \<le> hp_status response \<and> hp_status response < 300)
          then Inl (http_error js (hp_status response) (js_envelope js body))
          else ok_or (decode body) protocol_invalid_error)"

definition release_mismatch :: "ustr option \<Rightarrow> port_error" where
  "release_mismatch remote =
     (let name = (case remote of None \<Rightarrow> lit ''an earlier release''
                  | Some r \<Rightarrow> sanitize_for_display r display_name_limit)
      in port_error_new (lit ''VERSION_INCOMPATIBLE'')
           (lit ''the device runs Omdesky '' @ name @ lit '' and this computer runs '' @ release) False)"

definition verify_release :: "http_response \<Rightarrow> unit port_result" where
  "verify_release response =
     (if option_any is_compatible_release (hp_release response) then Inr ()
      else Inl (release_mismatch (hp_release response)))"

definition exchange ::
    "wire_format \<Rightarrow> (byte list \<Rightarrow> 'a option) \<Rightarrow> 'w http_link \<Rightarrow> http_request \<Rightarrow> ('w, 'a port_result) call" where
  "exchange js decode send request = (\<lambda>w.
     case send request w of
       (Inl e, w') \<Rightarrow> (Inl network_error, w')
     | (Inr response, w') \<Rightarrow>
         (try_then (verify_release response) (\<lambda>_. parse_response js decode response), w'))"

definition http_get ::
    "wire_format \<Rightarrow> (byte list \<Rightarrow> 'a option) \<Rightarrow> 'w http_link \<Rightarrow> agent_endpoint \<Rightarrow> ustr \<Rightarrow> duration
       \<Rightarrow> ('w, 'a port_result) call" where
  "http_get js decode send endpoint path limit =
     exchange js decode send
       \<lparr>hq_method = HttpGet, hq_url = agent_url endpoint path, hq_release = release,
        hq_timeout = limit, hq_body = NoBody\<rparr>"

definition http_post ::
    "wire_format \<Rightarrow> (byte list \<Rightarrow> 'a option) \<Rightarrow> 'w http_link \<Rightarrow> agent_endpoint \<Rightarrow> ustr \<Rightarrow> client_body
       \<Rightarrow> ('w, 'a port_result) call" where
  "http_post js decode send endpoint path body =
     exchange js decode send
       \<lparr>hq_method = HttpPost, hq_url = agent_url endpoint path, hq_release = release,
        hq_timeout = request_timeout, hq_body = body\<rparr>"

section \<open>What is accepted and shown\<close>

definition sanitize_display :: "display \<Rightarrow> display" where
  "sanitize_display d =
     d\<lparr>d_id := sanitize_for_display (d_id d) display_name_limit,
       d_name := sanitize_for_display (d_name d) display_name_limit\<rparr>"

definition sanitize_workspace :: "workspace \<Rightarrow> workspace" where
  "sanitize_workspace w =
     w\<lparr>ws_name := sanitize_optional (ws_name w) display_name_limit,
       ws_monitor := sanitize_optional (ws_monitor w) display_name_limit\<rparr>"

definition sanitize_window :: "window \<Rightarrow> window" where
  "sanitize_window w =
     w\<lparr>win_app_id := sanitize_optional (win_app_id w) display_name_limit,
       win_class := sanitize_optional (win_class w) display_name_limit,
       win_title := sanitize_optional (win_title w) display_line_limit\<rparr>"

definition sanitize_node_info :: "node_info_response \<Rightarrow> node_info_response" where
  "sanitize_node_info r =
     \<lparr>ni_node_id = sanitize_for_display (ni_node_id r) display_name_limit,
      ni_hostname = sanitize_for_display (ni_hostname r) display_name_limit,
      ni_omarchy_version = sanitize_for_display (ni_omarchy_version r) display_name_limit,
      ni_agent_version = sanitize_for_display (ni_agent_version r) display_name_limit,
      ni_capabilities = map (\<lambda>c. sanitize_for_display c display_name_limit) (ni_capabilities r)\<rparr>"

definition validate_node_info :: "node_info_response \<Rightarrow> node_info_response port_result" where
  "validate_node_info r =
     (let fields_are_valid =
        utf8_len (ni_node_id r) \<le> max_node_field_bytes
        \<and> utf8_len (ni_hostname r) \<le> max_node_field_bytes
        \<and> utf8_len (ni_omarchy_version r) \<le> max_version_bytes
        \<and> utf8_len (ni_agent_version r) \<le> max_version_bytes
        \<and> length (ni_capabilities r) \<le> max_capabilities
        \<and> list_all (\<lambda>c. utf8_len c \<le> max_capability_bytes) (ni_capabilities r)
      in if \<not> fields_are_valid then Inl field_limit_error else Inr (sanitize_node_info r))"

definition after :: "('a \<Rightarrow> 'e + 'b) \<Rightarrow> ('w, 'e + 'a) call \<Rightarrow> ('w, 'e + 'b) call" where
  "after f c = call_then c (\<lambda>x. returning (f x))"

section \<open>The operations of the client\<close>

definition client_health ::
    "wire_format \<Rightarrow> 'w http_link \<Rightarrow> agent_endpoint \<Rightarrow> ('w, health_response port_result) call" where
  "client_health js send endpoint = (\<lambda>w.
     case send \<lparr>hq_method = HttpGet, hq_url = agent_url endpoint (lit ''/v1/health''),
                hq_release = release, hq_timeout = probe_timeout, hq_body = NoBody\<rparr> w of
       (Inl e, w') \<Rightarrow> (Inl network_error, w')
     | (Inr response, w') \<Rightarrow>
         (try_then (parse_response js (js_health js) response)
            (\<lambda>health.
               if utf8_len (hr_agent_version health) > max_version_bytes then Inl field_limit_error
               else Inr (health\<lparr>hr_agent_version :=
                      sanitize_for_display (hr_agent_version health) display_name_limit\<rparr>)), w'))"

definition client_node_info ::
    "wire_format \<Rightarrow> 'w http_link \<Rightarrow> agent_endpoint \<Rightarrow> ('w, node_info_response port_result) call" where
  "client_node_info js send endpoint =
     after validate_node_info (http_get js (js_node js) send endpoint (lit ''/v1/node'') request_timeout)"

definition client_granted_capabilities ::
    "wire_format \<Rightarrow> 'w http_link \<Rightarrow> agent_endpoint \<Rightarrow> ('w, control_capability list port_result) call" where
  "client_granted_capabilities js send endpoint =
     http_get js (\<lambda>b. map_option known_capabilities (js_capabilities js b)) send endpoint
       (lit ''/v1/capabilities'') request_timeout"

definition client_displays ::
    "wire_format \<Rightarrow> 'w http_link \<Rightarrow> agent_endpoint \<Rightarrow> ('w, display list port_result) call" where
  "client_displays js send endpoint =
     after (\<lambda>ds. Inr (map sanitize_display ds))
       (http_get js (js_displays js) send endpoint (lit ''/v1/displays'') request_timeout)"

definition client_workspaces ::
    "wire_format \<Rightarrow> 'w http_link \<Rightarrow> agent_endpoint \<Rightarrow> ('w, workspace list port_result) call" where
  "client_workspaces js send endpoint =
     after (\<lambda>ws. Inr (map sanitize_workspace ws))
       (http_get js (js_workspaces js) send endpoint (lit ''/v1/workspaces'') request_timeout)"

definition client_windows ::
    "wire_format \<Rightarrow> 'w http_link \<Rightarrow> agent_endpoint \<Rightarrow> ('w, window list port_result) call" where
  "client_windows js send endpoint =
     after (\<lambda>ws. Inr (map sanitize_window ws))
       (http_get js (js_windows js) send endpoint (lit ''/v1/windows'') request_timeout)"

definition client_active_window ::
    "wire_format \<Rightarrow> 'w http_link \<Rightarrow> agent_endpoint \<Rightarrow> ('w, window option port_result) call" where
  "client_active_window js send endpoint =
     after (\<lambda>w. Inr (map_option sanitize_window w))
       (http_get js (js_active_window js) send endpoint (lit ''/v1/windows/active'') request_timeout)"

definition client_focus_workspace ::
    "wire_format \<Rightarrow> 'w http_link \<Rightarrow> agent_endpoint \<Rightarrow> workspace_target \<Rightarrow> ('w, unit port_result) call" where
  "client_focus_workspace js send endpoint target =
     after (\<lambda>_. Inr ()) (http_post js (js_focus js) send endpoint (lit ''/v1/workspaces/focus'') (FocusRequest target))"

definition client_focus_window ::
    "wire_format \<Rightarrow> 'w http_link \<Rightarrow> agent_endpoint \<Rightarrow> ustr \<Rightarrow> ('w, unit port_result) call" where
  "client_focus_window js send endpoint window =
     after (\<lambda>_. Inr ())
       (http_post js (js_focus js) send endpoint (lit ''/v1/windows/'' @ window @ lit ''/focus'') EmptyObject)"

definition client_sunshine_status ::
    "wire_format \<Rightarrow> 'w http_link \<Rightarrow> agent_endpoint \<Rightarrow> ('w, sunshine_status_response port_result) call" where
  "client_sunshine_status js send endpoint =
     http_get js (js_sunshine js) send endpoint (lit ''/v1/sunshine'') request_timeout"

definition client_pair_challenge ::
    "wire_format \<Rightarrow> 'w http_link \<Rightarrow> agent_endpoint
       \<Rightarrow> ('w, sunshine_pair_challenge_response port_result) call" where
  "client_pair_challenge js send endpoint =
     http_post js (js_challenge js) send endpoint (lit ''/v1/sunshine/pair/challenge'') EmptyObject"

definition client_pair ::
    "wire_format \<Rightarrow> 'w http_link \<Rightarrow> agent_endpoint \<Rightarrow> sunshine_pair_request \<Rightarrow> ('w, unit port_result) call" where
  "client_pair js send endpoint request =
     after (\<lambda>_. Inr ()) (http_post js (js_pair js) send endpoint (lit ''/v1/sunshine/pair'') (PairRequest request))"

definition client_send_command ::
    "wire_format \<Rightarrow> 'w http_link \<Rightarrow> agent_endpoint \<Rightarrow> command_request \<Rightarrow> ('w, command_response port_result) call" where
  "client_send_command js send endpoint request =
     http_post js (js_command js) send endpoint (lit ''/v1/commands'') (CommandRequestBody request)"

section \<open>Reading a response\<close>

lemma read_body_chunks:
  "read_body body (map Inr chunks) =
     (if length (body @ concat chunks) \<le> max_response_bytes \<or> chunks = [] then Inr (body @ concat chunks)
      else Inl response_limit_error)"
  by (induction chunks arbitrary: body) auto

lemma read_body_bounded:
  "read_body body chunks = Inr bytes \<Longrightarrow> length body \<le> max_response_bytes \<Longrightarrow>
     length bytes \<le> max_response_bytes"
  by (induction body chunks rule: read_body.induct) (auto split: if_splits)

lemma parse_response_Inr:
  "parse_response js decode response = Inr x \<Longrightarrow>
     \<exists>bytes. length bytes \<le> max_response_bytes \<and> decode bytes = Some x \<and> 200 \<le> hp_status response
       \<and> hp_status response < 300"
  using read_body_bounded [of "[]" "hp_chunks response"]
  by (auto simp: parse_response_def try_then_Inr split: if_splits)

lemma exchange_Inr:
  "exchange js decode send request w = (Inr x, w') \<Longrightarrow>
     \<exists>response. send request w = (Inr response, w') \<and> option_any is_compatible_release (hp_release response)
       \<and> parse_response js decode response = Inr x"
  by (auto simp: exchange_def verify_release_def try_then_Inr split: prod.splits sum.splits if_splits)

lemma after_Inr: "after f c w = (Inr y, w') \<Longrightarrow> \<exists>x. c w = (Inr x, w') \<and> f x = Inr y"
  by (auto simp: after_def call_then_def returning_def split: prod.splits sum.splits)

lemma after_map: "after (\<lambda>x. Inr (f x)) c w = (case c w of (r, w') \<Rightarrow> (map_ok f r, w'))"
  by (auto simp: after_def call_then_def split: prod.splits sum.splits)

section \<open>The client and the agent\<close>

text \<open>
  serde_json on the bodies of requests: what the client prints of them, and the parser of each kind
  of body at the agent. A body that is too long or does not parse is rejected.
\<close>

record request_format =
  rf_print :: "client_body \<Rightarrow> byte list"
  rf_focus :: "byte list \<Rightarrow> workspace_target option"
  rf_pair :: "byte list \<Rightarrow> sunshine_pair_request option"
  rf_command :: "byte list \<Rightarrow> command_request option"

definition max_request_body_bytes :: nat where
  "max_request_body_bytes = 64 * 1024"

definition extract_body :: "(byte list \<Rightarrow> 'a option) \<Rightarrow> byte list \<Rightarrow> unit + 'a" where
  "extract_body decode bytes =
     (if length bytes > max_request_body_bytes then Inl () else ok_or (decode bytes) ())"

text \<open>The agent reads back the body the client printed.\<close>

fun heard :: "request_format \<Rightarrow> client_body \<Rightarrow> bool" where
  "heard rf (FocusRequest t) \<longleftrightarrow> extract_body (rf_focus rf) (rf_print rf (FocusRequest t)) = Inr t"
| "heard rf (PairRequest r) \<longleftrightarrow> extract_body (rf_pair rf) (rf_print rf (PairRequest r)) = Inr r"
| "heard rf (CommandRequestBody r) \<longleftrightarrow>
     extract_body (rf_command rf) (rf_print rf (CommandRequestBody r)) = Inr r"
| "heard rf _ \<longleftrightarrow> True"

definition path_slash :: "ucs \<Rightarrow> bool" where
  "path_slash c \<longleftrightarrow> c = 47"

text \<open>
  The routes of the service for the requests of the client. The path parameter of a window is taken
  as it is, so this is the router for identifiers that are plain segments of a path.
\<close>

definition plain_segment :: "ustr \<Rightarrow> bool" where
  "plain_segment t \<longleftrightarrow> t \<noteq> [] \<and>
     list_all (\<lambda>c. 48 \<le> c \<and> c \<le> 57 \<or> 65 \<le> c \<and> c \<le> 90 \<or> 97 \<le> c \<and> c \<le> 122 \<or> c = 45 \<or> c = 95) t"

definition route_request :: "request_format \<Rightarrow> http_method \<Rightarrow> ustr \<Rightarrow> byte list \<Rightarrow> api_request option" where
  "route_request rf m path body =
     (case m of
        HttpGet \<Rightarrow>
          if path = lit ''/v1/health'' then Some GetHealth
          else if path = lit ''/v1/node'' then Some GetNode
          else if path = lit ''/v1/capabilities'' then Some GetCapabilities
          else if path = lit ''/v1/displays'' then Some GetDisplays
          else if path = lit ''/v1/workspaces'' then Some GetWorkspaces
          else if path = lit ''/v1/windows'' then Some (GetWindows \<lparr>wf_workspace = None, wf_app_id = None\<rparr>)
          else if path = lit ''/v1/windows/active'' then Some GetActiveWindow
          else if path = lit ''/v1/sunshine'' then Some GetSunshine
          else None
      | HttpPost \<Rightarrow>
          if path = lit ''/v1/workspaces/focus'' then
            Some (PostFocusWorkspace (extract_body (rf_focus rf) body))
          else if path = lit ''/v1/commands'' then
            Some (PostCommand (extract_body (rf_command rf) body))
          else if path = lit ''/v1/sunshine/pair/challenge'' then Some PostPairChallenge
          else if path = lit ''/v1/sunshine/pair'' then
            Some (PostPair (extract_body (rf_pair rf) body))
          else
            (case split_on path_slash path of
               [before, v1, windows, window, focus] \<Rightarrow>
                 if before = [] \<and> v1 = lit ''v1'' \<and> windows = lit ''windows'' \<and> window \<noteq> []
                    \<and> focus = lit ''focus''
                 then Some (PostFocusWindow window) else None
             | _ \<Rightarrow> None))"

text \<open>
  A connection to a modelled agent at an endpoint. The agent sees the printed body of the request.
  \<open>encode\<close> is what serde_json prints for the body of a response and \<open>pieces\<close> how the network cuts it into chunks. A request for another address
  fails, one without a route is answered 404.
\<close>

definition agent_connection ::
    "request_format \<Rightarrow> (api_body \<Rightarrow> byte list) \<Rightarrow> (byte list \<Rightarrow> byte list list) \<Rightarrow> agent_endpoint \<Rightarrow> 'w agent_env \<Rightarrow> request_ctx
       \<Rightarrow> (agent_state \<times> 'w) http_link" where
  "agent_connection rf encode pieces endpoint env ctx request = (\<lambda>s.
     case strip_prefix (agent_url endpoint []) (hq_url request) of
       None \<Rightarrow> (Inl (lit ''connection refused''), s)
     | Some path \<Rightarrow>
         (case route_request rf (hq_method request) path (rf_print rf (hq_body request)) of
            None \<Rightarrow> (Inr \<lparr>hp_status = 404, hp_release = Some release, hp_chunks = []\<rparr>, s)
          | Some r \<Rightarrow>
              (case serve env ctx (Some (hq_release request)) r s of
                 (response, s') \<Rightarrow>
                   (Inr \<lparr>hp_status = ar_status response, hp_release = Some (ar_release response),
                         hp_chunks = map Inr (pieces (encode (ar_body response)))\<rparr>, s'))))"

definition error_at_client :: "api_error \<Rightarrow> port_error" where
  "error_at_client e =
     port_error_new (error_code_as_str (api_code e)) (api_message e) (error_code_retryable (api_code e))"

text \<open>The parser reads back what the printer printed for a body.\<close>

fun reads_back :: "wire_format \<Rightarrow> byte list \<Rightarrow> api_body \<Rightarrow> bool" where
  "reads_back js b (HealthBody x) \<longleftrightarrow> js_health js b = Some x"
| "reads_back js b (NodeBody x) \<longleftrightarrow> js_node js b = Some x"
| "reads_back js b (CapabilitiesBody x) \<longleftrightarrow> js_capabilities js b = Some (map capability_as_str x)"
| "reads_back js b (DisplaysBody x) \<longleftrightarrow> js_displays js b = Some x"
| "reads_back js b (WorkspacesBody x) \<longleftrightarrow> js_workspaces js b = Some x"
| "reads_back js b (WindowsBody x) \<longleftrightarrow> js_windows js b = Some x"
| "reads_back js b (ActiveWindowBody x) \<longleftrightarrow> js_active_window js b = Some x"
| "reads_back js b (FocusBody x) \<longleftrightarrow> js_focus js b = Some x"
| "reads_back js b (CommandBody x) \<longleftrightarrow> js_command js b = Some x"
| "reads_back js b (SunshineBody x) \<longleftrightarrow> js_sunshine js b = Some x"
| "reads_back js b (ChallengeBody x) \<longleftrightarrow> js_challenge js b = Some x"
| "reads_back js b (PairBody x) \<longleftrightarrow> js_pair js b = Some x"
| "reads_back js b (ErrorBody x) \<longleftrightarrow> js_envelope js b = Some x"

definition carries ::
    "wire_format \<Rightarrow> (api_body \<Rightarrow> byte list) \<Rightarrow> (byte list \<Rightarrow> byte list list) \<Rightarrow> api_body \<Rightarrow> bool" where
  "carries js encode pieces body \<longleftrightarrow>
     concat (pieces (encode body)) = encode body \<and> length (encode body) \<le> max_response_bytes
     \<and> reads_back js (encode body) body"

lemma release_compatible_self: "is_compatible_release release"
  by code_simp

lemma known_capabilities_names: "known_capabilities (map capability_as_str cs) = cs"
proof -
  have "capability_from_str (capability_as_str c) = Inr c" for c
    by (simp add: capability_name_roundtrip)
  then show ?thesis by (induction cs) (simp_all add: known_capabilities_def List.map_filter_def)
qed

lemma exchange_agent:
  assumes "route_request rf m path (rf_print rf body) = Some r" and "r \<noteq> GetHealth"
    and "controlled_route env ctx r s = (result, s')"
    and "carries js encode pieces (snd (into_response result))"
    and "\<And>x. result = Inr x \<Longrightarrow> decode (encode x) = Some (got x)"
  shows "exchange js decode (agent_connection rf encode pieces ep env ctx)
      \<lparr>hq_method = m, hq_url = agent_url ep path, hq_release = release, hq_timeout = limit, hq_body = body\<rparr> s
    = (map_ok got (map_err error_at_client result), s')"
proof -
  have url: "strip_prefix (agent_url ep []) (agent_url ep path) = Some path"
    by (simp add: strip_prefix_Some agent_url_def Let_def)
  have "serve env ctx (Some release) r s =
      (\<lparr>ar_status = fst (into_response result), ar_body = snd (into_response result), ar_release = release\<rparr>, s')"
    using assms(2,3) release_compatible_self
    by (simp add: serve_def require_compatible_release_def split: prod.split)
  with url assms(1) have sent: "agent_connection rf encode pieces ep env ctx
      \<lparr>hq_method = m, hq_url = agent_url ep path, hq_release = release, hq_timeout = limit, hq_body = body\<rparr> s
    = (Inr \<lparr>hp_status = fst (into_response result), hp_release = Some release,
         hp_chunks = map Inr (pieces (encode (snd (into_response result))))\<rparr>, s')"
    by (simp add: agent_connection_def)
  have body: "read_body [] (map Inr (pieces (encode (snd (into_response result)))))
      = Inr (encode (snd (into_response result)))"
    using assms(4) by (auto simp: read_body_chunks carries_def)
  show ?thesis
  proof (cases result)
    case (Inl e)
    have "\<not> (200 \<le> error_code_http_status (api_code e) \<and> error_code_http_status (api_code e) < 300)"
      by (cases "api_code e") (simp_all add: error_code_http_status_def)
    with Inl sent body assms(4) show ?thesis
      by (auto simp: exchange_def verify_release_def release_compatible_self parse_response_def into_response_def
          carries_def http_error_def error_at_client_def error_envelope_new_def protocol_error_known_code_def)
  next
    case (Inr x)
    with sent body assms(5) show ?thesis
      by (simp add: exchange_def verify_release_def release_compatible_self parse_response_def into_response_def)
  qed
qed

text \<open>The answer of the agent to one request arrives in one piece or several.\<close>

definition transfers ::
    "wire_format \<Rightarrow> (api_body \<Rightarrow> byte list) \<Rightarrow> (byte list \<Rightarrow> byte list list) \<Rightarrow> 'w agent_env \<Rightarrow> request_ctx
       \<Rightarrow> api_request \<Rightarrow> agent_state \<times> 'w \<Rightarrow> bool" where
  "transfers js encode pieces env ctx r s \<longleftrightarrow>
     carries js encode pieces (ar_body (fst (serve env ctx (Some release) r s)))"

definition answer_at_client :: "('a \<Rightarrow> 'b) \<Rightarrow> (api_error + 'a) \<times> 's \<Rightarrow> 'b port_result \<times> 's" where
  "answer_at_client f answer = (case answer of (r, s') \<Rightarrow> (map_ok f (map_err error_at_client r), s'))"

lemma exchange_answer:
  assumes "transfers js encode pieces env ctx r s" and "route_request rf m path (rf_print rf body) = Some r"
    and "r \<noteq> GetHealth" and "controlled_route env ctx r = mapped inject handler"
    and "\<And>b x. reads_back js b (inject x) \<Longrightarrow> decode b = Some (got x)"
  shows "exchange js decode (agent_connection rf encode pieces ep env ctx)
      \<lparr>hq_method = m, hq_url = agent_url ep path, hq_release = release, hq_timeout = limit, hq_body = body\<rparr> s
    = answer_at_client got (handler s)"
proof -
  obtain result s' where run: "handler s = (result, s')" by (cases "handler s")
  then have routed: "controlled_route env ctx r s = (map_ok inject result, s')"
    using assms(4) by (simp add: mapped_def)
  have carried: "carries js encode pieces (snd (into_response (map_ok inject result)))"
    using assms(1,3) routed release_compatible_self
    by (simp add: transfers_def serve_def require_compatible_release_def split: prod.splits)
  show ?thesis
  proof (cases result)
    case (Inl e)
    from exchange_agent [OF assms(2,3) routed carried, of decode undefined] Inl run show ?thesis
      by (simp add: answer_at_client_def)
  next
    case (Inr x)
    with carried have "decode (encode (inject x)) = Some (got x)"
      using assms(5) by (simp add: carries_def into_response_def)
    from exchange_agent [OF assms(2,3) routed carried, of decode "\<lambda>_. got x"] this Inr run
    show ?thesis by (simp add: answer_at_client_def)
  qed
qed

lemma after_answer:
  "c s = answer_at_client (\<lambda>x. x) answer \<Longrightarrow> after (\<lambda>x. Inr (g x)) c s = answer_at_client g answer"
  by (auto simp: after_map answer_at_client_def map_ok_def split: prod.splits sum.splits)

lemma answer_id: "answer_at_client (\<lambda>x. x) answer = (case answer of (r, s') \<Rightarrow> (map_err error_at_client r, s'))"
  by (auto simp: answer_at_client_def map_ok_def split: prod.splits sum.splits)

lemmas http_call_defs = http_get_def http_post_def

lemma send_command_over_agent:
  "heard rf (CommandRequestBody request) \<Longrightarrow> transfers js encode pieces env ctx (PostCommand (Inr request)) s \<Longrightarrow>
     client_send_command js (agent_connection rf encode pieces ep env ctx) ep request s
       = answer_at_client (\<lambda>x. x) (run_command env ctx (Inr request) s)"
  unfolding client_send_command_def http_post_def
  by (erule exchange_answer [where inject = CommandBody]) (simp_all add: route_request_def)

lemma capabilities_over_agent:
  "transfers js encode pieces env ctx GetCapabilities s \<Longrightarrow>
     client_granted_capabilities js (agent_connection rf encode pieces ep env ctx) ep s
       = answer_at_client (\<lambda>x. x) (capabilities_handler env ctx s)"
  unfolding client_granted_capabilities_def http_get_def
  by (erule exchange_answer [where inject = CapabilitiesBody]) (simp_all add: route_request_def known_capabilities_names)

lemma sunshine_status_over_agent:
  "transfers js encode pieces env ctx GetSunshine s \<Longrightarrow>
     client_sunshine_status js (agent_connection rf encode pieces ep env ctx) ep s
       = answer_at_client (\<lambda>x. x) (sunshine_status_handler env ctx s)"
  unfolding client_sunshine_status_def http_get_def
  by (erule exchange_answer [where inject = SunshineBody]) (simp_all add: route_request_def)

lemma pair_challenge_over_agent:
  "transfers js encode pieces env ctx PostPairChallenge s \<Longrightarrow>
     client_pair_challenge js (agent_connection rf encode pieces ep env ctx) ep s
       = answer_at_client (\<lambda>x. x) (pair_challenge_handler env ctx s)"
  unfolding client_pair_challenge_def http_post_def
  by (erule exchange_answer [where inject = ChallengeBody]) (simp_all add: route_request_def)

lemma after_exchange_answer:
  assumes "transfers js encode pieces env ctx r s" and "route_request rf m path (rf_print rf body) = Some r"
    and "r \<noteq> GetHealth" and "controlled_route env ctx r = mapped inject handler"
    and "\<And>b x. reads_back js b (inject x) \<Longrightarrow> decode b = Some x"
  shows "after (\<lambda>x. Inr (g x)) (exchange js decode (agent_connection rf encode pieces ep env ctx)
      \<lparr>hq_method = m, hq_url = agent_url ep path, hq_release = release, hq_timeout = limit, hq_body = body\<rparr>) s
    = answer_at_client g (handler s)"
proof -
  have "exchange js decode (agent_connection rf encode pieces ep env ctx)
      \<lparr>hq_method = m, hq_url = agent_url ep path, hq_release = release, hq_timeout = limit, hq_body = body\<rparr> s
    = answer_at_client (\<lambda>x. x) (handler s)"
    by (rule exchange_answer [OF assms(1-4)]) (rule assms(5))
  then show ?thesis by (rule after_answer)
qed

lemma displays_over_agent:
  "transfers js encode pieces env ctx GetDisplays s \<Longrightarrow>
     client_displays js (agent_connection rf encode pieces ep env ctx) ep s
       = answer_at_client (map sanitize_display) (displays_handler env ctx s)"
  unfolding client_displays_def http_get_def
  by (erule after_exchange_answer [where inject = DisplaysBody]) (simp_all add: route_request_def)

lemma workspaces_over_agent:
  "transfers js encode pieces env ctx GetWorkspaces s \<Longrightarrow>
     client_workspaces js (agent_connection rf encode pieces ep env ctx) ep s
       = answer_at_client (map sanitize_workspace) (workspaces_handler env ctx s)"
  unfolding client_workspaces_def http_get_def
  by (erule after_exchange_answer [where inject = WorkspacesBody]) (simp_all add: route_request_def)

lemma windows_over_agent:
  "transfers js encode pieces env ctx (GetWindows \<lparr>wf_workspace = None, wf_app_id = None\<rparr>) s \<Longrightarrow>
     client_windows js (agent_connection rf encode pieces ep env ctx) ep s
       = answer_at_client (map sanitize_window) (windows_handler env ctx \<lparr>wf_workspace = None, wf_app_id = None\<rparr> s)"
  unfolding client_windows_def http_get_def
  by (erule after_exchange_answer [where inject = WindowsBody]) (simp_all add: route_request_def)

lemma active_window_over_agent:
  "transfers js encode pieces env ctx GetActiveWindow s \<Longrightarrow>
     client_active_window js (agent_connection rf encode pieces ep env ctx) ep s
       = answer_at_client (map_option sanitize_window) (active_window_handler env ctx s)"
  unfolding client_active_window_def http_get_def
  by (erule after_exchange_answer [where inject = ActiveWindowBody]) (simp_all add: route_request_def)

lemma pair_over_agent:
  "heard rf (PairRequest request) \<Longrightarrow> transfers js encode pieces env ctx (PostPair (Inr request)) s \<Longrightarrow>
     client_pair js (agent_connection rf encode pieces ep env ctx) ep request s
       = answer_at_client (\<lambda>_. ()) (pair_handler env ctx (Inr request) s)"
  unfolding client_pair_def http_post_def
  by (erule after_exchange_answer [where inject = PairBody]) (simp_all add: route_request_def)

lemma focus_workspace_over_agent:
  "heard rf (FocusRequest target) \<Longrightarrow> transfers js encode pieces env ctx (PostFocusWorkspace (Inr target)) s \<Longrightarrow>
     client_focus_workspace js (agent_connection rf encode pieces ep env ctx) ep target s
       = answer_at_client (\<lambda>_. ()) (focus_workspace_handler env ctx (Inr target) s)"
  unfolding client_focus_workspace_def http_post_def
  by (erule after_exchange_answer [where inject = FocusBody]) (simp_all add: route_request_def)

lemma route_focus_window:
  assumes "plain_segment window"
  shows "route_request rf HttpPost (lit ''/v1/windows/'' @ window @ lit ''/focus'') body = Some (PostFocusWindow window)"
proof -
  have "\<not> path_slash c" if "c \<in> set window" for c
    using assms that by (auto simp: plain_segment_def path_slash_def list_all_iff)
  then have "split_on path_slash (lit ''/v1/windows/'' @ window @ lit ''/focus'')
      = [[], lit ''v1'', lit ''windows'', window, lit ''focus'']"
    by (simp add: split_on_append_sep path_slash_def lit_def)
  then show ?thesis
    using assms by (simp add: route_request_def plain_segment_def lit_def)
qed

lemma focus_window_over_agent:
  "plain_segment window \<Longrightarrow> transfers js encode pieces env ctx (PostFocusWindow window) s \<Longrightarrow>
     client_focus_window js (agent_connection rf encode pieces ep env ctx) ep window s
       = answer_at_client (\<lambda>_. ()) (focus_window_handler env ctx window s)"
  unfolding client_focus_window_def http_post_def
  by (erule after_exchange_answer [where inject = FocusBody]) (simp_all add: route_focus_window)

lemma node_info_over_agent:
  assumes "transfers js encode pieces env ctx GetNode s"
  shows "client_node_info js (agent_connection rf encode pieces ep env ctx) ep s
    = (case node_handler env ctx s of (r, s') \<Rightarrow> (try_then (map_err error_at_client r) validate_node_info, s'))"
proof -
  have "http_get js (js_node js) (agent_connection rf encode pieces ep env ctx) ep (lit ''/v1/node'') request_timeout s
      = answer_at_client (\<lambda>x. x) (node_handler env ctx s)"
    using assms unfolding http_get_def
    by (rule exchange_answer [where inject = NodeBody]) (simp_all add: route_request_def)
  then show ?thesis
    by (auto simp: client_node_info_def after_def call_then_apply answer_id returning_apply try_then_def
        split: prod.splits sum.splits)
qed

lemma health_over_agent:
  assumes "transfers js encode pieces env ctx GetHealth s"
  shows "client_health js (agent_connection rf encode pieces ep env ctx) ep s = (Inr health_handler, s)"
proof -
  have url: "strip_prefix (agent_url ep []) (agent_url ep path) = Some path" for path
    by (simp add: strip_prefix_Some agent_url_def Let_def)
  have carried: "carries js encode pieces (HealthBody health_handler)"
    using assms by (simp add: transfers_def serve_def into_response_def reply_def split: prod.splits)
  have shown: "utf8_len (hr_agent_version health_handler) \<le> max_version_bytes"
    "health_handler\<lparr>hr_agent_version := sanitize_for_display (hr_agent_version health_handler) display_name_limit\<rparr>
      = health_handler"
    by code_simp+
  have body: "read_body [] (map Inr (pieces (encode (HealthBody health_handler))))
      = Inr (encode (HealthBody health_handler))"
    using carried by (auto simp: read_body_chunks carries_def)
  show ?thesis
    using body carried shown
    by (simp add: client_health_def agent_connection_def url route_request_def serve_def into_response_def
        parse_response_def carries_def reply_def)
qed

lemma attach_grants_callbacks:
  assumes "apply_session_command env ctx peer (AttachSession role (Some endpoint) window) claim (st, w)
      = (Inr resp, st', w')"
  shows "\<exists>granted w1. env_granted env \<lparr>ep_address = rc_source ctx, ep_port = se_port endpoint\<rparr> w
      = (Inr granted, w1) \<and> CapSendShortcut \<in> set granted \<and> CapCloseStream \<in> set granted"
  using assms
  by (auto simp: apply_session_command_def call_then_def reply_def transpose_endpoint_def
      callback_endpoint_def verify_callback_access_def capability_callback_def Let_def
      response_granted_def returning_def split: prod.splits sum.splits if_splits)

section \<open>Correctness\<close>


text \<open>
  C21: Callbacks across two computers. When a desktop's agent grants a session to a controller that
  wants shortcuts back, then the controller's own agent had authenticated that desktop as a device
  of its allowlist with both callback capabilities, as the answer to a request the desktop made.
\<close>

theorem granted_session_is_wanted_back:
  assumes "apply_session_command env ctx peer (AttachSession role (Some endpoint) window) claim (st, controller, w)
      = (Inr resp, st', w')"
    and "ep = \<lparr>ep_address = rc_source ctx, ep_port = se_port endpoint\<rparr>"
    and "env_granted env ep
      = client_granted_capabilities js (agent_connection rf encode pieces ep controller_env controller_ctx) ep"
    and "transfers js encode pieces controller_env controller_ctx GetCapabilities (controller, w)"
  shows "\<exists>desktop a w1. authenticate (env_auth controller_env) (rc_auth_clock controller_ctx)
        (rc_source controller_ctx) (st_authorizer controller) w = (Inr desktop, a, w1)
    \<and> CapSendShortcut \<in> set (ap_capabilities desktop) \<and> CapCloseStream \<in> set (ap_capabilities desktop)"
proof -
  obtain granted w1 where answer: "client_granted_capabilities js
      (agent_connection rf encode pieces ep controller_env controller_ctx) ep (controller, w) = (Inr granted, w1)"
    and caps: "CapSendShortcut \<in> set granted" "CapCloseStream \<in> set granted"
    using attach_grants_callbacks [OF assms(1)] assms(2,3) by auto
  from answer have "capabilities_handler controller_env controller_ctx (controller, w) = (Inr granted, w1)"
    unfolding capabilities_over_agent [OF assms(4)] answer_id
    by (auto split: prod.splits)
  with caps show ?thesis
    by (auto simp: capabilities_handler_def map_ok_def map_err_def split: prod.splits sum.splits)
qed

definition shown_safely :: "nat \<Rightarrow> ustr \<Rightarrow> bool" where
  "shown_safely limit t \<longleftrightarrow> list_all is_presentation_safe t \<and> length t \<le> Suc limit"

lemma shown_sanitized: "shown_safely limit (sanitize_for_display t limit)"
  using sanitize_safe [of _ t limit] sanitize_length [of t limit]
  by (simp add: shown_safely_def list_all_iff)

lemma shown_optional: "option_all (shown_safely limit) (sanitize_optional t limit)"
  by (cases t) (simp_all add: sanitize_optional_def shown_sanitized)

text \<open>
  Nothing a remote device sends can disturb the screen. Whatever it answers, the texts of the
  displays, workspaces and windows the client returns are free of control and invisible
  characters and of limited length, and they were decoded from at most one mebibyte that came
  with a compatible release.
\<close>

theorem remote_texts_are_shown_safely:
  "(client_displays js send ep w = (Inr ds, w') \<longrightarrow>
      list_all (\<lambda>d. shown_safely display_name_limit (d_id d) \<and> shown_safely display_name_limit (d_name d)) ds)
   \<and> (client_workspaces js send ep w = (Inr wss, w') \<longrightarrow>
      list_all (\<lambda>x. option_all (shown_safely display_name_limit) (ws_name x)
        \<and> option_all (shown_safely display_name_limit) (ws_monitor x)) wss)
   \<and> (client_windows js send ep w = (Inr wins, w') \<longrightarrow>
      list_all (\<lambda>x. option_all (shown_safely display_name_limit) (win_app_id x)
        \<and> option_all (shown_safely display_name_limit) (win_class x)
        \<and> option_all (shown_safely display_line_limit) (win_title x)) wins)
   \<and> (client_node_info js send ep w = (Inr node, w') \<longrightarrow>
      shown_safely display_name_limit (ni_hostname node) \<and> shown_safely display_name_limit (ni_agent_version node)
      \<and> shown_safely display_name_limit (ni_omarchy_version node)
      \<and> list_all (shown_safely display_name_limit) (ni_capabilities node)
      \<and> length (ni_capabilities node) \<le> max_capabilities)"
  by (auto simp: client_displays_def client_workspaces_def client_windows_def client_node_info_def
      sanitize_display_def sanitize_workspace_def sanitize_window_def validate_node_info_def
      sanitize_node_info_def shown_sanitized shown_optional list_all_iff Let_def
      dest!: after_Inr split: if_splits)

section \<open>Examples\<close>

text \<open>A wire on which every answer of a kind is the same, and two agents joined by it.\<close>

definition example_display :: display where
  "example_display = \<lparr>d_id = lit ''DP-1'' @ [8238], d_name = lit ''Left'', d_width = 1920, d_height = 1080,
     d_refresh_hz = 60, d_focused = True\<rparr>"

definition example_wire :: wire_format where
  "example_wire =
     \<lparr>js_health = (\<lambda>_. None), js_node = (\<lambda>_. None),
      js_capabilities = (\<lambda>_. Some (map capability_as_str capability_all)),
      js_displays = (\<lambda>b. if b = [] then Some [] else Some [example_display]), js_workspaces = (\<lambda>_. None),
      js_windows = (\<lambda>_. None), js_active_window = (\<lambda>_. None), js_focus = (\<lambda>_. None), js_command = (\<lambda>_. None),
      js_sunshine = (\<lambda>_. None), js_challenge = (\<lambda>_. None), js_pair = (\<lambda>_. None), js_envelope = (\<lambda>_. None),
      js_status_text = (\<lambda>_. [])\<rparr>"

definition example_encode :: "api_body \<Rightarrow> byte list" where
  "example_encode body = (case body of DisplaysBody ds \<Rightarrow> if ds = [] then [] else [1] | _ \<Rightarrow> [1])"

text \<open>Requests of which the first byte tells the kind.\<close>

definition example_requests :: request_format where
  "example_requests =
     \<lparr>rf_print = (\<lambda>body. case body of NoBody \<Rightarrow> [] | EmptyObject \<Rightarrow> [0] | FocusRequest _ \<Rightarrow> [1]
        | PairRequest _ \<Rightarrow> [2] | CommandRequestBody _ \<Rightarrow> [3]),
      rf_focus = (\<lambda>_. None),
      rf_pair = (\<lambda>_. None),
      rf_command = (\<lambda>b. if b = [3] then Some (command_request_new 3 0 (SwitchStreamDisplay (DisplayId (lit ''DP-2''))))
        else None)\<rparr>"

definition controller_endpoint :: agent_endpoint where
  "controller_endpoint = \<lparr>ep_address = V4 100 64 0 2, ep_port = 47960\<rparr>"

definition example_connection :: "(agent_state \<times> nat) http_link" where
  "example_connection = agent_connection example_requests example_encode (\<lambda>b. [b]) controller_endpoint example_env
     (example_ctx (V4 100 64 0 3))"

text \<open>The desktop's agent, whose callback check asks the controller's agent.\<close>

definition desktop_env :: "(agent_state \<times> nat) agent_env" where
  "desktop_env =
     \<lparr>env_node = env_node example_env, env_agent_port = 47960, env_debug = False,
      env_auth = \<lparr>port_acquire = (\<lambda>w. (Some (Inr ()), w)),
        port_identify = (\<lambda>_ w. (Some (Inr None), w)), port_list = (\<lambda>w. (Inr [], w))\<rparr>,
      env_effects = \<lparr>fx_install = (\<lambda>_ w. (Inr (), w)), fx_clear = (\<lambda>w. (Inr (), w))\<rparr>,
      env_displays = (\<lambda>w. (Inr [], w)), env_workspaces = (\<lambda>w. (Inr [], w)),
      env_windows = (\<lambda>w. (Inr [], w)), env_active_window = (\<lambda>w. (Inr None, w)),
      env_focus_workspace = (\<lambda>_ w. (Inr (), w)), env_focus_window = (\<lambda>_ w. (Inr (), w)),
      env_sunshine_status = (\<lambda>w. (Inl (port_error_new (lit ''SUNSHINE_NOT_INSTALLED'') [] False), w)),
      env_submit_pin = (\<lambda>_ _ w. (Inr (), w)), env_execute = (\<lambda>_ w. (Inr (), w)),
      env_granted = client_granted_capabilities example_wire example_connection,
      env_client_displays = client_displays example_wire example_connection,
      env_send_command = client_send_command example_wire example_connection,
      env_notify = (\<lambda>_ w. (Inr (), w))\<rparr>"


theorem granted_session_is_wanted_back_witness:
  "\<exists>desktop a w1. authenticate example_ports example_clock (V4 100 64 0 3) (authorizer_new True) 0
      = (Inr desktop, a, w1) \<and> CapSendShortcut \<in> set (ap_capabilities desktop)"
proof -
  let ?peer = "\<lparr>ap_tailnet_node_id = lit ''n1'', ap_capabilities = capability_all\<rparr>"
  let ?r = "apply_session_command desktop_env (example_ctx (V4 100 64 0 2)) ?peer
    (AttachSession Remote (Some \<lparr>se_address = V4 100 64 0 2, se_port = 47960\<rparr>) None) None
    (agent_start True, agent_start True, 0)"
  have "is_ok (fst ?r)" by code_simp
  then obtain resp where run: "?r = (Inr resp, fst (snd ?r), snd (snd ?r))"
    by (auto simp: is_ok_iff) (metis prod.collapse)
  have "transfers example_wire example_encode (\<lambda>b. [b]) example_env (example_ctx (V4 100 64 0 3)) GetCapabilities
      (agent_start True, 0)"
    unfolding transfers_def carries_def max_response_bytes_def by code_simp
  from granted_session_is_wanted_back [where rf = example_requests, OF run _ _ this, of controller_endpoint]
  show ?thesis
    by (auto simp: controller_endpoint_def example_ctx_def desktop_env_def example_connection_def
        example_env_def agent_start_def)
qed

theorem remote_texts_are_shown_safely_witness:
  "\<exists>d. fst (client_displays example_wire (\<lambda>_ w. (Inr \<lparr>hp_status = 200, hp_release = Some release,
        hp_chunks = [Inr [1]]\<rparr>, w)) controller_endpoint ()) = Inr [d]
     \<and> shown_safely display_name_limit (d_id d) \<and> d_id d \<noteq> d_id example_display"
proof -
  let ?send = "\<lambda>_ w. (Inr \<lparr>hp_status = 200, hp_release = Some release, hp_chunks = [Inr [1]]\<rparr>, w)"
  have run: "client_displays example_wire ?send controller_endpoint () = (Inr [sanitize_display example_display], ())"
    unfolding client_displays_def http_get_def after_def call_then_def exchange_def parse_response_def
    by (simp add: verify_release_def release_compatible_self example_wire_def max_response_bytes_def returning_def)
  moreover have "d_id (sanitize_display example_display) \<noteq> d_id example_display" by code_simp
  ultimately show ?thesis
    using remote_texts_are_shown_safely [THEN conjunct1, THEN mp, OF run] by simp
qed

end
