(* ===== verification/Tailscale.thy ===== *)
theory Tailscale
  imports Authorize Discovery Utf8 IpText
begin

text \<open>
  \<open>crates/omdesky-platform/src/tailscale.rs\<close>: the mesh network as the \<open>tailscale\<close> program reports
  it, and that the authorizer of the agent takes its identities from nowhere else, over its whole
  life. Running a program is a call on the world; the two JSON answers are the records below, and
  serde_json's parsers for them are arguments. The entries of the peer table, a hash map in the
  source, are a list in the order in which the map yields them.
\<close>

type_synonym 'w runner = "command_spec \<Rightarrow> ('w, command_output port_result) call"

definition tailscale_status_limit :: nat where
  "tailscale_status_limit = 4 * 1024 * 1024"

definition max_peers :: nat where
  "max_peers = 1024"

definition max_id_bytes :: nat where
  "max_id_bytes = 256"

definition max_name_bytes :: nat where
  "max_name_bytes = 255"

definition max_ips_per_node :: nat where
  "max_ips_per_node = 16"

section \<open>Answers\<close>

record raw_peer =
  rp_id :: ustr
  rp_dns_name :: "ustr option"
  rp_host_name :: "ustr option"
  rp_tailscale_ips :: "ustr list"
  rp_online :: bool
  rp_cur_addr :: "ustr option"
  rp_relay :: "ustr option"

record tailscale_status =
  ts_self_node :: raw_peer
  ts_peers :: "(ustr \<times> raw_peer) list"

record whois_node =
  wn_stable_id :: "ustr option"
  wn_name :: "ustr option"
  wn_host_name :: "ustr option"

record whois_user =
  wu_login_name :: "ustr option"

record whois_response =
  wr_node :: whois_node
  wr_user_profile :: "whois_user option"

type_synonym status_parser = "byte list \<Rightarrow> ustr + tailscale_status"
type_synonym whois_parser = "byte list \<Rightarrow> ustr + whois_response"

definition is_full_stop :: "ucs \<Rightarrow> bool" where
  "is_full_stop c \<longleftrightarrow> c = 46"

definition dns_hostname :: "ustr \<Rightarrow> ustr" where
  "dns_hostname dns_name =
     sanitize_for_display
       (unwrap_or (list_first (split_on is_full_stop (trim_end_matches is_full_stop dns_name))) dns_name)
       display_name_limit"

definition ts_connection_kind :: "ustr option \<Rightarrow> ustr option \<Rightarrow> connection_kind" where
  "ts_connection_kind current_address relay =
     (if option_any (\<lambda>v. v \<noteq> []) current_address then Direct
      else if option_any (\<lambda>v. v \<noteq> []) relay then Relay
      else UnknownConnection)"

definition parse_addresses :: "ustr list \<Rightarrow> ip_addr list" where
  "parse_addresses values = List.map_filter parse_ip values"

definition raw_peer_to_domain :: "raw_peer \<Rightarrow> mesh_peer" where
  "raw_peer_to_domain p =
     \<lparr>mp_tailnet_node_id = rp_id p,
      mp_dns_name = sanitize_optional (rp_dns_name p) display_name_limit,
      mp_hostname = sanitize_optional (rp_host_name p) display_name_limit,
      mp_ips = parse_addresses (rp_tailscale_ips p), mp_online = rp_online p,
      mp_connection = ts_connection_kind (rp_cur_addr p) (rp_relay p), mp_latency_ms = None\<rparr>"

definition validate_peer :: "raw_peer \<Rightarrow> unit port_result" where
  "validate_peer p =
     (let valid_fields =
        utf8_len (rp_id p) \<le> max_id_bytes
        \<and> option_all (\<lambda>v. utf8_len v \<le> max_name_bytes) (rp_dns_name p)
        \<and> option_all (\<lambda>v. utf8_len v \<le> max_name_bytes) (rp_host_name p)
        \<and> length (rp_tailscale_ips p) \<le> max_ips_per_node
      in if \<not> valid_fields
         then Inl (port_error_new (lit ''TAILSCALE_FIELD_LIMIT'')
                (lit ''tailscale status contained an oversized node field'') False)
         else Inr ())"

fun validate_peers :: "raw_peer list \<Rightarrow> unit port_result" where
  "validate_peers [] = Inr ()"
| "validate_peers (p # ps) = try_then (validate_peer p) (\<lambda>_. validate_peers ps)"

definition validate_status :: "tailscale_status \<Rightarrow> unit port_result" where
  "validate_status status =
     (if length (ts_peers status) > max_peers
      then Inl (port_error_new (lit ''TAILSCALE_PEER_LIMIT'')
             (lit ''tailscale status contained too many peers'') False)
      else try_then (validate_peer (ts_self_node status)) (\<lambda>_. validate_peers (map snd (ts_peers status))))"

definition parse_status :: "status_parser \<Rightarrow> byte list \<Rightarrow> tailscale_status port_result" where
  "parse_status decode bytes =
     (if length bytes > tailscale_status_limit
      then Inl (port_error_new (lit ''TAILSCALE_STATUS_LIMIT'')
             (lit ''tailscale status exceeded the maximum response size'') False)
      else try_then (map_err (\<lambda>e. port_error_new (lit ''TAILSCALE_STATUS_INVALID'')
                       (lit ''unable to parse tailscale status: '' @ e) False) (decode bytes))
             (\<lambda>status. map_ok (\<lambda>_. status) (validate_status status)))"

definition parse_whois :: "whois_parser \<Rightarrow> byte list \<Rightarrow> mesh_node_identity port_result" where
  "parse_whois decode bytes =
     map_ok
       (\<lambda>whois.
          \<lparr>mni_tailnet_node_id = unwrap_or (wn_stable_id (wr_node whois)) [],
           mni_user = sanitize_optional (Option.bind (wr_user_profile whois) wu_login_name) display_name_limit,
           mni_hostname = or_else
             (map_option (\<lambda>h. sanitize_for_display h display_name_limit) (wn_host_name (wr_node whois)))
             (map_option dns_hostname (wn_name (wr_node whois))),
           mni_addresses = []\<rparr>)
       (map_err (\<lambda>e. port_error_new (lit ''TAILSCALE_WHOIS_INVALID'')
          (lit ''unable to parse tailscale whois: '' @ e) False) (decode bytes))"

section \<open>Operations\<close>

definition status_spec :: command_spec where
  "status_spec =
     (command_spec_new (lit ''tailscale'') [lit ''status'', lit ''--json''])
       \<lparr>cs_stdout_limit := tailscale_status_limit\<rparr>"

definition tailscale_status_call :: "status_parser \<Rightarrow> 'w runner \<Rightarrow> ('w, tailscale_status port_result) call" where
  "tailscale_status_call decode run =
     call_then (run status_spec) (\<lambda>out. returning (parse_status decode (co_stdout out)))"

definition local_identity :: "tailscale_status \<Rightarrow> mesh_node_identity" where
  "local_identity status =
     (let node = ts_self_node status
      in \<lparr>mni_tailnet_node_id = rp_id node, mni_user = None,
          mni_hostname = or_else
            (map_option (\<lambda>h. sanitize_for_display h display_name_limit) (rp_host_name node))
            (map_option dns_hostname (rp_dns_name node)),
          mni_addresses = parse_addresses (rp_tailscale_ips node)\<rparr>)"

definition mesh_local_node :: "status_parser \<Rightarrow> 'w runner \<Rightarrow> ('w, mesh_node_identity port_result) call" where
  "mesh_local_node decode run =
     call_then (tailscale_status_call decode run) (\<lambda>status. returning (Inr (local_identity status)))"

definition mesh_peers :: "status_parser \<Rightarrow> 'w runner \<Rightarrow> ('w, mesh_peer list port_result) call" where
  "mesh_peers decode run =
     call_then (tailscale_status_call decode run)
       (\<lambda>status. returning (Inr (map (\<lambda>(_, p). raw_peer_to_domain p) (ts_peers status))))"

definition whois_spec :: "ip_addr \<Rightarrow> command_spec" where
  "whois_spec source =
     command_spec_new (lit ''tailscale'') [lit ''whois'', lit ''--json'', show_ip source]"

definition mesh_identify_source ::
    "whois_parser \<Rightarrow> 'w runner \<Rightarrow> ip_addr \<Rightarrow> ('w, mesh_node_identity option port_result) call" where
  "mesh_identify_source decode run source = (\<lambda>w.
     case run (whois_spec source) w of
       (Inr out, w') \<Rightarrow> (map_ok Some (parse_whois decode (co_stdout out)), w')
     | (Inl e, w') \<Rightarrow>
         if perr_code e = lit ''COMMAND_FAILED'' then (Inr None, w') else (Inl e, w'))"

section \<open>Facts\<close>

lemma validate_peers_all: "validate_peers ps = Inr () \<Longrightarrow> p \<in> set ps \<Longrightarrow> validate_peer p = Inr ()"
  by (induction ps) (auto simp: try_then_Inr)

lemma parse_status_valid:
  "parse_status decode bytes = Inr status \<Longrightarrow>
     validate_peer (ts_self_node status) = Inr () \<and> length (ts_peers status) \<le> max_peers
     \<and> (\<forall>p \<in> set (map snd (ts_peers status)). validate_peer p = Inr ())"
  using validate_peers_all
  by (fastforce simp: parse_status_def validate_status_def try_then_Inr map_ok_def
      split: if_splits sum.splits)

lemma length_parse_addresses: "length (parse_addresses values) \<le> length values"
  by (simp add: parse_addresses_def List.map_filter_def)

lemma mesh_peers_Inr:
  "mesh_peers decode run w = (Inr peers, w') \<Longrightarrow>
     \<exists>out status. run status_spec w = (Inr out, w') \<and> parse_status decode (co_stdout out) = Inr status
       \<and> peers = map (\<lambda>(_, p). raw_peer_to_domain p) (ts_peers status)"
  by (auto simp: mesh_peers_def tailscale_status_call_def call_then_def returning_def
      split: prod.splits sum.splits)

lemma mesh_identify_Inr:
  "mesh_identify_source decode run source w = (Inr (Some identity), w') \<Longrightarrow>
     \<exists>out whois. run (whois_spec source) w = (Inr out, w') \<and> decode (co_stdout out) = Inr whois
       \<and> mni_tailnet_node_id identity = unwrap_or (wn_stable_id (wr_node whois)) []"
  by (auto simp: mesh_identify_source_def parse_whois_def map_ok_def map_err_def
      split: prod.splits sum.splits if_splits)

section \<open>The identities an authorizer remembers\<close>

text \<open>
  The life of an authorizer: created with the agent, then one request after the other, each with its
  clock readings, its source and the world it found.
\<close>

inductive authorizer_run ::
    "'w auth_ports \<Rightarrow> bool \<Rightarrow> (auth_clock \<times> ip_addr \<times> 'w) list \<Rightarrow> authorizer \<Rightarrow> bool"
  for ports strict where
  created: "authorizer_run ports strict [] (authorizer_new strict)"
| request: "authorizer_run ports strict past a \<Longrightarrow>
    authenticate ports clk source a w = (r, a', w') \<Longrightarrow>
    authorizer_run ports strict (past @ [(clk, source, w)]) a'"

definition identified_as :: "'w auth_ports \<Rightarrow> ip_addr \<Rightarrow> 'w \<Rightarrow> ustr \<Rightarrow> bool" where
  "identified_as ports source w node \<longleftrightarrow> node \<noteq> [] \<and>
     (case fst (port_identify ports source (snd (port_acquire ports w))) of
        Some (Inr (Some identity)) \<Rightarrow> mni_tailnet_node_id identity = node
      | _ \<Rightarrow> False)"

lemma authorizer_new_invar: "authorizer_invar (authorizer_new strict)"
  by (simp add: authorizer_invar_def authorizer_new_def limiter_invar_def rate_limiter_new_def
      hm.invar_empty hm.size_empty hm.get_empty rate_limit_burst_def rate_limit_per_second_def)

lemma auth_identify_names:
  assumes "auth_identify ports now source a w = (Inr node, a', w')"
  shows "cached_identity_of now source a = Some node \<or> identified_as ports source w node"
  using assms
  by (auto simp: auth_identify_def lookup_identity_def identified_as_def
      split: option.splits prod.splits sum.splits if_splits)

lemma remember_identity_entries:
  assumes "hm_invar (au_identities a)"
    and "hm_get (au_identities (remember_identity now source node a)) s = Some c"
  shows "hm_get (au_identities a) s = Some c
    \<or> s = source \<and> c = \<lparr>ci_tailnet_node_id = node, ci_resolved_at = now\<rparr>"
  using assms
  by (auto simp: remember_identity_def Let_def hm.get_insert hm.get_retain_Some split: if_splits)

lemma auth_identify_entries:
  assumes "auth_identify ports now source a w = (r, a', w')" and "hm_invar (au_identities a)"
    and "hm_get (au_identities a') s = Some c"
  shows "hm_get (au_identities a) s = Some c
    \<or> s = source \<and> ci_resolved_at c = now \<and> identified_as ports source w (ci_tailnet_node_id c)"
  using assms(1,3) remember_identity_entries [OF assms(2)]
  by (fastforce simp: auth_identify_def lookup_identity_def identified_as_def
      split: option.splits prod.splits sum.splits if_splits)

lemma authenticate_entries:
  assumes "authenticate ports clk source a w = (r, a', w')" and "hm_invar (au_identities a)"
    and "hm_get (au_identities a') s = Some c"
  shows "hm_get (au_identities a) s = Some c
    \<or> s = source \<and> ci_resolved_at c = clk_identify clk
      \<and> identified_as ports source w (ci_tailnet_node_id c)"
proof -
  obtain ok l where lim: "limiter_admit source (clk_limit clk) (au_limiter a) = (ok, l)" by fastforce
  obtain r2 a2 w2 where ident:
    "auth_identify ports (clk_identify clk) source (a\<lparr>au_limiter := l\<rparr>) w = (r2, a2, w2)"
    by (metis surj_pair)
  have allow: "au_identities (fst (snd (auth_allowlist ports now b v))) = au_identities b" for now b v
    by (simp add: auth_allowlist_def split: option.split prod.split sum.split)
  have "au_identities a' = au_identities a \<or> au_identities a' = au_identities a2"
    using assms(1) lim ident allow [of "clk_allowlist clk" a2 w2]
    by (auto simp: authenticate_def Let_def split: if_splits prod.splits sum.splits option.splits)
  with auth_identify_entries [OF ident, of s c] assms(2,3) show ?thesis by auto
qed

lemma authorizer_run_entries:
  assumes "authorizer_run ports strict past a"
  shows "authorizer_invar a \<and> (hm_get (au_identities a) s = Some c \<longrightarrow>
    (\<exists>clk w. (clk, s, w) \<in> set past \<and> clk_identify clk = ci_resolved_at c
       \<and> identified_as ports s w (ci_tailnet_node_id c)))"
  using assms
proof induction
  case created
  show ?case using authorizer_new_invar [of strict] by (simp add: authorizer_new_def hm.get_empty)
next
  case (request past a clk source w r a' w')
  have "authorizer_invar a'"
    using authenticate_invar [of a ports clk source w] request.IH request.hyps(2) by simp
  moreover have "hm_invar (au_identities a)" using request.IH by (simp add: authorizer_invar_def)
  ultimately show ?case
    using authenticate_entries [OF request.hyps(2), of s c] request.IH by fastforce
qed

lemma authorize_named:
  assumes "authorize ports clk source required a w = (Inr peer, a', w')"
  shows "cached_identity_of (clk_identify clk) source a = Some (ap_tailnet_node_id peer)
    \<or> identified_as ports source w (ap_tailnet_node_id peer)"
proof -
  from assms(1) have "authenticate ports clk source a w = (Inr peer, a', w')"
    by (auto simp: authorize_def split: prod.splits sum.splits if_splits)
  then obtain l node a2 w2 w3 entry entries where
    ident: "auth_identify ports (clk_identify clk) source (a\<lparr>au_limiter := l\<rparr>) w = (Inr node, a2, w2)"
    and "auth_allowlist ports (clk_allowlist clk) a2 w2 = (Inr entries, a', w3)"
    and entry: "find (\<lambda>e. ac_tailnet_node_id e = node) entries = Some entry"
    and peer: "ap_tailnet_node_id peer = ac_tailnet_node_id entry"
    by (auto simp: authenticate_def Let_def split: if_splits prod.splits sum.splits option.splits)
  show ?thesis
    using auth_identify_names [OF ident] find_SomeD [OF entry] peer by (auto simp: cached_identity_of_def)
qed

lemma identified_by_whois:
  assumes "identified_as ports source w node"
    and "\<And>v r v'. port_identify ports source v = (Some r, v') \<Longrightarrow> mesh_identify_source decode run source v = (r, v')"
  shows "\<exists>out whois. fst (run (whois_spec source) (snd (port_acquire ports w))) = Inr out
    \<and> decode (co_stdout out) = Inr whois \<and> wn_stable_id (wr_node whois) = Some node"
proof -
  obtain identity v' where
    "port_identify ports source (snd (port_acquire ports w)) = (Some (Inr (Some identity)), v')"
    and id: "mni_tailnet_node_id identity = node" "node \<noteq> []"
    using assms(1) unfolding identified_as_def
    by (cases "port_identify ports source (snd (port_acquire ports w))")
      (auto split: option.splits sum.splits)
  from mesh_identify_Inr [OF assms(2) [OF this(1)]] id show ?thesis
    by (fastforce simp: unwrap_or_def split: option.splits)
qed

section \<open>Correctness\<close>

text \<open>
  C13: Identity comes from Tailscale alone. After any requests since the agent started, a request is
  authorised as a device only if \<open>tailscale whois\<close> printed the stable identifier of that device for
  the source address of the request: now, when nothing is cached for the address, or while an
  earlier request from the same address was handled, less than the fifteen seconds of the cache
  ago. The address is the only thing of the request the program was given. A lookup may time out.
\<close>

theorem caller_is_named_by_whois:
  assumes "authorizer_run ports strict past a"
    and "authorize ports clk source required a w = (Inr peer, a', w')"
    and "\<And>v r v'. port_identify ports source v = (Some r, v') \<Longrightarrow> mesh_identify_source decode run source v = (r, v')"
  shows "\<exists>then_clk then_w out whois. (then_clk, source, then_w) \<in> set (past @ [(clk, source, w)])
    \<and> clk_identify clk - clk_identify then_clk < from_secs 15
    \<and> fst (run (command_spec_new (lit ''tailscale'') [lit ''whois'', lit ''--json'', show_ip source])
        (snd (port_acquire ports then_w))) = Inr out
    \<and> decode (co_stdout out) = Inr whois \<and> wn_stable_id (wr_node whois) = Some (ap_tailnet_node_id peer)"
proof -
  obtain then_clk then_w where asked: "(then_clk, source, then_w) \<in> set (past @ [(clk, source, w)])"
    "clk_identify clk - clk_identify then_clk < identity_cache_ttl"
    "identified_as ports source then_w (ap_tailnet_node_id peer)"
    using authorize_named [OF assms(2)]
  proof
    assume "cached_identity_of (clk_identify clk) source a = Some (ap_tailnet_node_id peer)"
    then obtain c where "hm_get (au_identities a) source = Some c"
      "clk_identify clk - ci_resolved_at c < identity_cache_ttl" "ci_tailnet_node_id c = ap_tailnet_node_id peer"
      by (auto simp: cached_identity_of_def split: option.splits if_splits)
    with authorizer_run_entries [OF assms(1), of source c] that show thesis by fastforce
  qed (use that [of clk w] in \<open>simp add: identity_cache_ttl_def from_secs_def nanos_per_sec_def\<close>)
  from identified_by_whois [OF this(3) assms(3)] obtain out whois where
    "fst (run (whois_spec source) (snd (port_acquire ports then_w))) = Inr out"
    "decode (co_stdout out) = Inr whois" "wn_stable_id (wr_node whois) = Some (ap_tailnet_node_id peer)"
    by blast
  with asked show ?thesis
    by (intro exI [of _ then_clk] exI [of _ then_w] exI [of _ out] exI [of _ whois])
      (simp add: whois_spec_def identity_cache_ttl_def)
qed

definition example_whois :: whois_response where
  "example_whois = \<lparr>wr_node = \<lparr>wn_stable_id = Some (lit ''n1''), wn_name = None, wn_host_name = None\<rparr>,
     wr_user_profile = None\<rparr>"

definition example_runner :: "nat runner" where
  "example_runner spec w = (Inr \<lparr>co_status = 0, co_stdout = [], co_stderr = []\<rparr>, w)"

definition whois_ports :: "nat auth_ports" where
  "whois_ports = example_ports\<lparr>port_identify := (\<lambda>source v.
     case mesh_identify_source (\<lambda>_. Inr example_whois) example_runner source v of (r, v') \<Rightarrow> (Some r, v'))\<rparr>"

definition later_clock :: auth_clock where
  "later_clock = \<lparr>clk_limit = from_secs 9, clk_identify = from_secs 9, clk_allowlist = from_secs 9\<rparr>"

theorem caller_is_named_by_whois_witness:
  "\<exists>asked_at then_w out whois.
    (asked_at, V4 100 64 0 2, then_w) \<in> set [(example_clock, V4 100 64 0 2, 0), (later_clock, V4 100 64 0 2, 1)]
    \<and> clk_identify later_clock - clk_identify asked_at < from_secs 15
    \<and> fst (example_runner (command_spec_new (lit ''tailscale'')
        [lit ''whois'', lit ''--json'', show_ip (V4 100 64 0 2)]) (snd (port_acquire whois_ports then_w))) = Inr out
    \<and> Inr example_whois = (Inr whois :: ustr + whois_response)
    \<and> wn_stable_id (wr_node whois) = Some (lit ''n1'')"
proof -
  let ?first = "authenticate whois_ports example_clock (V4 100 64 0 2) (authorizer_new True) 0"
  have before: "authorizer_run whois_ports True ([] @ [(example_clock, V4 100 64 0 2, 0)]) (fst (snd ?first))"
    by (rule authorizer_run.request [OF authorizer_run.created,
        where r = "fst ?first" and w' = "snd (snd ?first)"]) simp
  let ?r = "authorize whois_ports later_clock (V4 100 64 0 2) CapSendShortcut (fst (snd ?first)) 1"
  have later: "?r = (Inr \<lparr>ap_tailnet_node_id = lit ''n1'', ap_capabilities = capability_all\<rparr>, fst (snd ?r), snd (snd ?r))"
    by code_simp
  have lookup: "mesh_identify_source (\<lambda>_. Inr example_whois) example_runner (V4 100 64 0 2) v = (r, v')"
    if "port_identify whois_ports (V4 100 64 0 2) v = (Some r, v')" for v r v'
    using that by (simp add: whois_ports_def split: prod.splits)
  from caller_is_named_by_whois [OF before later lookup] show ?thesis
    unfolding append.simps authorized_peer.simps .
qed

text \<open>
  The tailnet fits. Whatever the program prints, the peers handed to discovery are few enough for
  it, each has at most sixteen addresses, and their names are safe to show.
\<close>

theorem reported_peers_fit_discovery:
  assumes "mesh_peers decode run w = (Inr peers, w')"
  shows "length peers \<le> max_discovery_peers
    \<and> list_all (\<lambda>p. length (mp_ips p) \<le> 16 \<and> utf8_len (mp_tailnet_node_id p) \<le> 256
        \<and> option_all (list_all is_presentation_safe) (mp_hostname p)
        \<and> option_all (list_all is_presentation_safe) (mp_dns_name p)) peers"
proof -
  obtain out :: command_output and status where parsed: "parse_status decode (co_stdout out) = Inr status"
    and peers: "peers = map (\<lambda>(_, p). raw_peer_to_domain p) (ts_peers status)"
    using mesh_peers_Inr [OF assms] by blast
  have safe: "option_all (list_all is_presentation_safe) (sanitize_optional v display_name_limit)" for v
    using sanitize_safe by (cases v) (auto simp: sanitize_optional_def list_all_iff)
  have one: "length (mp_ips p) \<le> 16 \<and> utf8_len (mp_tailnet_node_id p) \<le> 256
      \<and> option_all (list_all is_presentation_safe) (mp_hostname p)
      \<and> option_all (list_all is_presentation_safe) (mp_dns_name p)" if "p \<in> set peers" for p
  proof -
    from that peers obtain raw where raw: "raw \<in> set (map snd (ts_peers status))" "p = raw_peer_to_domain raw"
      by force
    then have "validate_peer raw = Inr ()" using parse_status_valid [OF parsed] by blast
    then show ?thesis
      using length_parse_addresses [of "rp_tailscale_ips raw"] raw(2)
      by (auto simp: validate_peer_def raw_peer_to_domain_def safe max_ips_per_node_def max_id_bytes_def Let_def
          split: if_splits)
  qed
  then show ?thesis
    using parse_status_valid [OF parsed] peers
    by (simp add: list_all_iff max_peers_def max_discovery_peers_def)
qed

theorem reported_peers_fit_discovery_witness:
  "length [raw_peer_to_domain \<lparr>rp_id = lit ''n1'', rp_dns_name = None, rp_host_name = None,
     rp_tailscale_ips = [lit ''100.64.0.2''], rp_online = True, rp_cur_addr = None, rp_relay = None\<rparr>]
   \<le> max_discovery_peers"
proof -
  let ?raw = "\<lparr>rp_id = lit ''n1'', rp_dns_name = None, rp_host_name = None,
    rp_tailscale_ips = [lit ''100.64.0.2''], rp_online = True, rp_cur_addr = None, rp_relay = None\<rparr>"
  have "mesh_peers (\<lambda>_. Inr \<lparr>ts_self_node = ?raw, ts_peers = [(lit ''k'', ?raw)]\<rparr>)
      (\<lambda>_ w. (Inr \<lparr>co_status = 0, co_stdout = [], co_stderr = []\<rparr>, w)) () = (Inr [raw_peer_to_domain ?raw], ())"
    by (simp add: mesh_peers_def tailscale_status_call_def call_then_def parse_status_def validate_status_def
        validate_peer_def max_peers_def max_id_bytes_def max_ips_per_node_def lit_def)
  from reported_peers_fit_discovery [OF this] show ?thesis by blast
qed

end
