(* ===== verification/Hyprland.thy ===== *)
theory Hyprland
  imports Tailscale Agent
begin

text \<open>
  \<open>crates/omdesky-platform/src/hyprland.rs\<close>: reading displays, workspaces and windows from
  \<open>hyprctl\<close> and focusing them. serde_json's parsers for the answers are the record \<open>hypr_format\<close>.
\<close>

record hypr_monitor =
  hy_name :: ustr
  hy_description :: "ustr option"
  hy_width :: u32
  hy_height :: u32
  hy_refresh_rate :: rat
  hy_focused :: bool
  hy_disabled :: bool

record hypr_workspace =
  hw_id :: i64
  hw_name :: "ustr option"
  hw_monitor :: "ustr option"
  hw_windows :: u32

record hypr_client =
  hc_address :: ustr
  hc_pid :: "u32 option"
  hc_class :: "ustr option"
  hc_initial_class :: "ustr option"
  hc_title :: "ustr option"
  hc_workspace :: i64

record hypr_format =
  jh_monitors :: "byte list \<Rightarrow> ustr + hypr_monitor list"
  jh_workspaces :: "byte list \<Rightarrow> ustr + hypr_workspace list"
  jh_clients :: "byte list \<Rightarrow> ustr + hypr_client list"
  jh_client :: "byte list \<Rightarrow> ustr + hypr_client"

definition hyprland_error :: "ustr \<Rightarrow> port_error" where
  "hyprland_error e = port_error_new (lit ''HYPRLAND_UNAVAILABLE'')
     (lit ''unable to parse Hyprland output: '' @ e) False"

definition hypr_query :: "'w runner \<Rightarrow> ustr \<Rightarrow> ('w, byte list port_result) call" where
  "hypr_query run resource =
     call_then (run (command_spec_new (lit ''hyprctl'') [resource, lit ''-j'']))
       (\<lambda>out. returning (Inr (co_stdout out)))"

definition hypr_dispatch :: "'w runner \<Rightarrow> ustr list \<Rightarrow> ('w, unit port_result) call" where
  "hypr_dispatch run args = (\<lambda>w.
     case run (command_spec_new (lit ''hyprctl'') (lit ''dispatch'' # args)) w of
       (r, w') \<Rightarrow>
         (map_err (\<lambda>e. port_error_new (lit ''HYPRLAND_DISPATCH_FAILED'') (perr_message e) (perr_retryable e))
            (map_ok (\<lambda>_. ()) r), w'))"

section \<open>Answers\<close>

definition monitor_display :: "hypr_monitor \<Rightarrow> display" where
  "monitor_display m =
     \<lparr>d_id = hy_name m, d_name = unwrap_or (hy_description m) (hy_name m), d_width = hy_width m,
      d_height = hy_height m, d_refresh_hz = hy_refresh_rate m, d_focused = hy_focused m\<rparr>"

definition parse_monitors :: "hypr_format \<Rightarrow> byte list \<Rightarrow> display list port_result" where
  "parse_monitors jh bytes =
     map_ok (\<lambda>monitors. map monitor_display (filter (\<lambda>m. \<not> hy_disabled m) monitors))
       (map_err hyprland_error (jh_monitors jh bytes))"

definition parse_workspaces :: "hypr_format \<Rightarrow> byte list \<Rightarrow> workspace list port_result" where
  "parse_workspaces jh bytes =
     map_ok (\<lambda>workspaces. map (\<lambda>w.
         \<lparr>ws_id = WorkspaceId (hw_id w), ws_name = hw_name w, ws_monitor = hw_monitor w,
          ws_focused = False, ws_windows = hw_windows w\<rparr>)
         (sort_key (\<lambda>w. hw_id w) workspaces))
       (map_err hyprland_error (jh_workspaces jh bytes))"

definition window_address_for_process :: "hypr_format \<Rightarrow> byte list \<Rightarrow> u32 \<Rightarrow> ustr option port_result" where
  "window_address_for_process jh bytes pid =
     map_ok (\<lambda>clients. find is_window_address (map hc_address (filter (\<lambda>c. hc_pid c = Some pid) clients)))
       (map_err hyprland_error (jh_clients jh bytes))"

definition non_empty :: "ustr option \<Rightarrow> ustr option" where
  "non_empty value = (case value of Some [] \<Rightarrow> None | _ \<Rightarrow> value)"

definition client_to_window :: "hypr_client \<Rightarrow> window" where
  "client_to_window c =
     \<lparr>win_id = WindowId (hc_address c), win_app_id = non_empty (hc_initial_class c),
      win_class = non_empty (hc_class c), win_title = non_empty (hc_title c),
      win_workspace = WorkspaceId (hc_workspace c), win_focused = False\<rparr>"

definition parse_windows :: "hypr_format \<Rightarrow> byte list \<Rightarrow> window list port_result" where
  "parse_windows jh bytes =
     map_ok (map client_to_window) (map_err hyprland_error (jh_clients jh bytes))"

definition parse_active_window :: "hypr_format \<Rightarrow> byte list \<Rightarrow> window option port_result" where
  "parse_active_window jh bytes =
     (let trimmed = trim (unwrap_or (from_utf8 bytes) [])
      in if trimmed = [] \<or> trimmed = lit ''{}'' then Inr None
         else map_ok (\<lambda>client. if hc_address client = [] then None else Some (client_to_window client))
                (map_err hyprland_error (jh_client jh bytes)))"

definition is_window_handle :: "ustr \<Rightarrow> bool" where
  "is_window_handle value =
     option_any (\<lambda>hex. hex \<noteq> [] \<and> list_all is_ascii_hexdigit hex) (strip_prefix (lit ''0x'') value)"

section \<open>Operations\<close>

definition hypr_window_for_process ::
    "hypr_format \<Rightarrow> 'w runner \<Rightarrow> u32 \<Rightarrow> ('w, window_selector option port_result) call" where
  "hypr_window_for_process jh run pid =
     call_then (hypr_query run (lit ''clients''))
       (\<lambda>clients. returning (map_ok (map_option WindowAddress) (window_address_for_process jh clients pid)))"

definition hypr_displays :: "hypr_format \<Rightarrow> 'w runner \<Rightarrow> ('w, display list port_result) call" where
  "hypr_displays jh run =
     call_then (hypr_query run (lit ''monitors'')) (\<lambda>b. returning (parse_monitors jh b))"

definition hypr_workspaces :: "hypr_format \<Rightarrow> 'w runner \<Rightarrow> ('w, workspace list port_result) call" where
  "hypr_workspaces jh run =
     call_then (hypr_query run (lit ''workspaces'')) (\<lambda>b. returning (parse_workspaces jh b))"

definition hypr_windows :: "hypr_format \<Rightarrow> 'w runner \<Rightarrow> ('w, window list port_result) call" where
  "hypr_windows jh run =
     call_then (hypr_query run (lit ''clients'')) (\<lambda>b. returning (parse_windows jh b))"

definition hypr_active_window :: "hypr_format \<Rightarrow> 'w runner \<Rightarrow> ('w, window option port_result) call" where
  "hypr_active_window jh run =
     call_then (hypr_query run (lit ''activewindow'')) (\<lambda>b. returning (parse_active_window jh b))"

definition workspace_selector :: "workspace_target \<Rightarrow> ustr port_result" where
  "workspace_selector target =
     (case target of
        TargetId (WorkspaceId i) \<Rightarrow> Inr (show_int i)
      | TargetName name \<Rightarrow>
          if name = [] \<or> list_ex is_whitespace name
          then Inl (port_error_new (lit ''WORKSPACE_NOT_FOUND'')
                 (lit ''workspace name is not a safe selector'') False)
          else Inr (lit ''name:'' @ name))"

definition hypr_focus_workspace :: "'w runner \<Rightarrow> workspace_target \<Rightarrow> ('w, unit port_result) call" where
  "hypr_focus_workspace run target =
     call_then (returning (workspace_selector target))
       (\<lambda>selector. hypr_dispatch run [lit ''workspace'', selector])"

definition hypr_focus_window :: "'w runner \<Rightarrow> ustr \<Rightarrow> ('w, unit port_result) call" where
  "hypr_focus_window run i =
     (if \<not> is_window_handle i
      then returning (Inl (port_error_new (lit ''WINDOW_NOT_FOUND'')
             (lit ''window handle is not a valid Hyprland address'') False))
      else hypr_dispatch run [lit ''focuswindow'', lit ''address:'' @ i])"

section \<open>Correctness\<close>

lemma hypr_query_Inr:
  "hypr_query run resource w = (Inr b, w') \<Longrightarrow>
     \<exists>out. run (command_spec_new (lit ''hyprctl'') [resource, lit ''-j'']) w = (Inr out, w') \<and> b = co_stdout out"
  by (auto simp: hypr_query_def call_then_def returning_def split: prod.splits sum.splits)

text \<open>
  The window a session is bound to is the stream's own. A selector found for a process is the
  address of a window that Hyprland listed for that process, and it passes the validation of
  session commands, whatever else the list contains.
\<close>

theorem stream_window_is_valid:
  assumes "hypr_window_for_process jh run pid w = (Inr (Some selector), w')"
  shows "window_selector_validate selector = Inr ()
    \<and> (\<exists>b clients client. jh_clients jh b = Inr clients \<and> client \<in> set clients
        \<and> hc_pid client = Some pid \<and> selector = WindowAddress (hc_address client))"
proof -
  obtain b clients address where parsed: "jh_clients jh b = Inr clients"
    and found: "find is_window_address (map hc_address (filter (\<lambda>c. hc_pid c = Some pid) clients)) = Some address"
    and selector: "selector = WindowAddress address"
    using assms
    by (auto simp: hypr_window_for_process_def window_address_for_process_def call_then_def returning_def
        map_ok_def map_err_def split: prod.splits sum.splits)
  then have "address \<in> hc_address ` {c \<in> set clients. hc_pid c = Some pid}" "is_window_address address"
    using find_SomeD [OF found] by auto
  with parsed selector show ?thesis by auto
qed

theorem stream_window_is_valid_witness:
  "window_selector_validate (WindowAddress (lit ''0x55bb'')) = Inr ()"
proof -
  let ?client = "\<lambda>a. \<lparr>hc_address = a, hc_pid = Some 7, hc_class = None, hc_initial_class = None, hc_title = None,
    hc_workspace = 1\<rparr>"
  let ?jh = "\<lparr>jh_monitors = \<lambda>_. Inl [], jh_workspaces = \<lambda>_. Inl [],
    jh_clients = \<lambda>_. Inr [?client (lit ''0x55; x''), ?client (lit ''0x55bb'')], jh_client = \<lambda>_. Inl []\<rparr>"
  have "hypr_window_for_process ?jh example_runner 7 0 = (Inr (Some (WindowAddress (lit ''0x55bb''))), 0)"
    by code_simp
  from stream_window_is_valid [OF this] show ?thesis by blast
qed

definition recording :: "(command_spec \<Rightarrow> command_output port_result) \<Rightarrow> command_spec list runner" where
  "recording answer spec past = (answer spec, past @ [spec])"

definition inert_focus :: "command_spec \<Rightarrow> bool" where
  "inert_focus spec \<longleftrightarrow>
     (\<exists>s. spec = command_spec_new (lit ''hyprctl'') [lit ''dispatch'', lit ''workspace'', s]
        \<and> ((\<exists>n. s = show_int n)
             \<or> (\<exists>name. s = lit ''name:'' @ name \<and> name \<noteq> [] \<and> \<not> list_ex is_whitespace name)))
     \<or> (\<exists>hex. spec = command_spec_new (lit ''hyprctl'')
            [lit ''dispatch'', lit ''focuswindow'', lit ''address:0x'' @ hex]
          \<and> hex \<noteq> [] \<and> list_all is_ascii_hexdigit hex)"

definition focus_record :: "command_spec list \<Rightarrow> command_spec list \<Rightarrow> bool" where
  "focus_record past now \<longleftrightarrow> now = past \<or> (\<exists>spec. now = past @ [spec] \<and> inert_focus spec)"

lemma selector_inert:
  "workspace_selector target = Inr s \<Longrightarrow>
     (\<exists>n. s = show_int n) \<or> (\<exists>name. s = lit ''name:'' @ name \<and> name \<noteq> [] \<and> \<not> list_ex is_whitespace name)"
  by (auto simp: workspace_selector_def split: workspace_target.splits workspace_id.splits if_splits)

lemma dispatch_recorded:
  "inert_focus (command_spec_new (lit ''hyprctl'') (lit ''dispatch'' # args)) \<Longrightarrow>
     focus_record past (snd (hypr_dispatch (recording answer) args past))"
  by (auto simp: hypr_dispatch_def recording_def focus_record_def)

lemma focus_workspace_recorded:
  "focus_record past (snd (hypr_focus_workspace (recording answer) target past))"
proof (cases "workspace_selector target")
  case (Inr s)
  then have "inert_focus (command_spec_new (lit ''hyprctl'') [lit ''dispatch'', lit ''workspace'', s])"
    using selector_inert [of target s] unfolding inert_focus_def by metis
  with Inr show ?thesis
    by (simp add: hypr_focus_workspace_def call_then_def dispatch_recorded)
qed (simp add: hypr_focus_workspace_def call_then_def focus_record_def)

lemma focus_window_recorded:
  "focus_record past (snd (hypr_focus_window (recording answer) i past))"
proof (cases "is_window_handle i")
  case True
  then obtain hex where hex: "i = lit ''0x'' @ hex" "hex \<noteq> []" "list_all is_ascii_hexdigit hex"
    by (auto simp: is_window_handle_def option_any_def strip_prefix_Some split: option.splits)
  have "lit ''address:'' @ i = lit ''address:0x'' @ hex" by (simp add: hex(1) lit_def)
  with hex have "inert_focus (command_spec_new (lit ''hyprctl'')
      [lit ''dispatch'', lit ''focuswindow'', lit ''address:'' @ i])"
    unfolding inert_focus_def by metis
  with True show ?thesis by (simp add: hypr_focus_window_def dispatch_recorded)
qed (simp add: hypr_focus_window_def focus_record_def)

text \<open>Reading ports leave the world as it is.\<close>

definition quiet_ports :: "'w auth_ports \<Rightarrow> bool" where
  "quiet_ports ports \<longleftrightarrow> (\<forall>v. snd (port_acquire ports v) = v) \<and> (\<forall>s v. snd (port_identify ports s v) = v)
     \<and> (\<forall>v. snd (port_list ports v) = v)"

lemma quiet_portsD:
  assumes "quiet_ports ports"
  shows "\<exists>r. port_acquire ports v = (r, v)" and "\<exists>r. port_identify ports source v = (r, v)"
    and "\<exists>r. port_list ports v = (r, v)"
  using assms unfolding quiet_ports_def by (metis prod.collapse)+

lemma quiet_lookup: "quiet_ports ports \<Longrightarrow> snd (lookup_identity ports source v) = v"
  using quiet_portsD(1) [of ports v] quiet_portsD(2) [of ports source v] by (auto simp: lookup_identity_def split: option.split sum.split)

lemma quiet_identify: "quiet_ports ports \<Longrightarrow> snd (snd (auth_identify ports now source a v)) = v"
  using quiet_lookup [of ports source v]
  by (auto simp: auth_identify_def split: option.split prod.split sum.split)

lemma quiet_allowlist: "quiet_ports ports \<Longrightarrow> snd (snd (auth_allowlist ports now a v)) = v"
  using quiet_portsD(3) [of ports v] by (auto simp: auth_allowlist_def split: option.split sum.split)

lemma quiet_authenticate:
  assumes "quiet_ports ports"
  shows "snd (snd (authenticate ports clk source a v)) = v"
proof -
  note q = quiet_identify [OF assms, of "clk_identify clk" source] quiet_allowlist [OF assms, of "clk_allowlist clk"]
  obtain ok l where lim: "limiter_admit source (clk_limit clk) (au_limiter a) = (ok, l)" by fastforce
  obtain r a2 where "auth_identify ports (clk_identify clk) source (a\<lparr>au_limiter := l\<rparr>) v = (r, a2, v)"
    using q(1) by (metis prod.collapse)
  moreover obtain r2 a3 where "auth_allowlist ports (clk_allowlist clk) a2 v = (r2, a3, v)"
    using q(2) by (metis prod.collapse)
  ultimately show ?thesis
    using lim by (auto simp: authenticate_def Let_def split: sum.split option.split)
qed

lemma quiet_authorize: "quiet_ports ports \<Longrightarrow> snd (snd (authorize ports clk source required a v)) = v"
  using quiet_authenticate [of ports clk source a v]
  by (auto simp: authorize_def split: prod.split sum.split)

lemma authorize_call:
  "agent_authorize env ctx required (st, w) = (r, st', w') \<Longrightarrow>
     w' = snd (snd (authorize (env_auth env) (rc_auth_clock ctx) (rc_source ctx) required (st_authorizer st) w))"
  by (auto simp: agent_authorize_def split: prod.splits)

lemma focus_handlers_recorded:
  assumes "env_focus_workspace env = hypr_focus_workspace (recording answer)"
    and "env_focus_window env = hypr_focus_window (recording answer)"
    and "agent_authorize env ctx CapFocusWorkspace (st, past) = (r, st1, past)"
  shows "focus_record past (snd (snd (focus_window_handler env ctx i (st, past))))"
    and "focus_record past (snd (snd (focus_workspace_handler env ctx body (st, past))))"
proof -
  have stay: "focus_record past past" by (simp add: focus_record_def)
  show "focus_record past (snd (snd (focus_window_handler env ctx i (st, past))))"
    using focus_window_recorded [of past answer i] assms(2,3) stay
    by (cases r) (auto simp: focus_window_handler_def call_then_def reply_def through_port_def case_prod_unfold
        split: sum.split)
  show "focus_record past (snd (snd (focus_workspace_handler env ctx body (st, past))))"
  proof (cases body)
    case (Inr target)
    then show ?thesis
      using focus_workspace_recorded [of past answer target] assms(1,3) stay
      by (cases r) (auto simp: focus_workspace_handler_def call_then_def reply_def through_port_def case_prod_unfold
          split: sum.split)
  qed (simp add: focus_workspace_handler_def reply_def stay)
qed

text \<open>
  C26: A focus request cannot smuggle anything into Hyprland. Over an agent whose focus ports are this
  adapter, with a runner that writes down what it runs, every focus request leaves the list as it
  was or adds one call of \<open>hyprctl dispatch\<close> with one selector: a workspace number, \<open>name:\<close> and a
  workspace name without white space, or the address of a window in hexadecimal digits.
\<close>

theorem focus_requests_are_inert:
  assumes "env_focus_workspace env = hypr_focus_workspace (recording answer)"
    and "env_focus_window env = hypr_focus_window (recording answer)"
    and "quiet_ports (env_auth env)"
    and "request = PostFocusWorkspace body \<or> request = PostFocusWindow i"
    and "serve env ctx header request (st, past) = (response, st', past')"
  shows "past' = past \<or> (\<exists>spec. past' = past @ [spec] \<and> inert_focus spec)"
proof -
  obtain r st1 where auth: "agent_authorize env ctx CapFocusWorkspace (st, past) = (r, st1, past)"
    using authorize_call [of env ctx CapFocusWorkspace st past] quiet_authorize [OF assms(3)]
    by (metis prod.collapse)
  have "focus_record past (snd (snd (controlled_route env ctx request (st, past))))"
    using assms(4) focus_handlers_recorded [OF assms(1,2) auth]
    by (auto simp: mapped_def case_prod_unfold)
  then have "focus_record past past'"
    using assms(4,5)
    by (auto simp: serve_def require_compatible_release_def reply_def focus_record_def
        split: prod.splits if_splits)
  then show ?thesis by (simp add: focus_record_def)
qed

definition focus_env :: "command_spec list agent_env" where
  "focus_env =
     \<lparr>env_node = \<lparr>ni_node_id = [], ni_hostname = [], ni_omarchy_version = [], ni_agent_version = release,
        ni_capabilities = []\<rparr>, env_agent_port = 47960, env_debug = False,
      env_auth = \<lparr>port_acquire = (\<lambda>w. (Some (Inr ()), w)),
        port_identify = (\<lambda>_ w. (Some (Inr (Some \<lparr>mni_tailnet_node_id = lit ''n1'', mni_user = None,
           mni_hostname = None, mni_addresses = []\<rparr>)), w)),
        port_list = (\<lambda>w. (Inr [allowed_controller_new (lit ''n1'') None 0 capability_all], w))\<rparr>,
      env_effects = \<lparr>fx_install = (\<lambda>_ w. (Inr (), w)), fx_clear = (\<lambda>w. (Inr (), w))\<rparr>,
      env_displays = (\<lambda>w. (Inr [], w)), env_workspaces = (\<lambda>w. (Inr [], w)),
      env_windows = (\<lambda>w. (Inr [], w)), env_active_window = (\<lambda>w. (Inr None, w)),
      env_focus_workspace = hypr_focus_workspace (recording (\<lambda>_. Inr \<lparr>co_status = 0, co_stdout = [], co_stderr = []\<rparr>)),
      env_focus_window = hypr_focus_window (recording (\<lambda>_. Inr \<lparr>co_status = 0, co_stdout = [], co_stderr = []\<rparr>)),
      env_sunshine_status = (\<lambda>w. (Inl (port_error_new (lit ''SUNSHINE_NOT_INSTALLED'') [] False), w)),
      env_submit_pin = (\<lambda>_ _ w. (Inr (), w)), env_execute = (\<lambda>_ w. (Inr (), w)),
      env_granted = (\<lambda>_ w. (Inr capability_callback, w)), env_client_displays = (\<lambda>_ w. (Inr [], w)),
      env_send_command = (\<lambda>_ _ w. (Inr response_executed, w)), env_notify = (\<lambda>_ w. (Inr (), w))\<rparr>"

definition focus_ctx :: request_ctx where
  "focus_ctx = \<lparr>rc_source = V4 100 64 0 2, rc_auth_clock = example_clock,
     rc_now_utc = 0, rc_replay_now = 0, rc_session_now = 0, rc_pairing_now = 0,
     rc_fresh_session = 7, rc_fresh_pairing = [], rc_fresh_request = 9\<rparr>"

definition focus_start :: agent_state where
  "focus_start = \<lparr>st_authorizer = authorizer_new True, st_sessions = coordinator_new default_lease,
     st_challenges = pairing_default, st_replay = replay_guard_default\<rparr>"

theorem focus_requests_are_inert_witness:
  "\<exists>spec. snd (snd (serve focus_env focus_ctx (Some release) (PostFocusWindow (lit ''0x5b''))
       (focus_start, []))) = [spec] \<and> inert_focus spec"
proof -
  let ?r = "serve focus_env focus_ctx (Some release) (PostFocusWindow (lit ''0x5b'')) (focus_start, [])"
  have "?r = (fst ?r, fst (snd ?r), snd (snd ?r))" by simp
  moreover have "quiet_ports (env_auth focus_env)" by (simp add: quiet_ports_def focus_env_def)
  moreover have "snd (snd ?r) \<noteq> []" by code_simp
  ultimately show ?thesis
    using focus_requests_are_inert [of focus_env _ "PostFocusWindow (lit ''0x5b'')" undefined "lit ''0x5b''"
        focus_ctx "Some release" focus_start "[]" "fst ?r" "fst (snd ?r)" "snd (snd ?r)"]
    by (auto simp: focus_env_def)
qed

end
