(* ===== verification/Moonlight.thy ===== *)
theory Moonlight
  imports Process Tailscale Services "HOL-Library.Sublist"
begin

text \<open>
  \<open>crates/omdesky-platform/src/moonlight.rs\<close>: the Moonlight program as the stream client. Starting
  a pairing reads the lines the program prints until one carries a PIN, until it ends or until
  20 seconds have passed; what happened is a list of events.
\<close>

definition pairing_timeout :: duration where
  "pairing_timeout = from_secs 20"

definition pairing_completion_timeout :: duration where
  "pairing_completion_timeout = from_secs 30"

definition pairing_output_limit :: nat where
  "pairing_output_limit = 64 * 1024"

definition moonlight_spec :: "ustr list \<Rightarrow> command_spec" where
  "moonlight_spec args =
     command_spec_with_environment_policy InheritedEnvironment (command_spec_new (lit ''moonlight'') args)"

definition moonlight_version :: "'w runner \<Rightarrow> ('w, ustr port_result) call" where
  "moonlight_version run = (\<lambda>w.
     case run (moonlight_spec [lit ''--version'']) w of
       (r, w') \<Rightarrow>
         (map_ok (\<lambda>out. trim (from_utf8_lossy (co_stdout out)))
            (map_err (\<lambda>e. port_error_new (lit ''MOONLIGHT_NOT_INSTALLED'') (perr_message e) False) r), w'))"

definition moonlight_pairing_state ::
    "'w runner \<Rightarrow> stream_host_descriptor \<Rightarrow> ('w, pairing_state port_result) call" where
  "moonlight_pairing_state run host =
     call_then (returning (stream_host_validate host)) (\<lambda>_ w.
       case run (moonlight_spec [lit ''list'', show_ip (sh_address host)]) w of
         (Inr _, w') \<Rightarrow> (Inr Paired, w')
       | (Inl e, w') \<Rightarrow>
           (if perr_code e = lit ''COMMAND_FAILED'' then Inr Required
            else if perr_code e = lit ''COMMAND_NOT_AVAILABLE''
            then Inl (port_error_new (lit ''MOONLIGHT_NOT_INSTALLED'') (perr_message e) False)
            else Inl (port_error_new (lit ''MOONLIGHT_UNSUPPORTED'') (perr_message e) False), w'))"

section \<open>Pairing\<close>

definition extract_pin :: "ustr \<Rightarrow> ustr option" where
  "extract_pin line =
     (let digits = takeWhile is_ascii_digit (dropWhile (\<lambda>c. \<not> is_ascii_digit c) line)
      in if utf8_len digits = 4 then Some digits else None)"

text \<open>The next line of the program, the end of its output or an error of reading it, or the deadline.\<close>

datatype pin_event = PinLine ustr | PinOutputEnds | PinDeadline

definition pairing_failed :: "ustr \<Rightarrow> port_error" where
  "pairing_failed text = port_error_new (lit ''MOONLIGHT_PAIRING_FAILED'') text True"

text \<open>\<open>None\<close>: still waiting after these events.\<close>

fun read_pin :: "pin_event list \<Rightarrow> ustr port_result option" where
  "read_pin [] = None"
| "read_pin (PinDeadline # events) =
     Some (Inl (pairing_failed (lit ''timed out waiting for Moonlight to produce a pairing PIN'')))"
| "read_pin (PinOutputEnds # events) =
     Some (Inl (pairing_failed (lit ''Moonlight exited without printing a pairing PIN'')))"
| "read_pin (PinLine line # events) =
     (case extract_pin line of Some pin \<Rightarrow> Some (Inr pin) | None \<Rightarrow> read_pin events)"

text \<open>What became of the child: it was killed, or it goes on as the pending pairing.\<close>

datatype pairing_child = NoChild | KilledChild | RunningChild

definition begin_pairing ::
    "(ustr \<Rightarrow> bool) \<Rightarrow> environment \<Rightarrow> (built_command \<Rightarrow> ustr option) \<Rightarrow> bool \<Rightarrow> stream_host_descriptor
       \<Rightarrow> pin_event list \<Rightarrow> program_cache \<Rightarrow> ustr port_result option \<times> pairing_child \<times> program_cache" where
  "begin_pairing is_file own spawn_fault has_stdout host events cache =
     (case stream_host_validate host of
        Inl e \<Rightarrow> (Some (Inl e), NoChild, cache)
      | Inr _ \<Rightarrow>
          (case build_command is_file own (moonlight_spec [lit ''pair'', show_ip (sh_address host)]) cache of
             (Inl e, cache') \<Rightarrow>
               (Some (Inl (port_error_new (lit ''MOONLIGHT_NOT_INSTALLED'') (perr_message e) False)), NoChild, cache')
           | (Inr command, cache') \<Rightarrow>
               (case spawn_fault command of
                  Some error \<Rightarrow>
                    (Some (Inl (port_error_new (lit ''MOONLIGHT_NOT_INSTALLED'')
                       (lit ''unable to launch Moonlight pairing: '' @ error) False)), NoChild, cache')
                | None \<Rightarrow>
                    if \<not> has_stdout
                    then (Some (Inl (port_error_new (lit ''MOONLIGHT_PAIRING_FAILED'')
                            (lit ''Moonlight did not expose its pairing output'') False)), KilledChild, cache')
                    else
                      (case read_pin events of
                         None \<Rightarrow> (None, RunningChild, cache')
                       | Some (Inr pin) \<Rightarrow> (Some (Inr pin), RunningChild, cache')
                       | Some (Inl e) \<Rightarrow> (Some (Inl e), KilledChild, cache')))))"

text \<open>How waiting for the pairing program to end came out.\<close>

datatype wait_outcome = WaitExited exit_status | WaitFailed ustr | WaitDeadline

definition complete_pairing :: "wait_outcome \<Rightarrow> unit port_result \<times> pairing_child" where
  "complete_pairing outcome =
     (case outcome of
        WaitExited status \<Rightarrow> (Inr (), NoChild)
      | WaitFailed error \<Rightarrow>
          (Inl (pairing_failed (lit ''could not wait for Moonlight pairing: '' @ error)), KilledChild)
      | WaitDeadline \<Rightarrow>
          (Inl (pairing_failed (lit ''timed out waiting for Moonlight to finish pairing'')), KilledChild))"

text \<open>
  Draining the output of a pairing: how many of the lines, or of the blocks read, are taken before
  the task stops.
\<close>

fun drained :: "nat \<Rightarrow> nat list \<Rightarrow> nat" where
  "drained seen [] = 0"
| "drained seen (n # ns) = (if seen + n > pairing_output_limit then 1 else Suc (drained (seen + n) ns))"

section \<open>Launching\<close>

definition launch_arguments :: "stream_launch_request \<Rightarrow> ustr list" where
  "launch_arguments request =
     (let host = sl_host request; profile = sl_profile request in
      [lit ''stream'', show_ip (sh_address host), sh_application host,
       lit ''--resolution'', show_nat (unat (sp_width profile)) @ lit ''x'' @ show_nat (unat (sp_height profile)),
       lit ''--fps'', show_nat (unat (sp_fps profile))]
      @ (case sp_bitrate_kbps profile of
           Some bitrate \<Rightarrow> [lit ''--bitrate'', show_nat (unat bitrate)] | None \<Rightarrow> [])
      @ (if \<not> sl_fullscreen request then [lit ''--display-mode'', lit ''windowed''] else [])
      @ (case sp_codec_preference profile of
           Auto \<Rightarrow> []
         | H264 \<Rightarrow> [lit ''--video-codec'', lit ''H.264'']
         | Hevc \<Rightarrow> [lit ''--video-codec'', lit ''HEVC'']
         | Av1 \<Rightarrow> [lit ''--video-codec'', lit ''AV1''])
      @ (if sl_input_mode request = RemoteInput then [lit ''--capture-system-keys'', lit ''always''] else []))"

definition launch_spec :: "stream_launch_request \<Rightarrow> command_spec" where
  "launch_spec request =
     (let spec = (moonlight_spec (launch_arguments request))\<lparr>cs_timeout := from_secs 30, cs_capture := CaptureDiscard\<rparr>
      in if sl_input_mode request = RemoteInput
         then spec\<lparr>cs_environment := cs_environment spec @ [(lit ''QT_QPA_PLATFORM'', lit ''wayland'')]\<rparr>
         else spec)"

definition moonlight_launch ::
    "(command_spec \<Rightarrow> ('w, 'child port_result) call) \<Rightarrow> stream_launch_request \<Rightarrow> ('w, 'child port_result) call" where
  "moonlight_launch spawn request =
     call_then (returning (stream_host_validate (sl_host request))) (\<lambda>_.
       call_then (returning (map_err
           (\<lambda>e. port_error_new (lit ''INVALID_STREAM_PROFILE'') (domain_error_message e) False)
           (stream_profile_validate (sl_profile request)))) (\<lambda>_ w.
         case spawn (launch_spec request) w of
           (r, w') \<Rightarrow>
             (map_err (\<lambda>e. port_error_new (lit ''STREAM_START_FAILED'') (perr_message e) (perr_retryable e)) r, w')))"

section \<open>Facts\<close>

lemma extract_pin_Some:
  "extract_pin line = Some pin \<Longrightarrow> utf8_len pin = 4 \<and> list_all is_ascii_digit pin \<and> sublist pin line"
proof -
  assume "extract_pin line = Some pin"
  then have pin: "pin = takeWhile is_ascii_digit (dropWhile (\<lambda>c. \<not> is_ascii_digit c) line)" "utf8_len pin = 4"
    by (auto simp: extract_pin_def Let_def split: if_splits)
  let ?rest = "dropWhile (\<lambda>c. \<not> is_ascii_digit c) line"
  have "line = takeWhile (\<lambda>c. \<not> is_ascii_digit c) line @ pin @ dropWhile is_ascii_digit ?rest"
    unfolding pin(1) by simp
  then have "sublist pin line" unfolding sublist_def by metis
  then show ?thesis using pin set_takeWhileD by (fastforce simp: list_all_iff)
qed

lemma extract_pin_found:
  assumes "\<forall>c\<in>set before. \<not> is_ascii_digit c" and "length pin = 4" and "\<forall>c\<in>set pin. is_ascii_digit c"
    and "after = [] \<or> \<not> is_ascii_digit (hd after)"
  shows "extract_pin (before @ pin @ after) = Some pin"
proof -
  obtain d ds where pin: "pin = d # ds" using assms(2) by (cases pin) auto
  have "dropWhile (\<lambda>c. \<not> is_ascii_digit c) (before @ pin @ after) = pin @ after"
    using assms(1,3) pin by (simp add: dropWhile_append2)
  moreover have "takeWhile is_ascii_digit (pin @ after) = pin"
    using assms(3,4) by (cases after) (auto simp: takeWhile_append2)
  moreover have "utf8_len pin = 4"
    using assms(2,3) by (subst utf8_len_ascii) (auto simp: is_ascii_digit_def)
  ultimately show ?thesis by (simp add: extract_pin_def)
qed

lemma read_pin_Ok:
  "read_pin events = Some (Inr pin) \<Longrightarrow> \<exists>line. PinLine line \<in> set events \<and> extract_pin line = Some pin"
  by (induction events rule: read_pin.induct) (auto split: option.splits)

lemma read_pin_returns: "PinDeadline \<in> set events \<or> PinOutputEnds \<in> set events \<Longrightarrow> read_pin events \<noteq> None"
  by (induction events rule: read_pin.induct) (auto split: option.split)

lemma show_ip_hd: "show_ip a \<noteq> [] \<longrightarrow> hd (show_ip a) \<noteq> 45"
proof
  assume "show_ip a \<noteq> []"
  then have "ip_text_char (hd (show_ip a))" using show_ip_chars by (metis hd_in_set)
  then show "hd (show_ip a) \<noteq> 45"
    by (auto simp: ip_text_char_def is_ascii_hexdigit_def is_ascii_digit_def)
qed

lemma show_nat_no_dash: "\<not> starts_with (show_nat n @ t) (lit ''-'')"
proof -
  obtain c r where s: "show_nat n = c # r" by (cases "show_nat n") auto
  then have "is_ascii_digit c" using show_nat_digits [of c n] by simp
  with s show ?thesis by (auto simp: starts_with_def lit_def is_ascii_digit_def)
qed

definition moonlight_options :: "ustr list" where
  "moonlight_options =
     [lit ''--resolution'', lit ''--fps'', lit ''--bitrate'', lit ''--display-mode'', lit ''--video-codec'',
      lit ''--capture-system-keys'']"

section \<open>Correctness\<close>

text \<open>
  No text of a remote device becomes an option of Moonlight. When a launch starts a child, the
  program runs with the arguments of the request, the third of which is the application name the
  host advertised; of all arguments only the options this program puts there begin with a dash, and
  the name is of letters, digits, spaces, dots, dashes and underscores.
\<close>

theorem launch_has_no_foreign_options:
  assumes "moonlight_launch spawn request w = (Inr child, w')"
  shows "spawn (launch_spec request) w = (Inr child, w')
    \<and> cs_program (launch_spec request) = lit ''moonlight''
    \<and> cs_args (launch_spec request) ! 2 = sh_application (sl_host request)
    \<and> list_all application_char (sh_application (sl_host request))
    \<and> list_all (\<lambda>a. starts_with a (lit ''-'') \<longrightarrow> a \<in> set moonlight_options) (cs_args (launch_spec request))"
proof -
  have host: "stream_host_validate (sl_host request) = Inr ()"
    and run: "spawn (launch_spec request) w = (Inr child, w')"
    using assms by (auto simp: moonlight_launch_def call_then_def returning_def map_err_def
        split: prod.splits sum.splits)
  have app: "\<not> starts_with (sh_application (sl_host request)) (lit ''-'')"
    "list_all application_char (sh_application (sl_host request))"
    using host by (auto simp: stream_host_validate_def Let_def split: if_splits)
  have ip: "\<not> starts_with (show_ip (sh_address (sl_host request))) (lit ''-'')"
    using show_ip_hd [of "sh_address (sl_host request)"]
    by (cases "show_ip (sh_address (sl_host request))") (auto simp: starts_with_def lit_def)
  have words: "\<not> starts_with (lit ''stream'') (lit ''-'')" "\<not> starts_with (lit ''windowed'') (lit ''-'')"
    "\<not> starts_with (lit ''H.264'') (lit ''-'')" "\<not> starts_with (lit ''HEVC'') (lit ''-'')"
    "\<not> starts_with (lit ''AV1'') (lit ''-'')" "\<not> starts_with (lit ''always'') (lit ''-'')"
    by code_simp+
  have args: "cs_args (launch_spec request) = launch_arguments request"
    and program: "cs_program (launch_spec request) = lit ''moonlight''"
    by (simp_all add: launch_spec_def moonlight_spec_def command_spec_new_def
        command_spec_with_environment_policy_def Let_def)
  have "list_all (\<lambda>a. starts_with a (lit ''-'') \<longrightarrow> a \<in> set moonlight_options) (launch_arguments request)"
    using app(1) ip words show_nat_no_dash [of _ "[]"] show_nat_no_dash
    by (auto simp: launch_arguments_def moonlight_options_def Let_def split: option.split codec_preference.split)
  moreover have "launch_arguments request ! 2 = sh_application (sl_host request)"
    by (simp add: launch_arguments_def Let_def)
  ultimately show ?thesis using run args program app(2) by simp
qed

text \<open>
  The PIN that Moonlight prints is one the remote agent accepts: four decimal digits taken from a
  line of the program's output, so the pairing request made with it never fails for its PIN.
\<close>

theorem printed_pin_is_accepted:
  assumes "fst (begin_pairing is_file own spawn_fault has_stdout host events cache) = Some (Inr pin)"
  shows "(\<exists>line. PinLine line \<in> set events \<and> sublist pin line)
    \<and> pair_request_validate \<lparr>pr_pairing_id = i, pr_pin = pin, pr_client_name = name\<rparr> \<noteq> Inl PinField"
proof -
  have "read_pin events = Some (Inr pin)"
    using assms by (auto simp: begin_pairing_def split: sum.splits prod.splits option.splits if_splits)
  then obtain line where "PinLine line \<in> set events" "extract_pin line = Some pin"
    using read_pin_Ok by blast
  then show ?thesis
    using extract_pin_Some [of line pin] by (auto simp: pair_request_validate_def Let_def)
qed

text \<open>
  Starting a pairing ends, and a failed one leaves no program behind: once the program's output
  ended or the deadline passed the call has returned, and when it returns an error the program was
  not started or was killed.
\<close>

theorem failed_pairing_leaves_no_process:
  assumes "begin_pairing is_file own spawn_fault has_stdout host events cache = (r, child, cache')"
  shows "(PinDeadline \<in> set events \<or> PinOutputEnds \<in> set events \<longrightarrow> r \<noteq> None)
    \<and> (r = Some (Inl e) \<longrightarrow> child \<noteq> RunningChild)"
  using assms read_pin_returns [of events]
  by (auto simp: begin_pairing_def split: sum.splits prod.splits option.splits if_splits; metis)

section \<open>Examples\<close>

definition example_host :: stream_host_descriptor where
  "example_host = \<lparr>sh_address = V4 100 64 0 2, sh_application = lit ''Desktop''\<rparr>"

definition example_launch :: stream_launch_request where
  "example_launch = \<lparr>sl_host = example_host, sl_profile = stream_profile_default, sl_fullscreen = False,
     sl_input_mode = RemoteInput\<rparr>"

definition pin_line :: ustr where
  "pin_line = lit ''Please enter the following PIN on the target PC: 0417''"

theorem launch_has_no_foreign_options_witness:
  "list_all (\<lambda>a. starts_with a (lit ''-'') \<longrightarrow> a \<in> set moonlight_options) (cs_args (launch_spec example_launch))
   \<and> length (cs_args (launch_spec example_launch)) = 11"
proof -
  have valid: "stream_host_validate (sl_host example_launch) = Inr ()"
    "stream_profile_validate (sl_profile example_launch) = Inr ()" by code_simp+
  have "moonlight_launch (\<lambda>_ w. (Inr (), w)) example_launch (0 :: nat) = (Inr (), 0)"
    unfolding moonlight_launch_def call_then_def using valid by simp
  from launch_has_no_foreign_options [OF this] show ?thesis by (simp; code_simp)
qed

theorem printed_pin_is_accepted_witness:
  "pair_request_validate \<lparr>pr_pairing_id = lit ''a'', pr_pin = lit ''0417'', pr_client_name = []\<rparr> \<noteq> Inl PinField"
proof -
  have "fst (begin_pairing (\<lambda>_. True) Map.empty (\<lambda>_. None) True example_host [PinLine [], PinLine pin_line] hm_empty)
      = Some (Inr (lit ''0417''))"
    by code_simp
  from printed_pin_is_accepted [OF this] show ?thesis by blast
qed

theorem failed_pairing_leaves_no_process_witness:
  "fst (snd (begin_pairing (\<lambda>_. True) Map.empty (\<lambda>_. None) True example_host [PinLine [], PinDeadline] hm_empty))
     \<noteq> RunningChild"
proof -
  let ?r = "begin_pairing (\<lambda>_. True) Map.empty (\<lambda>_. None) True example_host [PinLine [], PinDeadline] hm_empty"
  have "fst ?r = Some (Inl (pairing_failed (lit ''timed out waiting for Moonlight to produce a pairing PIN'')))"
    by code_simp
  moreover have "?r = (fst ?r, fst (snd ?r), snd (snd ?r))" by simp
  ultimately show ?thesis using failed_pairing_leaves_no_process by metis
qed

end
