(* ===== verification/Sunshine.thy ===== *)
theory Sunshine
  imports Hyprland Disk
begin

text \<open>
  \<open>crates/omdesky-platform/src/sunshine.rs\<close>: the Sunshine server of this computer. Its programs are
  run by a runner, its configuration is read from the modelled disk; the desktop's key ring, the
  HTTP request to Sunshine's own interface and serde_json are arguments.
\<close>

definition default_api_base :: ustr where
  "default_api_base = lit ''https://127.0.0.1:47990''"

definition sunshine_desktop_application :: ustr where
  "sunshine_desktop_application = lit ''Desktop''"

definition max_sunshine_config_bytes :: nat where
  "max_sunshine_config_bytes = 256 * 1024"

section \<open>Credentials\<close>

record sunshine_credentials =
  su_username :: ustr
  su_password :: ustr

datatype credential_error = InvalidCredentials | SecretServiceUnavailable | InvalidStoredCredentials

fun credential_error_text :: "credential_error \<Rightarrow> ustr" where
  "credential_error_text InvalidCredentials = lit ''Sunshine credentials must include a username and password''"
| "credential_error_text SecretServiceUnavailable = lit ''the desktop Secret Service is unavailable or locked''"
| "credential_error_text InvalidStoredCredentials = lit ''the stored Sunshine credentials are invalid''"

text \<open>A backend for the secret, and the one over the key ring: opening an entry, reading and setting it.\<close>

record 'w credential_backend =
  cb_load :: "('w, credential_error + byte list option) call"
  cb_store :: "byte list \<Rightarrow> ('w, credential_error + unit) call"

datatype keyring_error = NoEntry | KeyringFailure

record 'w keyring =
  kr_entry :: "('w, keyring_error + unit) call"
  kr_get_secret :: "('w, keyring_error + byte list) call"
  kr_set_secret :: "byte list \<Rightarrow> ('w, keyring_error + unit) call"

definition secret_service_entry :: "'w keyring \<Rightarrow> ('w, credential_error + unit) call" where
  "secret_service_entry kr = (\<lambda>w. case kr_entry kr w of (r, w') \<Rightarrow> (map_err (\<lambda>_. SecretServiceUnavailable) r, w'))"

definition secret_service_backend :: "'w keyring \<Rightarrow> 'w credential_backend" where
  "secret_service_backend kr =
     \<lparr>cb_load = call_then (secret_service_entry kr) (\<lambda>_ w.
        case kr_get_secret kr w of
          (Inr secret, w') \<Rightarrow> (Inr (Some secret), w')
        | (Inl NoEntry, w') \<Rightarrow> (Inr None, w')
        | (Inl _, w') \<Rightarrow> (Inl SecretServiceUnavailable, w')),
      cb_store = (\<lambda>secret. call_then (secret_service_entry kr) (\<lambda>_ w.
        case kr_set_secret kr secret w of (r, w') \<Rightarrow> (map_err (\<lambda>_. SecretServiceUnavailable) r, w')))\<rparr>"

definition parse_credentials ::
    "(byte list \<Rightarrow> sunshine_credentials option) \<Rightarrow> byte list \<Rightarrow> credential_error + sunshine_credentials" where
  "parse_credentials decode secret =
     try_then (ok_or (decode secret) InvalidStoredCredentials)
       (\<lambda>raw. if su_username raw = [] \<or> su_password raw = [] then Inl InvalidStoredCredentials else Inr raw)"

definition credentials_load ::
    "(byte list \<Rightarrow> sunshine_credentials option) \<Rightarrow> 'w credential_backend
       \<Rightarrow> ('w, credential_error + sunshine_credentials option) call" where
  "credentials_load decode backend =
     call_then (cb_load backend) (\<lambda>stored. returning
       (case stored of None \<Rightarrow> Inr None | Some secret \<Rightarrow> map_ok Some (parse_credentials decode secret)))"

definition credentials_store ::
    "(sunshine_credentials \<Rightarrow> byte list) \<Rightarrow> 'w credential_backend \<Rightarrow> ustr \<Rightarrow> ustr
       \<Rightarrow> ('w, credential_error + unit) call" where
  "credentials_store encode backend username password =
     (if username = [] \<or> password = [] then returning (Inl InvalidCredentials)
      else cb_store backend (encode \<lparr>su_username = username, su_password = password\<rparr>))"

definition credential_port_error :: port_error where
  "credential_port_error = port_error_new (lit ''SUNSHINE_API_UNAVAILABLE'')
     (lit ''the desktop Secret Service is unavailable or locked'') True"

text \<open>Reading on a blocking task, which may be lost.\<close>

definition adapter_credentials ::
    "(byte list \<Rightarrow> sunshine_credentials option) \<Rightarrow> 'w credential_backend \<Rightarrow> bool
       \<Rightarrow> ('w, sunshine_credentials option port_result) call" where
  "adapter_credentials decode backend lost = (\<lambda>w.
     case credentials_load decode backend w of
       (r, w') \<Rightarrow> (if lost then Inl credential_port_error else map_err (\<lambda>_. credential_port_error) r, w'))"

definition credentials_configured ::
    "(byte list \<Rightarrow> sunshine_credentials option) \<Rightarrow> 'w credential_backend \<Rightarrow> bool \<Rightarrow> ('w, bool port_result) call" where
  "credentials_configured decode backend lost = (\<lambda>w.
     case adapter_credentials decode backend lost w of
       (r, w') \<Rightarrow> (map_ok (\<lambda>credentials. credentials \<noteq> None) r, w'))"

section \<open>Configuration\<close>

text \<open>\<open>str::lines\<close>: split at newlines, a carriage return before one dropped, no empty last line.\<close>

definition str_lines :: "ustr \<Rightarrow> ustr list" where
  "str_lines s =
     (let pieces = split_on (\<lambda>c. c = 10) s;
          kept = (if last pieces = [] then butlast pieces else pieces)
      in map (\<lambda>l. if l \<noteq> [] \<and> last l = 13 then butlast l else l) kept)"

definition is_equals_sign :: "ucs \<Rightarrow> bool" where
  "is_equals_sign c \<longleftrightarrow> c = 61"

definition config_line :: "ustr \<Rightarrow> ustr \<Rightarrow> ustr option" where
  "config_line key line =
     (case split_once is_equals_sign (trim line) of
        None \<Rightarrow> None
      | Some (candidate, v) \<Rightarrow> if trim candidate = key then Some (trim v) else None)"

definition config_value :: "ustr \<Rightarrow> ustr \<Rightarrow> ustr option" where
  "config_value config key = list_first (List.map_filter (config_line key) (str_lines config))"

definition read_config :: "io_error option \<Rightarrow> path \<Rightarrow> disk \<Rightarrow> ustr" where
  "read_config fault p d =
     unwrap_or (Option.bind (result_ok (read_limited fault max_sunshine_config_bytes p d)) from_utf8) []"

section \<open>Readiness\<close>

record host_readiness =
  hr_installed :: bool
  hr_running :: bool
  hr_capture_ready :: bool
  hr_input_ready :: bool
  hr_exposure_warning :: "ustr option"

definition sunshine_spec :: command_spec where
  "sunshine_spec = command_spec_new (lit ''sunshine'') [lit ''--version'']"

definition service_active_spec :: command_spec where
  "service_active_spec =
     command_spec_new (lit ''systemctl'') [lit ''--user'', lit ''is-active'', lit ''sunshine.service'']"

definition runs :: "'w runner \<Rightarrow> command_spec \<Rightarrow> ('w, bool) call" where
  "runs run spec = (\<lambda>w. case run spec w of (r, w') \<Rightarrow> (is_ok r, w'))"

definition sunshine_readiness ::
    "hypr_format \<Rightarrow> 'w runner \<Rightarrow> ustr \<Rightarrow> ('w, host_readiness port_result) call" where
  "sunshine_readiness jh run config = (\<lambda>w.
     case runs run sunshine_spec w of
       (installed, w1) \<Rightarrow>
         (case runs run service_active_spec w1 of
            (running, w2) \<Rightarrow>
              let keyboard_disabled = (config_value config (lit ''keyboard'') = Some (lit ''disabled''));
                  mouse_disabled = (config_value config (lit ''mouse'') = Some (lit ''disabled''));
                  bind_address = config_value config (lit ''bind_address'');
                  wildcard = option_all (\<lambda>v. v = [] \<or> v = lit ''0.0.0.0'' \<or> v = lit ''::'') bind_address;
                  result = (\<lambda>capture.
                    \<lparr>hr_installed = installed, hr_running = running, hr_capture_ready = capture,
                     hr_input_ready = \<not> keyboard_disabled \<and> \<not> mouse_disabled,
                     hr_exposure_warning =
                       (if wildcard then Some (lit ''Sunshine may be listening on non-Tailscale interfaces'')
                        else None)\<rparr>)
              in if installed \<and> running
                 then call_then (hypr_displays jh run) (\<lambda>ds. returning (Inr (result (ds \<noteq> [])))) w2
                 else (Inr (result False), w2)))"

definition sunshine_status ::
    "hypr_format \<Rightarrow> (byte list \<Rightarrow> sunshine_credentials option) \<Rightarrow> 'w runner \<Rightarrow> 'w credential_backend \<Rightarrow> ustr \<Rightarrow> bool
       \<Rightarrow> ('w, sunshine_status_response port_result) call" where
  "sunshine_status jh decode run backend config lost =
     call_then (sunshine_readiness jh run config) (\<lambda>readiness.
       let ready = hr_installed readiness \<and> hr_running readiness \<and> hr_capture_ready readiness
                   \<and> hr_input_ready readiness;
           result = (\<lambda>available.
             \<lparr>ss_installed = hr_installed readiness, ss_running = hr_running readiness, ss_ready = ready,
              ss_desktop_app = (if hr_installed readiness then Some sunshine_desktop_application else None),
              ss_pairing_api_available = available\<rparr>)
       in if hr_running readiness
          then call_then (adapter_credentials decode backend lost)
                 (\<lambda>credentials. returning (Inr (result (credentials \<noteq> None))))
          else returning (Inr (result False)))"

section \<open>Approving a pairing\<close>

text \<open>The request with its basic authentication, and the answer: a status and what its body parses to.\<close>

record pin_submission =
  ps_url :: ustr
  ps_credentials :: sunshine_credentials
  ps_pin :: ustr
  ps_name :: ustr

record pin_answer =
  pa_status :: nat
  pa_accepted :: "ustr + bool"

definition pairing_rejected :: "ustr \<Rightarrow> port_error" where
  "pairing_rejected text = port_error_new (lit ''SUNSHINE_PAIRING_FAILED'') text False"

definition submit_pairing_pin ::
    "(nat \<Rightarrow> ustr) \<Rightarrow> (byte list \<Rightarrow> sunshine_credentials option) \<Rightarrow> 'w credential_backend \<Rightarrow> bool \<Rightarrow> ustr
       \<Rightarrow> (pin_submission \<Rightarrow> ('w, ustr + pin_answer) call) \<Rightarrow> ustr \<Rightarrow> ustr \<Rightarrow> ('w, unit port_result) call" where
  "submit_pairing_pin status_text decode backend lost api_base send pin client_name =
     call_then (adapter_credentials decode backend lost) (\<lambda>stored w.
       case stored of
         None \<Rightarrow>
           (Inl (port_error_new (lit ''SUNSHINE_API_UNAVAILABLE'')
              (lit ''Sunshine admin credentials are not configured on this node; run `omdesky setup` on the host'')
              False), w)
       | Some credentials \<Rightarrow>
           (case send \<lparr>ps_url = api_base @ lit ''/api/pin'', ps_credentials = credentials, ps_pin = pin,
                       ps_name = client_name\<rparr> w of
              (Inl e, w') \<Rightarrow> (Inl (port_error_new (lit ''SUNSHINE_API_UNAVAILABLE'') e True), w')
            | (Inr answer, w') \<Rightarrow>
                (if \<not> (200 \<le> pa_status answer \<and> pa_status answer < 300)
                 then Inl (pairing_rejected (lit ''Sunshine rejected the pairing PIN (HTTP ''
                        @ status_text (pa_status answer) @ lit '')''))
                 else (case pa_accepted answer of
                     Inl e \<Rightarrow> Inl (pairing_rejected e)
                   | Inr accepted \<Rightarrow>
                       if accepted then Inr ()
                       else Inl (pairing_rejected (lit ''Sunshine did not accept the pairing PIN''))), w')))"

section \<open>Which interface may skip certificate validation\<close>

fun is_loopback :: "ip_addr \<Rightarrow> bool" where
  "is_loopback (V4 a b c d) \<longleftrightarrow> a = 127"
| "is_loopback (V6 a b c d e f g h) \<longleftrightarrow>
     a = 0 \<and> b = 0 \<and> c = 0 \<and> d = 0 \<and> e = 0 \<and> f = 0 \<and> g = 0 \<and> h = 1"

definition is_loopback_api :: "ustr \<Rightarrow> bool" where
  "is_loopback_api api_base =
     (case or_else (strip_prefix (lit ''https://'') api_base) (strip_prefix (lit ''http://'') api_base) of
        None \<Rightarrow> False
      | Some rest \<Rightarrow>
          let authority = hd (split_on (\<lambda>c. c = 47) rest);
              host = (case rsplit_once (\<lambda>c. c = 58) authority of
                        None \<Rightarrow> authority | Some (h, _) \<Rightarrow> h);
              candidate = trim_end_matches (\<lambda>c. c = 93) (trim_start_matches (\<lambda>c. c = 91) host)
          in candidate = lit ''localhost'' \<or> option_any is_loopback (parse_ip candidate))"

text \<open>
  What building the adapter decides: the address of Sunshine's interface, and that the HTTP client
  takes any certificate when that address counts as local. The runner, the credential store and
  the desktop are arguments of the operations.
\<close>

record sunshine_adapter =
  sa_config_path :: ustr
  sa_api_base :: ustr
  sa_accepts_invalid_certs :: bool
  sa_timeout :: duration

definition sunshine_with_api :: "ustr \<Rightarrow> ustr \<Rightarrow> sunshine_adapter" where
  "sunshine_with_api config_path api_base =
     (let loopback_only = is_loopback_api api_base
      in \<lparr>sa_config_path = config_path, sa_api_base = api_base,
          sa_accepts_invalid_certs = loopback_only, sa_timeout = from_secs 5\<rparr>)"

definition sunshine_new :: "ustr \<Rightarrow> sunshine_adapter" where
  "sunshine_new config_path = sunshine_with_api config_path default_api_base"

section \<open>Facts\<close>

lemma runs_True: "runs run spec w = (True, w') \<Longrightarrow> \<exists>out. fst (run spec w) = Inr out"
  by (auto simp: runs_def is_ok_iff split: prod.splits)

lemma adapter_credentials_Some:
  "fst (adapter_credentials decode backend lost w) = Inr (Some credentials) \<Longrightarrow>
     su_username credentials \<noteq> [] \<and> su_password credentials \<noteq> []"
  by (auto simp: adapter_credentials_def credentials_load_def call_then_def returning_def parse_credentials_def
      map_err_def map_ok_def try_then_Inr split: prod.splits sum.splits option.splits if_splits)

lemma readiness_Inr:
  assumes "sunshine_readiness jh run config w = (Inr r, w')"
  shows "(hr_installed r \<longrightarrow> (\<exists>v out. fst (run sunshine_spec v) = Inr out))
    \<and> (hr_running r \<longrightarrow> (\<exists>v out. fst (run service_active_spec v) = Inr out))
    \<and> (hr_capture_ready r \<longrightarrow> (\<exists>v d ds v'. hypr_displays jh run v = (Inr (d # ds), v')))
    \<and> (hr_input_ready r \<longrightarrow> config_value config (lit ''keyboard'') \<noteq> Some (lit ''disabled'')
        \<and> config_value config (lit ''mouse'') \<noteq> Some (lit ''disabled''))"
proof -
  obtain a w1 where a: "runs run sunshine_spec w = (a, w1)" by fastforce
  obtain b w2 where b: "runs run service_active_spec w1 = (b, w2)" by fastforce
  note ab = runs_True [of run sunshine_spec w w1] runs_True [of run service_active_spec w1 w2]
  show ?thesis
  proof (cases "a \<and> b")
    case True
    with assms a b have "\<exists>ds. hypr_displays jh run w2 = (Inr ds, w') \<and> (hr_capture_ready r \<longleftrightarrow> ds \<noteq> [])"
      by (auto simp: sunshine_readiness_def Let_def dest!: call_then_InrD)
    moreover have "hr_input_ready r \<longrightarrow> config_value config (lit ''keyboard'') \<noteq> Some (lit ''disabled'')
        \<and> config_value config (lit ''mouse'') \<noteq> Some (lit ''disabled'')"
      using assms a b True by (auto simp: sunshine_readiness_def Let_def dest!: call_then_InrD)
    ultimately show ?thesis using True a b ab by (metis list.exhaust)
  next
    case False
    with assms a b have "r = r\<lparr>hr_installed := a, hr_running := b, hr_capture_ready := False\<rparr>"
      "hr_input_ready r \<longrightarrow> config_value config (lit ''keyboard'') \<noteq> Some (lit ''disabled'')
        \<and> config_value config (lit ''mouse'') \<noteq> Some (lit ''disabled'')"
      by (auto simp: sunshine_readiness_def Let_def)
    moreover from this(1) have "hr_installed r = a" "hr_running r = b" "\<not> hr_capture_ready r"
      by (metis host_readiness.select_convs host_readiness.surjective host_readiness.update_convs)+
    ultimately show ?thesis using a b ab by metis
  qed
qed

section \<open>Correctness\<close>

text \<open>
  A server reported ready really is: the program and its service answered, Hyprland lists a
  display, and the configuration disables neither the keyboard nor the mouse.
\<close>

theorem ready_server_can_stream:
  assumes "sunshine_status jh decode run backend config lost w = (Inr status, w')"
  shows "(ss_ready status \<longrightarrow>
      ss_installed status \<and> ss_running status \<and> ss_desktop_app status = Some (lit ''Desktop'')
      \<and> (\<exists>v out. fst (run sunshine_spec v) = Inr out) \<and> (\<exists>v out. fst (run service_active_spec v) = Inr out)
      \<and> (\<exists>v d ds v'. hypr_displays jh run v = (Inr (d # ds), v'))
      \<and> config_value config (lit ''keyboard'') \<noteq> Some (lit ''disabled'')
      \<and> config_value config (lit ''mouse'') \<noteq> Some (lit ''disabled''))
    \<and> (ss_pairing_api_available status \<longrightarrow> ss_running status
      \<and> (\<exists>v v' credentials. adapter_credentials decode backend lost v = (Inr (Some credentials), v')))"
proof -
  obtain r w1 where ready: "sunshine_readiness jh run config w = (Inr r, w1)"
    and shown: "ss_installed status = hr_installed r" "ss_running status = hr_running r"
      "ss_ready status \<longleftrightarrow> hr_installed r \<and> hr_running r \<and> hr_capture_ready r \<and> hr_input_ready r"
      "hr_installed r \<longrightarrow> ss_desktop_app status = Some (lit ''Desktop'')"
    and pairing: "ss_pairing_api_available status \<longrightarrow> hr_running r
      \<and> (\<exists>v v' credentials. adapter_credentials decode backend lost v = (Inr (Some credentials), v'))"
    using assms unfolding sunshine_status_def
    by (fastforce simp: Let_def sunshine_desktop_application_def dest!: call_then_InrD split: if_splits)
  show ?thesis using readiness_Inr [OF ready] shown pairing by blast
qed

definition keeps_secrets :: "'w keyring \<Rightarrow> bool" where
  "keeps_secrets kr \<longleftrightarrow>
     (\<forall>secret w w1 w2. kr_set_secret kr secret w = (Inr (), w1) \<longrightarrow> fst (kr_entry kr w1) = Inr () \<longrightarrow>
        snd (kr_entry kr w1) = w2 \<longrightarrow> fst (kr_get_secret kr w2) = Inr secret)"

text \<open>
  Stored credentials are the ones used: over a key ring that keeps what it is given and a faithful
  printer and parser, credentials that were stored are loaded again, and blank ones are refused
  without touching the key ring.
\<close>

theorem credentials_roundtrip:
  assumes "keeps_secrets kr" and "\<And>c. decode (encode c) = Some c"
    and "credentials_store encode (secret_service_backend kr) username password w = (Inr (), w1)"
    and "fst (kr_entry kr w1) = Inr ()"
  shows "fst (credentials_load decode (secret_service_backend kr) w1)
      = Inr (Some \<lparr>su_username = username, su_password = password\<rparr>)
    \<and> credentials_store encode (secret_service_backend kr) [] password w = (Inl InvalidCredentials, w)"
proof -
  have names: "username \<noteq> []" "password \<noteq> []"
    using assms(3) by (auto simp: credentials_store_def split: if_splits)
  let ?secret = "encode \<lparr>su_username = username, su_password = password\<rparr>"
  obtain w0 where "kr_set_secret kr ?secret w0 = (Inr (), w1)"
    using assms(3) names by (auto simp: credentials_store_def secret_service_backend_def map_err_def
        dest!: call_then_InrD split: prod.splits sum.splits)
  then have "fst (kr_get_secret kr (snd (kr_entry kr w1))) = Inr ?secret"
    using assms(1,4) by (simp add: keeps_secrets_def)
  then have "fst (cb_load (secret_service_backend kr) w1) = Inr (Some ?secret)"
    using assms(4) by (auto simp: secret_service_backend_def call_then_def secret_service_entry_def
        split: prod.splits sum.splits)
  then have "fst (credentials_load decode (secret_service_backend kr) w1)
      = Inr (Some \<lparr>su_username = username, su_password = password\<rparr>)"
    using assms(2) names by (auto simp: credentials_load_def call_then_def parse_credentials_def split: prod.splits)
  then show ?thesis by (simp add: credentials_store_def)
qed

text \<open>
  A PIN counts as approved only when Sunshine accepted it: the stored credentials were sent to its
  interface with this PIN, and it answered with success and a positive status.
\<close>

theorem approved_pin_was_accepted:
  assumes "submit_pairing_pin status_text decode backend lost api_base send pin client_name w = (Inr (), w')"
  shows "\<exists>credentials v answer.
      fst (adapter_credentials decode backend lost w) = Inr (Some credentials)
    \<and> send \<lparr>ps_url = api_base @ lit ''/api/pin'', ps_credentials = credentials, ps_pin = pin,
            ps_name = client_name\<rparr> v = (Inr answer, w')
    \<and> 200 \<le> pa_status answer \<and> pa_status answer < 300 \<and> pa_accepted answer = Inr True
    \<and> su_username credentials \<noteq> [] \<and> su_password credentials \<noteq> []"
proof -
  obtain stored v where stored: "adapter_credentials decode backend lost w = (Inr stored, v)"
    and rest: "submit_pairing_pin status_text decode backend lost api_base send pin client_name w = (Inr (), w')"
    using assms unfolding submit_pairing_pin_def by (blast dest: call_then_InrD)
  then obtain credentials where some: "stored = Some credentials"
    by (cases stored) (auto simp: submit_pairing_pin_def call_then_def)
  have "su_username credentials \<noteq> [] \<and> su_password credentials \<noteq> []"
    using adapter_credentials_Some [of decode backend lost w credentials] stored some by simp
  moreover have "\<exists>answer. send \<lparr>ps_url = api_base @ lit ''/api/pin'', ps_credentials = credentials, ps_pin = pin,
      ps_name = client_name\<rparr> v = (Inr answer, w')
    \<and> 200 \<le> pa_status answer \<and> pa_status answer < 300 \<and> pa_accepted answer = Inr True"
    using rest stored some
    by (auto simp: submit_pairing_pin_def call_then_def split: prod.splits sum.splits if_splits)
  ultimately show ?thesis using stored some by (intro exI [of _ credentials] exI [of _ v]) auto
qed

text \<open>
  The check for the local interface takes user information for the host: a base whose host is
  another computer passes, because the text before the last colon is an address of this one.
\<close>

theorem loopback_check_takes_user_information:
  "is_loopback_api (lit ''https://127.0.0.1:x@sunshine.example'') \<and> is_loopback_api default_api_base"
  by code_simp

section \<open>Examples\<close>

text \<open>A computer on which every program runs, a key ring of one secret, and a parser for the credentials.\<close>

definition example_hypr :: hypr_format where
  "example_hypr = \<lparr>jh_monitors = (\<lambda>_. Inr [\<lparr>hy_name = lit ''DP-1'', hy_description = None, hy_width = 1920,
       hy_height = 1080, hy_refresh_rate = 60, hy_focused = True, hy_disabled = False\<rparr>]),
     jh_workspaces = (\<lambda>_. Inr []), jh_clients = (\<lambda>_. Inr []), jh_client = (\<lambda>_. Inl [])\<rparr>"

definition one_secret :: "byte list option keyring" where
  "one_secret =
     \<lparr>kr_entry = (\<lambda>w. (Inr (), w)),
      kr_get_secret = (\<lambda>w. ((case w of None \<Rightarrow> Inl NoEntry | Some secret \<Rightarrow> Inr secret), w)),
      kr_set_secret = (\<lambda>secret w. (Inr (), Some secret))\<rparr>"

definition unary :: "nat \<Rightarrow> byte list" where
  "unary n = replicate n 1 @ [0]"

definition put_credentials :: "sunshine_credentials \<Rightarrow> byte list" where
  "put_credentials c = concat (map unary (length (su_username c) # su_username c @ su_password c))"

fun get_unary :: "nat \<Rightarrow> byte list \<Rightarrow> nat list" where
  "get_unary n [] = []"
| "get_unary n (b # bs) = (if b = 0 then n # get_unary 0 bs else get_unary (Suc n) bs)"

definition get_credentials :: "byte list \<Rightarrow> sunshine_credentials option" where
  "get_credentials bs =
     (case get_unary 0 bs of
        [] \<Rightarrow> None
      | n # ns \<Rightarrow> Some \<lparr>su_username = take n ns, su_password = drop n ns\<rparr>)"

lemma get_unary_put: "get_unary k (unary n @ bs) = (k + n) # get_unary 0 bs"
  by (induction n arbitrary: k) (auto simp: unary_def)

lemma get_unary_concat: "get_unary 0 (concat (map unary ns)) = ns"
  by (induction ns) (simp_all add: get_unary_put)

lemma get_put_credentials: "get_credentials (put_credentials c) = Some c"
  unfolding get_credentials_def put_credentials_def get_unary_concat by simp

theorem ready_server_can_stream_witness:
  "\<exists>status w'. sunshine_status example_hypr (\<lambda>_. None) example_runner
       (secret_service_backend \<lparr>kr_entry = (\<lambda>w. (Inr (), w)), kr_get_secret = (\<lambda>w. (Inl NoEntry, w)),
          kr_set_secret = (\<lambda>_ w. (Inr (), w))\<rparr>)
       (lit ''keyboard = enabled'') False 0 = (Inr status, w')
     \<and> ss_ready status \<and> ss_desktop_app status = Some (lit ''Desktop'')"
proof -
  let ?r = "sunshine_status example_hypr (\<lambda>_. None) example_runner
       (secret_service_backend \<lparr>kr_entry = (\<lambda>w. (Inr (), w)), kr_get_secret = (\<lambda>w. (Inl NoEntry, w)),
          kr_set_secret = (\<lambda>_ w. (Inr (), w))\<rparr>)
       (lit ''keyboard = enabled'') False 0"
  have "option_any ss_ready (result_ok (fst ?r))" by code_simp
  then obtain status where status: "fst ?r = Inr status" "ss_ready status"
    by (cases "fst ?r") auto
  then have run: "?r = (Inr status, snd ?r)" by (metis prod.collapse)
  from ready_server_can_stream [OF this] status(2) run show ?thesis by blast
qed

theorem credentials_roundtrip_witness:
  "fst (credentials_load get_credentials (secret_service_backend one_secret)
      (Some (put_credentials \<lparr>su_username = lit ''admin'', su_password = lit ''s3cret''\<rparr>)))
     = Inr (Some \<lparr>su_username = lit ''admin'', su_password = lit ''s3cret''\<rparr>)"
proof -
  have "keeps_secrets one_secret" by (simp add: keeps_secrets_def one_secret_def)
  moreover have "credentials_store put_credentials (secret_service_backend one_secret) (lit ''admin'') (lit ''s3cret'')
      None = (Inr (), Some (put_credentials \<lparr>su_username = lit ''admin'', su_password = lit ''s3cret''\<rparr>))"
    by (simp add: credentials_store_def secret_service_backend_def call_then_def secret_service_entry_def one_secret_def)
  moreover have "fst (kr_entry one_secret w) = Inr ()" for w by (simp add: one_secret_def)
  ultimately show ?thesis
    using credentials_roundtrip [of one_secret get_credentials put_credentials] get_put_credentials by blast
qed

theorem approved_pin_was_accepted_witness:
  "\<exists>credentials. su_username credentials \<noteq> [] \<and> su_password credentials \<noteq> []
     \<and> fst (adapter_credentials get_credentials (secret_service_backend one_secret) False
          (Some (put_credentials \<lparr>su_username = [97], su_password = [98]\<rparr>))) = Inr (Some credentials)"
proof -
  let ?secret = "put_credentials \<lparr>su_username = [97], su_password = [98]\<rparr>"
  have "submit_pairing_pin (\<lambda>_. []) get_credentials (secret_service_backend one_secret) False default_api_base
      (\<lambda>_ w. (Inr \<lparr>pa_status = 200, pa_accepted = Inr True\<rparr>, w)) (lit ''0417'') (lit ''laptop'') (Some ?secret)
    = (Inr (), Some ?secret)"
    by (simp add: submit_pairing_pin_def adapter_credentials_def credentials_load_def call_then_def
        secret_service_backend_def secret_service_entry_def one_secret_def parse_credentials_def get_put_credentials)
  from approved_pin_was_accepted [OF this] show ?thesis by blast
qed

end
