(* ===== verification/Config.thy ===== *)
theory Config
  imports Process Disk
begin

text \<open>
  \<open>crates/omdesky-platform/src/config.rs\<close>: the configuration file and the paths of the program's
  files. The toml library is a pair of arguments; environment variables are those of the model of
  processes. A path is the list of its components, so a variable that holds a path is split at
  its slashes; the variables are taken to hold absolute paths.
\<close>

definition default_agent_port :: u16 where
  "default_agent_port = 48155"

definition max_config_bytes :: nat where
  "max_config_bytes = 256 * 1024"

record network_config =
  nc_agent_port :: u16
  nc_strict_tailnet_only :: bool
  nc_allow_unsafe_wildcard_bind :: bool

definition network_config_default :: network_config where
  "network_config_default =
     \<lparr>nc_agent_port = default_agent_port, nc_strict_tailnet_only = True, nc_allow_unsafe_wildcard_bind = False\<rparr>"

record stream_config =
  stc_width :: u32
  stc_height :: u32
  stc_fps :: u16
  stc_codec :: codec_preference
  stc_audio :: bool
  stc_bitrate_mbps :: u32

definition stream_config_default :: stream_config where
  "stream_config_default =
     \<lparr>stc_width = 1920, stc_height = 1080, stc_fps = 60, stc_codec = Auto, stc_audio = True,
      stc_bitrate_mbps = 0\<rparr>"

record display_config =
  dcf_mode :: display_mode

record device_config =
  dvc_alias :: "ustr option"

record config =
  cf_network :: network_config
  cf_stream :: stream_config
  cf_display :: display_config
  cf_devices :: "(ustr \<times> device_config) list"

definition config_default :: config where
  "config_default =
     \<lparr>cf_network = network_config_default, cf_stream = stream_config_default,
      cf_display = \<lparr>dcf_mode = FollowFocus\<rparr>, cf_devices = []\<rparr>"

datatype config_error =
    MissingEnvironment ustr
  | InvalidEnvironment ustr
  | ConfigState state_error
  | ConfigToml ustr
  | ConfigTomlSerialize ustr

fun config_error_text :: "config_error \<Rightarrow> ustr" where
  "config_error_text (MissingEnvironment name) = lit ''missing required environment variable '' @ name"
| "config_error_text (InvalidEnvironment name) = lit ''invalid environment variable '' @ name"
| "config_error_text (ConfigState e) = state_error_text e"
| "config_error_text (ConfigToml e) = e"
| "config_error_text (ConfigTomlSerialize e) = e"

section \<open>Paths\<close>

definition path_of :: "ustr \<Rightarrow> path" where
  "path_of text = filter (\<lambda>c. c \<noteq> []) (split_on (\<lambda>c. c = slash) text)"

definition home_dir :: "environment \<Rightarrow> config_error + path" where
  "home_dir env = map_ok path_of (ok_or (env (lit ''HOME'')) (MissingEnvironment (lit ''HOME'')))"

definition config_path :: "environment \<Rightarrow> config_error + path" where
  "config_path env =
     (case env (lit ''XDG_CONFIG_HOME'') of
        Some p \<Rightarrow> Inr (path_of p @ [lit ''omdesky'', lit ''config.toml''])
      | None \<Rightarrow> map_ok (\<lambda>home. home @ [lit ''.config'', lit ''omdesky'', lit ''config.toml'']) (home_dir env))"

definition state_dir :: "environment \<Rightarrow> config_error + path" where
  "state_dir env =
     (case env (lit ''XDG_STATE_HOME'') of
        Some p \<Rightarrow> Inr (path_of p @ [lit ''omdesky''])
      | None \<Rightarrow> map_ok (\<lambda>home. home @ [lit ''.local'', lit ''state'', lit ''omdesky'']) (home_dir env))"

definition runtime_dir :: "environment \<Rightarrow> config_error + path" where
  "runtime_dir env =
     map_ok (\<lambda>p. path_of p @ [lit ''omdesky''])
       (ok_or (env (lit ''XDG_RUNTIME_DIR'')) (MissingEnvironment (lit ''XDG_RUNTIME_DIR'')))"

definition runtime_session_path :: "environment \<Rightarrow> config_error + path" where
  "runtime_session_path env = map_ok (\<lambda>d. d @ [lit ''current-session.json'']) (runtime_dir env)"

definition access_path :: "environment \<Rightarrow> config_error + path" where
  "access_path env = map_ok (\<lambda>d. d @ [lit ''access'', lit ''allowlist.json'']) (state_dir env)"

definition sunshine_config_path :: "environment \<Rightarrow> config_error + path" where
  "sunshine_config_path env =
     map_ok (\<lambda>home. home @ [lit ''.config'', lit ''sunshine'', lit ''sunshine.conf'']) (home_dir env)"

section \<open>Loading and saving\<close>

type_synonym toml_parser = "ustr \<Rightarrow> ustr + config"
type_synonym toml_printer = "config \<Rightarrow> ustr + ustr"

definition agent_port_variable :: ustr where
  "agent_port_variable = lit ''OMDESKY_AGENT_PORT''"

definition read_config_file :: "toml_parser \<Rightarrow> io_error option \<Rightarrow> path \<Rightarrow> disk \<Rightarrow> config_error + config" where
  "read_config_file parse fault p d =
     (case read_limited_to_string fault max_config_bytes p d of
        Inr contents \<Rightarrow> map_err ConfigToml (parse contents)
      | Inl e \<Rightarrow>
          (case e of
             StateIo error \<Rightarrow> if ioe_kind error = KindNotFound then Inr config_default else Inl (ConfigState e)
           | _ \<Rightarrow> Inl (ConfigState e)))"

definition with_environment_port :: "environment \<Rightarrow> config \<Rightarrow> config_error + config" where
  "with_environment_port env c =
     (case env agent_port_variable of
        None \<Rightarrow> Inr c
      | Some port \<Rightarrow>
          (case parse_uint 16 port of
             None \<Rightarrow> Inl (InvalidEnvironment agent_port_variable)
           | Some n \<Rightarrow> Inr (c\<lparr>cf_network := (cf_network c)\<lparr>nc_agent_port := of_nat n\<rparr>\<rparr>)))"

definition config_load ::
    "toml_parser \<Rightarrow> environment \<Rightarrow> io_error option \<Rightarrow> disk \<Rightarrow> config_error + config" where
  "config_load parse env fault d =
     try_then (config_path env) (\<lambda>p.
       try_then (read_config_file parse fault p d) (with_environment_port env))"

definition config_save_to ::
    "toml_printer \<Rightarrow> faults \<Rightarrow> ustr \<Rightarrow> path \<Rightarrow> config \<Rightarrow> disk \<Rightarrow> (config_error + unit) \<times> disk" where
  "config_save_to render fs fresh p c d =
     (case render c of
        Inl e \<Rightarrow> (Inl (ConfigTomlSerialize e), d)
      | Inr text \<Rightarrow>
          (case atomic_write_bytes fs fresh p (as_bytes text) False d of
             (r, d') \<Rightarrow> (map_err ConfigState r, d')))"

definition config_save ::
    "toml_printer \<Rightarrow> environment \<Rightarrow> faults \<Rightarrow> ustr \<Rightarrow> config \<Rightarrow> disk \<Rightarrow> (config_error + unit) \<times> disk" where
  "config_save render env fs fresh c d =
     (case config_path env of
        Inl e \<Rightarrow> (Inl e, d)
      | Inr p \<Rightarrow> config_save_to render fs fresh p c d)"

section \<open>Facts\<close>

text \<open>
  toml reads back what it printed: for this configuration, printed to text that is short enough
  to be read.
\<close>

definition toml_keeps :: "toml_printer \<Rightarrow> toml_parser \<Rightarrow> config \<Rightarrow> bool" where
  "toml_keeps render parse c \<longleftrightarrow>
     (\<forall>text. render c = Inr text \<longrightarrow>
        parse text = Inr c \<and> list_all is_scalar text \<and> length (as_bytes text) \<le> max_config_bytes)"

lemma config_path_neq_Nil: "config_path env = Inr p \<Longrightarrow> p \<noteq> []"
  by (auto simp: config_path_def map_ok_def split: option.splits sum.splits)

lemma config_save_read:
  assumes "config_save render env fs fresh c d = (Inr u, d')" and "toml_keeps render parse c"
  shows "\<exists>p. config_path env = Inr p \<and> read_config_file parse None p d' = Inr c"
proof -
  obtain p printed where path: "config_path env = Inr p" and printed: "render c = Inr printed"
    and written: "atomic_write_bytes fs fresh p (as_bytes printed) False d = (Inr (), d')"
    using assms(1) by (auto simp: config_save_def config_save_to_def split: sum.splits prod.splits)
  have keeps: "parse printed = Inr c" "list_all is_scalar printed" "length (as_bytes printed) \<le> max_config_bytes"
    using assms(2) printed by (auto simp: toml_keeps_def)
  have "ds_files d' p = Some (new_file [as_bytes printed] False)"
    using atomic_write_Ok [of "\<lambda>_. StateIo" fs fresh p "[as_bytes printed]" False d d'] written
    by (simp add: atomic_write_bytes_def)
  then have "read_limited_to_string None max_config_bytes p d' = Inr printed"
    using keeps by (simp add: read_limited_to_string_def read_limited_def disk_open_def read_open_def
        new_file_def Let_def from_utf8_as_bytes)
  then show ?thesis using path keeps(1) by (auto simp: read_config_file_def)
qed

section \<open>Correctness\<close>

text \<open>
  A saved configuration is the one that is loaded: after a save that reported success, loading
  gives the same configuration, with the port of the environment variable in its place if that
  is set.
\<close>

theorem config_roundtrip:
  assumes "config_save render env fs fresh c d = (Inr u, d')" and "toml_keeps render parse c"
  shows "config_load parse env None d' = with_environment_port env c
    \<and> (env agent_port_variable = None \<longrightarrow> config_load parse env None d' = Inr c)"
  using config_save_read [OF assms] by (auto simp: config_load_def with_environment_port_def)

text \<open>Saving the default configuration below a home directory, with a printer and a parser that know it.\<close>

theorem config_roundtrip_witness:
  "let env = [lit ''HOME'' \<mapsto> lit ''/home/user''];
       d = \<lparr>ds_files = Map.empty, ds_dirs = Map.empty\<rparr>;
       (r, d') = config_save (\<lambda>_. Inr (lit ''version'')) env no_faults (lit ''0a'') config_default d
   in r = Inr () \<and> config_load (\<lambda>_. Inr config_default) env None d' = Inr config_default"
proof -
  let ?env = "[lit ''HOME'' \<mapsto> lit ''/home/user'']"
  let ?save = "config_save (\<lambda>_. Inr (lit ''version'')) ?env no_faults (lit ''0a'') config_default
     \<lparr>ds_files = Map.empty, ds_dirs = Map.empty\<rparr>"
  have "fst ?save = Inr ()" by code_simp
  moreover have "toml_keeps (\<lambda>_. Inr (lit ''version'')) (\<lambda>_. Inr config_default) config_default"
  proof -
    have "list_all is_scalar (lit ''version'')" "length (as_bytes (lit ''version'')) \<le> max_config_bytes" by code_simp+
    then show ?thesis by (simp add: toml_keeps_def)
  qed
  moreover have "?env agent_port_variable = None" by (simp add: agent_port_variable_def)
  ultimately have "config_load (\<lambda>_. Inr config_default) ?env None (snd ?save) = Inr config_default"
    by (intro config_roundtrip [THEN conjunct2, rule_format, of "\<lambda>_. Inr (lit ''version'')" _ no_faults
        "lit ''0a''" _ "\<lparr>ds_files = Map.empty, ds_dirs = Map.empty\<rparr>" "()"]) (simp_all add: prod_eq_iff)
  with \<open>fst ?save = Inr ()\<close> show ?thesis by (cases ?save) (simp add: Let_def)
qed

end
