(* ===== verification/Theme.thy ===== *)
theory Theme
  imports Disk Core
begin

text \<open>
  \<open>crates/omdesky-platform/src/theme.rs\<close>: the colours of the desktop's theme and the watcher that
  keeps them in step with the theme's file. The toml library is an argument: what it makes of the
  text, as the eight named strings that the source asks for.
\<close>

unbundle bit_operations_syntax

record rgb =
  rgb_red :: "8 word"
  rgb_green :: "8 word"
  rgb_blue :: "8 word"

definition rgb_new :: "8 word \<Rightarrow> 8 word \<Rightarrow> 8 word \<Rightarrow> rgb" where
  "rgb_new red green blue = \<lparr>rgb_red = red, rgb_green = green, rgb_blue = blue\<rparr>"

record omarchy_theme =
  th_accent :: rgb
  th_selection :: rgb
  th_muted :: rgb
  th_background :: rgb
  th_foreground :: rgb
  th_error :: rgb
  th_success :: rgb
  th_warning :: rgb

definition omarchy_theme_default :: omarchy_theme where
  "omarchy_theme_default =
     \<lparr>th_accent = rgb_new 0x7a 0xa2 0xf7, th_selection = rgb_new 0x33 0x3b 0x55,
      th_muted = rgb_new 0x56 0x5f 0x89, th_background = rgb_new 0x1a 0x1b 0x26,
      th_foreground = rgb_new 0xc0 0xca 0xf5, th_error = rgb_new 0xf7 0x76 0x8e,
      th_success = rgb_new 0x9e 0xce 0x6a, th_warning = rgb_new 0xe0 0xaf 0x68\<rparr>"

record raw_theme =
  rth_accent :: ustr
  rth_selection :: ustr
  rth_muted :: ustr
  rth_background :: ustr
  rth_foreground :: ustr
  rth_red :: ustr
  rth_green :: ustr
  rth_yellow :: ustr

type_synonym theme_parser = "ustr \<Rightarrow> ustr + raw_theme"

datatype theme_error = InvalidColor ustr | ThemeToml ustr

fun theme_error_text :: "theme_error \<Rightarrow> ustr" where
  "theme_error_text (InvalidColor name) = lit ''invalid Omarchy theme color: '' @ name"
| "theme_error_text (ThemeToml e) = lit ''invalid Omarchy theme file: '' @ e"

section \<open>Colours\<close>

definition hex_digit_value :: "ucs \<Rightarrow> nat" where
  "hex_digit_value c =
     (if is_ascii_digit c then c - 48 else if 97 \<le> c then c - 87 else c - 55)"

definition hex_value :: "ustr \<Rightarrow> nat" where
  "hex_value s = foldl (\<lambda>a c. 16 * a + hex_digit_value c) 0 s"

text \<open>\<open>u32::from_str_radix(hex, 16)\<close>: like parsing a decimal number, a leading plus sign is allowed.\<close>

definition parse_hex :: "ustr \<Rightarrow> u32 option" where
  "parse_hex s =
     (let ds = (case s of [] \<Rightarrow> [] | c # r \<Rightarrow> if c = 43 then r else s)
      in if ds = [] \<or> \<not> list_all is_ascii_hexdigit ds then None
         else if hex_value ds < 2 ^ 32 then Some (of_nat (hex_value ds)) else None)"

definition parse_color :: "ustr \<Rightarrow> ustr \<Rightarrow> theme_error + rgb" where
  "parse_color name value =
     try_then (ok_or (case strip_prefix (lit ''#'') value of
          Some hex \<Rightarrow> if utf8_len hex = 6 then Some hex else None
        | None \<Rightarrow> None) (InvalidColor name)) (\<lambda>hex.
     try_then (ok_or (parse_hex hex) (InvalidColor name)) (\<lambda>v.
       Inr (rgb_new (ucast (drop_bit 16 v AND 0xff)) (ucast (drop_bit 8 v AND 0xff)) (ucast (v AND 0xff)))))"

definition parse_theme :: "theme_parser \<Rightarrow> ustr \<Rightarrow> theme_error + omarchy_theme" where
  "parse_theme toml content =
     try_then (map_err ThemeToml (toml content)) (\<lambda>raw.
     try_then (parse_color (lit ''accent'') (rth_accent raw)) (\<lambda>accent.
     try_then (parse_color (lit ''selection'') (rth_selection raw)) (\<lambda>selection.
     try_then (parse_color (lit ''muted'') (rth_muted raw)) (\<lambda>muted.
     try_then (parse_color (lit ''background'') (rth_background raw)) (\<lambda>background.
     try_then (parse_color (lit ''foreground'') (rth_foreground raw)) (\<lambda>foreground.
     try_then (parse_color (lit ''red'') (rth_red raw)) (\<lambda>red.
     try_then (parse_color (lit ''green'') (rth_green raw)) (\<lambda>green.
     try_then (parse_color (lit ''yellow'') (rth_yellow raw)) (\<lambda>yellow.
       Inr \<lparr>th_accent = accent, th_selection = selection, th_muted = muted, th_background = background,
            th_foreground = foreground, th_error = red, th_success = green, th_warning = yellow\<rparr>)))))))))"

section \<open>The watcher\<close>

record theme_watcher =
  tw_path :: path
  tw_source :: "ustr option"
  tw_theme :: omarchy_theme

definition read_to_string :: "io_error option \<Rightarrow> path \<Rightarrow> disk \<Rightarrow> ustr option" where
  "read_to_string fault p d =
     (case disk_open fault p d of
        Inl _ \<Rightarrow> None
      | Inr f \<Rightarrow> if of_regular f then from_utf8 (of_contents f) else None)"

definition theme_of_source :: "theme_parser \<Rightarrow> ustr option \<Rightarrow> omarchy_theme" where
  "theme_of_source toml source =
     unwrap_or (case source of None \<Rightarrow> None | Some content \<Rightarrow> result_ok (parse_theme toml content))
       omarchy_theme_default"

definition theme_refresh ::
    "theme_parser \<Rightarrow> io_error option \<Rightarrow> disk \<Rightarrow> theme_watcher \<Rightarrow> bool \<times> theme_watcher" where
  "theme_refresh toml fault d watcher =
     (let source = read_to_string fault (tw_path watcher) d
      in if source = tw_source watcher then (False, watcher)
         else (True, watcher\<lparr>tw_theme := theme_of_source toml source, tw_source := source\<rparr>))"

definition theme_watcher_new ::
    "theme_parser \<Rightarrow> io_error option \<Rightarrow> disk \<Rightarrow> path \<Rightarrow> theme_watcher" where
  "theme_watcher_new toml fault d p =
     snd (theme_refresh toml fault d \<lparr>tw_path = p, tw_source = None, tw_theme = omarchy_theme_default\<rparr>)"

section \<open>Facts\<close>

definition hex_pair :: "8 word \<Rightarrow> ustr" where
  "hex_pair b =
     (let d = (\<lambda>k. if k < 10 then 48 + k else 87 + k)
      in [d (unat b div 16), d (unat b mod 16)])"

definition show_color :: "rgb \<Rightarrow> ustr" where
  "show_color c = lit ''#'' @ hex_pair (rgb_red c) @ hex_pair (rgb_green c) @ hex_pair (rgb_blue c)"

lemma hex_digit:
  "k < 16 \<Longrightarrow> is_ascii_hexdigit (if k < 10 then 48 + k else 87 + k)
     \<and> hex_digit_value (if k < 10 then 48 + k else 87 + k) = k
     \<and> (if k < 10 then 48 + k else 87 + k) < 128 \<and> (if k < 10 then 48 + k else 87 + k) \<noteq> (43 :: nat)"
  by (auto simp: hex_digit_value_def ascii_class_defs)

lemma byte_bound: "unat (b :: 8 word) < 256"
  using unsigned_less [of b] by simp

lemma strip_prefix_self [simp]: "strip_prefix s (s @ t) = Some t"
  by (simp add: strip_prefix_Some)

lemma hex_pair_facts:
  "list_all is_ascii_hexdigit (hex_pair b)" "\<And>c. c \<in> set (hex_pair b) \<Longrightarrow> c < 128 \<and> c \<noteq> 43"
  "length (hex_pair b) = 2" "foldl (\<lambda>a c. 16 * a + hex_digit_value c) a (hex_pair b) = 256 * a + unat b"
proof -
  have "unat b < 256" using unsigned_less [of b] by simp
  then have "unat b div 16 < 16" by auto
  then show "list_all is_ascii_hexdigit (hex_pair b)" "\<And>c. c \<in> set (hex_pair b) \<Longrightarrow> c < 128 \<and> c \<noteq> 43"
    "length (hex_pair b) = 2" "foldl (\<lambda>a c. 16 * a + hex_digit_value c) a (hex_pair b) = 256 * a + unat b"
    using hex_digit [of "unat b div 16"] hex_digit [of "unat b mod 16"]
    by (auto simp: hex_pair_def Let_def simp del: if_split_asm split del: if_split)
qed

lemma parse_hex_color:
  "parse_hex (hex_pair r @ hex_pair g @ hex_pair b) = Some (of_nat (65536 * unat r + 256 * unat g + unat b))"
proof -
  let ?s = "hex_pair r @ hex_pair g @ hex_pair b"
  have "hd ?s \<noteq> 43" "?s \<noteq> []"
    using hex_pair_facts(2) [of "hd (hex_pair r)" r] hex_pair_facts(3) [of r]
    by (cases "hex_pair r"; simp)+
  moreover have "list_all is_ascii_hexdigit ?s" by (simp add: hex_pair_facts(1))
  moreover have "hex_value ?s = 65536 * unat r + 256 * unat g + unat b"
    by (simp add: hex_value_def hex_pair_facts(4))
  moreover have "65536 * unat r + 256 * unat g + unat b < 2 ^ 32"
    using byte_bound [of r] byte_bound [of g] byte_bound [of b] by simp
  ultimately show ?thesis by (cases ?s) (auto simp: parse_hex_def Let_def)
qed

lemma base256:
  fixes r g b :: nat
  assumes "r < 256" "g < 256" "b < 256"
  shows "(65536 * r + 256 * g + b) div 65536 mod 256 = r" "(65536 * r + 256 * g + b) div 256 mod 256 = g"
    "(65536 * r + 256 * g + b) mod 256 = b"
proof -
  have sum: "65536 * r + 256 * g + b = (r * 256 + g) * 256 + b" by simp
  have low: "((r * 256 + g) * 256 + b) div 256 = r * 256 + g" using assms(3) by simp
  have "((r * 256 + g) * 256 + b) div 65536 = ((r * 256 + g) * 256 + b) div 256 div 256"
    by (simp only: div_mult2_eq [symmetric]) simp
  then show "(65536 * r + 256 * g + b) div 65536 mod 256 = r" unfolding sum low using assms by simp
  show "(65536 * r + 256 * g + b) div 256 mod 256 = g" unfolding sum low using assms by simp
  show "(65536 * r + 256 * g + b) mod 256 = b" unfolding sum by (simp only: mod_mult_self3) (use assms in simp)
qed

lemma byte_of_sum:
  fixes r g b :: "8 word"
  defines "v \<equiv> 65536 * ucast r + 256 * ucast g + ucast b :: u32"
  shows "ucast (drop_bit 16 v AND 0xff) = r" "ucast (drop_bit 8 v AND 0xff) = g" "ucast (v AND 0xff) = b"
proof -
  have bounds: "unat r < 256" "unat g < 256" "unat b < 256" by (rule byte_bound)+
  then have v: "unat v = 65536 * unat r + 256 * unat g + unat b"
    using unat_of_nat [of "65536 * unat r + 256 * unat g + unat b", where 'a = 32] by (simp add: v_def)
  have byte: "unat (w AND 0xff) = unat w mod 256" for w :: u32
  proof -
    have "w AND 0xff = take_bit 8 w" by (simp add: take_bit_eq_mask mask_eq_exp_minus_1)
    then show ?thesis by (simp only: unsigned_take_bit_eq) (simp add: take_bit_eq_mod)
  qed
  show "ucast (drop_bit 16 v AND 0xff) = r" "ucast (drop_bit 8 v AND 0xff) = g" "ucast (v AND 0xff) = b"
    using bounds by (simp_all only: word_unat_eq_iff unsigned_ucast_eq byte unsigned_drop_bit_eq v)
      (simp_all add: take_bit_eq_mod drop_bit_eq_div base256)
qed

section \<open>Correctness\<close>

text \<open>
  Every colour written in the usual way, a hash sign and two hexadecimal digits for each part, is
  read back as that colour; and whatever is read as a colour has the hash sign and six bytes after it.
\<close>

theorem color_roundtrip:
  "parse_color name (show_color c) = Inr c
   \<and> (parse_color name value = Inr c' \<longrightarrow> (\<exists>hex. value = lit ''#'' @ hex \<and> utf8_len hex = 6))"
proof
  have "utf8_len (hex_pair (rgb_red c) @ hex_pair (rgb_green c) @ hex_pair (rgb_blue c)) = 6"
    by (subst utf8_len_ascii) (use hex_pair_facts(2) in \<open>auto simp: hex_pair_facts(3)\<close>)
  then show "parse_color name (show_color c) = Inr c"
    by (simp add: parse_color_def show_color_def parse_hex_color byte_of_sum rgb_new_def
        del: utf8_len_append)
  show "parse_color name value = Inr c' \<longrightarrow> (\<exists>hex. value = lit ''#'' @ hex \<and> utf8_len hex = 6)"
    by (auto simp: parse_color_def try_then_Inr strip_prefix_Some split: option.splits if_splits)
qed

text \<open>
  The colours in use depend only on what the theme's file holds now, however often and with
  whatever failures it was read before: a missing, unreadable or invalid file gives the built-in
  colours, and a refresh that reports no change has left them as they were.
\<close>

theorem theme_follows_file:
  "let reads = (\<lambda>watcher (fault, d). snd (theme_refresh toml fault d watcher));
       watcher = foldl reads (theme_watcher_new toml fault0 d0 p) history;
       (changed, watcher') = theme_refresh toml fault d watcher
   in tw_theme watcher' = theme_of_source toml (read_to_string fault p d)
      \<and> (\<not> changed \<longrightarrow> watcher' = watcher)"
proof -
  let ?ok = "\<lambda>w. tw_path w = p \<and> tw_theme w = theme_of_source toml (tw_source w)"
  have step: "?ok w \<Longrightarrow> ?ok (snd (theme_refresh toml f e w))" for f e and w :: theme_watcher
    by (simp add: theme_refresh_def Let_def)
  have "?ok \<lparr>tw_path = p, tw_source = None, tw_theme = omarchy_theme_default\<rparr>"
    by (simp add: theme_of_source_def)
  then have start: "?ok (theme_watcher_new toml fault0 d0 p)"
    unfolding theme_watcher_new_def by (rule step)
  have "?ok w \<Longrightarrow> ?ok (foldl (\<lambda>watcher (fault, d). snd (theme_refresh toml fault d watcher)) w history)" for w
  proof (induction history arbitrary: w)
    case (Cons read history)
    have "?ok (snd (theme_refresh toml (fst read) (snd read) w))" using Cons.prems by (rule step)
    from Cons.IH [OF this] show ?case by (simp add: case_prod_beta)
  qed simp
  from this [OF start] show ?thesis by (auto simp: theme_refresh_def Let_def split: if_splits)
qed

text \<open>The hash sign may be followed by a plus sign and five digits.\<close>

theorem color_sign_accepted:
  "parse_color (lit ''accent'') (lit ''#+12345'') = Inr (rgb_new 0x01 0x23 0x45)"
  by code_simp

end
