(* ===== verification/Identity.thy ===== *)
theory Identity
  imports Disk Core
begin

text \<open>
  \<open>crates/omdesky-platform/src/identity.rs\<close>: the identifier of this computer, made once and kept
  in a file. The fresh identifier is an argument, as are the JSON printer and parser.
\<close>

type_synonym node_id = uuid

text \<open>The hyphenated form of a UUID: 32 hexadecimal digits in groups.\<close>

definition uuid_digit :: "uuid \<Rightarrow> nat \<Rightarrow> ucs" where
  "uuid_digit u i = (let k = unat (take_bit 4 (drop_bit (4 * (31 - i)) u)) in if k < 10 then 48 + k else 87 + k)"

definition show_uuid :: "uuid \<Rightarrow> ustr" where
  "show_uuid u = join (lit ''-'') (map (map (uuid_digit u)) [[0..<8], [8..<12], [12..<16], [16..<20], [20..<32]])"

lemma uuid_digit_hex: "is_ascii_hexdigit (uuid_digit u i)"
proof -
  let ?w = "drop_bit (4 * (31 - i)) u"
  have "unat (take_bit 4 ?w) = unat ?w mod 16" by (simp only: unsigned_take_bit_eq) (simp add: take_bit_eq_mod)
  then have "unat (take_bit 4 ?w) < 16" by simp
  then show ?thesis by (auto simp: uuid_digit_def Let_def ascii_class_defs)
qed

lemma set_join_dash: "set (join s xs) \<subseteq> set s \<union> \<Union> (set ` set xs)"
  by (induction s xs rule: join.induct) auto

lemma show_uuid_chars: "c \<in> set (show_uuid u) \<Longrightarrow> is_ascii_hexdigit c \<or> c = 45"
proof -
  assume "c \<in> set (show_uuid u)"
  then have "c \<in> set (lit ''-'') \<union> range (uuid_digit u)"
    using set_join_dash [of "lit ''-''" "map (map (uuid_digit u)) [[0..<8], [8..<12], [12..<16], [16..<20], [20..<32]]"]
    unfolding show_uuid_def by auto
  then show ?thesis by (auto simp: lit_def uuid_digit_hex)
qed

record node_identity =
  nid_node_id :: node_id

definition path_exists :: "path \<Rightarrow> disk \<Rightarrow> bool" where
  "path_exists p d \<longleftrightarrow> ds_files d p \<noteq> None \<or> ds_dirs d p \<noteq> None"

datatype identity_error = IdentityState state_error

fun identity_error_text :: "identity_error \<Rightarrow> ustr" where
  "identity_error_text (IdentityState e) = lit ''identity state failed: '' @ state_error_text e"

definition load_or_create ::
    "(node_identity \<Rightarrow> byte list) \<Rightarrow> (byte list \<Rightarrow> ustr + node_identity) \<Rightarrow> io_error option \<Rightarrow> faults
       \<Rightarrow> ustr \<Rightarrow> node_id \<Rightarrow> path \<Rightarrow> disk \<Rightarrow> (identity_error + node_identity) \<times> disk" where
  "load_or_create encode decode fault fs fresh new p d =
     (if path_exists p d then (map_err IdentityState (read_json decode fault p d), d)
      else
        (case atomic_write_json encode fs fresh p \<lparr>nid_node_id = new\<rparr> False d of
           (Inl e, d') \<Rightarrow> (Inl (IdentityState e), d')
         | (Inr _, d') \<Rightarrow> (Inr \<lparr>nid_node_id = new\<rparr>, d')))"

text \<open>A written value is read back when the parser understands the printer and the text is short enough.\<close>

definition json_keeps :: "('a \<Rightarrow> byte list) \<Rightarrow> (byte list \<Rightarrow> ustr + 'a) \<Rightarrow> 'a \<Rightarrow> bool" where
  "json_keeps encode decode x \<longleftrightarrow>
     decode (encode x @ [10]) = Inr x \<and> length (encode x) < max_state_bytes"

lemma read_written_json:
  assumes "atomic_write_json encode fs fresh p x secret d = (Inr (), d')" and "json_keeps encode decode x"
  shows "ds_files d' p \<noteq> None" and "read_json decode None p d' = Inr x"
proof -
  have "ds_files d' p = Some (new_file [encode x, [10]] secret)"
    using atomic_write_Ok [OF assms(1) [unfolded atomic_write_json_def]] by simp
  then show "ds_files d' p \<noteq> None" "read_json decode None p d' = Inr x"
    using assms(2) by (auto simp: json_keeps_def read_json_def read_limited_def disk_open_def read_open_def
        new_file_def Let_def min_def)
qed

text \<open>
  The identity is stable: once \<open>load_or_create\<close> has given one, asking again, with whatever fresh
  identifier, gives the same one and leaves the disk as it is; an existing file is never replaced.
\<close>

theorem identity_is_stable:
  assumes "load_or_create encode decode None fs fresh new p d = (Inr identity, d')"
    and "\<not> path_exists p d \<longrightarrow> json_keeps encode decode \<lparr>nid_node_id = new\<rparr>"
  shows "load_or_create encode decode None fs' fresh' new' p d' = (Inr identity, d')
    \<and> (path_exists p d \<longrightarrow> d' = d)"
proof (cases "path_exists p d")
  case True
  then show ?thesis using assms(1) by (auto simp: load_or_create_def)
next
  case False
  then have "atomic_write_json encode fs fresh p \<lparr>nid_node_id = new\<rparr> False d = (Inr (), d')"
    and "identity = \<lparr>nid_node_id = new\<rparr>"
    using assms(1) by (auto simp: load_or_create_def split: prod.splits sum.splits)
  with False show ?thesis
    using read_written_json [of encode fs fresh p] assms(2) by (auto simp: load_or_create_def path_exists_def)
qed

end
