(* ===== verification/SessionRecord.thy ===== *)
theory SessionRecord
  imports Identity
begin

text \<open>
  \<open>crates/omdesky-platform/src/session_record.rs\<close>: the record of the running session in the
  runtime directory, and telling a process from a later one with the same number by its start
  time. The JSON printer and parser are arguments, as are the texts of \<open>/proc\<close>.
\<close>

record supervised_process =
  spr_pid :: u32
  spr_start_ticks :: u64

record session_record =
  sr_session_id :: session_id
  sr_remote_node :: ustr
  sr_input_mode :: input_mode
  sr_started_at :: offset_date_time
  sr_moonlight :: "supervised_process option"

definition session_record_new :: "session_id \<Rightarrow> offset_date_time \<Rightarrow> ustr \<Rightarrow> input_mode \<Rightarrow> session_record" where
  "session_record_new fresh now remote_node mode =
     \<lparr>sr_session_id = fresh, sr_remote_node = remote_node, sr_input_mode = mode,
      sr_started_at = now, sr_moonlight = None\<rparr>"

type_synonym record_printer = "session_record \<Rightarrow> byte list"
type_synonym record_parser = "byte list \<Rightarrow> ustr + session_record"

definition session_record_write ::
    "record_printer \<Rightarrow> faults \<Rightarrow> ustr \<Rightarrow> session_record \<Rightarrow> path \<Rightarrow> disk \<Rightarrow> (state_error + unit) \<times> disk" where
  "session_record_write encode fs fresh r p d = atomic_write_json encode fs fresh p r False d"

definition session_record_read ::
    "record_parser \<Rightarrow> io_error option \<Rightarrow> path \<Rightarrow> disk \<Rightarrow> state_error + session_record" where
  "session_record_read decode fault p d = read_json decode fault p d"

definition session_record_remove :: "(io_error \<times> nat) option \<Rightarrow> path \<Rightarrow> disk \<Rightarrow> disk" where
  "session_record_remove fault p d = snd (disk_step fault (RemoveFile p) d)"

definition session_record_remove_if_owned ::
    "record_parser \<Rightarrow> io_error option \<Rightarrow> (io_error \<times> nat) option \<Rightarrow> path \<Rightarrow> session_id \<Rightarrow> disk \<Rightarrow> disk" where
  "session_record_remove_if_owned decode fault remove_fault p session d =
     (case session_record_read decode fault p d of
        Inr r \<Rightarrow> if sr_session_id r = session then session_record_remove remove_fault p d else d
      | Inl _ \<Rightarrow> d)"

section \<open>Processes\<close>

definition start_time_fields_after_comm :: nat where
  "start_time_fields_after_comm = 19"

definition parse_start_ticks :: "ustr \<Rightarrow> u64 option" where
  "parse_start_ticks stat =
     (case rsplit_once (\<lambda>c. c = 41) stat of
        None \<Rightarrow> None
      | Some (_, after_comm) \<Rightarrow>
          (let cols = split_whitespace after_comm
           in if start_time_fields_after_comm < length cols
              then map_option of_nat (parse_uint 64 (cols ! start_time_fields_after_comm))
              else None))"

text \<open>What reading a path below \<open>/proc\<close> yields.\<close>

type_synonym proc_files = "ustr \<Rightarrow> ustr option"

definition process_start_ticks :: "proc_files \<Rightarrow> u32 \<Rightarrow> u64 option" where
  "process_start_ticks proc pid =
     (case proc (lit ''/proc/'' @ show_nat (unat pid) @ lit ''/stat'') of
        None \<Rightarrow> None
      | Some stat \<Rightarrow> parse_start_ticks stat)"

definition process_observe :: "proc_files \<Rightarrow> u32 \<Rightarrow> supervised_process option" where
  "process_observe proc pid =
     map_option (\<lambda>ticks. \<lparr>spr_pid = pid, spr_start_ticks = ticks\<rparr>) (process_start_ticks proc pid)"

definition process_is_still_running :: "proc_files \<Rightarrow> supervised_process \<Rightarrow> bool" where
  "process_is_still_running proc p \<longleftrightarrow> process_start_ticks proc (spr_pid p) = Some (spr_start_ticks p)"

section \<open>Correctness\<close>

text \<open>
  One line of the process table, as the kernel prints it: the number, the command in parentheses,
  and fields without spaces or parentheses.
\<close>

definition stat_line :: "nat \<Rightarrow> ustr \<Rightarrow> ustr list \<Rightarrow> ustr" where
  "stat_line pid command cols =
     show_nat pid @ lit '' ('' @ command @ lit '')'' @ 32 # join [32] cols"

definition plain_columns :: "ustr list \<Rightarrow> bool" where
  "plain_columns cols \<longleftrightarrow> 19 < length cols
     \<and> (\<forall>x\<in>set cols. x \<noteq> [] \<and> (\<forall>c\<in>set x. \<not> is_whitespace c \<and> c \<noteq> 41))"

lemma parse_stat_line:
  assumes "plain_columns cols" and "cols ! 19 = show_nat ticks" and "ticks < 2 ^ 64"
  shows "parse_start_ticks (stat_line pid command cols) = Some (of_nat ticks)"
proof -
  have "c \<in> set (join [32] cols) \<Longrightarrow> c \<noteq> 41" for c
    using assms(1) subsetD [OF set_join_dash [of "[32]" cols], of c] by (auto simp: plain_columns_def)
  then have "rsplit_once (\<lambda>c. c = 41) ((show_nat pid @ lit '' ('' @ command) @ 41 # 32 # join [32] cols)
      = Some (show_nat pid @ lit '' ('' @ command, 32 # join [32] cols)"
    by (intro rsplit_once_append) auto
  moreover have "split_whitespace (32 # join [32] cols) = cols"
    by (rule split_whitespace_join) (use assms(1) in \<open>auto simp: plain_columns_def\<close>)
  ultimately show ?thesis
    using assms by (simp add: plain_columns_def parse_start_ticks_def stat_line_def lit_def start_time_fields_after_comm_def
        Let_def parse_uint_show_nat)
qed

text \<open>
  The start time of a process is read from the right field whatever the name of its command is,
  one with spaces and parentheses included, so a process that was observed is taken for running
  exactly as long as the process with that number has that start time.
\<close>

theorem reused_process_number_is_noticed:
  assumes "plain_columns old" and "plain_columns new"
    and "old ! 19 = show_nat ticks" and "new ! 19 = show_nat ticks'" and "ticks < 2 ^ 64" and "ticks' < 2 ^ 64"
    and "proc (lit ''/proc/'' @ show_nat (unat pid) @ lit ''/stat'') = Some (stat_line (unat pid) command old)"
    and "proc' (lit ''/proc/'' @ show_nat (unat pid) @ lit ''/stat'') = Some (stat_line (unat pid) command' new)"
  shows "\<exists>p. process_observe proc pid = Some p \<and> process_is_still_running proc p
    \<and> (process_is_still_running proc' p \<longleftrightarrow> ticks' = ticks)"
proof -
  have "process_start_ticks proc pid = Some (of_nat ticks)" "process_start_ticks proc' pid = Some (of_nat ticks')"
    using assms by (simp_all add: process_start_ticks_def parse_stat_line)
  moreover have "(of_nat ticks' :: u64) = of_nat ticks \<longleftrightarrow> ticks' = ticks"
    using assms(5,6) unat_of_nat [of ticks, where 'a = 64] unat_of_nat [of ticks', where 'a = 64]
    by (auto simp: word_unat_eq_iff)
  ultimately show ?thesis
    by (simp add: process_observe_def process_is_still_running_def)
qed

text \<open>
  Ending a session removes its record and no other: a record that names another session, or a
  file that cannot be read as a record, is left as it was, and no other file is touched.
\<close>

theorem only_own_record_is_removed:
  assumes "session_record_remove_if_owned decode fault remove_fault p session d = d'"
  shows "(\<forall>q. q \<noteq> p \<longrightarrow> ds_files d' q = ds_files d q)
    \<and> (ds_files d' p \<noteq> ds_files d p \<longrightarrow>
         ds_files d' p = None \<and> (\<exists>r. session_record_read decode fault p d = Inr r \<and> sr_session_id r = session))
    \<and> (\<forall>r. session_record_read decode fault p d = Inr r \<and> sr_session_id r = session \<and> remove_fault = None
         \<longrightarrow> ds_files d' p = None)"
proof -
  have other: "q \<noteq> p \<Longrightarrow> ds_files (session_record_remove remove_fault p d) q = ds_files d q" for q
    by (simp add: session_record_remove_def disk_step_frame)
  show ?thesis using assms other
    by (cases remove_fault)
      (auto simp: session_record_remove_if_owned_def session_record_remove_def split: sum.splits if_splits)
qed

end
