(* ===== verification/Launcher.thy ===== *)
theory Launcher
  imports Identity Ports
begin

text \<open>
  \<open>crates/omdesky-platform/src/launcher.rs\<close>: the desktop entries that open a remote computer from
  the application menu. What the directory lists is an argument.
\<close>

record launcher_spec =
  ls_node_id :: node_id
  ls_display_name :: ustr
  ls_aliases :: "ustr list"

definition newline :: ucs where
  "newline = 10"

definition escape_value :: "ustr \<Rightarrow> ustr" where
  "escape_value value = map (\<lambda>c. if c = newline \<or> c = 13 then 32 else c) value"

definition launcher_render :: "launcher_spec \<Rightarrow> ustr" where
  "launcher_render spec =
     lit ''[Desktop Entry]'' @ [newline] @ lit ''Name='' @ escape_value (ls_display_name spec) @ [newline]
     @ lit ''Comment=Remote Omarchy Desktop'' @ [newline]
     @ lit ''Exec=uwsm app -- omdesky connect '' @ show_uuid (ls_node_id spec) @ [newline]
     @ lit ''Icon=computer'' @ [newline] @ lit ''Terminal=false'' @ [newline]
     @ lit ''Type=Application'' @ [newline] @ lit ''Categories=Network;RemoteAccess;'' @ [newline]
     @ lit ''X-Omdesky-NodeId='' @ show_uuid (ls_node_id spec) @ [newline]"

definition launcher_path :: "path \<Rightarrow> node_id \<Rightarrow> path" where
  "launcher_path directory node = directory @ [lit ''omdesky-'' @ show_uuid node @ lit ''.desktop'']"

definition launcher_io_error :: "io_error \<Rightarrow> port_error" where
  "launcher_io_error e = port_error_new (lit ''LAUNCHER_IO_FAILED'') (ioe_text e) False"

definition launcher_state_error :: "state_error \<Rightarrow> port_error" where
  "launcher_state_error e = port_error_new (lit ''LAUNCHER_IO_FAILED'') (state_error_text e) False"

definition launcher_create ::
    "(io_error \<times> nat) option \<Rightarrow> io_error option \<Rightarrow> faults \<Rightarrow> ustr \<Rightarrow> path \<Rightarrow> launcher_spec \<Rightarrow> disk
       \<Rightarrow> path port_result \<times> disk" where
  "launcher_create dir_fault fault fs fresh directory spec d =
     (case disk_step dir_fault (MakeDirs directory) d of
        (Inl e, d1) \<Rightarrow> (Inl (launcher_state_error (StateIo e)), d1)
      | (Inr _, d1) \<Rightarrow>
          (let p = launcher_path directory (ls_node_id spec);
               content = launcher_render spec;
               current = result_ok (read_limited_to_string fault max_state_bytes p d1)
           in if current \<noteq> Some content then
                (case atomic_write_bytes fs fresh p (as_bytes content) False d1 of
                   (Inl e, d2) \<Rightarrow> (Inl (launcher_state_error e), d2)
                 | (Inr _, d2) \<Rightarrow> (Inr p, d2))
              else (Inr p, d1)))"

definition launcher_list :: "path \<Rightarrow> io_error + (io_error + ustr) list \<Rightarrow> disk \<Rightarrow> path list port_result" where
  "launcher_list directory listing d =
     (if \<not> path_exists directory d then Inr []
      else try_then (map_err launcher_io_error listing) (\<lambda>entries.
        Inr (sort (map (\<lambda>name. directory @ [name])
          (filter (\<lambda>name. starts_with name (lit ''omdesky-'') \<and> ends_with name (lit ''.desktop''))
            (List.map_filter result_ok entries))))))"

definition launcher_remove :: "(io_error \<times> nat) option \<Rightarrow> path \<Rightarrow> node_id \<Rightarrow> disk \<Rightarrow> unit port_result \<times> disk" where
  "launcher_remove fault directory node d =
     (case disk_step fault (RemoveFile (launcher_path directory node)) d of
        (Inr _, d') \<Rightarrow> (Inr (), d')
      | (Inl e, d') \<Rightarrow> (if ioe_kind e = KindNotFound then (Inr (), d') else (Inl (launcher_io_error e), d')))"

section \<open>Correctness\<close>

lemma escape_value_line: "c \<in> set (escape_value value) \<Longrightarrow> c \<noteq> newline"
  by (auto simp: escape_value_def newline_def)

lemma launcher_texts_no_newline:
  "list_all (\<lambda>x. newline \<notin> set (lit x))
     [''[Desktop Entry]'', ''Name='', ''Comment=Remote Omarchy Desktop'', ''Exec=uwsm app -- omdesky connect '',
      ''Icon=computer'', ''Terminal=false'', ''Type=Application'', ''Categories=Network;RemoteAccess;'',
      ''X-Omdesky-NodeId='']"
  by code_simp

lemma launcher_lines:
  "split_on (\<lambda>c. c = newline) (launcher_render spec) =
     [lit ''[Desktop Entry]'', lit ''Name='' @ escape_value (ls_display_name spec),
      lit ''Comment=Remote Omarchy Desktop'', lit ''Exec=uwsm app -- omdesky connect '' @ show_uuid (ls_node_id spec),
      lit ''Icon=computer'', lit ''Terminal=false'', lit ''Type=Application'',
      lit ''Categories=Network;RemoteAccess;'', lit ''X-Omdesky-NodeId='' @ show_uuid (ls_node_id spec), []]"
  (is "_ = ?lines")
proof -
  have id: "newline \<notin> set (show_uuid (ls_node_id spec))"
    using show_uuid_chars [of newline] by (auto simp: newline_def ascii_class_defs)
  have render: "launcher_render spec = join [newline] ?lines" by (simp add: launcher_render_def)
  have line: "newline \<notin> set x" if "x \<in> set ?lines" for x
    using that id escape_value_line [of newline "ls_display_name spec"] launcher_texts_no_newline by auto
  show ?thesis unfolding render by (rule split_on_join) (use line in auto)
qed

text \<open>
  A desktop entry that was created runs the connect command for its own computer and nothing else,
  whatever the computer calls itself: its text has exactly nine lines with these keys, so a line
  break in the name adds no key. Creating it again changes no file.
\<close>

theorem launcher_runs_only_connect:
  assumes "launcher_create dir_fault fault fs fresh directory spec d = (Inr p, d')"
    and "list_all is_scalar (launcher_render spec)" and "length (as_bytes (launcher_render spec)) \<le> max_state_bytes"
  shows "\<exists>f content. ds_files d' p = Some f \<and> from_utf8 (fl_bytes f) = Some content
     \<and> split_on (\<lambda>c. c = newline) content =
         [lit ''[Desktop Entry]'', lit ''Name='' @ escape_value (ls_display_name spec),
          lit ''Comment=Remote Omarchy Desktop'',
          lit ''Exec=uwsm app -- omdesky connect '' @ show_uuid (ls_node_id spec),
          lit ''Icon=computer'', lit ''Terminal=false'', lit ''Type=Application'',
          lit ''Categories=Network;RemoteAccess;'', lit ''X-Omdesky-NodeId='' @ show_uuid (ls_node_id spec), []]
     \<and> ds_files (snd (launcher_create dir_fault' None fs' fresh' directory spec d')) = ds_files d'"
proof -
  obtain d1 where d1: "disk_step dir_fault (MakeDirs directory) d = (Inr (), d1)"
    and p: "p = launcher_path directory (ls_node_id spec)"
    using assms(1) by (auto simp: launcher_create_def Let_def split: prod.splits sum.splits if_splits)
  have "\<exists>f. ds_files d' p = Some f \<and> from_utf8 (fl_bytes f) = Some (launcher_render spec)
      \<and> length (fl_bytes f) \<le> max_state_bytes"
  proof (cases "result_ok (read_limited_to_string fault max_state_bytes p d1) = Some (launcher_render spec)")
    case True
    then have "d' = d1" using assms(1) d1 p by (auto simp: launcher_create_def Let_def)
    with True show ?thesis
      by (auto simp: read_limited_to_string_def read_limited_def disk_open_def read_open_def result_ok_def
          try_then_def map_err_def ok_or_def Let_def split: sum.splits option.splits if_splits)
  next
    case False
    then have "atomic_write_bytes fs fresh p (as_bytes (launcher_render spec)) False d1 = (Inr (), d')"
      using assms(1) d1 p by (auto simp: launcher_create_def Let_def split: prod.splits sum.splits)
    then have "ds_files d' p = Some (new_file [as_bytes (launcher_render spec)] False)"
      unfolding atomic_write_bytes_def by (simp add: atomic_write_Ok)
    with assms(2,3) show ?thesis by (simp add: new_file_def from_utf8_as_bytes)
  qed
  then obtain f where f: "ds_files d' p = Some f" "from_utf8 (fl_bytes f) = Some (launcher_render spec)"
    "length (fl_bytes f) \<le> max_state_bytes" by blast
  let ?e = "snd (disk_step dir_fault' (MakeDirs directory) d')"
  have same: "ds_files ?e = ds_files d'" by (rule make_dirs_files)
  then have "read_limited_to_string None max_state_bytes p ?e = Inr (launcher_render spec)"
    using f by (simp add: read_limited_to_string_def read_limited_def disk_open_def read_open_def Let_def)
  then have "ds_files (snd (launcher_create dir_fault' None fs' fresh' directory spec d')) = ds_files d'"
    using same p by (auto simp: launcher_create_def Let_def split: prod.splits sum.splits)
  then show ?thesis using f launcher_lines by blast
qed

end
