(* ===== verification/Tui.thy ===== *)
theory Tui
  imports StreamSession Discovery DisplaySwitch Config Theme Sunshine
begin

text \<open>
  The terminal interface, \<open>crates/omdesky-tui/src/lib.rs\<close>: its state, the messages of its
  background tasks, the settings, and what every key does. A handler returns the new state and the
  tasks it spawned; what it awaits itself (the configuration file, finding and closing the window
  of the stream) is a call on the world. Drawing is in theory \<open>TuiText\<close>, the tasks and the main
  loop are in \<open>TuiSystem\<close>.
\<close>

section \<open>State\<close>

datatype activity = Idle | Connecting

datatype session_action = StartSession | FocusSession | SwitchSession

definition session_action :: "ustr option \<Rightarrow> ustr \<Rightarrow> session_action" where
  "session_action active_node_id selected_node_id =
     (case active_node_id of
        Some active \<Rightarrow> if active = selected_node_id then FocusSession else SwitchSession
      | None \<Rightarrow> StartSession)"

record access_row =
  ar_tailnet_node_id :: ustr
  ar_label :: ustr

datatype stream_setting =
    SettingDisplay | SettingResolution | SettingFps | SettingBitrate | SettingCodec | SettingAudio

definition stream_setting_all :: "stream_setting list" where
  "stream_setting_all =
     [SettingDisplay, SettingResolution, SettingFps, SettingBitrate, SettingCodec, SettingAudio]"

definition stream_setting_index :: "stream_setting \<Rightarrow> nat" where
  "stream_setting_index s = unwrap_or (position (\<lambda>x. x = s) stream_setting_all) 0"

definition stream_setting_next :: "stream_setting \<Rightarrow> stream_setting" where
  "stream_setting_next s =
     stream_setting_all ! ((stream_setting_index s + 1) mod length stream_setting_all)"

definition stream_setting_previous :: "stream_setting \<Rightarrow> stream_setting" where
  "stream_setting_previous s =
     stream_setting_all ! ((stream_setting_index s + length stream_setting_all - 1) mod length stream_setting_all)"

datatype overlay =
    MenuOverlay stream_setting
  | CredentialsUser ustr
  | CredentialsPass ustr ustr
  | AccessOverlay

definition notice_lifetime :: duration where
  "notice_lifetime = from_secs 5"

definition error_lifetime :: duration where
  "error_lifetime = from_secs 10"

datatype message_kind = NoticeMessage | ErrorMessage

datatype local_readiness = CheckingLocal | ReadyLocal | BlockedLocal ustr

datatype ui_message =
    DiscoveryResult "ustr + discovered_node list"
  | LocalReadinessResult "ustr + unit"
  | SessionStarted u64 ustr ustr "u32 option"
  | SessionEnded u64 "ustr + ustr" bool
  | FocusResult "ustr + ustr"
  | AccessResult "ustr + access_row list"
  | CredentialStatus "ustr + bool"
  | CredentialStored "ustr + unit"

record shown_message =
  sm_kind :: message_kind
  sm_text :: ustr
  sm_since :: instant

record rect =
  rect_x :: u16
  rect_y :: u16
  rect_width :: u16
  rect_height :: u16

record app =
  ui_nodes :: "discovered_node list"
  ui_selected :: "nat option"
  ui_theme :: theme_watcher
  ui_loading :: bool
  ui_activity :: activity
  ui_active_node_id :: "ustr option"
  ui_active_moonlight_pid :: "u32 option"
  ui_pending_node :: "discovered_node option"
  ui_session_generation :: u64
  ui_notice :: "ustr option"
  ui_error :: "ustr option"
  ui_overlay :: "overlay option"
  ui_sunshine_configured :: bool
  ui_local_readiness :: local_readiness
  ui_access_entries :: "access_row list"
  ui_stream_profile :: stream_profile
  ui_display_mode :: display_mode
  ui_detail_expanded :: bool
  ui_detail_overflow :: bool
  ui_detail_rect :: "rect option"
  ui_message_shown :: "shown_message option"

definition app_new :: "theme_watcher \<Rightarrow> app" where
  "app_new theme =
     \<lparr>ui_nodes = [], ui_selected = None, ui_theme = theme, ui_loading = False, ui_activity = Idle,
      ui_active_node_id = None, ui_active_moonlight_pid = None, ui_pending_node = None,
      ui_session_generation = 0, ui_notice = None, ui_error = None, ui_overlay = None,
      ui_sunshine_configured = False, ui_local_readiness = CheckingLocal, ui_access_entries = [],
      ui_stream_profile = stream_profile_default, ui_display_mode = FollowFocus,
      ui_detail_expanded = False, ui_detail_overflow = False, ui_detail_rect = None,
      ui_message_shown = None\<rparr>"

definition shown_text :: "app \<Rightarrow> (message_kind \<times> ustr) option" where
  "shown_text s =
     (case ui_error s of
        Some e \<Rightarrow> Some (ErrorMessage, e)
      | None \<Rightarrow> map_option (\<lambda>n. (NoticeMessage, n)) (ui_notice s))"

definition message_lifetime :: "message_kind \<Rightarrow> duration" where
  "message_lifetime kind =
     (case kind of NoticeMessage \<Rightarrow> notice_lifetime | ErrorMessage \<Rightarrow> error_lifetime)"

definition expire_message :: "instant \<Rightarrow> app \<Rightarrow> app" where
  "expire_message now s =
     (case shown_text s of
        None \<Rightarrow> s\<lparr>ui_message_shown := None\<rparr>
      | Some (kind, message_text) \<Rightarrow>
          (let operation_pending = ui_activity s \<noteq> Idle \<or> ui_pending_node s \<noteq> None;
               unchanged = option_any (\<lambda>shown. sm_kind shown = kind \<and> sm_text shown = message_text)
                 (ui_message_shown s)
           in if operation_pending \<or> \<not> unchanged then
                s\<lparr>ui_message_shown := Some \<lparr>sm_kind = kind, sm_text = message_text, sm_since = now\<rparr>\<rparr>
              else if option_any (\<lambda>shown. now - sm_since shown \<ge> message_lifetime kind) (ui_message_shown s) then
                s\<lparr>ui_error := None, ui_notice := None, ui_message_shown := None\<rparr>
              else s))"

definition selected_node :: "app \<Rightarrow> discovered_node option" where
  "selected_node s =
     (case ui_selected s of
        None \<Rightarrow> None
      | Some i \<Rightarrow> if i < length (ui_nodes s) then Some (ui_nodes s ! i) else None)"

definition selected_remote :: "app \<Rightarrow> discovered_node option" where
  "selected_remote s =
     (case selected_node s of None \<Rightarrow> None | Some n \<Rightarrow> if is_connectable n then Some n else None)"

definition unavailable_reason :: "app \<Rightarrow> ustr option" where
  "unavailable_reason s =
     (case ui_local_readiness s of
        BlockedLocal e \<Rightarrow> Some e
      | CheckingLocal \<Rightarrow> Some (lit ''Checking local connection requirements. Please wait.'')
      | ReadyLocal \<Rightarrow>
          (case selected_node s of
             None \<Rightarrow> None
           | Some n \<Rightarrow>
               if dn_is_local n then Some (lit ''This device cannot connect to itself'')
               else
                 (case list_first (dn_blockers n) of
                    Some blocker \<Rightarrow> Some (blocker_message (dn_name n) blocker)
                  | None \<Rightarrow>
                      (case dn_status n of
                         Ready \<Rightarrow> None
                       | _ \<Rightarrow> Some (lit ''This device is not ready'')))))"

definition select_first :: "app \<Rightarrow> app" where
  "select_first s = s\<lparr>ui_selected := if ui_nodes s = [] then None else Some 0\<rparr>"

definition select_next :: "app \<Rightarrow> app" where
  "select_next s =
     (if ui_nodes s = [] then s
      else s\<lparr>ui_selected := Some (case ui_selected s of
                None \<Rightarrow> 0 | Some i \<Rightarrow> (i + 1) mod length (ui_nodes s)),
             ui_detail_expanded := False\<rparr>)"

definition select_previous :: "app \<Rightarrow> app" where
  "select_previous s =
     (if ui_nodes s = [] then s
      else s\<lparr>ui_selected := Some (case ui_selected s of
                None \<Rightarrow> 0 | Some i \<Rightarrow> (i + length (ui_nodes s) - 1) mod length (ui_nodes s)),
             ui_detail_expanded := False\<rparr>)"

section \<open>Messages of the tasks\<close>

definition user_error :: "ustr \<Rightarrow> port_error \<Rightarrow> ustr" where
  "user_error context_text e = context_text @ lit '' '' @ user_message e"

definition stream_exit_message :: "ustr \<Rightarrow> int \<Rightarrow> ustr" where
  "stream_exit_message node_name exit_code =
     (if exit_code = 0 then lit ''Disconnected from '' @ node_name @ lit ''.''
      else lit ''The stream from '' @ node_name @ lit '' ended unexpectedly. You can try reconnecting.'')"

fun requires_terminal_reset :: "ui_message \<Rightarrow> bool" where
  "requires_terminal_reset (SessionStarted _ _ _ _) = True"
| "requires_terminal_reset (SessionEnded _ _ _) = True"
| "requires_terminal_reset _ = False"

fun requires_local_readiness_refresh :: "ui_message \<Rightarrow> bool" where
  "requires_local_readiness_refresh (CredentialStored (Inr _)) = True"
| "requires_local_readiness_refresh _ = False"

definition apply_refresh :: "ustr + discovered_node list \<Rightarrow> app \<Rightarrow> app" where
  "apply_refresh result s =
     (let s = s\<lparr>ui_loading := False, ui_detail_expanded := False\<rparr>
      in case result of
           Inr nodes \<Rightarrow>
             select_first (s\<lparr>ui_nodes := nodes,
               ui_error := if ui_local_readiness s = ReadyLocal then None else ui_error s\<rparr>)
         | Inl e \<Rightarrow> s\<lparr>ui_nodes := [], ui_error := Some e, ui_selected := None\<rparr>)"

definition report_outcome :: "ustr + ustr \<Rightarrow> app \<Rightarrow> app" where
  "report_outcome result s =
     (case result of
        Inr notice \<Rightarrow> s\<lparr>ui_notice := Some notice, ui_error := None\<rparr>
      | Inl e \<Rightarrow> s\<lparr>ui_error := Some e, ui_notice := None\<rparr>)"

fun apply_message :: "ui_message \<Rightarrow> app \<Rightarrow> app" where
  "apply_message (DiscoveryResult result) s = apply_refresh result s"
| "apply_message (LocalReadinessResult result) s =
     (case result of
        Inr _ \<Rightarrow> s\<lparr>ui_local_readiness := ReadyLocal, ui_error := None\<rparr>
      | Inl e \<Rightarrow> s\<lparr>ui_local_readiness := BlockedLocal e, ui_error := Some e, ui_notice := None\<rparr>)"
| "apply_message (SessionStarted generation node_id node_name moonlight_pid) s =
     (if generation = ui_session_generation s then
        s\<lparr>ui_activity := Idle, ui_active_node_id := Some node_id,
          ui_active_moonlight_pid := moonlight_pid,
          ui_notice := Some (lit ''Connected to '' @ node_name @ lit ''.''), ui_error := None\<rparr>
      else s)"
| "apply_message (SessionEnded generation result local_failure) s =
     (if generation = ui_session_generation s then
        report_outcome result
          (s\<lparr>ui_activity := Idle, ui_active_node_id := None, ui_active_moonlight_pid := None,
             ui_detail_expanded := False,
             ui_local_readiness :=
               if local_failure then
                 BlockedLocal (case result of
                     Inl e \<Rightarrow> e | Inr _ \<Rightarrow> lit ''The local controller is unavailable.'')
               else ui_local_readiness s\<rparr>)
      else s)"
| "apply_message (FocusResult result) s = report_outcome result s"
| "apply_message (AccessResult result) s =
     (case result of
        Inr entries \<Rightarrow> s\<lparr>ui_access_entries := entries\<rparr>
      | Inl e \<Rightarrow> s\<lparr>ui_detail_expanded := False, ui_error := Some e\<rparr>)"
| "apply_message (CredentialStatus result) s =
     (case result of
        Inr configured \<Rightarrow> s\<lparr>ui_sunshine_configured := configured\<rparr>
      | Inl e \<Rightarrow> s\<lparr>ui_local_readiness := BlockedLocal e, ui_error := Some e\<rparr>)"
| "apply_message (CredentialStored result) s =
     (case result of
        Inr _ \<Rightarrow> s\<lparr>ui_sunshine_configured := True, ui_local_readiness := CheckingLocal,
                   ui_notice := Some (lit ''Sunshine credentials saved''), ui_error := None\<rparr>
      | Inl e \<Rightarrow> s\<lparr>ui_error := Some (lit ''Could not save credentials: '' @ e), ui_notice := None\<rparr>)"

section \<open>Settings\<close>

definition profile_of_config :: "config \<Rightarrow> stream_profile" where
  "profile_of_config c =
     (let stored = cf_stream c;
          bitrate_kbps = (if stc_bitrate_mbps stored > 0
            then result_ok (bitrate_kbps_from_mbps (stc_bitrate_mbps stored)) else None);
          profile = \<lparr>sp_width = stc_width stored, sp_height = stc_height stored, sp_fps = stc_fps stored,
            sp_codec_preference = stc_codec stored, sp_audio = stc_audio stored,
            sp_bitrate_kbps = bitrate_kbps\<rparr>
      in if is_ok (stream_profile_validate profile) then profile else stream_profile_default)"

definition config_with_profile :: "stream_profile \<Rightarrow> config \<Rightarrow> config" where
  "config_with_profile p c =
     c\<lparr>cf_stream := (cf_stream c)\<lparr>stc_width := sp_width p, stc_height := sp_height p, stc_fps := sp_fps p,
        stc_codec := sp_codec_preference p, stc_audio := sp_audio p,
        stc_bitrate_mbps := unwrap_or (sp_bitrate_kbps p) 0 div 1000\<rparr>\<rparr>"

definition cycle_index :: "nat \<Rightarrow> nat \<Rightarrow> int \<Rightarrow> nat" where
  "cycle_index current len direction =
     (if direction < 0 then (current + len - 1) mod len else (current + 1) mod len)"

definition cycle_value :: "'a list \<Rightarrow> nat \<Rightarrow> int \<Rightarrow> 'a \<Rightarrow> 'a" where
  "cycle_value vs fallback direction value =
     vs ! cycle_index (unwrap_or (position (\<lambda>v. v = value) vs) fallback) (length vs) direction"

definition resolution_values :: "(u32 \<times> u32) list" where
  "resolution_values = [(1280, 720), (1920, 1080), (2560, 1440), (3840, 2160)]"

definition fps_values :: "u16 list" where
  "fps_values = [30, 60, 90, 120]"

definition bitrate_values :: "u32 option list" where
  "bitrate_values = [None, Some 10000, Some 20000, Some 40000, Some 80000, Some 120000]"

definition codec_values :: "codec_preference list" where
  "codec_values = [Auto, H264, Hevc, Av1]"

fun change_stream_setting :: "stream_setting \<Rightarrow> int \<Rightarrow> stream_profile \<Rightarrow> stream_profile" where
  "change_stream_setting SettingDisplay direction p = p"
| "change_stream_setting SettingResolution direction p =
     (case cycle_value resolution_values 1 direction (sp_width p, sp_height p) of
        (width, height) \<Rightarrow> p\<lparr>sp_width := width, sp_height := height\<rparr>)"
| "change_stream_setting SettingFps direction p =
     p\<lparr>sp_fps := cycle_value fps_values 1 direction (sp_fps p)\<rparr>"
| "change_stream_setting SettingBitrate direction p =
     p\<lparr>sp_bitrate_kbps := cycle_value bitrate_values 0 direction (sp_bitrate_kbps p)\<rparr>"
| "change_stream_setting SettingCodec direction p =
     p\<lparr>sp_codec_preference := cycle_value codec_values 0 direction (sp_codec_preference p)\<rparr>"
| "change_stream_setting SettingAudio direction p = p\<lparr>sp_audio := \<not> sp_audio p\<rparr>"

text \<open>The ports of the interface, each a call on the world.\<close>

record 'w config_ports =
  cp_load :: "('w, config_error + config) call"
  cp_save :: "config \<Rightarrow> ('w, config_error + unit) call"

record 'w ui_ports =
  up_config :: "'w config_ports"
  up_window_for_process :: "u32 \<Rightarrow> ('w, window_selector option port_result) call"
  up_execute :: "remote_command \<Rightarrow> ('w, unit port_result) call"
  up_focus_stream :: "window_selector \<Rightarrow> ('w, unit port_result) call"
  up_discover :: "('w, discovered_node list port_result) call"
  up_local_node :: "('w, mesh_node_identity port_result) call"
  up_health :: "agent_endpoint \<Rightarrow> ('w, health_response port_result) call"
  up_access_list :: "('w, allowed_controller list port_result) call"
  up_access_allow :: "allowed_controller \<Rightarrow> ('w, unit port_result) call"
  up_access_revoke :: "ustr \<Rightarrow> ('w, unit port_result) call"
  up_configured :: "('w, bool port_result) call"
  up_credentials_load :: "('w, (credential_error + sunshine_credentials option) option) call"
  up_credentials_store :: "ustr \<Rightarrow> ustr \<Rightarrow> ('w, (credential_error + unit) option) call"
  up_stream :: "'w stream_ports"
  up_agent_port :: u16

definition update_config :: "'w config_ports \<Rightarrow> (config \<Rightarrow> config) \<Rightarrow> ('w, config_error + unit) call" where
  "update_config p change = call_then (cp_load p) (\<lambda>c. cp_save p (change c))"

definition save_stream_profile :: "'w config_ports \<Rightarrow> app \<Rightarrow> 'w \<Rightarrow> app \<times> 'w" where
  "save_stream_profile p s w =
     (case update_config p (config_with_profile (ui_stream_profile s)) w of
        (Inr _, w') \<Rightarrow> (s\<lparr>ui_notice := Some (lit ''Stream settings saved''), ui_error := None\<rparr>, w')
      | (Inl e, w') \<Rightarrow>
          (s\<lparr>ui_error := Some (lit ''Could not save stream settings: '' @ config_error_text e),
             ui_notice := None\<rparr>, w'))"

definition save_display_mode :: "'w config_ports \<Rightarrow> app \<Rightarrow> 'w \<Rightarrow> app \<times> 'w" where
  "save_display_mode p s w =
     (case update_config p (\<lambda>c. c\<lparr>cf_display := (cf_display c)\<lparr>dcf_mode := ui_display_mode s\<rparr>\<rparr>) w of
        (Inr _, w') \<Rightarrow> (s\<lparr>ui_notice := Some (lit ''Display mode saved''), ui_error := None\<rparr>, w')
      | (Inl e, w') \<Rightarrow>
          (s\<lparr>ui_error := Some (lit ''Could not save display mode: '' @ config_error_text e),
             ui_notice := None\<rparr>, w'))"

definition change_display_mode :: "'w config_ports \<Rightarrow> int \<Rightarrow> app \<Rightarrow> 'w \<Rightarrow> app \<times> 'w" where
  "change_display_mode p direction s =
     save_display_mode p (s\<lparr>ui_display_mode := cycle_value display_mode_all 0 direction (ui_display_mode s)\<rparr>)"

text \<open>What the menu shows is read from the file when it is opened.\<close>

definition load_settings :: "'w config_ports \<Rightarrow> app \<Rightarrow> 'w \<Rightarrow> app \<times> 'w" where
  "load_settings p s w =
     (case cp_load p w of
        (loaded, w') \<Rightarrow>
          (s\<lparr>ui_stream_profile := (case loaded of
                Inr c \<Rightarrow> profile_of_config c | Inl _ \<Rightarrow> stream_profile_default),
             ui_display_mode := (case loaded of Inr c \<Rightarrow> dcf_mode (cf_display c) | Inl _ \<Rightarrow> FollowFocus)\<rparr>, w'))"

section \<open>Keys\<close>

datatype ui_key =
    KeyChar ucs | KeyDown | KeyUp | KeyLeft | KeyRight | KeyEnter | KeyEsc | KeyBackspace | KeyOther

abbreviation "key_q \<equiv> KeyChar 113"
abbreviation "key_j \<equiv> KeyChar 106"
abbreviation "key_k \<equiv> KeyChar 107"
abbreviation "key_h \<equiv> KeyChar 104"
abbreviation "key_l \<equiv> KeyChar 108"
abbreviation "key_r \<equiv> KeyChar 114"
abbreviation "key_s \<equiv> KeyChar 115"
abbreviation "key_c \<equiv> KeyChar 99"
abbreviation "key_a \<equiv> KeyChar 97"
abbreviation "key_d \<equiv> KeyChar 100"

text \<open>A spawned task; connecting carries the profile that was read from the file before.\<close>

datatype ui_task =
    RefreshTask
  | ReadinessTask
  | ConnectTask discovered_node u64 stream_profile
  | FocusTask "u32 option"
  | AccessListTask
  | AllowTask allowed_controller
  | RevokeTask ustr
  | CredentialStatusTask
  | CredentialStoreTask ustr ustr

definition stream_window :: "'w ui_ports \<Rightarrow> u32 option \<Rightarrow> ('w, window_selector) call" where
  "stream_window p moonlight_pid w =
     (case moonlight_pid of
        None \<Rightarrow> (WindowClass stream_window_class, w)
      | Some pid \<Rightarrow>
          (case up_window_for_process p pid w of
             (Inr (Some window), w') \<Rightarrow> (window, w')
           | (_, w') \<Rightarrow> (WindowClass stream_window_class, w')))"

definition ellipsis :: ustr where
  "ellipsis = [0x2026]"

definition start_preflight :: "'w ui_ports \<Rightarrow> discovered_node \<Rightarrow> app \<Rightarrow> 'w \<Rightarrow> (app \<times> ui_task list) \<times> 'w" where
  "start_preflight p node s w =
     (let s = s\<lparr>ui_session_generation := ui_session_generation s + 1, ui_activity := Connecting,
            ui_active_node_id := None, ui_error := None,
            ui_notice := Some (lit ''Checking connection to '' @ dn_name node @ ellipsis)\<rparr>
      in case cp_load (up_config p) w of
           (loaded, w') \<Rightarrow>
             ((s, [ConnectTask node (ui_session_generation s) (case loaded of
                     Inr c \<Rightarrow> profile_of_config c | Inl _ \<Rightarrow> stream_profile_default)]), w'))"

definition switch_session :: "'w ui_ports \<Rightarrow> discovered_node \<Rightarrow> app \<Rightarrow> 'w \<Rightarrow> app \<times> 'w" where
  "switch_session p node s w =
     (let s = s\<lparr>ui_pending_node := Some node,
            ui_notice := Some (lit ''Switching to '' @ dn_name node @ ellipsis), ui_error := None\<rparr>
      in case stream_window p (ui_active_moonlight_pid s) w of
           (window, w1) \<Rightarrow>
             (case up_execute p (CloseWindow window) w1 of
                (Inr _, w2) \<Rightarrow> (s, w2)
              | (Inl e, w2) \<Rightarrow>
                  (s\<lparr>ui_pending_node := None,
                     ui_error := Some (user_error (lit ''The current stream could not be closed.'') e),
                     ui_notice := None\<rparr>, w2)))"

definition press_enter :: "'w ui_ports \<Rightarrow> app \<Rightarrow> 'w \<Rightarrow> (app \<times> ui_task list) \<times> 'w" where
  "press_enter p s w =
     (case unavailable_reason s of
        Some reason \<Rightarrow>
          ((s\<lparr>ui_error := Some (lit ''ATTENTION: '' @ reason), ui_notice := None\<rparr>, []), w)
      | None \<Rightarrow>
          (case selected_remote s of
             None \<Rightarrow> ((s, []), w)
           | Some node \<Rightarrow>
               (case session_action (ui_active_node_id s) (dn_tailnet_node_id node) of
                  FocusSession \<Rightarrow>
                    ((s\<lparr>ui_notice := Some (lit ''Focusing '' @ dn_name node @ ellipsis), ui_error := None\<rparr>,
                      [FocusTask (ui_active_moonlight_pid s)]), w)
                | SwitchSession \<Rightarrow> (case switch_session p node s w of (s', w') \<Rightarrow> ((s', []), w'))
                | StartSession \<Rightarrow>
                    if ui_activity s = Idle then start_preflight p node s w else ((s, []), w))))"

definition change_setting :: "'w config_ports \<Rightarrow> stream_setting \<Rightarrow> int \<Rightarrow> app \<Rightarrow> 'w \<Rightarrow> app \<times> 'w" where
  "change_setting p setting direction s =
     (if setting = SettingDisplay then change_display_mode p direction s
      else save_stream_profile p
        (s\<lparr>ui_stream_profile := change_stream_setting setting direction (ui_stream_profile s)\<rparr>))"

definition back_to_menu :: "app \<Rightarrow> app" where
  "back_to_menu s = s\<lparr>ui_overlay := Some (MenuOverlay SettingResolution)\<rparr>"

fun typed_text :: "ui_key \<Rightarrow> ustr \<Rightarrow> ustr" where
  "typed_text KeyBackspace t = butlast t"
| "typed_text (KeyChar c) t = (if is_control c then t else t @ [c])"
| "typed_text _ t = t"

definition handle_menu_key ::
    "'w ui_ports \<Rightarrow> stream_setting \<Rightarrow> ui_key \<Rightarrow> app \<Rightarrow> 'w \<Rightarrow> (app \<times> ui_task list) \<times> 'w" where
  "handle_menu_key p selected key s w =
     (if key = KeyEsc \<or> key = key_q then ((s\<lparr>ui_overlay := None\<rparr>, []), w)
      else if key = KeyDown \<or> key = key_j then
        ((s\<lparr>ui_overlay := Some (MenuOverlay (stream_setting_next selected))\<rparr>, []), w)
      else if key = KeyUp \<or> key = key_k then
        ((s\<lparr>ui_overlay := Some (MenuOverlay (stream_setting_previous selected))\<rparr>, []), w)
      else if key = KeyLeft \<or> key = key_h then
        (case change_setting (up_config p) selected (- 1) s w of (s', w') \<Rightarrow> ((s', []), w'))
      else if key = KeyRight \<or> key = key_l \<or> key = KeyEnter then
        (case change_setting (up_config p) selected 1 s w of (s', w') \<Rightarrow> ((s', []), w'))
      else if key = key_c then ((s\<lparr>ui_overlay := Some (CredentialsUser [])\<rparr>, []), w)
      else if key = key_a then ((s\<lparr>ui_overlay := Some AccessOverlay\<rparr>, [AccessListTask]), w)
      else ((s, []), w))"

definition handle_access_key :: "offset_date_time \<Rightarrow> ui_key \<Rightarrow> app \<Rightarrow> app \<times> ui_task list" where
  "handle_access_key now key s =
     (if key = KeyEsc \<or> key = key_q then (back_to_menu s, [])
      else if key = key_a then
        (case selected_remote s of
           Some node \<Rightarrow>
             (s\<lparr>ui_notice := Some (lit ''Allowed '' @ dn_name node @ lit '' to control this device'')\<rparr>,
              [AllowTask (allowed_controller_new (dn_tailnet_node_id node) (Some (dn_name node)) now capability_all)])
         | None \<Rightarrow>
             (s\<lparr>ui_error := Some (lit ''Select a remote device first to grant it access'')\<rparr>, []))
      else if key = key_d then
        (case selected_node s of
           Some node \<Rightarrow>
             (s\<lparr>ui_notice := Some (lit ''Revoked access for '' @ dn_name node)\<rparr>,
              [RevokeTask (dn_tailnet_node_id node)])
         | None \<Rightarrow> (s, []))
      else (s, []))"

definition handle_overlay_key ::
    "'w ui_ports \<Rightarrow> offset_date_time \<Rightarrow> overlay \<Rightarrow> ui_key \<Rightarrow> app \<Rightarrow> 'w \<Rightarrow> (app \<times> ui_task list) \<times> 'w" where
  "handle_overlay_key p now ov key s w =
     (case ov of
        MenuOverlay selected \<Rightarrow> handle_menu_key p selected key s w
      | CredentialsUser user \<Rightarrow>
          ((if key = KeyEsc then back_to_menu s
            else if key = KeyEnter then
              (if user = [] then s else s\<lparr>ui_overlay := Some (CredentialsPass user [])\<rparr>)
            else s\<lparr>ui_overlay := Some (CredentialsUser (typed_text key user))\<rparr>, []), w)
      | CredentialsPass user pass \<Rightarrow>
          (if key = KeyEsc then ((back_to_menu s, []), w)
           else if key = KeyEnter then
             (if pass = [] then ((s, []), w) else ((back_to_menu s, [CredentialStoreTask user pass]), w))
           else ((s\<lparr>ui_overlay := Some (CredentialsPass user (typed_text key pass))\<rparr>, []), w))
      | AccessOverlay \<Rightarrow> (handle_access_key now key s, w))"

text \<open>The first component of the answer says whether the interface is left.\<close>

definition handle_key ::
    "'w ui_ports \<Rightarrow> offset_date_time \<Rightarrow> ui_key \<Rightarrow> app \<Rightarrow> 'w \<Rightarrow> (bool \<times> app \<times> ui_task list) \<times> 'w" where
  "handle_key p now key s w =
     (case ui_overlay s of
        Some ov \<Rightarrow> (case handle_overlay_key p now ov key s w of (r, w') \<Rightarrow> ((False, r), w'))
      | None \<Rightarrow>
          if key = key_q \<or> key = KeyEsc then ((True, s, []), w)
          else if key = KeyDown \<or> key = key_j then ((False, select_next s, []), w)
          else if key = KeyUp \<or> key = key_k then ((False, select_previous s, []), w)
          else if key = key_r \<and> \<not> ui_loading s then
            ((False, s\<lparr>ui_loading := True, ui_local_readiness := CheckingLocal, ui_error := None,
                       ui_notice := None\<rparr>, [RefreshTask, ReadinessTask]), w)
          else if key = key_s then
            (case load_settings (up_config p) s w of
               (s', w') \<Rightarrow> ((False, s'\<lparr>ui_overlay := Some (MenuOverlay SettingDisplay)\<rparr>,
                 [CredentialStatusTask]), w'))
          else if key = KeyEnter then (case press_enter p s w of (r, w') \<Rightarrow> ((False, r), w'))
          else ((False, s, []), w))"

definition point_in_rect :: "u16 \<Rightarrow> u16 \<Rightarrow> rect \<Rightarrow> bool" where
  "point_in_rect column row r \<longleftrightarrow>
     column \<ge> rect_x r \<and> column < rect_x r + rect_width r \<and> row \<ge> rect_y r \<and> row < rect_y r + rect_height r"

definition handle_click :: "u16 \<Rightarrow> u16 \<Rightarrow> app \<Rightarrow> app" where
  "handle_click column row s =
     (if ui_detail_overflow s \<and> option_any (point_in_rect column row) (ui_detail_rect s)
      then s\<lparr>ui_detail_expanded := \<not> ui_detail_expanded s\<rparr> else s)"

section \<open>The settings\<close>

text \<open>A profile that the file can hold: within the limits, with a whole number of megabits.\<close>

definition storable :: "stream_profile \<Rightarrow> bool" where
  "storable p \<longleftrightarrow> stream_profile_validate p = Inr ()
     \<and> option_all (\<lambda>kbps. 1000 dvd unat kbps) (sp_bitrate_kbps p)"

lemma profile_validate_iff:
  "stream_profile_validate p = Inr () \<longleftrightarrow>
     min_stream_width \<le> sp_width p \<and> sp_width p \<le> max_stream_width
     \<and> min_stream_height \<le> sp_height p \<and> sp_height p \<le> max_stream_height
     \<and> min_stream_fps \<le> sp_fps p \<and> sp_fps p \<le> max_stream_fps
     \<and> option_all bitrate_in_range (sp_bitrate_kbps p)"
  by (simp add: stream_profile_validate_def Let_def)

lemma storable_default: "storable stream_profile_default"
  by (simp add: storable_def profile_validate_iff stream_profile_default_def stream_limits)

lemma bitrate_from_mbps_Some:
  "result_ok (bitrate_kbps_from_mbps m) = Some k \<Longrightarrow> bitrate_in_range k \<and> unat k = unat m * 1000"
  by (auto simp: bitrate_kbps_from_mbps_def ok_or_def result_ok_def checked_mul_Some
      split: option.splits if_splits)

lemma storable_of_config: "storable (profile_of_config c)"
proof -
  have "bitrate = None \<or> (\<exists>m. result_ok (bitrate_kbps_from_mbps m) = bitrate) \<Longrightarrow>
      option_all (\<lambda>kbps. 1000 dvd unat kbps) bitrate" for bitrate
    using bitrate_from_mbps_Some by (cases bitrate) auto
  then show ?thesis
    by (auto simp: profile_of_config_def Let_def storable_def is_ok_iff storable_default
        intro: storable_default [unfolded storable_def, THEN conjunct1]
          storable_default [unfolded storable_def, THEN conjunct2])
qed

lemma position_bound: "position P xs = Some n \<Longrightarrow> n < length xs"
  by (induction xs arbitrary: n) (auto split: if_splits)

lemma cycle_value_mem: "vs \<noteq> [] \<Longrightarrow> cycle_value vs fallback direction v \<in> set vs"
  by (simp add: cycle_value_def cycle_index_def)

lemma setting_values:
  "(w, h) \<in> set resolution_values \<Longrightarrow>
     min_stream_width \<le> w \<and> w \<le> max_stream_width \<and> min_stream_height \<le> h \<and> h \<le> max_stream_height"
  "f \<in> set fps_values \<Longrightarrow> min_stream_fps \<le> f \<and> f \<le> max_stream_fps"
  "b \<in> set bitrate_values \<Longrightarrow> option_all bitrate_in_range b \<and> option_all (\<lambda>kbps. 1000 dvd unat kbps) b"
  by (auto simp: resolution_values_def fps_values_def bitrate_values_def bitrate_in_range_def stream_limits)

lemma storable_change:
  assumes "storable p"
  shows "storable (change_stream_setting setting direction p)"
proof (cases setting)
  case SettingResolution
  obtain w h where pair: "cycle_value resolution_values 1 direction (sp_width p, sp_height p) = (w, h)"
    by fastforce
  then have "(w, h) \<in> set resolution_values"
    using cycle_value_mem [of resolution_values 1 direction "(sp_width p, sp_height p)"]
    by (simp add: resolution_values_def)
  with assms pair show ?thesis
    using setting_values(1) by (simp add: SettingResolution storable_def profile_validate_iff)
next
  case SettingFps
  have "cycle_value fps_values 1 direction (sp_fps p) \<in> set fps_values"
    by (rule cycle_value_mem) (simp add: fps_values_def)
  with assms show ?thesis
    using setting_values(2) by (simp add: SettingFps storable_def profile_validate_iff)
next
  case SettingBitrate
  have "cycle_value bitrate_values 0 direction (sp_bitrate_kbps p) \<in> set bitrate_values"
    by (rule cycle_value_mem) (simp add: bitrate_values_def)
  with assms show ?thesis
    using setting_values(3) by (simp add: SettingBitrate storable_def profile_validate_iff)
qed (use assms in \<open>simp_all add: storable_def profile_validate_iff\<close>)

lemma mbps_roundtrip:
  assumes "bitrate_in_range k" and "1000 dvd unat k"
  shows "k div 1000 > 0" and "bitrate_kbps_from_mbps (k div 1000) = Inr k"
proof -
  obtain m where m: "unat k = 1000 * m" using assms(2) by (auto simp: dvd_def)
  have range: "500 \<le> unat k" "unat k \<le> 500000"
    using assms(1) by (simp_all add: bitrate_in_range_def stream_limits word_le_nat_alt)
  have quotient: "unat (k div 1000) = m" by (simp add: unat_div m)
  with range m show "k div 1000 > 0" by (simp add: word_less_nat_alt)
  have "checked_mul (k div 1000) 1000 = Some k"
    using range m quotient by (simp add: checked_mul_Some)
  with assms(1) show "bitrate_kbps_from_mbps (k div 1000) = Inr k"
    by (simp add: bitrate_kbps_from_mbps_def)
qed

text \<open>
  C33: The stream settings survive being written to the configuration and read back: the profile that
  the menu shows, and every profile that its keys can make of it, is the one that is loaded for
  the next connection, and no other part of the configuration changes.
\<close>

theorem settings_roundtrip:
  assumes "storable p"
  shows "profile_of_config (config_with_profile p c) = p
    \<and> storable (change_stream_setting setting direction p)
    \<and> (config_with_profile p c)\<lparr>cf_stream := cf_stream c\<rparr> = c"
proof (intro conjI storable_change assms)
  have valid: "stream_profile_validate p = Inr ()" using assms by (simp add: storable_def)
  have "(if unwrap_or (sp_bitrate_kbps p) 0 div 1000 > 0
      then result_ok (bitrate_kbps_from_mbps (unwrap_or (sp_bitrate_kbps p) 0 div 1000)) else None)
    = sp_bitrate_kbps p"
    using assms mbps_roundtrip by (cases "sp_bitrate_kbps p") (auto simp: storable_def profile_validate_iff)
  moreover have "profile_of_config (config_with_profile p c) =
      (let q = p\<lparr>sp_bitrate_kbps := if unwrap_or (sp_bitrate_kbps p) 0 div 1000 > 0
          then result_ok (bitrate_kbps_from_mbps (unwrap_or (sp_bitrate_kbps p) 0 div 1000)) else None\<rparr>
       in if is_ok (stream_profile_validate q) then q else stream_profile_default)"
    by (cases p) (simp add: profile_of_config_def config_with_profile_def)
  ultimately show "profile_of_config (config_with_profile p c) = p"
    using valid by simp
  show "(config_with_profile p c)\<lparr>cf_stream := cf_stream c\<rparr> = c"
    by (simp add: config_with_profile_def)
qed

theorem settings_roundtrip_witness:
  "let p = stream_profile_default\<lparr>sp_bitrate_kbps := Some 40000\<rparr>
   in profile_of_config (config_with_profile p config_default) = p"
proof -
  have "storable (stream_profile_default\<lparr>sp_bitrate_kbps := Some 40000\<rparr>)"
    by (simp add: storable_def profile_validate_iff stream_profile_default_def stream_limits bitrate_in_range_def)
  from settings_roundtrip [OF this, of config_default] show ?thesis by (simp add: Let_def)
qed

section \<open>Well-formed states\<close>

text \<open>
  The selection points at a device of the list, what is typed holds no control character, the
  profile can be stored, only a device that can be connected to waits for the current stream to
  end, the process of a stream is known only while one is active, and while connecting none is.
\<close>

fun overlay_wf :: "overlay \<Rightarrow> bool" where
  "overlay_wf (CredentialsUser user) \<longleftrightarrow> list_all (\<lambda>c. \<not> is_control c) user"
| "overlay_wf (CredentialsPass user pass) \<longleftrightarrow>
     user \<noteq> [] \<and> list_all (\<lambda>c. \<not> is_control c) user \<and> list_all (\<lambda>c. \<not> is_control c) pass"
| "overlay_wf _ \<longleftrightarrow> True"

definition app_wf :: "app \<Rightarrow> bool" where
  "app_wf s \<longleftrightarrow>
     option_all (\<lambda>i. i < length (ui_nodes s)) (ui_selected s)
     \<and> storable (ui_stream_profile s)
     \<and> option_all overlay_wf (ui_overlay s)
     \<and> option_all is_connectable (ui_pending_node s)
     \<and> (ui_active_moonlight_pid s \<noteq> None \<longrightarrow> ui_active_node_id s \<noteq> None)
     \<and> (ui_activity s = Connecting \<longrightarrow> ui_active_node_id s = None)"

lemma app_wf_new: "app_wf (app_new theme)"
  by (simp add: app_wf_def app_new_def storable_default)

lemma app_wf_message: "app_wf s \<Longrightarrow> app_wf (apply_message m s)"
  by (cases m) (auto simp: app_wf_def apply_refresh_def select_first_def report_outcome_def Let_def
      split: sum.split)

lemma app_wf_expire: "app_wf s \<Longrightarrow> app_wf (expire_message now s)"
  by (auto simp: app_wf_def expire_message_def Let_def split: option.split)

lemma app_wf_select: "app_wf s \<Longrightarrow> app_wf (select_next s)" "app_wf s \<Longrightarrow> app_wf (select_previous s)"
  by (auto simp: app_wf_def select_next_def select_previous_def split: option.split)

lemma app_wf_report: "app_wf s \<Longrightarrow> app_wf (s\<lparr>ui_notice := n, ui_error := e\<rparr>)"
  "app_wf s \<Longrightarrow> app_wf (s\<lparr>ui_error := e, ui_notice := n\<rparr>)"
  by (simp_all add: app_wf_def)

lemma typed_text_plain: "list_all (\<lambda>c. \<not> is_control c) t \<Longrightarrow> list_all (\<lambda>c. \<not> is_control c) (typed_text key t)"
  by (cases key) (auto simp: list_all_iff dest: in_set_butlastD)

lemma selected_remote_connectable: "selected_remote s = Some n \<Longrightarrow> is_connectable n"
  by (auto simp: selected_remote_def split: option.splits if_splits)

text \<open>What a handler leaves alone when it only reports something.\<close>

definition same_session :: "app \<Rightarrow> app \<Rightarrow> bool" where
  "same_session s s' \<longleftrightarrow>
     ui_nodes s' = ui_nodes s \<and> ui_selected s' = ui_selected s
     \<and> ui_active_node_id s' = ui_active_node_id s \<and> ui_active_moonlight_pid s' = ui_active_moonlight_pid s
     \<and> ui_activity s' = ui_activity s \<and> ui_session_generation s' = ui_session_generation s
     \<and> ui_local_readiness s' = ui_local_readiness s"

lemma save_frame:
  "save_stream_profile p s w = (s', w') \<Longrightarrow> same_session s s' \<and> ui_overlay s' = ui_overlay s
     \<and> ui_pending_node s' = ui_pending_node s \<and> ui_stream_profile s' = ui_stream_profile s"
  "save_display_mode p s w = (s', w') \<Longrightarrow> same_session s s' \<and> ui_overlay s' = ui_overlay s
     \<and> ui_pending_node s' = ui_pending_node s \<and> ui_stream_profile s' = ui_stream_profile s"
  by (auto simp: save_stream_profile_def save_display_mode_def same_session_def split: prod.splits sum.splits)

lemma change_setting_frame:
  assumes "change_setting p setting direction s w = (s', w')"
  shows "same_session s s' \<and> ui_overlay s' = ui_overlay s \<and> ui_pending_node s' = ui_pending_node s
    \<and> ui_stream_profile s' = change_stream_setting setting direction (ui_stream_profile s)"
  using assms
  by (cases "setting = SettingDisplay")
    (auto simp: change_setting_def change_display_mode_def same_session_def dest!: save_frame)

lemma app_wf_change: "change_setting p setting direction s w = (s', w') \<Longrightarrow> app_wf s \<Longrightarrow> app_wf s'"
  by (drule change_setting_frame) (auto simp: app_wf_def same_session_def storable_change)

lemma app_wf_preflight:
  "start_preflight p node s w = ((s', ts), w') \<Longrightarrow> app_wf s \<Longrightarrow> ui_active_node_id s = None \<Longrightarrow> app_wf s'"
  by (auto simp: start_preflight_def app_wf_def Let_def split: prod.splits)

lemma switch_frame:
  assumes "switch_session p node s w = (s', w')"
  shows "same_session s s' \<and> ui_overlay s' = ui_overlay s \<and> ui_stream_profile s' = ui_stream_profile s
    \<and> ui_pending_node s' \<in> {None, Some node}"
  using assms by (auto simp: switch_session_def same_session_def Let_def split: prod.splits sum.splits)

lemma app_wf_enter: "press_enter p s w = ((s', ts), w') \<Longrightarrow> app_wf s \<Longrightarrow> app_wf s'"
proof (unfold press_enter_def, goal_cases)
  case 1
  show ?case
  proof (cases "unavailable_reason s")
    case None
    show ?thesis
    proof (cases "selected_remote s")
      case (Some node)
      note connectable = selected_remote_connectable [OF Some]
      show ?thesis
      proof (cases "session_action (ui_active_node_id s) (dn_tailnet_node_id node)")
        case StartSession
        then have "ui_active_node_id s = None"
          by (auto simp: session_action_def split: option.splits if_splits)
        with 1 None Some StartSession show ?thesis by (auto split: if_splits intro: app_wf_preflight)
      next
        case SwitchSession
        with 1 None Some connectable show ?thesis
          by (auto dest!: switch_frame simp: app_wf_def same_session_def split: prod.splits)
      qed (use 1 None Some in \<open>auto simp: app_wf_report\<close>)
    qed (use 1 None in auto)
  qed (use 1 in \<open>auto simp: app_wf_report\<close>)
qed

lemma app_wf_menu: "handle_menu_key p selected key s w = ((s', ts), w') \<Longrightarrow> app_wf s \<Longrightarrow> app_wf s'"
  by (auto simp: handle_menu_key_def split: if_splits prod.splits intro: app_wf_change)
    (auto simp: app_wf_def)

lemma app_wf_access: "handle_access_key now key s = (s', ts) \<Longrightarrow> app_wf s \<Longrightarrow> app_wf s'"
  by (auto simp: handle_access_key_def back_to_menu_def app_wf_def split: if_splits option.splits)

lemma app_wf_overlay:
  assumes "handle_overlay_key p now ov key s w = ((s', ts), w')" and "app_wf s" and "overlay_wf ov"
  shows "app_wf s'"
proof (cases ov)
  case (MenuOverlay selected)
  with assms show ?thesis by (auto simp: handle_overlay_key_def intro: app_wf_menu)
next
  case (CredentialsUser user)
  with assms show ?thesis
    by (auto simp: handle_overlay_key_def back_to_menu_def app_wf_def typed_text_plain split: if_splits)
next
  case (CredentialsPass user pass)
  with assms show ?thesis
    by (auto simp: handle_overlay_key_def back_to_menu_def app_wf_def typed_text_plain split: if_splits)
next
  case AccessOverlay
  with assms show ?thesis by (auto simp: handle_overlay_key_def intro: app_wf_access)
qed

lemma app_wf_load: "load_settings p s w = (s', w') \<Longrightarrow> app_wf s \<Longrightarrow> app_wf s'"
  by (auto simp: load_settings_def app_wf_def storable_default storable_of_config split: prod.splits sum.split)

lemma app_wf_key:
  assumes "handle_key p now key s w = ((quit, s', ts), w')" and "app_wf s"
  shows "app_wf s'"
proof (cases "ui_overlay s")
  case (Some ov)
  then have "overlay_wf ov" using assms(2) by (simp add: app_wf_def)
  with Some assms show ?thesis by (auto simp: handle_key_def split: prod.splits intro: app_wf_overlay)
next
  case None
  have "app_wf s1 \<Longrightarrow> app_wf (s1\<lparr>ui_overlay := Some (MenuOverlay SettingDisplay)\<rparr>)" for s1
    by (simp add: app_wf_def)
  moreover have "app_wf (s\<lparr>ui_loading := True, ui_local_readiness := CheckingLocal, ui_error := None, ui_notice := None\<rparr>)"
    using assms(2) by (simp add: app_wf_def)
  ultimately show ?thesis
    using assms None
    by (auto simp: handle_key_def split: prod.splits if_splits intro: app_wf_select app_wf_load app_wf_enter)
qed

lemma app_wf_click: "app_wf s \<Longrightarrow> app_wf (handle_click column row s)"
  by (simp add: handle_click_def app_wf_def)

section \<open>What is connected to\<close>

fun is_connect :: "ui_task \<Rightarrow> bool" where
  "is_connect (ConnectTask _ _ _) = True"
| "is_connect _ = False"

lemma overlay_tasks:
  assumes "handle_overlay_key p now ov key s w = ((s', ts), w')"
  shows "list_all (\<lambda>t. \<not> is_connect t) ts \<and> same_session s s'"
proof (cases ov)
  case (MenuOverlay selected)
  with assms show ?thesis
    by (auto simp: handle_overlay_key_def handle_menu_key_def same_session_def split: if_splits prod.splits
        dest!: change_setting_frame)
qed (use assms in \<open>auto simp: handle_overlay_key_def handle_access_key_def back_to_menu_def same_session_def
    split: if_splits option.splits\<close>)

lemma ready_selection:
  assumes "unavailable_reason s = None" and "selected_remote s = Some node"
  shows "ui_local_readiness s = ReadyLocal \<and> is_connectable node \<and> dn_blockers node = []"
  using assms
  by (auto simp: unavailable_reason_def selected_remote_def list_first_def
      split: local_readiness.splits option.splits if_splits list.splits)

lemma preflight_connects:
  assumes "start_preflight p node s w = ((s', ts), w')"
  shows "(\<exists>profile. storable profile \<and> ts = [ConnectTask node (ui_session_generation s + 1) profile])
    \<and> ui_session_generation s' = ui_session_generation s + 1
    \<and> ui_activity s' = Connecting \<and> ui_active_node_id s' = None
    \<and> ui_pending_node s' = ui_pending_node s"
  using assms by (auto simp: start_preflight_def Let_def storable_default storable_of_config
      split: prod.splits sum.split)

text \<open>
  A key begins a connection only when this computer is ready, none is active or being made, and
  the selected device is a remote one that was found ready with nothing in its way; the profile of
  the connection is a valid one. Any other key leaves the session alone.
\<close>

theorem key_connects_only_when_ready:
  assumes "handle_key p now key s w = ((quit, s', ts), w')"
  shows "if list_ex is_connect ts then
      key = KeyEnter \<and> ui_overlay s = None \<and> ui_local_readiness s = ReadyLocal
      \<and> ui_activity s = Idle \<and> ui_active_node_id s = None
      \<and> (\<exists>node profile. selected_remote s = Some node \<and> is_connectable node \<and> dn_blockers node = []
          \<and> stream_profile_validate profile = Inr ()
          \<and> ts = [ConnectTask node (ui_session_generation s + 1) profile])
      \<and> ui_session_generation s' = ui_session_generation s + 1
      \<and> ui_activity s' = Connecting \<and> ui_active_node_id s' = None \<and> ui_pending_node s' = ui_pending_node s
    else ui_session_generation s' = ui_session_generation s \<and> ui_activity s' = ui_activity s
      \<and> ui_active_node_id s' = ui_active_node_id s"
proof (cases "ui_overlay s")
  case (Some ov)
  then show ?thesis
    using assms by (auto simp: handle_key_def list_all_iff list_ex_iff same_session_def split: prod.splits
        dest!: overlay_tasks)
next
  case overlay: None
  show ?thesis
  proof (cases "key = KeyEnter")
    case True
    then have enter: "press_enter p s w = ((s', ts), w')"
      using assms overlay by (auto simp: handle_key_def split: prod.splits)
    show ?thesis
    proof (cases "\<exists>node. unavailable_reason s = None \<and> selected_remote s = Some node \<and> ui_activity s = Idle
        \<and> session_action (ui_active_node_id s) (dn_tailnet_node_id node) = StartSession")
      case True
      then obtain node where node: "unavailable_reason s = None" "selected_remote s = Some node"
        "ui_activity s = Idle" "session_action (ui_active_node_id s) (dn_tailnet_node_id node) = StartSession"
        by blast
      then have "start_preflight p node s w = ((s', ts), w')" "ui_active_node_id s = None"
        using enter by (auto simp: press_enter_def session_action_def split: option.splits if_splits)
      with node overlay \<open>key = KeyEnter\<close> preflight_connects [of p node s w] ready_selection [OF node(1,2)]
      show ?thesis by (auto simp: storable_def)
    next
      case False
      then show ?thesis
        using enter
        by (auto simp: press_enter_def same_session_def split: option.splits session_action.splits if_splits
            prod.splits dest!: switch_frame)
    qed
  next
    case False
    with overlay assms show ?thesis
      by (auto simp: handle_key_def select_next_def select_previous_def load_settings_def
          split: if_splits prod.splits)
  qed
qed

section \<open>How long messages are shown\<close>

definition shows_message :: "message_kind \<Rightarrow> ustr \<Rightarrow> app \<Rightarrow> bool" where
  "shows_message kind t s \<longleftrightarrow> shown_text s = Some (kind, t) \<and> ui_activity s = Idle \<and> ui_pending_node s = None"

lemma expire_keeps:
  assumes "shows_message kind t s" and "ui_message_shown s = Some \<lparr>sm_kind = kind, sm_text = t, sm_since = since\<rparr>"
  shows "expire_message now s =
    (if now - since < message_lifetime kind then s
     else s\<lparr>ui_error := None, ui_notice := None, ui_message_shown := None\<rparr>)"
  using assms by (auto simp: expire_message_def shows_message_def Let_def)

lemma shown_text_frame [simp]: "shown_text (s\<lparr>ui_message_shown := x\<rparr>) = shown_text s"
  by (simp add: shown_text_def split: option.split)

lemma expire_run:
  assumes "shows_message kind t s" and "ui_message_shown s = Some \<lparr>sm_kind = kind, sm_text = t, sm_since = since\<rparr>"
    and "\<forall>now\<in>set turns. now - since < message_lifetime kind"
  shows "fold expire_message turns s = s"
  using assms(3) by (induction turns) (simp_all add: expire_keeps [OF assms(1,2)])

text \<open>
  A new message stays for its time and not longer: through any number of turns of the loop less
  than five seconds (ten for an error) after the turn that first showed it, and the first turn
  after that clears it.
\<close>

theorem message_is_shown_for_its_lifetime:
  assumes "shows_message kind t s"
    and "option_all (\<lambda>shown. sm_kind shown \<noteq> kind \<or> sm_text shown \<noteq> t) (ui_message_shown s)"
    and "\<forall>now\<in>set turns. now - since < message_lifetime kind"
  shows "shown_text (fold expire_message turns (expire_message since s)) = Some (kind, t)
    \<and> (now - since \<ge> message_lifetime kind \<longrightarrow>
         shown_text (expire_message now (fold expire_message turns (expire_message since s))) = None)"
proof -
  let ?s = "s\<lparr>ui_message_shown := Some \<lparr>sm_kind = kind, sm_text = t, sm_since = since\<rparr>\<rparr>"
  have first: "expire_message since s = ?s"
    using assms(1,2) by (cases "ui_message_shown s") (auto simp: expire_message_def shows_message_def Let_def)
  have new: "shows_message kind t ?s" using assms(1) by (simp add: shows_message_def)
  have "fold expire_message turns ?s = ?s"
    by (rule expire_run [OF new _ assms(3)]) simp
  with first new expire_keeps [OF new, of since now] show ?thesis
    by (auto simp: shows_message_def shown_text_def)
qed

theorem message_is_shown_for_its_lifetime_witness:
  "let s = (app_new \<lparr>tw_path = [], tw_source = None, tw_theme = omarchy_theme_default\<rparr>)
         \<lparr>ui_error := Some (lit ''offline'')\<rparr>;
       s' = fold expire_message [from_secs 3, from_secs 10] (expire_message (from_secs 1) s)
   in shown_text s' = Some (ErrorMessage, lit ''offline'') \<and> shown_text (expire_message (from_secs 11) s') = None"
proof -
  let ?s = "(app_new \<lparr>tw_path = [], tw_source = None, tw_theme = omarchy_theme_default\<rparr>)
         \<lparr>ui_error := Some (lit ''offline'')\<rparr>"
  have "shows_message ErrorMessage (lit ''offline'') ?s" "ui_message_shown ?s = None"
    by (simp_all add: shows_message_def shown_text_def app_new_def)
  moreover have "\<forall>now\<in>set [from_secs 3, from_secs 10]. now - from_secs 1 < message_lifetime ErrorMessage"
    and "from_secs 11 - from_secs 1 \<ge> message_lifetime ErrorMessage"
    by (simp_all add: message_lifetime_def error_lifetime_def from_secs_def nanos_per_sec_def)
  ultimately show ?thesis
    using message_is_shown_for_its_lifetime [of ErrorMessage "lit ''offline''" ?s
        "[from_secs 3, from_secs 10]" "from_secs 1" "from_secs 11"]
    by (simp add: Let_def)
qed

section \<open>The port of the environment\<close>

text \<open>The configuration file as the interface uses it: the functions of theory \<open>Config\<close> over the disk.\<close>

definition config_file_ports ::
    "toml_parser \<Rightarrow> toml_printer \<Rightarrow> environment \<Rightarrow> faults \<Rightarrow> ustr \<Rightarrow> disk config_ports" where
  "config_file_ports parse render env fs fresh =
     \<lparr>cp_load = (\<lambda>d. (config_load parse env None d, d)), cp_save = config_save render env fs fresh\<rparr>"

definition with_port :: "u16 \<Rightarrow> config \<Rightarrow> config" where
  "with_port port c = c\<lparr>cf_network := (cf_network c)\<lparr>nc_agent_port := port\<rparr>\<rparr>"

lemma config_path_port: "config_path (env(agent_port_variable := x)) = config_path env"
  by (simp add: config_path_def home_dir_def agent_port_variable_def split: option.split)

text \<open>
  C39: A port given in the environment for one run is written into the configuration file as soon as
  any stream setting is changed: once the save has reported success, a later run without the
  variable loads that port.
\<close>

theorem environment_port_is_saved:
  assumes "config_path env = Inr file_path" and "read_config_file parse None file_path d = Inr c"
    and "env agent_port_variable = Some (show_nat n)" and "n < 2 ^ 16"
    and "save_stream_profile (config_file_ports parse render env fs fresh) s d = (s', d')"
    and "ui_error s' = None"
    and "toml_keeps render parse (config_with_profile (ui_stream_profile s) (with_port (of_nat n) c))"
  shows "config_load parse (env(agent_port_variable := None)) None d'
    = Inr (config_with_profile (ui_stream_profile s) (with_port (of_nat n) c))"
proof -
  let ?c = "config_with_profile (ui_stream_profile s) (with_port (of_nat n) c)"
  have "config_load parse env None d = Inr (with_port (of_nat n) c)"
    using assms(1-4) by (simp add: config_load_def with_environment_port_def with_port_def parse_uint_show_nat)
  then have "config_save render env fs fresh ?c d = (Inr (), d')"
    using assms(5,6) by (auto simp: save_stream_profile_def update_config_def call_then_def config_file_ports_def
        split: prod.splits sum.splits)
  from config_save_read [OF this assms(7)] assms(1)
  have "read_config_file parse None file_path d' = Inr ?c" by auto
  with assms(1) show ?thesis
    by (simp add: config_load_def config_path_port with_environment_port_def)
qed

section \<open>Witnesses\<close>

text \<open>Ports that find one device that is ready, on a computer that is ready.\<close>

definition example_node :: discovered_node where
  "example_node =
     \<lparr>dn_tailnet_node_id = lit ''n2'', dn_name = lit ''desk'', dn_address = V4 100 64 0 3, dn_status = Ready,
      dn_blockers = [], dn_connection = Direct, dn_latency_ms = None, dn_agent_version = None,
      dn_omarchy_version = None, dn_capabilities = node_capabilities_default, dn_is_local = False\<rparr>"

definition example_interface :: "nat ui_ports" where
  "example_interface =
     \<lparr>up_config = \<lparr>cp_load = (\<lambda>w. (Inr config_default, w)), cp_save = (\<lambda>_ w. (Inr (), w))\<rparr>,
      up_window_for_process = (\<lambda>_ w. (Inr None, w)), up_execute = (\<lambda>_ w. (Inr (), w)),
      up_focus_stream = (\<lambda>_ w. (Inr (), w)), up_discover = (\<lambda>w. (Inr [example_node], w)),
      up_local_node = (\<lambda>w. (Inr (example_identity\<lparr>mni_addresses := [V4 100 64 0 2]\<rparr>), w)),
      up_health = sp_health (stream_example response_executed),
      up_access_list = (\<lambda>w. (Inr [], w)), up_access_allow = (\<lambda>_ w. (Inr (), w)),
      up_access_revoke = (\<lambda>_ w. (Inr (), w)), up_configured = (\<lambda>w. (Inr True, w)),
      up_credentials_load = (\<lambda>w. (Some (Inr None), w)), up_credentials_store = (\<lambda>_ _ w. (Some (Inr ()), w)),
      up_stream = stream_example response_executed, up_agent_port = 48155\<rparr>"

lemma example_key:
  assumes "ui_nodes a = [example_node]" "ui_selected a = Some 0" "ui_local_readiness a = ReadyLocal"
    "ui_activity a = Idle" "ui_active_node_id a = None" "ui_overlay a = None"
  shows "\<exists>b profile w'. handle_key example_interface 0 KeyEnter a 0
      = ((False, b, [ConnectTask example_node (ui_session_generation a + 1) profile]), w')
    \<and> ui_activity b = Connecting \<and> ui_session_generation b = ui_session_generation a + 1"
proof -
  have "unavailable_reason a = None" "selected_remote a = Some example_node"
    using assms by (simp_all add: unavailable_reason_def selected_remote_def selected_node_def example_node_def is_connectable_def)
  then show ?thesis
    using assms by (auto simp: handle_key_def press_enter_def session_action_def start_preflight_def Let_def
        example_interface_def)
qed

definition example_screen :: app where
  "example_screen = (app_new \<lparr>tw_path = [], tw_source = None, tw_theme = omarchy_theme_default\<rparr>)
     \<lparr>ui_nodes := [example_node], ui_selected := Some 0, ui_local_readiness := ReadyLocal\<rparr>"

theorem key_connects_only_when_ready_witness:
  "\<exists>s' profile w'. handle_key example_interface 0 KeyEnter example_screen 0
      = ((False, s', [ConnectTask example_node 1 profile]), w')
    \<and> stream_profile_validate profile = Inr () \<and> ui_activity s' = Connecting"
proof -
  have screen: "ui_nodes example_screen = [example_node]" "ui_selected example_screen = Some 0"
    "ui_local_readiness example_screen = ReadyLocal" "ui_activity example_screen = Idle"
    "ui_active_node_id example_screen = None" "ui_overlay example_screen = None"
    "ui_session_generation example_screen = 0"
    by (simp_all add: example_screen_def app_new_def)
  obtain b profile w' where key: "handle_key example_interface 0 KeyEnter example_screen 0
      = ((False, b, [ConnectTask example_node (0 + 1) profile]), w')" "ui_activity b = Connecting"
    using example_key [OF screen(1-6)] screen(7) by auto
  from key_connects_only_when_ready [OF key(1)] key show ?thesis by auto
qed

theorem environment_port_is_saved_witness:
  "let env = [lit ''HOME'' \<mapsto> lit ''/home/user'', agent_port_variable \<mapsto> lit ''5000''];
       saved = config_with_profile stream_profile_default (with_port 5000 config_default);
       ports = config_file_ports (\<lambda>_. Inr saved) (\<lambda>_. Inr (lit ''x'')) env no_faults (lit ''0a'');
       (s', d') = save_stream_profile ports example_screen \<lparr>ds_files = Map.empty, ds_dirs = Map.empty\<rparr>
   in ui_error s' = None
      \<and> config_load (\<lambda>_. Inr saved) (env(agent_port_variable := None)) None d' = Inr saved
      \<and> nc_agent_port (cf_network saved) = 5000"
proof -
  let ?env = "[lit ''HOME'' \<mapsto> lit ''/home/user'', agent_port_variable \<mapsto> lit ''5000'']"
  let ?saved = "config_with_profile stream_profile_default (with_port 5000 config_default)"
  let ?ports = "config_file_ports (\<lambda>_. Inr ?saved) (\<lambda>_. Inr (lit ''x'')) ?env no_faults (lit ''0a'')"
  let ?d = "\<lparr>ds_files = Map.empty, ds_dirs = Map.empty\<rparr> :: disk"
  obtain s' d' where save: "save_stream_profile ?ports example_screen ?d = (s', d')" by fastforce
  have "ui_error (fst (save_stream_profile ?ports example_screen ?d)) = None" by code_simp
  then have ok: "ui_error s' = None" using save by simp
  have "ui_stream_profile example_screen = stream_profile_default"
    by (simp add: example_screen_def app_new_def)
  moreover have "config_path ?env = Inr [lit ''home'', lit ''user'', lit ''.config'', lit ''omdesky'', lit ''config.toml'']"
    and "read_config_file (\<lambda>_. Inr ?saved) None [lit ''home'', lit ''user'', lit ''.config'', lit ''omdesky'', lit ''config.toml''] ?d
      = Inr config_default" and "lit ''5000'' = show_nat 5000"
    by code_simp+
  moreover have "list_all is_scalar (lit ''x'')" "length (as_bytes (lit ''x'')) \<le> max_config_bytes" by code_simp+
  then have "toml_keeps (\<lambda>_. Inr (lit ''x'')) (\<lambda>_. Inr ?saved) ?saved" by (simp add: toml_keeps_def)
  ultimately have "config_load (\<lambda>_. Inr ?saved) (?env(agent_port_variable := None)) None d' = Inr ?saved"
    using environment_port_is_saved [of ?env _ "\<lambda>_. Inr ?saved" ?d config_default 5000 "\<lambda>_. Inr (lit ''x'')"
        no_faults "lit ''0a''" example_screen s' d'] save ok by simp
  moreover have "nc_agent_port (cf_network ?saved) = 5000" by (simp add: config_with_profile_def with_port_def)
  ultimately show ?thesis using ok by (simp add: save Let_def)
qed

end
