(* ===== verification/TuiSystem.thy ===== *)
theory TuiSystem
  imports Tui
begin

text \<open>
  The background tasks and the main loop of \<open>crates/omdesky-tui/src/lib.rs\<close>. A task is a call on
  the world that yields the messages it sends, in order; the loop and the tasks run interleaved, as
  a step relation over the state of the interface, the bounded channel, and what every task has
  still to send. A task may meet any state of the world, so what it sends in one world is one of the
  things it may send.
\<close>

section \<open>Tasks\<close>

definition local_agent_endpoint :: "'w ui_ports \<Rightarrow> ('w, ustr + agent_endpoint) call" where
  "local_agent_endpoint p w =
     (case up_local_node p w of
        (Inl e, w') \<Rightarrow> (Inl (user_message e), w')
      | (Inr n, w') \<Rightarrow>
          (map_ok (\<lambda>address. \<lparr>ep_address = address, ep_port = up_agent_port p\<rparr>)
             (ok_or (or_else (find is_ipv4 (mni_addresses n)) (list_first (mni_addresses n)))
               (lit ''Tailscale has no local address'')), w'))"

definition local_agent_unavailable :: "ustr \<Rightarrow> port_error" where
  "local_agent_unavailable e = port_error_new (lit ''LOCAL_AGENT_UNAVAILABLE'') e True"

definition refresh_task :: "'w ui_ports \<Rightarrow> ('w, ui_message list) call" where
  "refresh_task p w =
     (case up_discover p w of
        (r, w') \<Rightarrow> ([DiscoveryResult (map_err (user_error (lit ''Devices could not be refreshed.'')) r)], w'))"

definition sunshine_is_configured :: "'w ui_ports \<Rightarrow> ('w, bool) call" where
  "sunshine_is_configured p w =
     (case up_configured p w of (r, w') \<Rightarrow> (unwrap_or (result_ok r) False, w'))"

definition readiness_task :: "'w ui_ports \<Rightarrow> ('w, ui_message list) call" where
  "readiness_task p w =
     (case local_agent_endpoint p w of
        (endpoint, w1) \<Rightarrow>
          (case (case endpoint of
                   Inr ep \<Rightarrow> up_health p ep w1
                 | Inl e \<Rightarrow> (Inl (local_agent_unavailable e), w1)) of
             (local_agent, w2) \<Rightarrow>
               (case sunshine_is_configured p w2 of
                  (configured, w3) \<Rightarrow>
                    ([LocalReadinessResult
                        (map_err user_message (ensure_controller_ready local_agent configured))], w3))))"

text \<open>
  The stream's ports beside the list of messages that its callback has sent: what the stream does
  to the world leaves the messages alone.
\<close>

definition beside :: "('w, 'a) call \<Rightarrow> ('w \<times> 'm, 'a) call" where
  "beside c w = (case c (fst w) of (r, v) \<Rightarrow> (r, (v, snd w)))"

definition ports_beside :: "'w stream_ports \<Rightarrow> ('w \<times> 'm) stream_ports" where
  "ports_beside q =
     \<lparr>sp_identify = (\<lambda>a. beside (sp_identify q a)),
      sp_access_list = beside (sp_access_list q),
      sp_status = (\<lambda>e. beside (sp_status q e)),
      sp_challenge = (\<lambda>e. beside (sp_challenge q e)),
      sp_pair = (\<lambda>e r. beside (sp_pair q e r)),
      sp_focus_workspace = (\<lambda>e t. beside (sp_focus_workspace q e t)),
      sp_focus_window = (\<lambda>e i. beside (sp_focus_window q e i)),
      sp_health = (\<lambda>e. beside (sp_health q e)),
      sp_send_command = (\<lambda>e c. beside (sp_send_command q e c)),
      sp_pairing_state = (\<lambda>h. beside (sp_pairing_state q h)),
      sp_begin_pairing = (\<lambda>h. beside (sp_begin_pairing q h)),
      sp_complete_pairing = (\<lambda>h. beside (sp_complete_pairing q h)),
      sp_launch = (\<lambda>l. beside (sp_launch q l)),
      sp_terminate = (\<lambda>h. beside (sp_terminate q h)),
      sp_install = (\<lambda>c. beside (sp_install q c)),
      sp_clear = beside (sp_clear q),
      sp_notify = (\<lambda>n. beside (sp_notify q n)),
      sp_windows = map_option (\<lambda>f pid. beside (f pid)) (sp_windows q),
      sp_client_name = sp_client_name q\<rparr>"

record connect_ctx =
  cc_stream :: stream_ctx
  cc_events :: "stream_event list"

definition connection_failed :: ustr where
  "connection_failed = lit ''The connection could not be completed.''"

definition ui_connect_request ::
    "agent_endpoint \<Rightarrow> agent_endpoint \<Rightarrow> stream_profile \<Rightarrow> connect_request" where
  "ui_connect_request endpoint controller profile =
     \<lparr>cn_endpoint = endpoint, cn_controller_endpoint = controller, cn_profile = profile,
      cn_fullscreen = True, cn_input_mode = RemoteInput, cn_focus_workspace = None,
      cn_focus_window = None, cn_auto_pair = True\<rparr>"

definition session_ended :: "ustr \<Rightarrow> u64 \<Rightarrow> int port_result \<Rightarrow> ui_message" where
  "session_ended node_name generation r =
     SessionEnded generation
       (case r of
          Inr exit_code \<Rightarrow> Inr (stream_exit_message node_name exit_code)
        | Inl e \<Rightarrow> Inl (user_error connection_failed e))
       (case r of
          Inr _ \<Rightarrow> False
        | Inl e \<Rightarrow> perr_code e \<in> {lit ''LOCAL_AGENT_UNAVAILABLE'', lit ''LOCAL_SUNSHINE_UNCONFIGURED''})"

definition connect_task ::
    "'w ui_ports \<Rightarrow> connect_ctx \<Rightarrow> discovered_node \<Rightarrow> u64 \<Rightarrow> stream_profile \<Rightarrow> ('w, ui_message list) call" where
  "connect_task p ctx node generation profile w =
     (case local_agent_endpoint p w of
        (Inl e, w1) \<Rightarrow>
          ([SessionEnded generation
              (Inl (connection_failed @ lit '' '' @ user_message (local_agent_unavailable e))) True], w1)
      | (Inr controller, w1) \<Rightarrow>
          (case up_health p controller w1 of
             (local_agent, w2) \<Rightarrow>
               (case sunshine_is_configured p w2 of
                  (configured, w3) \<Rightarrow>
                    (case ensure_controller_ready local_agent configured of
                       Inl e \<Rightarrow> ([SessionEnded generation (Inl (user_error connection_failed e)) True], w3)
                     | Inr _ \<Rightarrow>
                         (case connect_node (ports_beside (up_stream p)) (cc_stream ctx)
                                (\<lambda>pid (v, sent). (v, sent @
                                   [SessionStarted generation (dn_tailnet_node_id node) (dn_name node) pid]))
                                (ui_connect_request \<lparr>ep_address = dn_address node, ep_port = up_agent_port p\<rparr>
                                   controller profile) (cc_events ctx) (w3, []) of
                            (None, (w4, sent)) \<Rightarrow> (sent, w4)
                          | (Some r, (w4, sent)) \<Rightarrow>
                              (sent @ [session_ended (dn_name node) generation r], w4))))))"

definition focus_task :: "'w ui_ports \<Rightarrow> u32 option \<Rightarrow> ('w, ui_message list) call" where
  "focus_task p moonlight_pid w =
     (case stream_window p moonlight_pid w of
        (window, w1) \<Rightarrow>
          (case up_focus_stream p window w1 of
             (r, w2) \<Rightarrow>
               ([FocusResult (map_err (user_error (lit ''The active stream could not be focused.''))
                   (map_ok (\<lambda>_. lit ''Focused the active stream.'') r))], w2)))"

definition access_rows :: "allowed_controller list \<Rightarrow> access_row list" where
  "access_rows entries =
     map (\<lambda>e. \<lparr>ar_tailnet_node_id = ac_tailnet_node_id e,
                 ar_label = unwrap_or (ac_label e) (ac_tailnet_node_id e)\<rparr>) entries"

definition access_list_task :: "'w ui_ports \<Rightarrow> ('w, ui_message list) call" where
  "access_list_task p w =
     (case up_access_list p w of
        (r, w') \<Rightarrow>
          ([AccessResult (map_err (user_error (lit ''The allowed devices list could not be loaded.''))
              (map_ok access_rows r))], w'))"

text \<open>After a change of the list the task ends by spawning the one that lists it.\<close>

definition access_change_task ::
    "'w ui_ports \<Rightarrow> ustr \<Rightarrow> ('w, unit port_result) call \<Rightarrow> ('w, ui_message list) call" where
  "access_change_task p failure change w =
     (case change w of
        (Inl e, w') \<Rightarrow> ([AccessResult (Inl (user_error failure e))], w')
      | (Inr _, w') \<Rightarrow> access_list_task p w')"

definition credential_status_task :: "'w ui_ports \<Rightarrow> ('w, ui_message list) call" where
  "credential_status_task p w =
     (case up_credentials_load p w of
        (r, w') \<Rightarrow>
          ([CredentialStatus (case r of
              None \<Rightarrow> Inl (lit ''The desktop Secret Service could not be queried'')
            | Some loaded \<Rightarrow> map_err credential_error_text (map_ok (\<lambda>c. c \<noteq> None) loaded))], w'))"

definition credential_store_task :: "'w ui_ports \<Rightarrow> ustr \<Rightarrow> ustr \<Rightarrow> ('w, ui_message list) call" where
  "credential_store_task p username password w =
     (case up_credentials_store p username password w of
        (r, w') \<Rightarrow>
          ([CredentialStored (case r of
              None \<Rightarrow> Inl (lit ''The desktop Secret Service could not be updated'')
            | Some stored \<Rightarrow> map_err credential_error_text stored)], w'))"

fun task_run :: "'w ui_ports \<Rightarrow> connect_ctx \<Rightarrow> ui_task \<Rightarrow> ('w, ui_message list) call" where
  "task_run p ctx RefreshTask = refresh_task p"
| "task_run p ctx ReadinessTask = readiness_task p"
| "task_run p ctx (ConnectTask node generation profile) = connect_task p ctx node generation profile"
| "task_run p ctx (FocusTask pid) = focus_task p pid"
| "task_run p ctx AccessListTask = access_list_task p"
| "task_run p ctx (AllowTask controller) =
     access_change_task p (lit ''This device could not be allowed.'') (up_access_allow p controller)"
| "task_run p ctx (RevokeTask node_id) =
     access_change_task p (lit ''Access for this device could not be removed.'') (up_access_revoke p node_id)"
| "task_run p ctx CredentialStatusTask = credential_status_task p"
| "task_run p ctx (CredentialStoreTask username password) = credential_store_task p username password"

section \<open>The main loop\<close>

definition channel_capacity :: nat where
  "channel_capacity = 16"

datatype loop_point = Draining | Polling | LeftLoop

record ui_system =
  us_app :: app
  us_channel :: "ui_message list"
  us_tasks :: "ui_message list list"
  us_point :: loop_point

text \<open>Starting the interface, up to the loop.\<close>

definition ui_start :: "'w ui_ports \<Rightarrow> theme_watcher \<Rightarrow> 'w \<Rightarrow> (app \<times> ui_task list) \<times> 'w" where
  "ui_start p theme w =
     (case load_settings (up_config p) ((app_new theme)\<lparr>ui_loading := True\<rparr>) w of
        (s, w') \<Rightarrow> ((s, [CredentialStatusTask, ReadinessTask, RefreshTask]), w'))"

text \<open>When the session has ended, the device that waits for that is connected to.\<close>

definition resume_pending :: "'w ui_ports \<Rightarrow> app \<Rightarrow> 'w \<Rightarrow> (app \<times> ui_task list) \<times> 'w" where
  "resume_pending p s w =
     (if ui_activity s = Idle \<and> ui_active_node_id s = None then
        (case ui_pending_node s of
           Some node \<Rightarrow> start_preflight p node (s\<lparr>ui_pending_node := None\<rparr>) w
         | None \<Rightarrow> ((s, []), w))
      else ((s, []), w))"

definition tasks_of_message :: "ui_message \<Rightarrow> ui_task list" where
  "tasks_of_message m = (if requires_local_readiness_refresh m then [ReadinessTask] else [])"

definition may_send :: "'w ui_ports \<Rightarrow> ui_task \<Rightarrow> ui_message list \<Rightarrow> bool" where
  "may_send p t ms \<longleftrightarrow> (\<exists>ctx w w'. task_run p ctx t w = (ms, w'))"

inductive ui_step :: "'w ui_ports \<Rightarrow> ui_system \<Rightarrow> ui_system \<Rightarrow> bool" for p :: "'w ui_ports" where
  task_sends:
    "us_tasks s ! i = m # ms \<Longrightarrow> i < length (us_tasks s) \<Longrightarrow> length (us_channel s) < channel_capacity \<Longrightarrow>
     ui_step p s (s\<lparr>us_tasks := (us_tasks s)[i := ms], us_channel := us_channel s @ [m]\<rparr>)"
| receive:
    "us_point s = Draining \<Longrightarrow> us_channel s = m # ms \<Longrightarrow> list_all2 (may_send p) (tasks_of_message m) outs \<Longrightarrow>
     ui_step p s (s\<lparr>us_app := apply_message m (us_app s), us_channel := ms, us_tasks := us_tasks s @ outs\<rparr>)"
| terminal_fails:
    "us_point s \<noteq> LeftLoop \<Longrightarrow> ui_step p s (s\<lparr>us_point := LeftLoop\<rparr>)"
| drained:
    "us_point s = Draining \<Longrightarrow> us_channel s = [] \<Longrightarrow>
     resume_pending p (us_app s) w = ((a, ts), w') \<Longrightarrow> list_all2 (may_send p) ts outs \<Longrightarrow>
     ui_step p s (s\<lparr>us_app := (expire_message now a)\<lparr>ui_detail_overflow := overflow, ui_detail_rect := Some area\<rparr>,
       us_tasks := us_tasks s @ outs, us_point := Polling\<rparr>)"
| no_event:
    "us_point s = Polling \<Longrightarrow> theme_refresh toml fault d (ui_theme (us_app s)) = (changed, theme) \<Longrightarrow>
     ui_step p s (s\<lparr>us_app := (us_app s)\<lparr>ui_theme := theme\<rparr>, us_point := Draining\<rparr>)"
| key_press:
    "us_point s = Polling \<Longrightarrow> handle_key p now key (us_app s) w = ((quit, a, ts), w') \<Longrightarrow>
     list_all2 (may_send p) ts outs \<Longrightarrow> theme_refresh toml fault d (ui_theme a) = (changed, theme) \<Longrightarrow>
     ui_step p s (s\<lparr>us_app := a\<lparr>ui_theme := theme\<rparr>, us_tasks := us_tasks s @ outs,
       us_point := if quit then LeftLoop else Draining\<rparr>)"
| mouse_click:
    "us_point s = Polling \<Longrightarrow> theme_refresh toml fault d (ui_theme (us_app s)) = (changed, theme) \<Longrightarrow>
     ui_step p s (s\<lparr>us_app := (handle_click column row (us_app s))\<lparr>ui_theme := theme\<rparr>, us_point := Draining\<rparr>)"

inductive ui_reach :: "'w ui_ports \<Rightarrow> ui_system \<Rightarrow> bool" for p :: "'w ui_ports" where
  started:
    "ui_start p (theme_watcher_new toml fault d theme_file) w = ((a, ts), w') \<Longrightarrow>
     list_all2 (may_send p) ts outs \<Longrightarrow>
     theme_refresh toml fault' d' (ui_theme a) = (changed, theme) \<Longrightarrow>
     ui_reach p \<lparr>us_app = a\<lparr>ui_theme := theme\<rparr>, us_channel = [], us_tasks = outs, us_point = Draining\<rparr>"
| step: "ui_reach p s \<Longrightarrow> ui_step p s s' \<Longrightarrow> ui_reach p s'"

section \<open>What the tasks send\<close>

abbreviation session_messages :: "ui_message list \<Rightarrow> ui_message list" where
  "session_messages ms \<equiv> filter requires_terminal_reset ms"

lemma keeps_beside [simp]: "keeps snd (beside c)"
  by (simp add: keeps_def beside_def case_prod_beta)

interpretation beside: stream_reports "ports_beside q" snd
  for q :: "'w stream_ports"
  by unfold_locales (auto simp: ports_beside_def)

lemma connect_sends:
  assumes "connect_task p ctx node g profile w = (ms, w')"
  shows "(\<exists>r f. ms = [SessionEnded g r f])
    \<or> (\<exists>pid rest. ms = SessionStarted g (dn_tailnet_node_id node) (dn_name node) pid # rest
          \<and> (rest = [] \<or> (\<exists>r f. rest = [SessionEnded g r f])))"
proof -
  let ?started = "SessionStarted g (dn_tailnet_node_id node) (dn_name node)"
  let ?report = "\<lambda>pid (v, sent). (v, sent @ [?started pid])"
  have reports: "(\<exists>e. r = Some (Inl e)) \<and> snd v = [] \<or> (\<exists>pid. snd v = [?started pid])"
    if "connect_node (ports_beside (up_stream p)) sx ?report request events (w, []) = (r, v)" for sx request events w r v
    using beside.connect_reports [OF that, of "\<lambda>pid sent. sent @ [?started pid]"] by (simp add: case_prod_beta)
  show ?thesis
    using assms
    by (auto simp: connect_task_def session_ended_def split: prod.splits sum.splits option.splits dest!: reports)
qed

lemma other_task_is_silent:
  assumes "may_send p t ms" and "\<not> is_connect t"
  shows "session_messages ms = []"
proof -
  obtain ctx w w' where "task_run p ctx t w = (ms, w')" using assms(1) by (auto simp: may_send_def)
  then have "ms = fst (task_run p ctx t w)" by simp
  moreover have "session_messages (fst (task_run p ctx t w)) = []"
    using assms(2)
    by (cases t) (simp_all add: refresh_task_def readiness_task_def focus_task_def access_list_task_def
        access_change_task_def credential_status_task_def credential_store_task_def case_prod_beta split: sum.split)
  ultimately show ?thesis by simp
qed

lemma other_tasks_are_silent:
  "list_all2 (may_send p) ts outs \<Longrightarrow> list_all (\<lambda>t. \<not> is_connect t) ts \<Longrightarrow> session_messages (concat outs) = []"
  by (induction rule: list_all2_induct) (auto dest: other_task_is_silent)

section \<open>One session at a time\<close>

text \<open>The session messages that have not been handled yet, in the order in which they will be.\<close>

definition under_way :: "ui_system \<Rightarrow> ui_message list" where
  "under_way s = session_messages (us_channel s @ concat (us_tasks s))"

definition ends_session :: "u64 \<Rightarrow> ui_message list \<Rightarrow> bool" where
  "ends_session g ms \<longleftrightarrow> (\<exists>r f. ms = [SessionEnded g r f])"

definition begins_session :: "u64 \<Rightarrow> ui_message list \<Rightarrow> bool" where
  "begins_session g ms \<longleftrightarrow>
     (\<exists>node_id name pid rest. ms = SessionStarted g node_id name pid # rest \<and> (rest = [] \<or> ends_session g rest))"

definition session_phase :: "app \<Rightarrow> ui_message list \<Rightarrow> bool" where
  "session_phase a ms \<longleftrightarrow>
     (case (ui_activity a, ui_active_node_id a) of
        (Connecting, active) \<Rightarrow>
          active = None \<and> (begins_session (ui_session_generation a) ms \<or> ends_session (ui_session_generation a) ms)
      | (Idle, None) \<Rightarrow> ms = []
      | (Idle, Some _) \<Rightarrow> ms = [] \<or> ends_session (ui_session_generation a) ms)"

definition one_sender :: "ui_message list list \<Rightarrow> bool" where
  "one_sender tasks \<longleftrightarrow> length (filter (list_ex requires_terminal_reset) tasks) \<le> 1"

definition system_wf :: "ui_system \<Rightarrow> bool" where
  "system_wf s \<longleftrightarrow> app_wf (us_app s) \<and> session_phase (us_app s) (under_way s)
     \<and> one_sender (us_tasks s) \<and> length (us_channel s) \<le> channel_capacity"

lemma silent_iff: "session_messages ms = [] \<longleftrightarrow> \<not> list_ex requires_terminal_reset ms"
  by (simp add: filter_empty_conv list_ex_iff)

lemma silent_tasks: "session_messages (concat tasks) = [] \<longleftrightarrow> filter (list_ex requires_terminal_reset) tasks = []"
  by (induction tasks) (auto simp: silent_iff)

lemma phase_cong:
  "session_phase a ms \<Longrightarrow> ui_activity b = ui_activity a \<Longrightarrow> ui_active_node_id b = ui_active_node_id a \<Longrightarrow>
     ui_session_generation b = ui_session_generation a \<Longrightarrow> session_phase b ms"
  by (simp add: session_phase_def split: activity.splits option.splits)

lemma one_sender_append: "one_sender tasks \<Longrightarrow> session_messages (concat outs) = [] \<Longrightarrow> one_sender (tasks @ outs)"
  by (simp add: one_sender_def silent_tasks)

text \<open>A task that sends keeps the messages under way in order.\<close>

lemma send_keeps_order:
  assumes "one_sender tasks" and "tasks ! i = m # ms" and "i < length tasks"
  shows "session_messages ((channel @ [m]) @ concat (tasks[i := ms])) = session_messages (channel @ concat tasks)"
    and "one_sender (tasks[i := ms])"
proof -
  obtain xs ys where tasks: "tasks = xs @ (m # ms) # ys" "length xs = i"
    using assms(2,3) by (metis id_take_nth_drop length_take less_imp_le min.absorb2)
  then have upd: "tasks[i := ms] = xs @ ms # ys" by (simp add: list_update_append)
  have "requires_terminal_reset m \<Longrightarrow> session_messages (concat xs) = []"
    using assms(1) unfolding tasks by (auto simp: one_sender_def silent_tasks)
  then show "session_messages ((channel @ [m]) @ concat (tasks[i := ms])) = session_messages (channel @ concat tasks)"
    unfolding upd unfolding tasks(1) by auto
  show "one_sender (tasks[i := ms])"
    using assms(1) unfolding upd unfolding tasks(1) by (auto simp: one_sender_def split: if_splits)
qed

lemma message_phase:
  assumes "session_phase a (session_messages (m # ms))"
  shows "session_phase (apply_message m a) (session_messages ms)"
proof (cases "requires_terminal_reset m")
  case False
  then have "ui_activity (apply_message m a) = ui_activity a \<and> ui_active_node_id (apply_message m a) = ui_active_node_id a
      \<and> ui_session_generation (apply_message m a) = ui_session_generation a"
    by (cases m) (auto simp: apply_refresh_def select_first_def report_outcome_def Let_def split: sum.split)
  with False assms show ?thesis by (auto intro: phase_cong)
next
  case True
  then show ?thesis
    using assms
    by (cases m) (auto simp: session_phase_def begins_session_def ends_session_def report_outcome_def
        split: activity.splits option.splits sum.split)
qed

lemma quiet_message_task: "list_all (\<lambda>t. \<not> is_connect t) (tasks_of_message m)"
  by (simp add: tasks_of_message_def)

text \<open>Spawned tasks: none that connects, or just the one of the new session.\<close>

lemma spawn_phase:
  assumes "session_phase a ms"
    and "if list_ex is_connect ts then
        ui_activity a = Idle \<and> ui_active_node_id a = None
        \<and> (\<exists>node profile. ts = [ConnectTask node (ui_session_generation a + 1) profile])
        \<and> ui_session_generation b = ui_session_generation a + 1
        \<and> ui_activity b = Connecting \<and> ui_active_node_id b = None
      else ui_session_generation b = ui_session_generation a \<and> ui_activity b = ui_activity a
        \<and> ui_active_node_id b = ui_active_node_id a"
    and "list_all2 (may_send p) ts outs" and "ms = session_messages (channel @ concat tasks)" and "one_sender tasks"
  shows "session_phase b (session_messages (channel @ concat (tasks @ outs))) \<and> one_sender (tasks @ outs)"
proof (cases "list_ex is_connect ts")
  case False
  then have "session_messages (concat outs) = []"
    by (intro other_tasks_are_silent [OF assms(3)]) (simp add: list_all_iff list_ex_iff)
  with False assms show ?thesis by (auto intro: phase_cong one_sender_append)
next
  case True
  then obtain node profile where ts: "ts = [ConnectTask node (ui_session_generation a + 1) profile]"
    and idle: "ui_activity a = Idle" "ui_active_node_id a = None"
    and b: "ui_session_generation b = ui_session_generation a + 1" "ui_activity b = Connecting"
      "ui_active_node_id b = None"
    using assms(2) by auto
  then have none: "session_messages (channel @ concat tasks) = []"
    using assms(1,4) by (simp add: session_phase_def)
  obtain out where out: "outs = [out]" "may_send p (ConnectTask node (ui_session_generation b) profile) out"
    using assms(3) ts b by (auto simp: list_all2_Cons1)
  then have "session_messages out = out"
    and "begins_session (ui_session_generation b) out \<or> ends_session (ui_session_generation b) out"
    by (auto simp: may_send_def begins_session_def ends_session_def dest!: connect_sends)
  moreover have "filter (list_ex requires_terminal_reset) tasks = []"
    using none by (simp add: silent_tasks [symmetric])
  ultimately show ?thesis
    using none out(1) b by (auto simp: session_phase_def one_sender_def)
qed

lemma app_wf_theme: "app_wf (a\<lparr>ui_theme := theme\<rparr>) \<longleftrightarrow> app_wf a"
  "app_wf (a\<lparr>ui_detail_overflow := ov, ui_detail_rect := r\<rparr>) \<longleftrightarrow> app_wf a"
  by (simp_all add: app_wf_def)

lemma expire_session:
  "ui_activity (expire_message now a) = ui_activity a \<and> ui_active_node_id (expire_message now a) = ui_active_node_id a
     \<and> ui_session_generation (expire_message now a) = ui_session_generation a"
  by (simp add: expire_message_def Let_def split: option.split)

lemma click_session:
  "ui_activity (handle_click column row a) = ui_activity a
     \<and> ui_active_node_id (handle_click column row a) = ui_active_node_id a
     \<and> ui_session_generation (handle_click column row a) = ui_session_generation a"
  by (simp add: handle_click_def)

lemma resume_connects:
  assumes "resume_pending p a w = ((b, ts), w')"
  shows "if list_ex is_connect ts then
      ui_activity a = Idle \<and> ui_active_node_id a = None
      \<and> (\<exists>node profile. ts = [ConnectTask node (ui_session_generation a + 1) profile])
      \<and> ui_session_generation b = ui_session_generation a + 1
      \<and> ui_activity b = Connecting \<and> ui_active_node_id b = None
    else ui_session_generation b = ui_session_generation a \<and> ui_activity b = ui_activity a
      \<and> ui_active_node_id b = ui_active_node_id a"
proof (cases "ui_activity a = Idle \<and> ui_active_node_id a = None \<and> ui_pending_node a \<noteq> None")
  case True
  then obtain node where "ui_pending_node a = Some node" by auto
  with True assms have "start_preflight p node (a\<lparr>ui_pending_node := None\<rparr>) w = ((b, ts), w')"
    by (simp add: resume_pending_def)
  from preflight_connects [OF this] True show ?thesis by auto
qed (use assms in \<open>auto simp: resume_pending_def split: if_splits\<close>)

lemma resume_wf: "resume_pending p a w = ((b, ts), w') \<Longrightarrow> app_wf a \<Longrightarrow> app_wf b"
proof -
  assume step: "resume_pending p a w = ((b, ts), w')" and wf: "app_wf a"
  then have "app_wf (a\<lparr>ui_pending_node := None\<rparr>)" by (simp add: app_wf_def)
  with step wf show "app_wf b"
    by (auto simp: resume_pending_def split: if_splits option.splits intro: app_wf_preflight)
qed

lemma system_step: "ui_step p s s' \<Longrightarrow> system_wf s \<Longrightarrow> system_wf s'"
proof (induction rule: ui_step.induct)
  case (task_sends s i m ms)
  then show ?case
    using send_keeps_order [of "us_tasks s" i m ms] by (simp add: system_wf_def under_way_def)
next
  case (receive s m ms outs)
  have silent: "session_messages (concat outs) = []"
    using receive(3) quiet_message_task by (rule other_tasks_are_silent)
  have "session_phase (us_app s) (session_messages (m # (ms @ concat (us_tasks s))))"
    using receive by (simp add: system_wf_def under_way_def)
  then have "session_phase (apply_message m (us_app s)) (session_messages (ms @ concat (us_tasks s)))"
    by (rule message_phase)
  with receive silent show ?case
    by (simp add: system_wf_def under_way_def app_wf_message one_sender_append)
next
  case (drained s w a ts w' outs area overflow now)
  have "session_phase a (session_messages (us_channel s @ concat (us_tasks s @ outs))) \<and> one_sender (us_tasks s @ outs)"
    by (rule spawn_phase [OF _ resume_connects [OF drained(3)] drained(4)])
      (use drained in \<open>auto simp: system_wf_def under_way_def\<close>)
  with drained show ?case
    using expire_session [of now a]
    by (auto simp: system_wf_def under_way_def app_wf_theme intro: app_wf_expire resume_wf phase_cong)
next
  case (key_press s now key w quit a ts w' outs toml fault d changed theme)
  have "session_phase a (session_messages (us_channel s @ concat (us_tasks s @ outs))) \<and> one_sender (us_tasks s @ outs)"
    by (rule spawn_phase [OF _ _ key_press(3)])
      (use key_press key_connects_only_when_ready [OF key_press(2)] in
        \<open>auto simp: system_wf_def under_way_def split: if_splits\<close>)
  with key_press show ?case
    by (auto simp: system_wf_def under_way_def app_wf_theme intro: app_wf_key phase_cong)
next
  case (mouse_click s toml fault d changed theme column row)
  then show ?case
    using click_session [of column row "us_app s"]
    by (auto simp: system_wf_def under_way_def app_wf_theme intro: app_wf_click phase_cong)
qed (auto simp: system_wf_def under_way_def app_wf_theme intro: phase_cong)

lemma system_reach: "ui_reach p s \<Longrightarrow> system_wf s"
proof (induction rule: ui_reach.induct)
  case (started toml fault d theme_file w a ts w' outs fault' d' changed theme)
  have start: "app_wf ((app_new th)\<lparr>ui_loading := True\<rparr>)" for th
    using app_wf_new [of th] by (simp add: app_wf_def)
  have "app_wf a"
    using started(1) by (auto simp: ui_start_def split: prod.splits intro: app_wf_load [OF _ start])
  moreover have a: "ui_activity a = Idle" "ui_active_node_id a = None"
    "ts = [CredentialStatusTask, ReadinessTask, RefreshTask]"
    using started(1) by (auto simp: ui_start_def load_settings_def app_new_def split: prod.splits)
  moreover have silent: "session_messages (concat outs) = []"
    using a by (intro other_tasks_are_silent [OF started(2)]) simp
  ultimately show ?case
    by (simp add: system_wf_def under_way_def session_phase_def one_sender_def app_wf_theme silent_tasks channel_capacity_def)
qed (rule system_step)

section \<open>Correctness\<close>

text \<open>
  C9: In every state the interface can reach, its own state is well formed: the selection points at a
  listed device, the stream profile is one that the file can hold, what was typed has no control
  character, a device waiting for the current stream to end is one that can be connected to, and
  the process of a stream is known only while a stream is active.
\<close>

theorem interface_stays_well_formed:
  assumes "ui_reach p s"
  shows "app_wf (us_app s) \<and> (case ui_selected (us_app s) of
      None \<Rightarrow> selected_node (us_app s) = None
    | Some i \<Rightarrow> selected_node (us_app s) = Some (ui_nodes (us_app s) ! i))"
proof -
  have "app_wf (us_app s)" using system_reach [OF assms] by (simp add: system_wf_def)
  then show ?thesis by (auto simp: app_wf_def selected_node_def split: option.split)
qed

fun message_generation :: "ui_message \<Rightarrow> u64 option" where
  "message_generation (SessionStarted g _ _ _) = Some g"
| "message_generation (SessionEnded g _ _) = Some g"
| "message_generation _ = None"

lemma phase_generation:
  "session_phase a ms \<Longrightarrow> m \<in> set ms \<Longrightarrow> message_generation m = Some (ui_session_generation a)"
  by (auto simp: session_phase_def begins_session_def ends_session_def split: activity.splits option.splits)

lemma interface_session:
  assumes "ui_reach p s"
  shows "ui_activity (us_app s) = Idle \<and> ui_active_node_id (us_app s) = None \<longrightarrow> under_way s = []"
    and "ui_activity (us_app s) = Connecting \<longrightarrow> ui_active_node_id (us_app s) = None \<and> under_way s \<noteq> []"
  using system_reach [OF assms]
  by (auto simp: system_wf_def session_phase_def begins_session_def ends_session_def)

text \<open>
  C8: The interface has one session at a time. However its loop and its tasks interleave: every session
  message that is still to be handled belongs to the current session, so none is ever dropped as
  stale; at most one task has any left to send; nothing is left when no session is active or being
  made; and while one is being made, its beginning or its end is still to come.
\<close>

theorem interface_has_one_session:
  assumes "ui_reach p s"
  shows "(\<forall>m \<in> set (under_way s). message_generation m = Some (ui_session_generation (us_app s)))
    \<and> length (filter (list_ex requires_terminal_reset) (us_tasks s)) \<le> 1
    \<and> (ui_activity (us_app s) = Idle \<and> ui_active_node_id (us_app s) = None \<longrightarrow> under_way s = [])
    \<and> (ui_activity (us_app s) = Connecting \<longrightarrow> ui_active_node_id (us_app s) = None \<and> under_way s \<noteq> [])
    \<and> length (us_channel s) \<le> channel_capacity"
proof -
  have wf: "session_phase (us_app s) (under_way s)" "one_sender (us_tasks s)" "length (us_channel s) \<le> channel_capacity"
    using system_reach [OF assms] by (auto simp: system_wf_def)
  with phase_generation [OF wf(1)] interface_session [OF assms] show ?thesis by (auto simp: one_sender_def)
qed

text \<open>
  A new session begins only when the last one is over: when a step of the loop begins one, no
  session was active or being made, no session message was left anywhere, and the generation
  becomes the next one.
\<close>

theorem new_session_after_the_last:
  assumes "ui_reach p s" and "ui_step p s s'"
    and "ui_session_generation (us_app s') \<noteq> ui_session_generation (us_app s)"
  shows "ui_activity (us_app s) = Idle \<and> ui_active_node_id (us_app s) = None \<and> under_way s = []
    \<and> ui_activity (us_app s') = Connecting
    \<and> ui_session_generation (us_app s') = ui_session_generation (us_app s) + 1"
proof -
  have idle: "ui_activity (us_app s) = Idle \<and> ui_active_node_id (us_app s) = None \<and> ui_activity (us_app s') = Connecting
      \<and> ui_session_generation (us_app s') = ui_session_generation (us_app s) + 1"
    using assms(2)
  proof cases
    case (receive m ms outs)
    then have "ui_session_generation (us_app s') = ui_session_generation (us_app s)"
      by (cases m) (auto simp: apply_refresh_def select_first_def report_outcome_def Let_def split: sum.split)
    with assms(3) show ?thesis by simp
  next
    case (drained w a ts w' outs area overflow now)
    with assms(3) resume_connects [OF drained(4)] expire_session [of now a] show ?thesis
      by (auto split: if_splits)
  next
    case (key_press now key w quit a ts w' outs toml fault d changed theme)
    with assms(3) key_connects_only_when_ready [OF key_press(3)] show ?thesis by (auto split: if_splits)
  qed (use assms(3) click_session in auto)
  with interface_session [OF assms(1)] show ?thesis by blast
qed

text \<open>
  C28: Switching to another device reaches it: when the end of the current stream is handled while a
  device waits for it, the next turn of the loop connects to that device, with a new generation and
  nothing left waiting.
\<close>

theorem switch_reaches_the_device:
  assumes "ui_pending_node a = Some node" and "ui_session_generation a = g"
  shows "\<exists>b profile w'. resume_pending p (apply_message (SessionEnded g r local_failure) a) w
      = ((b, [ConnectTask node (g + 1) profile]), w')
    \<and> stream_profile_validate profile = Inr () \<and> ui_pending_node b = None \<and> ui_activity b = Connecting"
proof -
  let ?a = "apply_message (SessionEnded g r local_failure) a"
  have a: "ui_activity ?a = Idle" "ui_active_node_id ?a = None" "ui_pending_node ?a = Some node"
    "ui_session_generation ?a = g"
    using assms by (auto simp: report_outcome_def split: sum.split)
  obtain b ts w' where step: "start_preflight p node (?a\<lparr>ui_pending_node := None\<rparr>) w = ((b, ts), w')" by (metis prod.exhaust)
  then have "resume_pending p ?a w = ((b, ts), w')" using a by (simp add: resume_pending_def)
  moreover from preflight_connects [OF step] a obtain profile where
    "storable profile" "ts = [ConnectTask node (g + 1) profile]" "ui_pending_node b = None" "ui_activity b = Connecting"
    by auto
  ultimately show ?thesis by (auto simp: storable_def)
qed

section \<open>A run\<close>

definition example_app :: app where
  "example_app =
     (app_new (theme_watcher_new (\<lambda>_. Inl []) None \<lparr>ds_files = Map.empty, ds_dirs = Map.empty\<rparr> [[]]))
       \<lparr>ui_loading := True, ui_display_mode := FollowFocus\<rparr>"

lemma example_sends:
  "may_send example_interface CredentialStatusTask [CredentialStatus (Inr False)]"
  "may_send example_interface ReadinessTask [LocalReadinessResult (Inr ())]"
  "may_send example_interface RefreshTask [DiscoveryResult (Inr [example_node])]"
  by (auto simp: may_send_def example_interface_def credential_status_task_def readiness_task_def refresh_task_def
      local_agent_endpoint_def sunshine_is_configured_def stream_example_def ensure_controller_ready_def
      ensure_compatible_agent_def protocol_version_def release_compatible example_identity_def)

lemma reach_send:
  "ui_reach p \<lparr>us_app = a, us_channel = ch, us_tasks = ts, us_point = pt\<rparr> \<Longrightarrow> ts ! i = m # ms \<Longrightarrow> i < length ts \<Longrightarrow>
     length ch < channel_capacity \<Longrightarrow>
     ui_reach p \<lparr>us_app = a, us_channel = ch @ [m], us_tasks = ts[i := ms], us_point = pt\<rparr>"
  by (drule ui_reach.step [OF _ ui_step.task_sends [where i = i and m = m and ms = ms]]) auto

lemma reach_receive:
  "ui_reach p \<lparr>us_app = a, us_channel = m # ms, us_tasks = ts, us_point = Draining\<rparr> \<Longrightarrow>
     \<not> requires_local_readiness_refresh m \<Longrightarrow>
     ui_reach p \<lparr>us_app = apply_message m a, us_channel = ms, us_tasks = ts, us_point = Draining\<rparr>"
  by (drule ui_reach.step [OF _ ui_step.receive [where outs = "[]" and m = m and ms = ms]])
    (auto simp: tasks_of_message_def)

lemma reach_drained:
  "ui_reach p \<lparr>us_app = a, us_channel = [], us_tasks = ts, us_point = Draining\<rparr> \<Longrightarrow> ui_pending_node a = None \<Longrightarrow>
     ui_reach p \<lparr>us_app = (expire_message now a)\<lparr>ui_detail_overflow := False, ui_detail_rect := Some area\<rparr>,
       us_channel = [], us_tasks = ts, us_point = Polling\<rparr>"
  by (drule ui_reach.step [OF _ ui_step.drained [where outs = "[]" and ts = "[]" and now = now and overflow = False
        and area = area and a = a]]) (auto simp: resume_pending_def)

definition example_ready :: app where
  "example_ready = apply_message (DiscoveryResult (Inr [example_node])) (apply_message (LocalReadinessResult (Inr ()))
     example_app)"

lemma example_start:
  "ui_reach example_interface \<lparr>us_app = example_app, us_channel = [],
     us_tasks = [[CredentialStatus (Inr False)], [LocalReadinessResult (Inr ())], [DiscoveryResult (Inr [example_node])]],
     us_point = Draining\<rparr>"
proof -
  let ?d = "\<lparr>ds_files = Map.empty, ds_dirs = Map.empty\<rparr> :: disk"
  have "ui_start example_interface (theme_watcher_new (\<lambda>_. Inl []) None ?d [[]]) 0
      = ((example_app, [CredentialStatusTask, ReadinessTask, RefreshTask]), 0)"
    by (simp add: ui_start_def load_settings_def example_interface_def example_app_def config_default_def app_new_def)
      code_simp
  moreover have "theme_refresh (\<lambda>_. Inl []) None ?d (ui_theme example_app) = (False, ui_theme example_app)"
    by code_simp
  ultimately show ?thesis
    using ui_reach.started [of example_interface "\<lambda>_. Inl []" None ?d "[[]]" 0 example_app
        "[CredentialStatusTask, ReadinessTask, RefreshTask]" 0 _ None ?d False "ui_theme example_app"] example_sends
    by simp
qed

lemma example_polling:
  "\<exists>a. ui_reach example_interface \<lparr>us_app = a, us_channel = [], us_tasks = [[CredentialStatus (Inr False)], [], []],
      us_point = Polling\<rparr>
    \<and> ui_nodes a = [example_node] \<and> ui_selected a = Some 0 \<and> ui_local_readiness a = ReadyLocal
    \<and> ui_activity a = Idle \<and> ui_active_node_id a = None \<and> ui_overlay a = None"
proof -
  have "ui_reach example_interface \<lparr>us_app = example_app,
      us_channel = [LocalReadinessResult (Inr ()), DiscoveryResult (Inr [example_node])],
      us_tasks = [[CredentialStatus (Inr False)], [], []], us_point = Draining\<rparr>"
    using reach_send [OF reach_send [OF example_start, where i = 1], where i = 2] by (simp add: channel_capacity_def)
  then have "ui_reach example_interface \<lparr>us_app = example_ready, us_channel = [],
      us_tasks = [[CredentialStatus (Inr False)], [], []], us_point = Draining\<rparr>"
    unfolding example_ready_def by (intro reach_receive) simp_all
  from reach_drained [OF this, where now = 0 and area = "\<lparr>rect_x = 0, rect_y = 0, rect_width = 0, rect_height = 0\<rparr>"]
  show ?thesis
    by (intro exI conjI, assumption?)
      (auto simp: example_ready_def example_app_def app_new_def apply_refresh_def select_first_def Let_def
        expire_message_def shown_text_def)
qed

lemma example_connects:
  "\<exists>s s'. ui_reach example_interface s \<and> ui_step example_interface s s'
     \<and> ui_session_generation (us_app s') \<noteq> ui_session_generation (us_app s) \<and> ui_activity (us_app s') = Connecting"
proof -
  obtain a where a: "ui_reach example_interface \<lparr>us_app = a, us_channel = [],
      us_tasks = [[CredentialStatus (Inr False)], [], []], us_point = Polling\<rparr>" (is "ui_reach _ ?s")
    and facts: "ui_nodes a = [example_node]" "ui_selected a = Some 0" "ui_local_readiness a = ReadyLocal"
      "ui_activity a = Idle" "ui_active_node_id a = None" "ui_overlay a = None"
    using example_polling by blast
  obtain b profile w' where key: "handle_key example_interface 0 KeyEnter a 0
      = ((False, b, [ConnectTask example_node (ui_session_generation a + 1) profile]), w')"
    and b: "ui_activity b = Connecting" "ui_session_generation b = ui_session_generation a + 1"
    using example_key [OF facts] by blast
  obtain out where out: "may_send example_interface (ConnectTask example_node (ui_session_generation a + 1) profile) out"
    unfolding may_send_def by (metis prod.exhaust)
  obtain changed theme where "theme_refresh (\<lambda>_. Inl []) None \<lparr>ds_files = Map.empty, ds_dirs = Map.empty\<rparr> (ui_theme b)
      = (changed, theme)" by fastforce
  then have "ui_step example_interface ?s (?s\<lparr>us_app := b\<lparr>ui_theme := theme\<rparr>, us_tasks := us_tasks ?s @ [out],
      us_point := if False then LeftLoop else Draining\<rparr>)"
    by (intro ui_step.key_press) (use key out in auto)
  with a b show ?thesis by fastforce
qed

lemma example_connecting: "\<exists>s. ui_reach example_interface s \<and> ui_activity (us_app s) = Connecting"
  using example_connects by (blast intro: ui_reach.step)

theorem interface_stays_well_formed_witness:
  "\<exists>s. ui_reach example_interface s \<and> ui_activity (us_app s) = Connecting \<and> app_wf (us_app s)"
  using example_connecting interface_stays_well_formed by blast

theorem interface_has_one_session_witness:
  "\<exists>s. ui_reach example_interface s \<and> ui_activity (us_app s) = Connecting \<and> under_way s \<noteq> []"
  using example_connecting interface_has_one_session by blast

theorem new_session_after_the_last_witness:
  "\<exists>s s'. ui_step example_interface s s' \<and> under_way s = [] \<and> ui_activity (us_app s') = Connecting"
  using example_connects new_session_after_the_last by blast

theorem switch_reaches_the_device_witness:
  "let a = example_app\<lparr>ui_active_node_id := Some (lit ''n1''), ui_pending_node := Some example_node\<rparr>
   in \<exists>b profile w'. resume_pending example_interface (apply_message (SessionEnded 0 (Inr (lit ''bye'')) False) a) 0
      = ((b, [ConnectTask example_node 1 profile]), w') \<and> ui_activity b = Connecting"
proof -
  let ?a = "example_app\<lparr>ui_active_node_id := Some (lit ''n1''), ui_pending_node := Some example_node\<rparr>"
  have "ui_pending_node ?a = Some example_node" "ui_session_generation ?a = 0"
    by (simp_all add: example_app_def app_new_def)
  from switch_reaches_the_device [OF this, of example_interface "Inr (lit ''bye'')" False 0]
  show ?thesis by (auto simp: Let_def)
qed

end
