(* ===== verification/TuiText.thy ===== *)
theory TuiText
  imports Tui IpText
begin

text \<open>
  What the terminal interface shows, \<open>crates/omdesky-tui/src/lib.rs\<close> from \<open>draw\<close> on: the lines of
  styled text that each \<open>draw_\<close> function hands to ratatui, and what drawing changes in the state.
  The layout of the screen, borders and the widgets themselves are ratatui's.
\<close>

record text_style =
  sty_fg :: "rgb option"
  sty_bg :: "rgb option"
  sty_bold :: bool

definition style_default :: text_style where
  "style_default = \<lparr>sty_fg = None, sty_bg = None, sty_bold = False\<rparr>"

definition style_fg :: "rgb \<Rightarrow> text_style" where
  "style_fg c = style_default\<lparr>sty_fg := Some c\<rparr>"

definition style_bold :: "rgb \<Rightarrow> text_style" where
  "style_bold c = (style_fg c)\<lparr>sty_bold := True\<rparr>"

type_synonym span = "ustr \<times> text_style"
type_synonym ui_line = "span list"

definition line_text :: "ui_line \<Rightarrow> ustr" where
  "line_text l = concat (map fst l)"

text \<open>\<open>{text:<n}\<close> fills up to \<open>n\<close> characters.\<close>

definition pad_to :: "nat \<Rightarrow> ustr \<Rightarrow> ustr" where
  "pad_to n t = t @ replicate (n - length t) 32"

definition em_dash :: ustr where
  "em_dash = [0x2014]"

section \<open>Wrapping text\<close>

text \<open>A word longer than the width is cut; the finished pieces are lines, the last stays open.\<close>

fun cut_word :: "nat \<Rightarrow> ustr \<Rightarrow> ustr \<Rightarrow> ustr list \<times> ustr" where
  "cut_word width chunk [] = ([], chunk)"
| "cut_word width chunk (c # cs) =
     (if length chunk = width then (case cut_word width [c] cs of (ls, rest) \<Rightarrow> (chunk # ls, rest))
      else cut_word width (chunk @ [c]) cs)"

definition push_word :: "nat \<Rightarrow> ustr \<Rightarrow> ustr list \<times> ustr" where
  "push_word width word_text = (if length word_text \<le> width then ([], word_text) else cut_word width [] word_text)"

fun wrap_words :: "nat \<Rightarrow> ustr \<Rightarrow> ustr list \<Rightarrow> ustr list" where
  "wrap_words width current [] = [current]"
| "wrap_words width current (word_text # ws) =
     (if current = [] then
        (case push_word width word_text of (ls, rest) \<Rightarrow> ls @ wrap_words width rest ws)
      else if length current + 1 + length word_text \<le> width then
        wrap_words width (current @ 32 # word_text) ws
      else (case push_word width word_text of (ls, rest) \<Rightarrow> current # ls @ wrap_words width rest ws))"

definition wrap_text :: "ustr \<Rightarrow> nat \<Rightarrow> ustr list" where
  "wrap_text t width =
     (if width = 0 then [t]
      else concat (map (\<lambda>paragraph_text. wrap_words width [] (split_whitespace paragraph_text))
        (split_on (\<lambda>c. c = 10) t)))"

section \<open>Labels\<close>

definition first_blocker_code :: "discovered_node \<Rightarrow> blocker_code option" where
  "first_blocker_code n = map_option blk_code (list_first (dn_blockers n))"

definition status_label :: "discovered_node \<Rightarrow> ustr" where
  "status_label n =
     (case dn_status n of
        Ready \<Rightarrow> lit ''READY''
      | Offline \<Rightarrow> lit ''OFFLINE''
      | Unavailable \<Rightarrow> lit ''UNKNOWN''
      | Blocked \<Rightarrow>
          (case first_blocker_code n of
             Some Incompatible \<Rightarrow> lit ''INCOMPATIBLE''
           | Some Denied \<Rightarrow> lit ''DENIED''
           | Some NeedsAccess \<Rightarrow> lit ''NEEDS ACCESS''
           | None \<Rightarrow> lit ''BLOCKED''))"

fun connection_label :: "connection_kind \<Rightarrow> ustr" where
  "connection_label Direct = lit ''DIRECT''"
| "connection_label Relay = lit ''RELAY''"
| "connection_label UnknownConnection = em_dash"

definition device_glyph :: "discovered_node \<Rightarrow> ustr" where
  "device_glyph n = (if dn_is_local n then [0xf02dc] else [0xf0379])"

definition status_icon :: "discovered_node \<Rightarrow> ustr" where
  "status_icon n =
     (if dn_is_local n then [0xf043e]
      else case dn_status n of
             Ready \<Rightarrow> [0xf012c]
           | Offline \<Rightarrow> [0xf0156]
           | Blocked \<Rightarrow> (if first_blocker_code n = Some Incompatible then [0xf0026] else [0xf033e])
           | Unavailable \<Rightarrow> [0xf02d7])"

fun connection_icon :: "connection_kind \<Rightarrow> ustr" where
  "connection_icon Direct = [0xf0318]"
| "connection_icon Relay = [0xf0469]"
| "connection_icon UnknownConnection = [0xf092d]"

definition status_style :: "discovered_node \<Rightarrow> omarchy_theme \<Rightarrow> text_style" where
  "status_style n theme =
     style_fg (if dn_is_local n then th_muted theme
       else case dn_status n of
              Ready \<Rightarrow> th_success theme
            | Unavailable \<Rightarrow> th_warning theme
            | Blocked \<Rightarrow> (if first_blocker_code n = Some NeedsAccess then th_warning theme else th_error theme)
            | Offline \<Rightarrow> th_error theme)"

fun codec_label :: "codec_preference \<Rightarrow> ustr" where
  "codec_label Auto = lit ''Auto''"
| "codec_label H264 = lit ''H.264''"
| "codec_label Hevc = lit ''HEVC''"
| "codec_label Av1 = lit ''AV1''"

definition latency_text :: "u32 option \<Rightarrow> ustr" where
  "latency_text latency =
     (case latency of None \<Rightarrow> em_dash | Some v \<Rightarrow> show_nat (unat v) @ lit '' ms'')"

section \<open>Lines\<close>

definition settings_line :: "ustr \<Rightarrow> ustr \<Rightarrow> bool \<Rightarrow> omarchy_theme \<Rightarrow> ui_line" where
  "settings_line label_text value selected theme =
     [(if selected then [0x25b8, 32] else lit ''  '', style_fg (th_accent theme)),
      (pad_to 11 label_text, style_fg (th_muted theme)),
      (value, if selected then style_bold (th_accent theme) else style_fg (th_foreground theme))]"

definition input_line :: "ustr \<Rightarrow> ustr \<Rightarrow> bool \<Rightarrow> omarchy_theme \<Rightarrow> ui_line" where
  "input_line label_text value masked theme =
     [(pad_to 11 label_text, style_fg (th_muted theme)),
      ((if masked then replicate (length value) 0x2022 else value) @ [0x258f], style_bold (th_accent theme))]"

definition property_line :: "ustr \<Rightarrow> ustr \<Rightarrow> omarchy_theme \<Rightarrow> ui_line" where
  "property_line label_text value theme =
     [(pad_to 11 label_text, style_fg (th_muted theme)), (value, style_fg (th_foreground theme))]"

definition muted_line :: "ustr \<Rightarrow> omarchy_theme \<Rightarrow> ui_line" where
  "muted_line t theme = [(t, style_fg (th_muted theme))]"

definition styled_wrapped_lines :: "ustr \<Rightarrow> nat \<Rightarrow> text_style \<Rightarrow> ui_line list" where
  "styled_wrapped_lines t width style = map (\<lambda>l. [(l, style)]) (wrap_text t width)"

definition wrapped_property_lines :: "ustr \<Rightarrow> ustr \<Rightarrow> nat \<Rightarrow> omarchy_theme \<Rightarrow> ui_line list" where
  "wrapped_property_lines label_text value width theme =
     (let label_width = min 11 width;
          value_width = max (width - label_width) 1
      in map (\<lambda>(i, l).
           [(if i = 0 then pad_to label_width label_text else replicate label_width 32, style_fg (th_muted theme)),
            (l, style_fg (th_foreground theme))])
           (enumerate 0 (wrap_text value value_width)))"

definition device_item :: "discovered_node \<Rightarrow> omarchy_theme \<Rightarrow> ui_line list" where
  "device_item n theme =
     [[],
      [(lit ''  '' @ device_glyph n @ lit ''  '', status_style n theme),
       (if dn_is_local n then dn_name n @ lit ''  (this device)'' else dn_name n,
        style_bold (if dn_is_local n then th_muted theme else th_foreground theme))],
      [(lit ''  '', style_default),
       (status_icon n @ lit ''  '' @ pad_to 12 (status_label n), status_style n theme),
       ([0xf0150, 32] @ pad_to 9 (latency_text (dn_latency_ms n)), style_fg (th_muted theme)),
       (connection_icon (dn_connection n) @ lit '' '' @ connection_label (dn_connection n),
        style_fg (th_muted theme))],
      []]"

definition detail_lines :: "discovered_node \<Rightarrow> omarchy_theme \<Rightarrow> nat \<Rightarrow> ui_line list" where
  "detail_lines n theme width =
     (let caps = as_slice (dn_capabilities n);
          capabilities = (if caps = [] then lit ''Not advertised'' else join (lit '', '') caps)
      in [[]]
         @ styled_wrapped_lines (dn_name n) width (style_bold (th_foreground theme))
         @ styled_wrapped_lines (show_ip (dn_address n)) width (style_fg (th_foreground theme))
         @ [[]]
         @ wrapped_property_lines (lit ''Status'') (status_label n) width theme
         @ wrapped_property_lines (lit ''Link'') (connection_label (dn_connection n)) width theme
         @ wrapped_property_lines (lit ''Latency'') (latency_text (dn_latency_ms n)) width theme
         @ wrapped_property_lines (lit ''Omarchy'') (unwrap_or (dn_omarchy_version n) em_dash) width theme
         @ wrapped_property_lines (lit ''Agent'') (unwrap_or (dn_agent_version n) em_dash) width theme
         @ [[]]
         @ styled_wrapped_lines (lit ''CAPABILITIES'') width (style_bold (th_muted theme))
         @ styled_wrapped_lines capabilities width (style_fg (th_foreground theme)))"

definition message_line :: "message_kind \<Rightarrow> ustr \<Rightarrow> omarchy_theme \<Rightarrow> ui_line" where
  "message_line kind message theme =
     (case (case kind of NoticeMessage \<Rightarrow> (lit '' INFO '', th_success theme)
            | ErrorMessage \<Rightarrow> (lit '' ERROR '', th_error theme)) of
        (title, accent) \<Rightarrow>
          [(title, (style_bold (th_background theme))\<lparr>sty_bg := Some accent\<rparr>),
           (lit '' | '' @ message, style_fg accent)])"

definition key_span :: "ustr \<Rightarrow> omarchy_theme \<Rightarrow> span" where
  "key_span value theme =
     (lit '' '' @ value @ lit '' '', (style_bold (th_background theme))\<lparr>sty_bg := Some (th_accent theme)\<rparr>)"

definition label_span :: "ustr \<Rightarrow> omarchy_theme \<Rightarrow> span" where
  "label_span value theme = (value, style_fg (th_muted theme))"

definition empty_state_lines :: "app \<Rightarrow> omarchy_theme \<Rightarrow> ui_line list" where
  "empty_state_lines s theme =
     (if ui_loading s then
        [[], [([0xf00f3] @ lit ''  Scanning the tailnet for Omdesky devices'' @ ellipsis, style_fg (th_accent theme))]]
      else case ui_error s of
        Some e \<Rightarrow>
          [[], [([0xf12a6] @ lit ''  Discovery failed'', style_bold (th_error theme))], muted_line e theme, [],
           [(lit ''Press r to retry'', style_default)]]
      | None \<Rightarrow>
          [[], [([0xf01c4] @ lit ''  No compatible devices found'', style_fg (th_foreground theme))],
           muted_line (lit ''Start omdesky-agent on another Omarchy device'') theme])"

section \<open>The parts of the screen\<close>

definition header_status :: "app \<Rightarrow> omarchy_theme \<Rightarrow> span" where
  "header_status s theme =
     (let ready = length (filter is_connectable (ui_nodes s));
          remote = length (filter (\<lambda>n. \<not> dn_is_local n) (ui_nodes s))
      in if ui_loading s then ([0xf0453] @ lit ''  scanning the tailnet'' @ ellipsis, style_fg (th_warning theme))
         else if remote = 0 then ([0xf092d] @ lit ''  no remote devices yet'', style_fg (th_muted theme))
         else ([0xf0928] @ lit ''  '' @ show_nat ready @ lit '' of '' @ show_nat remote @ lit '' devices ready'',
               style_fg (th_success theme)))"

definition header_lines :: "app \<Rightarrow> omarchy_theme \<Rightarrow> ui_line list" where
  "header_lines s theme =
     (let mark = style_bold (th_accent theme)
      in [[([0x256d, 0x2500, 0x2500, 0x2500, 0x2500, 0x256e], mark)],
          [([0x2502, 32, 0x256d, 0x2500, 0x2500, 0x2500, 0x2500, 0x256e], mark), (lit ''   '', style_default),
           (lit ''OM'', mark), (lit ''DESKY'', style_bold (th_foreground theme))],
          [([0x2570, 0x2500, 0x2502, 32, 32, 32, 32, 0x2502], mark), (lit ''   '', style_default),
           header_status s theme],
          [([32, 32, 0x2570, 0x2500, 0x2500, 0x2500, 0x2500, 0x256f], mark)]])"

definition footer_line :: "app \<Rightarrow> omarchy_theme \<Rightarrow> ui_line" where
  "footer_line s theme =
     [key_span [0x2191, 0x2193] theme, label_span (lit ''  navigate    '') theme,
      key_span (lit ''r'') theme, label_span (lit ''  refresh    '') theme]
     @ (if selected_remote s \<noteq> None \<and> ui_local_readiness s = ReadyLocal
        then [key_span ([0xf0311] @ lit '' Enter'') theme, label_span (lit ''  connect    '') theme] else [])
     @ [key_span (lit ''s'') theme, label_span (lit ''  settings    '') theme,
        key_span (lit ''q'') theme, label_span (lit ''  quit'') theme]"

definition message_area :: "app \<Rightarrow> omarchy_theme \<Rightarrow> ui_line" where
  "message_area s theme =
     (case shown_text s of None \<Rightarrow> [] | Some (kind, message) \<Rightarrow> message_line kind message theme)"

text \<open>The title, the height and the lines of the window over the screen.\<close>

definition overlay_panel :: "overlay \<Rightarrow> app \<Rightarrow> omarchy_theme \<Rightarrow> ustr \<times> u16 \<times> ui_line list" where
  "overlay_panel ov s theme =
     (case ov of
        MenuOverlay selected \<Rightarrow>
          (let profile = ui_stream_profile s
           in ([0xf0493] @ lit ''  Settings '', 21,
             [[],
              settings_line (lit ''Display'') (display_mode_label (ui_display_mode s))
                (selected = SettingDisplay) theme,
              settings_line (lit ''Resolution'')
                (show_nat (unat (sp_width profile)) @ lit ''x'' @ show_nat (unat (sp_height profile)))
                (selected = SettingResolution) theme,
              settings_line (lit ''FPS'') (show_nat (unat (sp_fps profile))) (selected = SettingFps) theme,
              settings_line (lit ''Bitrate'')
                (case sp_bitrate_kbps profile of
                   None \<Rightarrow> lit ''Auto'' | Some v \<Rightarrow> show_nat (unat (v div 1000)) @ lit '' Mbps'')
                (selected = SettingBitrate) theme,
              settings_line (lit ''Codec'') (codec_label (sp_codec_preference profile))
                (selected = SettingCodec) theme,
              settings_line (lit ''Audio'') (if sp_audio profile then lit ''On'' else lit ''Off'')
                (selected = SettingAudio) theme,
              [],
              property_line (lit ''Sunshine'')
                (if ui_sunshine_configured s then lit ''configured'' else lit ''not configured'') theme,
              property_line (lit ''Allowlist'')
                (show_nat (length (ui_access_entries s)) @ lit '' identities'') theme,
              [],
              muted_line (lit ''c Sunshine credentials    a access allowlist'') theme,
              [],
              muted_line ([0x2191, 0x2193] @ lit '' select    '' @ [0x2190, 0x2192] @ lit '' change'') theme,
              muted_line (lit ''Esc close'') theme]))
      | CredentialsUser user \<Rightarrow>
          ([0xf033e] @ lit ''  Sunshine credentials '', 9,
           [[], muted_line (lit ''Enter the Sunshine admin username'') theme, [],
            input_line (lit ''Username'') user False theme, [],
            muted_line (lit ''Enter next    Esc cancel'') theme])
      | CredentialsPass user pass \<Rightarrow>
          ([0xf033e] @ lit ''  Sunshine credentials '', 9,
           [[], muted_line (lit ''Enter the Sunshine admin password'') theme, [],
            input_line (lit ''Password'') pass True theme, [],
            muted_line (lit ''Enter save    Esc cancel'') theme])
      | AccessOverlay \<Rightarrow>
          ([0xf1163] @ lit ''  Access allowlist '', 14,
           [[], muted_line (lit ''Identities allowed to control this device:'') theme, []]
           @ (if ui_access_entries s = []
              then [muted_line (lit ''  (empty, any Tailnet identity may connect, per Grants)'') theme]
              else map (\<lambda>entry. [(lit ''  '' @ [0x25cf, 32] @ ar_label entry, style_fg (th_foreground theme))])
                (ui_access_entries s))
           @ [[], muted_line (lit ''a allow selected device    d revoke    Esc back'') theme]))"

definition popup_area :: "rect \<Rightarrow> u16 \<Rightarrow> u16 \<Rightarrow> rect" where
  "popup_area area width height =
     (let w = min width (rect_width area); h = min height (rect_height area)
      in \<lparr>rect_x = rect_x area + (rect_width area - w) div 2, rect_y = rect_y area + (rect_height area - h) div 2,
          rect_width = w, rect_height = h\<rparr>)"

text \<open>The details of the selected device, cut to the height of their area unless they are expanded.\<close>

definition draw_details :: "rect \<Rightarrow> app \<Rightarrow> omarchy_theme \<Rightarrow> ui_line list \<times> app" where
  "draw_details area s theme =
     (let inner_width = max (unat (rect_width area) - 4) 1;
          content = (case selected_node s of
              None \<Rightarrow> [[], muted_line (lit ''Select a device'') theme]
            | Some n \<Rightarrow> detail_lines n theme inner_width);
          available = unat (rect_height area) - 2;
          overflow = (length content > available)
      in (if overflow \<and> \<not> ui_detail_expanded s
          then take (available - 1) content @ [[([0x25be] @ lit '' click to expand'', style_bold (th_muted theme))]]
          else content,
          s\<lparr>ui_detail_overflow := overflow\<rparr>))"

definition draw_detail_column :: "rect \<Rightarrow> app \<Rightarrow> omarchy_theme \<Rightarrow> ui_line list \<times> app" where
  "draw_detail_column area s theme = draw_details area (s\<lparr>ui_detail_rect := Some area\<rparr>) theme"

definition device_list :: "app \<Rightarrow> omarchy_theme \<Rightarrow> ui_line list list" where
  "device_list s theme =
     (if ui_loading s \<or> ui_nodes s = [] then [empty_state_lines s theme]
      else map (\<lambda>n. device_item n theme) (ui_nodes s))"

definition device_item_height :: u16 where
  "device_item_height = 4"

text \<open>The rows of the bar beside the selected device; \<open>offset\<close> is the list's first visible device.\<close>

definition selection_rows :: "rect \<Rightarrow> nat \<Rightarrow> app \<Rightarrow> (u16 \<times> u16) list" where
  "selection_rows area offset s =
     (case ui_selected s of
        None \<Rightarrow> []
      | Some selected \<Rightarrow>
          if selected < offset then []
          else
            (let y_start = rect_y area + 2 + of_nat (selected - offset) * device_item_height;
                 bottom = rect_y area + (if rect_height area = 0 then 0 else rect_height area - 1)
             in map (\<lambda>y. (rect_x area + 2, y))
                  (takeWhile (\<lambda>y. y < bottom) (map (\<lambda>row. y_start + of_nat row) [0..<unat device_item_height]))))"

text \<open>Everything that is drawn, part by part.\<close>

record screen =
  scr_header :: "ui_line list"
  scr_devices :: "ui_line list list"
  scr_details :: "ui_line list"
  scr_footer :: ui_line
  scr_message :: ui_line
  scr_overlay :: "(ustr \<times> u16 \<times> ui_line list) option"

definition draw_content :: "rect \<Rightarrow> app \<Rightarrow> omarchy_theme \<Rightarrow> (ui_line list list \<times> ui_line list) \<times> app" where
  "draw_content details_area s theme =
     (let devices = (if ui_detail_expanded s then [] else device_list s theme)
      in case draw_detail_column details_area s theme of (details, s') \<Rightarrow> ((devices, details), s'))"

definition draw :: "rect \<Rightarrow> app \<Rightarrow> screen \<times> app" where
  "draw details_area s =
     (let theme = tw_theme (ui_theme s); header = header_lines s theme
      in case draw_content details_area s theme of
           ((devices, details), s') \<Rightarrow>
             (\<lparr>scr_header = header, scr_devices = devices, scr_details = details,
               scr_footer = footer_line s' theme, scr_message = message_area s' theme,
               scr_overlay = map_option (\<lambda>ov. overlay_panel ov s' theme) (ui_overlay s')\<rparr>, s'))"

section \<open>Facts\<close>

definition visible :: "ustr \<Rightarrow> ustr" where
  "visible t = filter (\<lambda>c. \<not> is_whitespace c) t"

lemma visible_append [simp]: "visible (s @ t) = visible s @ visible t"
  by (simp add: visible_def)

lemma visible_plain: "(\<And>c. c \<in> set t \<Longrightarrow> \<not> is_whitespace c) \<Longrightarrow> visible t = t"
  by (simp add: visible_def)

lemma cut_word_text:
  "cut_word width chunk cs = (ls, rest) \<Longrightarrow> concat ls @ rest = chunk @ cs"
  by (induction width chunk cs arbitrary: ls rest rule: cut_word.induct) (auto split: if_splits prod.splits)

lemma cut_word_width:
  "cut_word width chunk cs = (ls, rest) \<Longrightarrow> 0 < width \<Longrightarrow> length chunk \<le> width \<Longrightarrow>
     (\<forall>l\<in>set ls. length l \<le> width) \<and> length rest \<le> width"
  by (induction width chunk cs arbitrary: ls rest rule: cut_word.induct) (force split: if_splits prod.splits)+

lemma push_word_facts:
  assumes "push_word width word_text = (ls, rest)" and "0 < width"
  shows "(\<forall>l\<in>set ls. length l \<le> width) \<and> length rest \<le> width \<and> concat ls @ rest = word_text"
  using assms cut_word_text [of width "[]" word_text] cut_word_width [of width "[]" word_text]
  by (auto simp: push_word_def split: if_splits)

lemma wrap_words_facts:
  assumes "0 < width" and "length current \<le> width"
  shows "(\<forall>l\<in>set (wrap_words width current ws). length l \<le> width)
    \<and> visible (concat (wrap_words width current ws)) = visible current @ visible (concat ws)"
  using assms
proof (induction width current ws rule: wrap_words.induct)
  case (2 width current word_text ws)
  obtain ls rest where push: "push_word width word_text = (ls, rest)" by fastforce
  note facts = push_word_facts [OF push 2(4)]
  have joined: "visible (concat ls) @ visible rest = visible word_text"
    using facts visible_append by metis
  have space: "visible (current @ 32 # word_text) = visible current @ visible word_text"
    by (simp add: visible_def is_whitespace_def)
  consider "current = []" | "current \<noteq> []" "length current + 1 + length word_text \<le> width"
    | "current \<noteq> []" "\<not> length current + 1 + length word_text \<le> width" by blast
  then show ?case
  proof cases
    case 1
    then show ?thesis using 2(1) [OF 1 push [symmetric]] facts 2(4) joined by (auto simp: push visible_def)
  next
    case 2
    then show ?thesis using "2.IH"(2) "2.prems" space by (auto simp: visible_def)
  next
    case 3
    then show ?thesis using "2.IH"(3) [OF 3 push [symmetric]] facts "2.prems" joined by (auto simp: push visible_def)
  qed
qed (simp add: visible_def)

lemma visible_split:
  assumes "\<And>c. P c \<Longrightarrow> is_whitespace c"
  shows "visible (concat (split_on P t)) = visible t"
proof (induction t)
  case (Cons c t)
  obtain piece pieces where split: "split_on P t = piece # pieces" by (cases "split_on P t") auto
  with Cons assms [of c] show ?case by (auto simp: visible_def)
qed (simp add: visible_def)

lemma visible_split_whitespace: "visible (concat (split_whitespace t)) = visible t"
proof -
  have "concat (filter (\<lambda>piece. piece \<noteq> []) xs) = concat xs" for xs :: "ustr list"
    by (induction xs) auto
  then show ?thesis using visible_split [of is_whitespace t] by (simp add: split_whitespace_def)
qed

section \<open>Correctness\<close>

text \<open>
  Wrapping keeps to the width and loses nothing: every line of a wrapped text is at most as wide as
  asked for, words that are too long included, and the characters other than white space are those
  of the text, in order.
\<close>

theorem wrapped_text_fits_and_keeps:
  assumes "0 < width"
  shows "(\<forall>l\<in>set (wrap_text t width). length l \<le> width) \<and> visible (concat (wrap_text t width)) = visible t"
proof -
  let ?lines = "\<lambda>paragraph_text. wrap_words width [] (split_whitespace paragraph_text)"
  have each: "(\<forall>l\<in>set (?lines q). length l \<le> width) \<and> visible (concat (?lines q)) = visible q" for q
    using wrap_words_facts [OF assms, of "[]" "split_whitespace q"] visible_split_whitespace [of q]
    by (simp add: visible_def)
  have "visible (concat (concat (map ?lines qs))) = visible (concat qs)" for qs
    by (induction qs) (simp_all add: each visible_def [of "[]"])
  moreover have "visible (concat (split_on (\<lambda>c. c = 10) t)) = visible t"
    by (rule visible_split) (simp add: is_whitespace_def)
  ultimately show ?thesis using assms each by (simp add: wrap_text_def)
qed

text \<open>The parts of the screen below the overlay do not see it.\<close>

lemma selection_frame:
  "selected_node (s\<lparr>ui_overlay := x\<rparr>) = selected_node s" "selected_remote (s\<lparr>ui_overlay := x\<rparr>) = selected_remote s"
  "shown_text (s\<lparr>ui_overlay := x\<rparr>) = shown_text s"
  by (simp_all add: selected_remote_def selected_node_def shown_text_def cong: option.case_cong if_cong)

lemma drawn_below_overlay:
  "header_lines (s\<lparr>ui_overlay := x\<rparr>) theme = header_lines s theme"
  "device_list (s\<lparr>ui_overlay := x\<rparr>) theme = device_list s theme"
  "footer_line (s\<lparr>ui_overlay := x\<rparr>) theme = footer_line s theme"
  "message_area (s\<lparr>ui_overlay := x\<rparr>) theme = message_area s theme"
proof -
  have "header_status (s\<lparr>ui_overlay := x\<rparr>) theme = header_status s theme" by (simp add: header_status_def Let_def)
  then show "header_lines (s\<lparr>ui_overlay := x\<rparr>) theme = header_lines s theme" by (simp add: header_lines_def)
  have "empty_state_lines (s\<lparr>ui_overlay := x\<rparr>) theme = empty_state_lines s theme" by (simp add: empty_state_lines_def)
  then show "device_list (s\<lparr>ui_overlay := x\<rparr>) theme = device_list s theme" by (simp add: device_list_def)
qed (simp_all add: footer_line_def message_area_def selection_frame)

lemma details_below_overlay:
  "draw_detail_column area (s\<lparr>ui_overlay := x\<rparr>) theme =
     (fst (draw_detail_column area s theme), (snd (draw_detail_column area s theme))\<lparr>ui_overlay := x\<rparr>)"
proof -
  have "selected_node (s\<lparr>ui_overlay := x, ui_detail_rect := r\<rparr>) = selected_node s"
    "selected_node (s\<lparr>ui_detail_rect := r\<rparr>) = selected_node s" for r
    by (simp_all add: selected_node_def cong: option.case_cong if_cong)
  then show ?thesis by (simp add: draw_detail_column_def draw_details_def Let_def)
qed

lemma overlay_of_password:
  "length pass = length pass' \<Longrightarrow>
     overlay_panel (CredentialsPass user pass) s theme = overlay_panel (CredentialsPass user' pass') s' theme"
  by (simp add: overlay_panel_def input_line_def)

text \<open>
  C24: Nothing that is drawn depends on the password that is being typed but its length: two states that
  differ only there, or in the user name beside it, give the same screen.
\<close>

theorem password_is_not_drawn:
  assumes "length pass = length pass'"
  shows "fst (draw area (s\<lparr>ui_overlay := Some (CredentialsPass user pass)\<rparr>))
    = fst (draw area (s\<lparr>ui_overlay := Some (CredentialsPass user' pass')\<rparr>))"
  using overlay_of_password [OF assms]
  by (simp add: draw_def draw_content_def Let_def details_below_overlay drawn_below_overlay)

theorem wrapped_text_fits_and_keeps_witness:
  "let ls = wrap_text (lit ''the SUNSHINE_API is down'') 8
   in (\<forall>l\<in>set ls. length l \<le> 8) \<and> visible (concat ls) = lit ''theSUNSHINE_APIisdown''"
proof -
  have "visible (lit ''the SUNSHINE_API is down'') = lit ''theSUNSHINE_APIisdown''" by code_simp
  then show ?thesis using wrapped_text_fits_and_keeps [of 8 "lit ''the SUNSHINE_API is down''"] by (simp add: Let_def)
qed

theorem password_is_not_drawn_witness:
  "let area = \<lparr>rect_x = 0, rect_y = 0, rect_width = 40, rect_height = 12\<rparr>;
       typing = (\<lambda>pass. example_screen\<lparr>ui_overlay := Some (CredentialsPass (lit ''admin'') pass)\<rparr>)
   in fst (draw area (typing (lit ''secret''))) = fst (draw area (typing (lit ''hunter'')))"
  using password_is_not_drawn [where pass = "lit ''secret''" and pass' = "lit ''hunter''" and s = example_screen
      and user = "lit ''admin''" and user' = "lit ''admin''"]
  by (simp add: Let_def lit_def)

text \<open>
  The details fit their area: what is shown is never more than its lines (one at least), unless
  it was expanded, and the flag that makes it expandable says whether something is cut off.
\<close>

theorem details_fit_their_area:
  assumes "draw_details area s theme = (ls, s')"
  shows "(\<not> ui_detail_expanded s \<longrightarrow> length ls \<le> max 1 (unat (rect_height area) - 2))
    \<and> (\<not> ui_detail_overflow s' \<longrightarrow> length ls \<le> unat (rect_height area) - 2)
    \<and> (\<not> ui_detail_overflow s' \<longrightarrow> ui_detail_expanded s \<longrightarrow> ls = fst (draw_details area (s\<lparr>ui_detail_expanded := False\<rparr>) theme))"
proof -
  have "selected_node (s\<lparr>ui_detail_expanded := x\<rparr>) = selected_node s" for x
    by (simp add: selected_node_def cong: option.case_cong if_cong)
  with assms show ?thesis by (auto simp: draw_details_def Let_def)
qed

text \<open>
  The window over the screen lies inside it, on whatever size of terminal: no coordinate wraps
  around.
\<close>

theorem popup_is_inside:
  assumes "unat (rect_x area) + unat (rect_width area) < 2 ^ 16" and "unat (rect_y area) + unat (rect_height area) < 2 ^ 16"
  shows "let p = popup_area area width height
    in unat (rect_x area) \<le> unat (rect_x p) \<and> unat (rect_x p) + unat (rect_width p) \<le> unat (rect_x area) + unat (rect_width area)
     \<and> unat (rect_y area) \<le> unat (rect_y p) \<and> unat (rect_y p) + unat (rect_height p) \<le> unat (rect_y area) + unat (rect_height area)"
proof -
  have inside: "unat x \<le> unat (x + (w - min v w) div 2) \<and> unat (x + (w - min v w) div 2) + unat (min v w) \<le> unat x + unat w"
    if "unat x + unat w < 2 ^ 16" for x w v :: u16
  proof -
    have m: "unat (min v w) \<le> unat w" by (simp add: min_def word_le_nat_alt)
    then have "unat ((w - min v w) div 2) = (unat w - unat (min v w)) div 2"
      by (simp add: unat_div unat_sub word_le_nat_alt)
    moreover from this have "unat (x + (w - min v w) div 2) = unat x + (unat w - unat (min v w)) div 2"
      using that by (subst unat_add_lem [THEN iffD1]) (auto simp: word_less_nat_alt)
    ultimately show ?thesis using m by linarith
  qed
  show ?thesis using inside [OF assms(1)] inside [OF assms(2)] by (simp add: popup_area_def Let_def)
qed

text \<open>
  The key that connects is offered exactly when pressing it does something other than report why it
  cannot, for lists of devices as discovery makes them, where a ready device has nothing in its way.
\<close>

theorem connect_is_offered_truthfully:
  assumes "\<And>n. n \<in> set (ui_nodes s) \<Longrightarrow> dn_status n = Ready \<Longrightarrow> dn_blockers n = []"
  shows "key_span ([0xf0311] @ lit '' Enter'') theme \<in> set (footer_line s theme)
    \<longleftrightarrow> (\<exists>node. selected_remote s = Some node) \<and> unavailable_reason s = None"
proof -
  have "unavailable_reason s = None" if node: "selected_remote s = Some node" and "ui_local_readiness s = ReadyLocal" for node
  proof -
    have "selected_node s = Some node" "is_connectable node" "node \<in> set (ui_nodes s)"
      using node by (auto simp: selected_remote_def selected_node_def split: option.splits if_splits)
    with assms [of node] that show ?thesis by (simp add: unavailable_reason_def is_connectable_def)
  qed
  moreover have "ui_local_readiness s = ReadyLocal" if "unavailable_reason s = None"
    using that by (auto simp: unavailable_reason_def split: local_readiness.splits)
  moreover have "key_span ([0xf0311] @ lit '' Enter'') theme \<in> set (footer_line s theme)
      \<longleftrightarrow> selected_remote s \<noteq> None \<and> ui_local_readiness s = ReadyLocal"
    by (simp add: footer_line_def key_span_def label_span_def lit_def)
  ultimately show ?thesis by (auto)
qed

end
