(* ===== verification/AgentMain.thy ===== *)
theory AgentMain
  imports HttpClient Tailscale Config Identity Omarchy
begin

text \<open>
  \<open>crates/omdesky-agent/src/main.rs\<close>: the agent's program, from its arguments to its shutdown.
  Startup reads the configuration, the installed release and the node's identity, waits for
  Tailscale, and decides on the address to listen on; the agent then lives as in
  \<open>AgentFacts\<close> until it is told to stop. An error is the chain of its contexts, outermost first.
  The world is reached through the record \<open>agent_host\<close>; \<open>axum\<close>'s loop is the list of events.
\<close>

definition default_log_filter :: ustr where
  "default_log_filter = lit ''info''"

definition tailscale_startup_attempts :: nat where
  "tailscale_startup_attempts = 30"

definition tailscale_startup_interval :: duration where
  "tailscale_startup_interval = from_secs 2"

section \<open>Arguments\<close>

datatype invocation = ServeAgent | ShowVersion | ShowHelp

definition parse_arguments :: "ustr list \<Rightarrow> ustr list + invocation" where
  "parse_arguments arguments =
     (case arguments of
        [] \<Rightarrow> Inr ServeAgent
      | [flag] \<Rightarrow>
          if flag = lit ''--version'' \<or> flag = lit ''-V'' then Inr ShowVersion
          else if flag = lit ''--help'' \<or> flag = lit ''-h'' then Inr ShowHelp
          else Inl [lit ''unexpected arguments; run `omdesky-agent --help` for usage'']
      | _ \<Rightarrow> Inl [lit ''unexpected arguments; run `omdesky-agent --help` for usage''])"

definition version_line :: ustr where
  "version_line = lit ''omdesky-agent '' @ release"

definition help_lines :: ustr where
  "help_lines = version_line @ [10, 10]
     @ lit ''Runs the Omdesky control agent on this computer's Tailscale address.'' @ [10, 10]
     @ lit ''Usage: omdesky-agent [--version | --help]'' @ [10, 10]
     @ lit ''Logging is controlled by RUST_LOG (default: '' @ default_log_filter @ lit '').''"

section \<open>Startup\<close>

text \<open>\<open>anyhow\<close>'s contexts.\<close>

definition in_context :: "ustr \<Rightarrow> ustr list + 'a \<Rightarrow> ustr list + 'a" where
  "in_context text r = map_err (\<lambda>causes. text # causes) r"

definition port_failure :: "port_error \<Rightarrow> ustr list" where
  "port_failure e =
     [user_message e @ lit '' ['' @ perr_code e @ lit '': '' @ perr_message e @ lit '']'']"

definition startup_answer :: "mesh_node_identity port_result \<Rightarrow> ustr + mesh_node_identity" where
  "startup_answer r =
     (case r of
        Inr node \<Rightarrow>
          if mni_addresses node \<noteq> [] then Inr node else Inl (lit ''Tailscale has no local address yet'')
      | Inl e \<Rightarrow> Inl (perr_code e @ lit '': '' @ perr_message e))"

function wait_from ::
    "('w, mesh_node_identity port_result) call \<Rightarrow> ('w \<Rightarrow> 'w) \<Rightarrow> nat \<Rightarrow> ('w, ustr list + mesh_node_identity) call" where
  "wait_from query sleep attempt w =
     (case query w of
        (r, w') \<Rightarrow>
          (case startup_answer r of
             Inr node \<Rightarrow> (Inr node, w')
           | Inl failure \<Rightarrow>
               if attempt \<ge> tailscale_startup_attempts
               then (Inl [lit ''Tailscale is not ready: '' @ failure], w')
               else wait_from query sleep (attempt + 1) (sleep w')))"
  by pat_completeness auto
termination
  by (relation "measure (\<lambda>(_, _, attempt, _). tailscale_startup_attempts - attempt)") auto

declare wait_from.simps [simp del]

definition wait_for_tailscale ::
    "('w, mesh_node_identity port_result) call \<Rightarrow> ('w \<Rightarrow> 'w) \<Rightarrow> ('w, ustr list + mesh_node_identity) call" where
  "wait_for_tailscale query sleep = wait_from query sleep 1"

text \<open>What startup needs of the system: the disk, commands, sleeping and the socket.\<close>

record 'w agent_host =
  ah_environment :: environment
  ah_toml :: toml_parser
  ah_status :: status_parser
  ah_encode :: "node_identity \<Rightarrow> byte list"
  ah_decode :: "byte list \<Rightarrow> ustr + node_identity"
  ah_config_fault :: "io_error option"
  ah_identity_fault :: "io_error option"
  ah_faults :: faults
  ah_fresh :: ustr
  ah_new_node :: node_id
  ah_disk :: "'w \<Rightarrow> disk"
  ah_put_disk :: "disk \<Rightarrow> 'w \<Rightarrow> 'w"
  ah_run :: "'w runner"
  ah_sleep :: "duration \<Rightarrow> 'w \<Rightarrow> 'w"
  ah_bind :: "ip_addr \<Rightarrow> u16 \<Rightarrow> ('w, ustr + unit) call"

record agent_plan =
  pl_node :: node_info_response
  pl_address :: ip_addr
  pl_port :: u16
  pl_strict :: bool
  pl_sunshine_file :: path
  pl_access_file :: path

definition config_call :: "'w agent_host \<Rightarrow> ('w, ustr list + config) call" where
  "config_call h = (\<lambda>w.
     (in_context (lit ''load configuration'')
        (map_err (\<lambda>e. [config_error_text e])
           (config_load (ah_toml h) (ah_environment h) (ah_config_fault h) (ah_disk h w))), w))"

definition omarchy_call :: "'w agent_host \<Rightarrow> ('w, ustr list + omarchy_version) call" where
  "omarchy_call h = (\<lambda>w.
     case detect_version (ah_run h) w of
       (r, w') \<Rightarrow> (in_context (lit ''validate Omarchy 4'') (map_err port_failure r), w'))"

definition identity_call :: "'w agent_host \<Rightarrow> ('w, ustr list + node_identity) call" where
  "identity_call h = (\<lambda>w.
     case state_dir (ah_environment h) of
       Inl e \<Rightarrow> (Inl [config_error_text e], w)
     | Inr d \<Rightarrow>
         (case load_or_create (ah_encode h) (ah_decode h) (ah_identity_fault h) (ah_faults h) (ah_fresh h)
                 (ah_new_node h) (d @ [lit ''identity'', lit ''node.json'']) (ah_disk h w) of
            (r, d') \<Rightarrow>
              (in_context (lit ''load stable node identity'') (map_err (\<lambda>e. [identity_error_text e]) r),
               ah_put_disk h d' w)))"

definition tailscale_call :: "'w agent_host \<Rightarrow> ('w, ustr list + mesh_node_identity) call" where
  "tailscale_call h = (\<lambda>w.
     case wait_for_tailscale (mesh_local_node (ah_status h) (ah_run h)) (ah_sleep h tailscale_startup_interval) w of
       (r, w') \<Rightarrow> (in_context (lit ''query Tailscale identity'') r, w'))"

definition listen_address :: "mesh_node_identity \<Rightarrow> ustr list + ip_addr" where
  "listen_address node =
     ok_or (or_else (find is_ipv4 (mni_addresses node)) (list_first (mni_addresses node)))
       [lit ''Tailscale has no local address'']"

definition node_capabilities :: "ustr list" where
  "node_capabilities =
     [lit ''omarchy.node'', lit ''desktop.stream-host'', lit ''desktop.input'', lit ''desktop.audio'',
      lit ''hyprland.workspaces'', lit ''hyprland.windows'']"

definition agent_node_info :: "node_identity \<Rightarrow> mesh_node_identity \<Rightarrow> omarchy_version \<Rightarrow> node_info_response" where
  "agent_node_info identity node omarchy =
     \<lparr>ni_node_id = show_uuid (nid_node_id identity),
      ni_hostname = unwrap_or (mni_hostname node) (mni_tailnet_node_id node),
      ni_omarchy_version = show_nat (unat (ov_major omarchy)) @ lit ''.'' @ show_nat (unat (ov_minor omarchy))
        @ lit ''.'' @ show_nat (unat (ov_patch omarchy)),
      ni_agent_version = release, ni_capabilities = node_capabilities\<rparr>"

definition plan_of ::
    "environment \<Rightarrow> config \<Rightarrow> omarchy_version \<Rightarrow> node_identity \<Rightarrow> mesh_node_identity \<Rightarrow> ustr list + agent_plan" where
  "plan_of env config omarchy identity node =
     try_then (listen_address node) (\<lambda>address.
       if \<not> is_tailscale_address address \<and> \<not> nc_allow_unsafe_wildcard_bind (cf_network config)
       then Inl [lit ''refusing to bind agent outside the Tailscale address range'']
       else
         try_then (in_context (lit ''resolve Sunshine configuration'')
                     (map_err (\<lambda>e. [config_error_text e]) (sunshine_config_path env))) (\<lambda>sunshine.
         try_then (map_err (\<lambda>e. [config_error_text e]) (access_path env)) (\<lambda>access.
           Inr \<lparr>pl_node = agent_node_info identity node omarchy, pl_address = address,
                pl_port = nc_agent_port (cf_network config),
                pl_strict = nc_strict_tailnet_only (cf_network config),
                pl_sunshine_file = sunshine, pl_access_file = access\<rparr>)))"

definition agent_startup :: "'w agent_host \<Rightarrow> ('w, ustr list + agent_plan) call" where
  "agent_startup h =
     call_then (config_call h) (\<lambda>config.
     call_then (omarchy_call h) (\<lambda>omarchy.
     call_then (identity_call h) (\<lambda>identity.
     call_then (tailscale_call h) (\<lambda>node.
       returning (plan_of (ah_environment h) config omarchy identity node)))))"

section \<open>The life of the agent\<close>

text \<open>
  The adapters are those of the environment given; the node and the port are the plan's. The
  sessions left by an earlier agent are cleared before the socket is opened, and the last
  session is released after the last request.
\<close>

definition served_env :: "agent_plan \<Rightarrow> 'w agent_env \<Rightarrow> 'w agent_env" where
  "served_env plan env = env\<lparr>env_node := pl_node plan, env_agent_port := pl_port plan\<rparr>"

definition bind_call :: "'w agent_host \<Rightarrow> agent_plan \<Rightarrow> ('w, ustr list + unit) call" where
  "bind_call h plan = (\<lambda>w.
     case ah_bind h (pl_address plan) (pl_port plan) w of
       (r, w') \<Rightarrow> (in_context (lit ''bind agent to Tailscale address'') (map_err (\<lambda>e. [e]) r), w'))"

definition serve_requests ::
    "'w agent_env \<Rightarrow> agent_plan \<Rightarrow> coordinator \<Rightarrow> agent_event list \<Rightarrow> ustr + unit \<Rightarrow> ('w, ustr list + unit) call" where
  "serve_requests env plan sessions events served = (\<lambda>w.
     case foldl (\<lambda>s ev. agent_step (served_env plan env) ev s)
            ((agent_start (pl_strict plan))\<lparr>st_sessions := sessions\<rparr>, w) events of
       (st, w') \<Rightarrow>
         (in_context (lit ''serve agent'') (map_err (\<lambda>e. [e]) served),
          snd (session_release (env_effects env) (st_sessions st) w')))"

definition serve_agent ::
    "'w agent_host \<Rightarrow> 'w agent_env \<Rightarrow> agent_event list \<Rightarrow> ustr + unit \<Rightarrow> ('w, ustr list + unit) call" where
  "serve_agent h env events served =
     call_then (agent_startup h) (\<lambda>plan w.
       case session_reconcile (env_effects env) (coordinator_new default_lease) w of
         (_, sessions, w') \<Rightarrow>
           call_then (bind_call h plan) (\<lambda>_. serve_requests env plan sessions events served) w')"

definition agent_main ::
    "'w agent_host \<Rightarrow> 'w agent_env \<Rightarrow> agent_event list \<Rightarrow> ustr + unit \<Rightarrow> ustr list
       \<Rightarrow> ('w, ustr list + ustr option) call" where
  "agent_main h env events served arguments =
     call_then (returning (parse_arguments arguments)) (\<lambda>invocation.
       case invocation of
         ShowVersion \<Rightarrow> returning (Inr (Some version_line))
       | ShowHelp \<Rightarrow> returning (Inr (Some help_lines))
       | ServeAgent \<Rightarrow> call_then (serve_agent h env events served) (\<lambda>_. returning (Inr None)))"

section \<open>Waiting for Tailscale\<close>

text \<open>The world after some unsuccessful polls.\<close>

primrec after_polls :: "('w, 'a) call \<Rightarrow> ('w \<Rightarrow> 'w) \<Rightarrow> nat \<Rightarrow> 'w \<Rightarrow> 'w" where
  "after_polls query sleep 0 w = w"
| "after_polls query sleep (Suc n) w = after_polls query sleep n (sleep (snd (query w)))"

definition polled :: "('w, mesh_node_identity port_result) call \<Rightarrow> ('w \<Rightarrow> 'w) \<Rightarrow> 'w \<Rightarrow> nat \<Rightarrow> ustr + mesh_node_identity" where
  "polled query sleep w n = startup_answer (fst (query (after_polls query sleep n w)))"

lemma all_less_Suc: "(\<forall>k<Suc n. P k) \<longleftrightarrow> P 0 \<and> (\<forall>k<n. P (Suc k))"
  by (auto simp: less_Suc_eq_0_disj)

lemma wait_from_polls:
  assumes "attempt \<le> tailscale_startup_attempts"
  shows "\<exists>n. n + attempt \<le> tailscale_startup_attempts
    \<and> (\<forall>k<n. \<not> is_ok (polled query sleep w k))
    \<and> snd (wait_from query sleep attempt w) = snd (query (after_polls query sleep n w))
    \<and> (case polled query sleep w n of
         Inr node \<Rightarrow> fst (wait_from query sleep attempt w) = Inr node
       | Inl failure \<Rightarrow> n + attempt = tailscale_startup_attempts
           \<and> fst (wait_from query sleep attempt w) = Inl [lit ''Tailscale is not ready: '' @ failure])"
  (is "\<exists>n. ?P attempt w n")
  using assms
proof (induction query sleep attempt w rule: wait_from.induct)
  case (1 query sleep attempt w)
  obtain r w' where q: "query w = (r, w')" by fastforce
  show ?case
  proof (cases "startup_answer r")
    case (Inr node)
    then show ?thesis using q 1(2)
      unfolding wait_from.simps [of query sleep attempt w] by (intro exI [of _ 0]) (simp add: polled_def)
  next
    case (Inl failure)
    show ?thesis
    proof (cases "attempt \<ge> tailscale_startup_attempts")
      case True
      then show ?thesis using q Inl 1(2)
        unfolding wait_from.simps [of query sleep attempt w] by (intro exI [of _ 0]) (simp add: polled_def)
    next
      case False
      with 1(1) [OF q [symmetric] Inl False] obtain n
        where "n + (attempt + 1) \<le> tailscale_startup_attempts"
          and "\<forall>k<n. \<not> is_ok (polled query sleep (sleep w') k)"
          and "snd (wait_from query sleep (attempt + 1) (sleep w')) = snd (query (after_polls query sleep n (sleep w')))"
          and "case polled query sleep (sleep w') n of
             Inr node \<Rightarrow> fst (wait_from query sleep (attempt + 1) (sleep w')) = Inr node
           | Inl failure \<Rightarrow> n + (attempt + 1) = tailscale_startup_attempts
               \<and> fst (wait_from query sleep (attempt + 1) (sleep w')) = Inl [lit ''Tailscale is not ready: '' @ failure]"
        by auto
      then show ?thesis using q Inl False
        unfolding wait_from.simps [of query sleep attempt w]
        by (intro exI [of _ "Suc n"])
          (simp add: polled_def all_less_Suc is_ok_iff split: sum.splits)
    qed
  qed
qed

lemma wait_polls:
  obtains n where "n < tailscale_startup_attempts" "\<forall>k<n. \<not> is_ok (polled query sleep w k)"
    "snd (wait_for_tailscale query sleep w) = snd (query (after_polls query sleep n w))"
    "case polled query sleep w n of
       Inr node \<Rightarrow> fst (wait_for_tailscale query sleep w) = Inr node
     | Inl failure \<Rightarrow> Suc n = tailscale_startup_attempts
         \<and> fst (wait_for_tailscale query sleep w) = Inl [lit ''Tailscale is not ready: '' @ failure]"
proof -
  have "1 \<le> tailscale_startup_attempts" by (simp add: tailscale_startup_attempts_def)
  from wait_from_polls [OF this, of query sleep w] obtain n
    where "n + 1 \<le> tailscale_startup_attempts \<and> (\<forall>k<n. \<not> is_ok (polled query sleep w k))
      \<and> snd (wait_for_tailscale query sleep w) = snd (query (after_polls query sleep n w))
      \<and> (case polled query sleep w n of
           Inr node \<Rightarrow> fst (wait_for_tailscale query sleep w) = Inr node
         | Inl failure \<Rightarrow> n + 1 = tailscale_startup_attempts
             \<and> fst (wait_for_tailscale query sleep w) = Inl [lit ''Tailscale is not ready: '' @ failure])"
    unfolding wait_for_tailscale_def by blast
  then show thesis by (intro that [of n]) (auto split: sum.splits)
qed

text \<open>
  Startup waits for the first address. Waiting ends after at most thirty polls, with the answer of
  the first poll that reported an address of this computer, and with an error only when all
  thirty polls reported none.
\<close>

theorem startup_waits_for_first_address:
  "\<exists>n<tailscale_startup_attempts. (\<forall>k<n. \<not> is_ok (polled query sleep w k))
    \<and> snd (wait_for_tailscale query sleep w) = snd (query (after_polls query sleep n w))
    \<and> (case polled query sleep w n of
         Inr node \<Rightarrow> fst (wait_for_tailscale query sleep w) = Inr node
       | Inl failure \<Rightarrow> Suc n = tailscale_startup_attempts
           \<and> fst (wait_for_tailscale query sleep w) = Inl [lit ''Tailscale is not ready: '' @ failure])"
  by (rule wait_polls [of query sleep w]) blast

section \<open>Where the agent listens\<close>

lemma wait_answer:
  assumes "wait_for_tailscale query sleep w = (Inr node, w')"
  shows "\<exists>v v'. query v = (Inr node, v') \<and> mni_addresses node \<noteq> []"
proof -
  obtain n where "case polled query sleep w n of
        Inr m \<Rightarrow> fst (wait_for_tailscale query sleep w) = Inr m
      | Inl failure \<Rightarrow> Suc n = tailscale_startup_attempts
         \<and> fst (wait_for_tailscale query sleep w) = Inl [lit ''Tailscale is not ready: '' @ failure]"
    by (rule wait_polls [of query sleep w])
  then have "polled query sleep w n = Inr node" using assms by (auto split: sum.splits)
  then show ?thesis
    by (auto simp: polled_def startup_answer_def prod_eq_iff split: sum.splits if_splits)
qed

lemma plan_address:
  assumes "plan_of env config omarchy identity node = Inr plan"
  shows "listen_address node = Inr (pl_address plan)" "pl_port plan = nc_agent_port (cf_network config)"
    "is_tailscale_address (pl_address plan) \<or> nc_allow_unsafe_wildcard_bind (cf_network config)"
    "pl_node plan = agent_node_info identity node omarchy"
    "pl_strict plan = nc_strict_tailnet_only (cf_network config)"
  using assms
  by (auto simp: plan_of_def try_then_def split: sum.splits if_splits)

lemma startup_plan:
  assumes "agent_startup h w = (Inr plan, w')"
  obtains config omarchy identity node v v'
  where "config_load (ah_toml h) (ah_environment h) (ah_config_fault h) (ah_disk h w) = Inr config"
    and "mesh_local_node (ah_status h) (ah_run h) v = (Inr node, v')"
    and "plan_of (ah_environment h) config omarchy identity node = Inr plan"
proof -
  obtain config omarchy identity node w1 w2 where
    config: "config_call h w = (Inr config, w)" and node: "tailscale_call h w1 = (Inr node, w2)"
    and plan: "plan_of (ah_environment h) config omarchy identity node = Inr plan"
    using assms by (auto simp: agent_startup_def call_then_def returning_def config_call_def split: prod.splits sum.splits)
  have "config_load (ah_toml h) (ah_environment h) (ah_config_fault h) (ah_disk h w) = Inr config"
    using config by (auto simp: config_call_def in_context_def map_err_def split: sum.splits)
  moreover obtain v v' where "mesh_local_node (ah_status h) (ah_run h) v = (Inr node, v')"
    using node wait_answer [of "mesh_local_node (ah_status h) (ah_run h)" _ w1 node]
    by (auto simp: tailscale_call_def in_context_def map_err_def split: prod.splits sum.splits)
  ultimately show thesis using plan that by blast
qed

lemma startup_ignores_bind: "agent_startup (h\<lparr>ah_bind := bind\<rparr>) = agent_startup h"
  by (simp add: agent_startup_def config_call_def omarchy_call_def identity_call_def tailscale_call_def
      cong: sum.case_cong)

text \<open>
  C19: The agent asks for one kind of socket only: at the configured port of the first IPv4 address, or
  else the first address, that Tailscale reported as this computer's, which lies in Tailscale's
  range unless the configuration allows others. However binding anything else would behave, nothing changes.
\<close>

theorem agent_binds_its_own_tailscale_address:
  assumes "\<And>config a v node v'.
      config_load (ah_toml h) (ah_environment h) (ah_config_fault h) (ah_disk h w) = Inr config \<Longrightarrow>
      is_tailscale_address a \<or> nc_allow_unsafe_wildcard_bind (cf_network config) \<Longrightarrow>
      mesh_local_node (ah_status h) (ah_run h) v = (Inr node, v') \<Longrightarrow> listen_address node = Inr a \<Longrightarrow>
      bind a (nc_agent_port (cf_network config)) = ah_bind h a (nc_agent_port (cf_network config))"
  shows "serve_agent (h\<lparr>ah_bind := bind\<rparr>) env events served w = serve_agent h env events served w"
proof (cases "fst (agent_startup h w)")
  case (Inl e)
  then show ?thesis by (simp add: serve_agent_def call_then_apply startup_ignores_bind)
next
  case (Inr plan)
  then obtain w' where startup: "agent_startup h w = (Inr plan, w')" by (cases "agent_startup h w") auto
  then have "bind (pl_address plan) (pl_port plan) = ah_bind h (pl_address plan) (pl_port plan)"
    by (elim startup_plan) (use assms plan_address in metis)
  then have "bind_call (h\<lparr>ah_bind := bind\<rparr>) plan = bind_call h plan" by (simp add: bind_call_def)
  with startup show ?thesis
    by (simp add: serve_agent_def call_then_Ok startup_ignores_bind cong: prod.case_cong)
qed

section \<open>What the agent tells about itself\<close>

lemma show_nat_length: "n < 10 ^ Suc k \<Longrightarrow> length (show_nat n) \<le> Suc k"
proof (induction k arbitrary: n)
  case (Suc k)
  then have "n div 10 < 10 ^ Suc k" by (simp add: less_mult_imp_div_less mult.commute)
  from Suc.IH [OF this] show ?case by (subst show_nat.simps) simp
qed (simp add: show_nat_small)

lemma show_word_bytes: "utf8_len (show_nat (unat (x :: u32))) \<le> 10"
proof -
  have "unat x < 2 ^ 32" using unsigned_less [of x] by simp
  then have "unat x < 10 ^ Suc 9" by simp
  then have "length (show_nat (unat x)) \<le> 10" using show_nat_length by fastforce
  moreover have "utf8_len (show_nat (unat x)) = length (show_nat (unat x))"
    by (rule utf8_len_ascii) (use show_nat_digits in \<open>fastforce simp: is_ascii_digit_def\<close>)
  ultimately show ?thesis by simp
qed

lemma show_uuid_bytes: "utf8_len (show_uuid u) = 36"
proof -
  have "utf8_len (show_uuid u) = length (show_uuid u)"
    by (rule utf8_len_ascii)
      (use show_uuid_chars in \<open>fastforce simp: is_ascii_hexdigit_def is_ascii_digit_def\<close>)
  also have "\<dots> = 36" by (simp add: show_uuid_def lit_def)
  finally show ?thesis .
qed

text \<open>
  What the agent tells about itself is accepted: whoever asks a started agent for its node gets
  an answer within the client's limits, the node unchanged, if the tailnet's names are plain.
\<close>

definition plain_names :: "mesh_node_identity \<Rightarrow> bool" where
  "plain_names node \<longleftrightarrow>
     (case mni_hostname node of
        Some name \<Rightarrow> length name \<le> display_name_limit \<and> list_all is_ascii_graphic name
      | None \<Rightarrow> length (mni_tailnet_node_id node) \<le> display_name_limit
          \<and> list_all is_ascii_graphic (mni_tailnet_node_id node))"

lemma graphic_text:
  assumes "list_all is_ascii_graphic s" "length s \<le> display_name_limit"
  shows "utf8_len s = length s" "sanitize_for_display s display_name_limit = s"
proof -
  show "utf8_len s = length s"
    by (rule utf8_len_ascii) (use assms in \<open>auto simp: list_all_iff is_ascii_graphic_def\<close>)
  show "sanitize_for_display s display_name_limit = s"
    using assms safe_ascii_graphic
    by (intro sanitize_identity) (auto simp: list_all_iff is_ascii_graphic_def)
qed

lemma fixed_texts_are_shown:
  "sanitize_for_display release display_name_limit = release"
  "map (\<lambda>c. sanitize_for_display c display_name_limit) node_capabilities = node_capabilities"
  "utf8_len release \<le> max_version_bytes"
  "length node_capabilities \<le> max_capabilities"
  "list_all (\<lambda>c. utf8_len c \<le> max_capability_bytes) node_capabilities"
  by code_simp+

lemma digit_graphic: "is_ascii_digit c \<Longrightarrow> is_ascii_graphic c"
  by (auto simp: is_ascii_digit_def is_ascii_graphic_def)

lemma agent_node_info_accepted:
  assumes "plain_names node"
  shows "validate_node_info (agent_node_info identity node omarchy) = Inr (agent_node_info identity node omarchy)"
proof -
  let ?h = "unwrap_or (mni_hostname node) (mni_tailnet_node_id node)"
  let ?n = "\<lambda>x :: u32. show_nat (unat x)"
  let ?v = "?n (ov_major omarchy) @ lit ''.'' @ ?n (ov_minor omarchy) @ lit ''.'' @ ?n (ov_patch omarchy)"
  have h: "list_all is_ascii_graphic ?h" "length ?h \<le> display_name_limit"
    using assms by (auto simp: plain_names_def unwrap_or_def split: option.splits)
  have "list_all is_ascii_graphic (show_uuid (nid_node_id identity))"
    using show_uuid_chars [of _ "nid_node_id identity"]
    by (fastforce simp: list_all_iff is_ascii_graphic_def is_ascii_hexdigit_def is_ascii_digit_def)
  moreover have "length (show_uuid (nid_node_id identity)) \<le> display_name_limit"
    using show_uuid_bytes [of "nid_node_id identity"] length_le_utf8_len [of "show_uuid (nid_node_id identity)"]
    by (simp add: display_name_limit_def)
  ultimately have u: "sanitize_for_display (show_uuid (nid_node_id identity)) display_name_limit
      = show_uuid (nid_node_id identity)"
    by (rule graphic_text)
  have v: "utf8_len ?v \<le> 32"
    using show_word_bytes [of "ov_major omarchy"] show_word_bytes [of "ov_minor omarchy"]
      show_word_bytes [of "ov_patch omarchy"] by (simp add: lit_def)
  moreover have "list_all is_ascii_graphic ?v"
    using show_nat_digits digit_graphic by (auto simp: list_all_iff lit_def is_ascii_graphic_def)
  moreover have "length ?v \<le> display_name_limit"
    using v length_le_utf8_len [of ?v] by (simp add: display_name_limit_def)
  ultimately have "sanitize_for_display ?v display_name_limit = ?v" by (intro graphic_text)
  then show ?thesis
    using v u h graphic_text [OF h] show_uuid_bytes [of "nid_node_id identity"] fixed_texts_are_shown
    by (simp add: validate_node_info_def sanitize_node_info_def agent_node_info_def max_node_field_bytes_def
        max_version_bytes_def display_name_limit_def)
qed

theorem agent_is_accepted_by_clients:
  assumes "agent_startup h w = (Inr plan, w')"
    and "\<And>v node v'. mesh_local_node (ah_status h) (ah_run h) v = (Inr node, v') \<Longrightarrow> plain_names node"
  shows "validate_node_info (env_node (served_env plan env)) = Inr (pl_node plan)"
  using assms(1)
proof (rule startup_plan)
  fix config omarchy identity node v v'
  assume "mesh_local_node (ah_status h) (ah_run h) v = (Inr node, v')"
    and "plan_of (ah_environment h) config omarchy identity node = Inr plan"
  then show ?thesis
    using assms(2) plan_address(4) agent_node_info_accepted by (fastforce simp: served_env_def)
qed

section \<open>The life of a started agent\<close>

text \<open>
  A started agent lives by the rules of \<open>AgentFacts\<close>: after any requests its state is one that
  the histories there reach, so that its theorems hold of the program.
\<close>

lemma served_history:
  "agent_reach env s0 events (foldl (\<lambda>s ev. agent_step env ev s) s0 events)"
proof (induction events rule: rev_induct)
  case (snoc ev events)
  then show ?case using agent_reach.step by fastforce
qed (simp add: agent_reach.start)

lemma reconciled_start:
  "session_reconcile fx (coordinator_new default_lease) w = (r, sessions, w') \<Longrightarrow>
     (agent_start strict)\<lparr>st_sessions := sessions\<rparr> = agent_start strict"
  by (auto simp: session_reconcile_def Let_def coordinator_new_def agent_start_def split: prod.splits)

theorem served_agent_is_reachable:
  assumes "serve_agent h env events served w = (Inr (), w')"
  shows "\<exists>plan w0 st w1. fst (agent_startup h w) = Inr plan
    \<and> agent_reach (served_env plan env) (agent_start (pl_strict plan), w0) events (st, w1) \<and> agent_invar st
    \<and> w' = snd (session_release (env_effects env) (st_sessions st) w1)"
proof -
  obtain plan v where startup: "agent_startup h w = (Inr plan, v)"
    using assms by (cases "agent_startup h w", cases "fst (agent_startup h w)") (auto simp: serve_agent_def call_then_def)
  obtain r sessions v1 where clear: "session_reconcile (env_effects env) (coordinator_new default_lease) v = (r, sessions, v1)"
    by (metis surj_pair)
  have "call_then (bind_call h plan) (\<lambda>_. serve_requests env plan sessions events served) v1 = (Inr (), w')"
    using assms startup clear by (simp add: serve_agent_def call_then_Ok)
  then obtain w0 where served: "serve_requests env plan sessions events served w0 = (Inr (), w')"
    by (auto simp: call_then_def split: prod.splits sum.splits)
  let ?s = "foldl (\<lambda>s ev. agent_step (served_env plan env) ev s) (agent_start (pl_strict plan), w0) events"
  have "w' = snd (session_release (env_effects env) (st_sessions (fst ?s)) (snd ?s))"
    using served reconciled_start [OF clear] by (simp add: serve_requests_def case_prod_beta)
  moreover have reach: "agent_reach (served_env plan env) (agent_start (pl_strict plan), w0) events (fst ?s, snd ?s)"
    using served_history by simp
  moreover have "agent_invar (fst ?s)"
    using agent_reach_state_invar [OF reach] agent_start_invar by simp
  ultimately show ?thesis using startup by (metis fst_conv)
qed

section \<open>An example\<close>

definition example_status :: tailscale_status where
  "example_status =
     \<lparr>ts_self_node = \<lparr>rp_id = lit ''n1'', rp_dns_name = None, rp_host_name = Some (lit ''desk''),
        rp_tailscale_ips = [lit ''fd7a::1'', lit ''100.64.0.2''], rp_online = True, rp_cur_addr = None, rp_relay = None\<rparr>,
      ts_peers = []\<rparr>"

definition example_startup :: "nat agent_host" where
  "example_startup =
     \<lparr>ah_environment = [lit ''HOME'' \<mapsto> lit ''/home/user''], ah_toml = (\<lambda>_. Inr config_default),
      ah_status = (\<lambda>_. Inr example_status), ah_encode = (\<lambda>_. []), ah_decode = (\<lambda>_. Inl []),
      ah_config_fault = None, ah_identity_fault = None, ah_faults = no_faults, ah_fresh = lit ''0a'',
      ah_new_node = 7, ah_disk = (\<lambda>_. \<lparr>ds_files = Map.empty, ds_dirs = Map.empty\<rparr>), ah_put_disk = (\<lambda>_ w. w),
      ah_run = (\<lambda>_ w. (Inr \<lparr>co_status = 0, co_stdout = as_bytes (lit ''omarchy 4.0.1-1''), co_stderr = []\<rparr>, w)),
      ah_sleep = (\<lambda>_ w. w), ah_bind = (\<lambda>_ _ w. (Inr (), w + 1))\<rparr>"

lemma example_calls:
  "config_call example_startup 0 = (Inr config_default, 0)"
  "omarchy_call example_startup 0 =
     (Inr \<lparr>ov_major = 4, ov_minor = 0, ov_patch = 1, ov_package_release = Some (lit ''1'')\<rparr>, 0)"
  "identity_call example_startup 0 = (Inr \<lparr>nid_node_id = 7\<rparr>, 0)"
  "tailscale_call example_startup 0 = (Inr (local_identity example_status), 0)"
  by code_simp+

lemma example_choices:
  "listen_address (local_identity example_status) = Inr (V4 100 64 0 2)"
  "is_tailscale_address (V4 100 64 0 2)"
  "is_ok (sunshine_config_path (ah_environment example_startup))"
  "is_ok (access_path (ah_environment example_startup))"
  by code_simp+

lemma example_plan:
  "\<exists>plan. agent_startup example_startup 0 = (Inr plan, 0) \<and> pl_address plan = V4 100 64 0 2
     \<and> pl_port plan = 48155 \<and> pl_strict plan"
  using example_choices(3,4)
  by (auto simp: agent_startup_def call_then_Ok example_calls returning_def plan_of_def try_then_def
      example_choices(1,2) is_ok_iff in_context_def map_err_def config_default_def network_config_default_def
      default_agent_port_def)

lemma example_served:
  "serve_agent example_startup example_env events (Inr ()) 0 =
     (Inr (), snd (serve_agent example_startup example_env events (Inr ()) 0))"
  "snd (serve_agent example_startup example_env [] (Inr ()) 0) = 1"
proof -
  obtain plan where plan: "agent_startup example_startup 0 = (Inr plan, 0)" using example_plan by blast
  have "session_reconcile (env_effects example_env) (coordinator_new default_lease) 0
      = (Inr (), coordinator_new default_lease, 0)" by code_simp
  moreover have "bind_call example_startup p 0 = (Inr (), 1)" for p
    by (simp add: bind_call_def example_startup_def in_context_def map_err_def)
  ultimately have run: "serve_agent example_startup example_env events (Inr ()) 0
      = serve_requests example_env plan (coordinator_new default_lease) events (Inr ()) 1" for events
    by (simp add: serve_agent_def call_then_Ok plan)
  then show "serve_agent example_startup example_env events (Inr ()) 0 =
     (Inr (), snd (serve_agent example_startup example_env events (Inr ()) 0))"
    by (simp add: serve_requests_def in_context_def map_err_def case_prod_beta)
  show "snd (serve_agent example_startup example_env [] (Inr ()) 0) = 1"
    by (simp add: run serve_requests_def session_release_def coordinator_new_def)
qed

theorem agent_binds_its_own_tailscale_address_witness:
  "serve_agent (example_startup\<lparr>ah_bind := (\<lambda>a p w.
       if a = V4 100 64 0 2 \<and> p = 48155 then (Inr (), w + 1) else (Inl (lit ''refused''), w))\<rparr>)
     example_env [] (Inr ()) 0 = (Inr (), 1)"
proof -
  let ?bind = "\<lambda>a p w. if a = V4 100 64 0 2 \<and> p = 48155 then (Inr (), w + 1) else (Inl (lit ''refused''), w) :: (ustr + unit) \<times> nat"
  have "serve_agent (example_startup\<lparr>ah_bind := ?bind\<rparr>) example_env [] (Inr ()) 0
      = serve_agent example_startup example_env [] (Inr ()) 0"
  proof (rule agent_binds_its_own_tailscale_address)
    fix config a and v v' :: nat and node
    assume config: "config_load (ah_toml example_startup) (ah_environment example_startup)
        (ah_config_fault example_startup) (ah_disk example_startup 0) = Inr config"
      and node: "mesh_local_node (ah_status example_startup) (ah_run example_startup) v = (Inr node, v')"
      and a: "listen_address node = Inr a"
    have "config = config_default"
      using example_calls(1) config by (simp add: config_call_def in_context_def map_err_def)
    moreover have "parse_status (\<lambda>_. Inr example_status) (as_bytes (lit ''omarchy 4.0.1-1'')) = Inr example_status"
      by code_simp
    then have "node = local_identity example_status" using node
      by (simp add: mesh_local_node_def tailscale_status_call_def example_startup_def call_then_def returning_def)
    ultimately show "?bind a (nc_agent_port (cf_network config))
        = ah_bind example_startup a (nc_agent_port (cf_network config))"
      using a example_choices(1) by (simp add: example_startup_def config_default_def network_config_default_def default_agent_port_def fun_eq_iff)
  qed
  then show ?thesis using example_served(1) [of "[]"] example_served(2) by (metis (no_types, lifting))
qed

theorem served_agent_is_reachable_witness:
  "\<exists>plan w0 st w1. agent_reach (served_env plan example_env) (agent_start (pl_strict plan), w0) [attach_event] (st, w1)
     \<and> agent_invar st"
  using served_agent_is_reachable [OF example_served(1) [of "[attach_event]"]] by blast

theorem agent_is_accepted_by_clients_witness:
  "\<exists>plan. agent_startup example_startup 0 = (Inr plan, 0)
     \<and> validate_node_info (env_node (served_env plan example_env)) = Inr (pl_node plan)"
proof -
  obtain plan where plan: "agent_startup example_startup 0 = (Inr plan, 0)" using example_plan by blast
  have "plain_names (local_identity example_status)" by code_simp
  moreover have "parse_status (\<lambda>_. Inr example_status) (as_bytes (lit ''omarchy 4.0.1-1'')) = Inr example_status"
    by code_simp
  ultimately have plain: "\<And>v node v'. mesh_local_node (ah_status example_startup) (ah_run example_startup) v = (Inr node, v') \<Longrightarrow>
      plain_names node"
    by (auto simp: mesh_local_node_def tailscale_status_call_def example_startup_def call_then_def returning_def)
  from agent_is_accepted_by_clients [OF plan] plain plan show ?thesis by blast
qed

end
