(* ===== verification/CliPorts.thy ===== *)
theory CliPorts
  imports TuiSystem SessionRecord Launcher Omarchy Target AccessStore
begin

text \<open>
  What the commands of \<open>crates/omdesky-cli/src/main.rs\<close> share: the adapters they are made of, what
  they print, how texts of the command line are read, and how a target becomes a device of the
  tailnet or the endpoint of its agent. An error is the chain of its contexts, outermost first.
\<close>

section \<open>The world of a command\<close>

text \<open>What a command prints: a line, a prompt, or a JSON object with the schema's number in it.\<close>

datatype cli_value =
    DevicesValue "discovered_node list"
  | InfoValue node_info_response "display list"
  | DisplaysValue "display list"
  | WorkspacesValue "workspace list"
  | WindowsValue "window list"
  | ExitValue int
  | SessionValue session_record
  | ChecksValue "(ustr \<times> ustr \<times> ustr) list"

datatype cli_output = OutLine ustr | OutPrompt ustr | OutJson nat cli_value | OutNull

definition cli_schema :: nat where
  "cli_schema = 1"

text \<open>
  The adapters, with the disk as a part of the world for the session record, and what the process
  of the command is given: environment, terminal, clock and random identifiers.
\<close>

record 'w cli_ports =
  cl_environment :: environment
  cl_terminal :: bool
  cl_now :: offset_date_time
  cl_fresh_request :: uuid
  cl_fresh_session :: session_id
  cl_show_rate :: "rat \<Rightarrow> ustr"
  cl_parse_uuid :: "ustr \<Rightarrow> ustr + uuid"
  cl_config :: "('w, config_error + config) call"
  cl_local_node :: "('w, mesh_node_identity port_result) call"
  cl_peers :: "('w, mesh_peer list port_result) call"
  cl_discover :: "u16 \<Rightarrow> bool \<Rightarrow> ('w, discovered_node list port_result) call"
  cl_health :: "agent_endpoint \<Rightarrow> ('w, health_response port_result) call"
  cl_node_info :: "agent_endpoint \<Rightarrow> ('w, node_info_response port_result) call"
  cl_displays :: "agent_endpoint \<Rightarrow> ('w, display list port_result) call"
  cl_workspaces :: "agent_endpoint \<Rightarrow> ('w, workspace list port_result) call"
  cl_windows :: "agent_endpoint \<Rightarrow> ('w, window list port_result) call"
  cl_send_command :: "agent_endpoint \<Rightarrow> command_request \<Rightarrow> ('w, command_response port_result) call"
  cl_access_list :: "('w, allowed_controller list port_result) call"
  cl_access_allow :: "allowed_controller \<Rightarrow> ('w, unit port_result) call"
  cl_access_revoke :: "ustr \<Rightarrow> ('w, unit port_result) call"
  cl_configured :: "('w, bool port_result) call"
  cl_credentials_load :: "('w, (credential_error + sunshine_credentials option) option) call"
  cl_credentials_store :: "ustr \<Rightarrow> ustr \<Rightarrow> ('w, (credential_error + unit) option) call"
  cl_submit_pin :: "ustr \<Rightarrow> ustr \<Rightarrow> ('w, unit port_result) call"
  cl_stream :: "'w stream_ports"
  cl_launcher_create :: "path \<Rightarrow> launcher_spec \<Rightarrow> ('w, path port_result) call"
  cl_launcher_list :: "path \<Rightarrow> ('w, path list port_result) call"
  cl_launcher_remove :: "path \<Rightarrow> node_id \<Rightarrow> ('w, unit port_result) call"
  cl_disk :: "'w \<Rightarrow> disk"
  cl_put_disk :: "disk \<Rightarrow> 'w \<Rightarrow> 'w"
  cl_record_print :: record_printer
  cl_record_parse :: record_parser
  cl_make_dir_fault :: "(io_error \<times> nat) option"
  cl_read_fault :: "io_error option"
  cl_remove_fault :: "(io_error \<times> nat) option"
  cl_write_faults :: faults
  cl_fresh_file :: ustr
  cl_processes :: "'w \<Rightarrow> proc_files"
  cl_kill :: "u32 \<Rightarrow> 'w \<Rightarrow> 'w"
  cl_read_line :: "('w, ustr + ustr) call"
  cl_read_secret :: "ustr \<Rightarrow> ('w, ustr + ustr) call"
  cl_print :: "cli_output \<Rightarrow> 'w \<Rightarrow> 'w"

type_synonym 'a cli_result = "ustr list + 'a"

text \<open>The conversions of \<open>?\<close> into an error of the command.\<close>

definition cli_context :: "ustr \<Rightarrow> 'a cli_result \<Rightarrow> 'a cli_result" where
  "cli_context t r = map_err (\<lambda>causes. t # causes) r"

definition from_port :: "('w, 'a port_result) call \<Rightarrow> ('w, 'a cli_result) call" where
  "from_port c = (\<lambda>w. case c w of (r, w') \<Rightarrow> (map_err (\<lambda>e. [user_message e]) r, w'))"

definition load_config :: "'w cli_ports \<Rightarrow> ('w, config cli_result) call" where
  "load_config p = (\<lambda>w. case cl_config p w of (r, w') \<Rightarrow> (map_err (\<lambda>e. [config_error_text e]) r, w'))"

fun domain_error_text :: "domain_error \<Rightarrow> ustr" where
  "domain_error_text InvalidKeyChord = lit ''key chord key must be a short ASCII-alphanumeric token''"
| "domain_error_text InvalidWindowSelector = lit ''window selector is not a safe class token''"
| "domain_error_text InvalidSessionEndpoint =
     lit ''session endpoint requires a controller address and non-zero port''"
| "domain_error_text InvalidDisplayId = lit ''display identifier is not a safe monitor token''"
| "domain_error_text InvalidStreamProfile =
     lit ''stream profile is outside the supported resolution, frame rate or bitrate range''"
| "domain_error_text UnknownCapability = lit ''unknown control capability''"

definition from_domain :: "ustr \<Rightarrow> domain_error + 'a \<Rightarrow> 'a cli_result" where
  "from_domain t r = cli_context t (map_err (\<lambda>e. [domain_error_text e]) r)"

text \<open>Printing and going on.\<close>

definition printing :: "'w cli_ports \<Rightarrow> cli_output list \<Rightarrow> ('w, 'a) call \<Rightarrow> ('w, 'a) call" where
  "printing p outs k = (\<lambda>w. k (foldl (\<lambda>v out. cl_print p out v) w outs))"

definition print_json :: "'w cli_ports \<Rightarrow> cli_value \<Rightarrow> ('w, unit cli_result) call" where
  "print_json p v = printing p [OutJson cli_schema v] (returning (Inr ()))"

lemma call_then_returning:
  "call_then (returning (Inr x)) k w = k x w"
  "call_then (returning (Inl e)) k w = (Inl e, w)"
  by (simp_all add: call_then_def)

text \<open>\<open>Path::display\<close> of an absolute path.\<close>

definition show_path :: "path \<Rightarrow> ustr" where
  "show_path p = [slash] @ join [slash] p"

section \<open>Texts of the command line\<close>

text \<open>\<open>i64::from_str\<close>.\<close>

definition parse_int :: "nat \<Rightarrow> ustr \<Rightarrow> int option" where
  "parse_int w s =
     (case s of
        [] \<Rightarrow> None
      | c # ds \<Rightarrow>
          if c = 45 then
            (if ds = [] \<or> \<not> list_all is_ascii_digit ds \<or> digits_value ds > 2 ^ (w - 1) then None
             else Some (- int (digits_value ds)))
          else
            (case parse_uint w s of
               None \<Rightarrow> None
             | Some n \<Rightarrow> if n < 2 ^ (w - 1) then Some (int n) else None))"

definition parse_workspace_target :: "ustr \<Rightarrow> workspace_target" where
  "parse_workspace_target value =
     (case parse_int 64 value of Some i \<Rightarrow> TargetId (WorkspaceId i) | None \<Rightarrow> TargetName value)"

definition cli_window_selector :: "ustr option \<Rightarrow> ustr option \<Rightarrow> window_selector" where
  "cli_window_selector class address =
     (case (class, address) of
        (_, Some a) \<Rightarrow> WindowAddress a
      | (Some c, None) \<Rightarrow> WindowClass c
      | (None, None) \<Rightarrow> ActiveWindow)"

fun collect_results :: "('e + 'a) list \<Rightarrow> 'e + 'a list" where
  "collect_results [] = Inr []"
| "collect_results (r # rs) = try_then r (\<lambda>x. map_ok (\<lambda>xs. x # xs) (collect_results rs))"

definition parse_capability :: "ustr \<Rightarrow> control_capability cli_result" where
  "parse_capability token =
     map_err (\<lambda>_. [lit ''unknown capability '' @ [39] @ token @ [39] @ lit ''; expected one of ''
         @ join (lit '', '') (map capability_as_str capability_all)])
       (capability_from_str token)"

definition parse_capabilities :: "ustr list \<Rightarrow> control_capability list cli_result" where
  "parse_capabilities values_given =
     (if values_given = [] then Inr capability_all
      else collect_results (map parse_capability
        (filter (\<lambda>token. token \<noteq> []) (map trim (concat (map (split_on (\<lambda>c. c = 44)) values_given))))))"

definition parse_modifier :: "ustr \<Rightarrow> key_modifier cli_result" where
  "parse_modifier token =
     (let name = map to_ascii_lower token
      in if name \<in> {lit ''super'', lit ''win'', lit ''meta'', lit ''mod''} then Inr Super
         else if name \<in> {lit ''ctrl'', lit ''control''} then Inr Ctrl
         else if name = lit ''alt'' then Inr Alt
         else if name = lit ''shift'' then Inr Shift
         else Inl [lit ''unknown modifier: '' @ name])"

definition parse_modifiers :: "ustr \<Rightarrow> key_modifier list cli_result" where
  "parse_modifiers input_text =
     collect_results (map parse_modifier
       (filter (\<lambda>token. token \<noteq> []) (map trim (split_on (\<lambda>c. c \<in> {43, 32, 44}) input_text))))"

section \<open>Devices and endpoints\<close>

definition first_address :: "ip_addr list \<Rightarrow> ip_addr option" where
  "first_address ips = or_else (find is_ipv4 ips) (list_first ips)"

definition controller_agent_endpoint :: "'w cli_ports \<Rightarrow> u16 \<Rightarrow> ('w, agent_endpoint cli_result) call" where
  "controller_agent_endpoint p port =
     call_then (from_port (cl_local_node p)) (\<lambda>node.
       returning (map_ok (\<lambda>address. \<lparr>ep_address = address, ep_port = port\<rparr>)
         (ok_or (first_address (mni_addresses node))
           [lit ''Tailscale has no local address for the session keybindings''])))"

fun lookup_failure :: "ustr \<Rightarrow> peer_lookup_error \<Rightarrow> ustr list" where
  "lookup_failure name PeerNotFound =
     [lit ''no Tailscale device is named '' @ [39] @ name
        @ [39] @ lit ''; use a name or address shown by `omdesky devices --all-tailnet`'']"
| "lookup_failure name (PeerAmbiguous candidates) =
     [[39] @ name @ [39] @ lit '' matches several Tailscale devices ('' @ join (lit '', '') candidates
        @ lit ''); use one of those names or an address'']"

definition resolve_peer :: "'w cli_ports \<Rightarrow> ustr \<Rightarrow> ('w, mesh_peer cli_result) call" where
  "resolve_peer p target =
     call_then (load_config p) (\<lambda>config.
       let name = unwrap_or (Option.bind (map_of (cf_devices config) target) dvc_alias) target
       in call_then (from_port (cl_peers p)) (\<lambda>peers.
            returning (map_err (lookup_failure name) (find_peer peers name))))"

definition resolve_endpoint :: "'w cli_ports \<Rightarrow> ustr \<Rightarrow> ('w, agent_endpoint cli_result) call" where
  "resolve_endpoint p target =
     call_then (load_config p) (\<lambda>config.
       call_then (resolve_peer p target) (\<lambda>peer.
         if \<not> mp_online peer then returning (Inl [peer_display_name peer @ lit '' is offline in Tailscale''])
         else returning (map_ok (\<lambda>address. \<lparr>ep_address = address, ep_port = nc_agent_port (cf_network config)\<rparr>)
           (ok_or (first_address (mp_ips peer)) [peer_display_name peer @ lit '' has no Tailscale address'']))))"

definition resolve_tailnet_identity :: "'w cli_ports \<Rightarrow> ustr \<Rightarrow> ('w, ustr cli_result) call" where
  "resolve_tailnet_identity p target =
     call_then (resolve_peer p target) (\<lambda>peer. returning (Inr (mp_tailnet_node_id peer)))"

definition client_name :: "'w cli_ports \<Rightarrow> ustr" where
  "client_name p = unwrap_or (cl_environment p (lit ''HOSTNAME'')) (lit ''omdesky'')"

section \<open>The session record\<close>

definition on_disk :: "'w cli_ports \<Rightarrow> (disk \<Rightarrow> 'a \<times> disk) \<Rightarrow> ('w, 'a) call" where
  "on_disk p f = (\<lambda>w. case f (cl_disk p w) of (r, d) \<Rightarrow> (r, cl_put_disk p d w))"

definition write_record :: "'w cli_ports \<Rightarrow> path \<Rightarrow> session_record \<Rightarrow> 'w \<Rightarrow> 'w" where
  "write_record p file_path r w =
     snd (on_disk p (session_record_write (cl_record_print p) (cl_write_faults p) (cl_fresh_file p) r file_path) w)"

definition remove_record :: "'w cli_ports \<Rightarrow> path \<Rightarrow> session_id \<Rightarrow> 'w \<Rightarrow> 'w" where
  "remove_record p file_path session w =
     snd (on_disk p (\<lambda>d. ((), session_record_remove_if_owned (cl_record_parse p) (cl_read_fault p)
       (cl_remove_fault p) file_path session d)) w)"

definition read_record :: "'w cli_ports \<Rightarrow> path \<Rightarrow> 'w \<Rightarrow> state_error + session_record" where
  "read_record p file_path w = session_record_read (cl_record_parse p) (cl_read_fault p) file_path (cl_disk p w)"

definition read_session :: "'w cli_ports \<Rightarrow> 'w \<Rightarrow> session_record option" where
  "read_session p w =
     Option.bind (result_ok (runtime_session_path (cl_environment p))) (\<lambda>file_path. result_ok (read_record p file_path w))"

section \<open>An example\<close>

text \<open>A world with a disk, what was printed, signalled and sent; one other computer, and one process.\<close>

record cli_world =
  cw_disk :: disk
  cw_printed :: "cli_output list"
  cw_killed :: "u32 list"
  cw_sent :: "command_request list"

definition example_record :: session_record where
  "example_record = \<lparr>sr_session_id = 8, sr_remote_node = lit ''desk'', sr_input_mode = RemoteInput, sr_started_at = 0,
     sr_moonlight = Some \<lparr>spr_pid = 7, spr_start_ticks = 5\<rparr>\<rparr>"

definition example_proc :: proc_files where
  "example_proc name =
     (if name = lit ''/proc/7/stat'' then Some (stat_line 7 (lit ''moonlight'') (replicate 19 (lit ''0'') @ [lit ''5'']))
      else None)"

definition example_stream :: "cli_world stream_ports" where
  "example_stream =
     \<lparr>sp_identify = (\<lambda>_ w. (Inr None, w)), sp_access_list = (\<lambda>w. (Inr [], w)),
      sp_status = (\<lambda>_ w. (Inl sunshine_not_running, w)), sp_challenge = (\<lambda>_ w. (Inl sunshine_not_running, w)),
      sp_pair = (\<lambda>_ _ w. (Inl sunshine_not_running, w)), sp_focus_workspace = (\<lambda>_ _ w. (Inl sunshine_not_running, w)),
      sp_focus_window = (\<lambda>_ _ w. (Inl sunshine_not_running, w)), sp_health = (\<lambda>_ w. (Inl sunshine_not_running, w)),
      sp_send_command = (\<lambda>_ _ w. (Inl sunshine_not_running, w)), sp_pairing_state = (\<lambda>_ w. (Inl sunshine_not_running, w)),
      sp_begin_pairing = (\<lambda>_ w. (Inl sunshine_not_running, w)), sp_complete_pairing = (\<lambda>_ w. (Inl sunshine_not_running, w)),
      sp_launch = (\<lambda>_ w. (Inl sunshine_not_running, w)), sp_terminate = (\<lambda>_ w. (Inr (), w)),
      sp_install = (\<lambda>_ w. (Inr (), w)), sp_clear = (\<lambda>w. (Inr (), w)), sp_notify = (\<lambda>_ w. (Inr (), w)),
      sp_windows = None, sp_client_name = []\<rparr>"

definition example_cli :: "cli_world cli_ports" where
  "example_cli =
     \<lparr>cl_environment = [lit ''HOME'' \<mapsto> lit ''/home/user'', lit ''XDG_RUNTIME_DIR'' \<mapsto> lit ''/run/user/7''],
      cl_terminal = False, cl_now = 0, cl_fresh_request = 1, cl_fresh_session = 8, cl_show_rate = (\<lambda>_. lit ''60''),
      cl_parse_uuid = (\<lambda>_. Inl []), cl_config = (\<lambda>w. (Inr config_default, w)),
      cl_local_node = (\<lambda>w. (Inr \<lparr>mni_tailnet_node_id = lit ''n1'', mni_user = None, mni_hostname = None,
         mni_addresses = [V4 100 64 0 2]\<rparr>, w)),
      cl_peers = (\<lambda>w. (Inr [example_peer], w)), cl_discover = (\<lambda>_ _ w. (Inr [], w)),
      cl_health = (\<lambda>_ w. (Inr \<lparr>hr_status = lit ''ok'', hr_protocol = protocol_version, hr_agent_version = release\<rparr>, w)),
      cl_node_info = (\<lambda>_ w. (Inl sunshine_not_running, w)), cl_displays = (\<lambda>_ w. (Inr [], w)),
      cl_workspaces = (\<lambda>_ w. (Inr [], w)), cl_windows = (\<lambda>_ w. (Inr [], w)),
      cl_send_command = (\<lambda>_ c w. (Inr response_executed, w\<lparr>cw_sent := cw_sent w @ [c]\<rparr>)),
      cl_access_list = (\<lambda>w. (Inr [], w)), cl_access_allow = (\<lambda>_ w. (Inr (), w)),
      cl_access_revoke = (\<lambda>i w. case access_revoke example_file steady i (cw_disk w) of
         (r, d) \<Rightarrow> (r, w\<lparr>cw_disk := d\<rparr>)),
      cl_configured = (\<lambda>w. (Inr True, w)), cl_credentials_load = (\<lambda>w. (Some (Inr None), w)),
      cl_credentials_store = (\<lambda>_ _ w. (Some (Inr ()), w)), cl_submit_pin = (\<lambda>_ _ w. (Inr (), w)),
      cl_stream = example_stream, cl_launcher_create = (\<lambda>_ _ w. (Inr [], w)), cl_launcher_list = (\<lambda>_ w. (Inr [], w)),
      cl_launcher_remove = (\<lambda>_ _ w. (Inr (), w)), cl_disk = cw_disk, cl_put_disk = (\<lambda>d w. w\<lparr>cw_disk := d\<rparr>),
      cl_record_print = (\<lambda>_. []), cl_record_parse = (\<lambda>_. Inr example_record), cl_make_dir_fault = None,
      cl_read_fault = None, cl_remove_fault = None, cl_write_faults = no_faults, cl_fresh_file = lit ''0a'',
      cl_processes = (\<lambda>_. example_proc), cl_kill = (\<lambda>pid w. w\<lparr>cw_killed := cw_killed w @ [pid]\<rparr>),
      cl_read_line = (\<lambda>w. (Inr [], w)), cl_read_secret = (\<lambda>_ w. (Inr [], w)),
      cl_print = (\<lambda>out w. w\<lparr>cw_printed := cw_printed w @ [out]\<rparr>)\<rparr>"

definition empty_world :: cli_world where
  "empty_world = \<lparr>cw_disk = \<lparr>ds_files = Map.empty, ds_dirs = Map.empty\<rparr>, cw_printed = [], cw_killed = [], cw_sent = []\<rparr>"

definition session_file :: path where
  "session_file = [lit ''run'', lit ''user'', lit ''7'', lit ''omdesky'', lit ''current-session.json'']"

definition world_of :: "disk \<Rightarrow> cli_world" where
  "world_of d = empty_world\<lparr>cw_disk := d\<rparr>"

lemma example_lens:
  "cl_disk example_cli (cl_put_disk example_cli d v) = d"
  "cl_disk example_cli (cl_print example_cli out v) = cl_disk example_cli v"
  by (simp_all add: example_cli_def)

lemma example_calls_of_cli:
  "cl_config example_cli = (\<lambda>w. (Inr config_default, w))"
  "cl_local_node example_cli = (\<lambda>w. (Inr \<lparr>mni_tailnet_node_id = lit ''n1'', mni_user = None, mni_hostname = None,
     mni_addresses = [V4 100 64 0 2]\<rparr>, w))"
  "cl_health example_cli = (\<lambda>_ w. (Inr \<lparr>hr_status = lit ''ok'', hr_protocol = protocol_version, hr_agent_version = release\<rparr>, w))"
  "cl_configured example_cli = (\<lambda>w. (Inr True, w))"
  "cl_credentials_load example_cli = (\<lambda>w. (Some (Inr None), w))"
  "cl_access_list example_cli = (\<lambda>w. (Inr [], w))"
  "cl_discover example_cli = (\<lambda>_ _ w. (Inr [], w))"
  by (simp_all add: example_cli_def)

end
