(* ===== verification/Doctor.thy ===== *)
theory Doctor
  imports CliPorts
begin

text \<open>
  \<open>crates/omdesky-cli/src/doctor.rs\<close>: the checks of \<open>omdesky doctor\<close>. What is particular to them,
  the installed release, the local desktop, Sunshine and the paths of the two programs, is asked
  through \<open>doctor_ports\<close>; a path is the list of its components.
\<close>

datatype check_status = CheckPass | CheckWarn | CheckFail

fun check_status_text :: "check_status \<Rightarrow> ustr" where
  "check_status_text CheckPass = lit ''PASS''"
| "check_status_text CheckWarn = lit ''WARN''"
| "check_status_text CheckFail = lit ''FAIL''"

record check =
  ck_status :: check_status
  ck_message :: ustr

definition check_pass :: "ustr \<Rightarrow> check" where
  "check_pass message = \<lparr>ck_status = CheckPass, ck_message = message\<rparr>"

definition check_warn :: "ustr \<Rightarrow> check" where
  "check_warn message = \<lparr>ck_status = CheckWarn, ck_message = message\<rparr>"

definition check_fail :: "ustr \<Rightarrow> check" where
  "check_fail message = \<lparr>ck_status = CheckFail, ck_message = message\<rparr>"

definition check_from_result :: "'a port_result \<Rightarrow> check" where
  "check_from_result r = (case r of Inr _ \<Rightarrow> check_pass (lit ''available'') | Inl e \<Rightarrow> check_fail (user_message e))"

section \<open>The checks\<close>

definition sunshine_pairing_check :: "credential_error + sunshine_credentials option \<Rightarrow> check" where
  "sunshine_pairing_check credentials =
     (case credentials of
        Inr (Some _) \<Rightarrow> check_pass (lit ''Sunshine admin credentials configured on this host'')
      | Inr None \<Rightarrow> check_warn
          (lit ''Sunshine admin credentials missing; run `omdesky setup` on this host to enable pairing'')
      | Inl _ \<Rightarrow> check_fail (lit ''The desktop Secret Service is unavailable or locked''))"

definition agent_check :: "health_response option \<Rightarrow> u16 \<Rightarrow> check" where
  "agent_check health port =
     (case health of
        None \<Rightarrow> check_fail (lit ''omdesky-agent is not reachable on port '' @ show_nat (unat port)
          @ lit ''; run `systemctl --user start '' @ agent_unit @ lit ''`'')
      | Some h \<Rightarrow>
          if \<not> is_ok (ensure_compatible_agent h) then
            check_fail (lit ''omdesky-agent ('' @ hr_agent_version h @ lit '', protocol '' @ show_nat (unat (hr_protocol h))
              @ lit '') does not match this command ('' @ release @ lit '', protocol '' @ show_nat (unat protocol_version)
              @ lit ''); restart it with `systemctl --user restart '' @ agent_unit @ lit ''`'')
          else check_pass (lit ''omdesky-agent '' @ hr_agent_version h @ lit '' is running''))"

definition path_parent :: "path \<Rightarrow> path option" where
  "path_parent p = (if p = [] then None else Some (butlast p))"

definition canonical :: "(path \<Rightarrow> path option) \<Rightarrow> path \<Rightarrow> path" where
  "canonical canonicalize p = unwrap_or (canonicalize p) p"

definition agent_service_check :: "(path \<Rightarrow> path option) \<Rightarrow> path option \<Rightarrow> path option \<Rightarrow> check" where
  "agent_service_check canonicalize service current_exe =
     (case service of
        None \<Rightarrow> check_warn (agent_unit @ lit '' is not installed; the agent must run as a user service'')
      | Some s \<Rightarrow>
          let directory = Option.bind current_exe path_parent;
              expected = map_option (\<lambda>d. d @ [lit ''omdesky-agent'']) directory;
              same_install = option_any (\<lambda>e. canonical canonicalize e = canonical canonicalize s) expected
          in if same_install then check_pass (agent_unit @ lit '' runs '' @ show_path s)
             else check_warn (agent_unit @ lit '' runs '' @ show_path s @ lit '' but this command lives in ''
               @ (case directory of None \<Rightarrow> lit ''an unknown directory'' | Some d \<Rightarrow> show_path d)
               @ lit ''; both should come from the same installation''))"

definition access_check :: "allowed_controller list option \<Rightarrow> check" where
  "access_check allowlist =
     (case allowlist of
        None \<Rightarrow> check_fail (lit ''the allowed devices list could not be read'')
      | Some entries \<Rightarrow>
          if entries = [] then
            check_warn (lit ''no computer is allowed yet; run `omdesky access allow <device>` on both computers'')
          else
            let inert = map (\<lambda>e. unwrap_or (ac_label e) (ac_tailnet_node_id e))
                  (filter (\<lambda>e. ac_capabilities e = []) entries)
            in if inert \<noteq> [] then
                 check_warn (join (lit '', '') inert
                   @ lit '' grant nothing, probably written by an earlier release; run `omdesky access allow` again for them'')
               else check_pass (show_nat (length entries) @ lit '' computer(s) allowed''))"

definition node_problems :: "discovered_node \<Rightarrow> ustr list" where
  "node_problems node = map (blocker_message (dn_name node)) (dn_blockers node)"

definition devices_check :: "discovered_node list port_result \<Rightarrow> check" where
  "devices_check devices =
     (case devices of
        Inl e \<Rightarrow> check_fail (user_message e)
      | Inr nodes \<Rightarrow>
          let local_problems = concat (map node_problems (filter dn_is_local nodes));
              remote = filter (\<lambda>n. \<not> dn_is_local n) nodes;
              ready = length (filter (\<lambda>n. dn_status n = Ready) remote);
              problems = local_problems @ concat (map node_problems remote)
          in if problems \<noteq> [] then check_warn (join (lit '' '') problems)
             else if remote = [] then check_warn (lit ''no other Omdesky device is online'')
             else check_pass (show_nat ready @ lit '' of '' @ show_nat (length remote) @ lit '' device(s) ready''))"

section \<open>The report\<close>

definition check_line :: "ustr \<times> check \<Rightarrow> ustr" where
  "check_line c = fst c @ lit '': '' @ check_status_text (ck_status (snd c)) @ lit '' '' @ ck_message (snd c)"

definition report :: "'w cli_ports \<Rightarrow> (ustr \<times> check) list \<Rightarrow> bool \<Rightarrow> ('w, unit cli_result) call" where
  "report p checks json =
     (let failures = length (filter (\<lambda>(_, c). ck_status c = CheckFail) checks);
          result = (if failures > 0 then Inl [show_nat failures @ lit '' check(s) failed''] else Inr ())
      in if json
         then call_then (print_json p (ChecksValue
                (map (\<lambda>(name, c). (name, check_status_text (ck_status c), ck_message c)) checks)))
              (\<lambda>_. returning result)
         else printing p (map (\<lambda>c. OutLine (check_line c)) checks) (returning result))"

record 'w doctor_ports =
  dp_omarchy :: "('w, omarchy_version port_result) call"
  dp_displays :: "('w, display list port_result) call"
  dp_readiness :: "('w, host_readiness port_result) call"
  dp_service :: "('w, ustr option port_result) call"
  dp_current_exe :: "path option"
  dp_canonicalize :: "path \<Rightarrow> path option"

definition agent_health :: "'w cli_ports \<Rightarrow> u16 \<Rightarrow> ('w, health_response option) call" where
  "agent_health p port = (\<lambda>w.
     case controller_agent_endpoint p port w of
       (Inr endpoint, w') \<Rightarrow> (case cl_health p endpoint w' of (r, w2) \<Rightarrow> (result_ok r, w2))
     | (Inl _, w') \<Rightarrow> (None, w'))"

text \<open>What the checks look at, asked for in this order.\<close>

record diagnosis =
  dg_omarchy :: "omarchy_version port_result"
  dg_tailscale :: "mesh_node_identity port_result"
  dg_hyprland :: "display list port_result"
  dg_sunshine :: "host_readiness port_result"
  dg_credentials :: "credential_error + sunshine_credentials option"
  dg_health :: "health_response option"
  dg_service :: "path option"
  dg_allowlist :: "allowed_controller list option"
  dg_devices :: "discovered_node list port_result"

definition diagnose :: "'w cli_ports \<Rightarrow> 'w doctor_ports \<Rightarrow> config \<Rightarrow> ('w, diagnosis cli_result) call" where
  "diagnose p q config = (\<lambda>w.
     case dp_omarchy q w of (omarchy, w1) \<Rightarrow>
     (case cl_local_node p w1 of (tailscale, w2) \<Rightarrow>
     (case dp_displays q w2 of (hyprland, w3) \<Rightarrow>
     (case sunshine_config_path (cl_environment p) of
        Inl e \<Rightarrow> (Inl [config_error_text e], w3)
      | Inr _ \<Rightarrow>
     (case dp_readiness q w3 of (sunshine, w4) \<Rightarrow>
     (case cl_credentials_load p w4 of
        (None, w5) \<Rightarrow> (Inl [lit ''query desktop Secret Service''], w5)
      | (Some credentials, w5) \<Rightarrow>
     (case agent_health p (nc_agent_port (cf_network config)) w5 of (health, w6) \<Rightarrow>
     (case dp_service q w6 of (service, w7) \<Rightarrow>
     (case cl_access_list p w7 of (allowlist, w8) \<Rightarrow>
     (case cl_discover p (nc_agent_port (cf_network config)) False w8 of (devices, w9) \<Rightarrow>
        (Inr \<lparr>dg_omarchy = omarchy, dg_tailscale = tailscale, dg_hyprland = hyprland, dg_sunshine = sunshine,
             dg_credentials = credentials, dg_health = health,
             dg_service = map_option path_of (Option.bind (result_ok service) id),
             dg_allowlist = result_ok allowlist, dg_devices = devices\<rparr>, w9)))))))))))"

definition checks_of :: "'w doctor_ports \<Rightarrow> config \<Rightarrow> diagnosis \<Rightarrow> (ustr \<times> check) list" where
  "checks_of q config d =
     [(lit ''omarchy'', check_from_result (dg_omarchy d)),
      (lit ''tailscale'', check_from_result (dg_tailscale d)),
      (lit ''hyprland'', check_from_result (dg_hyprland d)),
      (lit ''sunshine'', check_from_result (dg_sunshine d)),
      (lit ''sunshine_pairing'', sunshine_pairing_check (dg_credentials d)),
      (lit ''agent'', agent_check (dg_health d) (nc_agent_port (cf_network config))),
      (lit ''agent_service'', agent_service_check (dp_canonicalize q) (dg_service d) (dp_current_exe q)),
      (lit ''access'', access_check (dg_allowlist d)),
      (lit ''devices'', devices_check (dg_devices d))]"

definition doctor_run :: "'w cli_ports \<Rightarrow> 'w doctor_ports \<Rightarrow> bool \<Rightarrow> ('w, unit cli_result) call" where
  "doctor_run p q json =
     call_then (load_config p) (\<lambda>config.
       call_then (returning (map_err (\<lambda>e. [config_error_text e]) (access_path (cl_environment p)))) (\<lambda>_.
       call_then (diagnose p q config) (\<lambda>d. report p (checks_of q config d) json)))"

section \<open>Correctness\<close>

lemma report_result:
  "fst (report p checks json w) = Inr () \<longleftrightarrow> (\<forall>c\<in>set checks. ck_status (snd c) \<noteq> CheckFail)"
proof -
  have "length (filter (\<lambda>(_, c). ck_status c = CheckFail) checks) = 0
      \<longleftrightarrow> (\<forall>c\<in>set checks. ck_status (snd c) \<noteq> CheckFail)"
    by (auto simp: filter_empty_conv case_prod_beta)
  then show ?thesis
    by (simp add: report_def print_json_def printing_def returning_def call_then_def Let_def)
qed

lemmas check_builders = check_pass_def check_warn_def check_fail_def

lemma check_failures:
  "ck_status (check_from_result r) = CheckFail \<longleftrightarrow> \<not> is_ok r"
  "ck_status (sunshine_pairing_check credentials) = CheckFail \<longleftrightarrow> \<not> is_ok credentials"
  "ck_status (agent_check health port) = CheckFail \<longleftrightarrow>
     \<not> option_any (\<lambda>h. is_ok (ensure_compatible_agent h)) health"
  "ck_status (agent_service_check canonicalize service exe) \<noteq> CheckFail"
  "ck_status (access_check allowlist) = CheckFail \<longleftrightarrow> allowlist = None"
  "ck_status (devices_check devices) = CheckFail \<longleftrightarrow> \<not> is_ok devices"
  by (auto simp: check_from_result_def sunshine_pairing_check_def agent_check_def agent_service_check_def
      access_check_def devices_check_def check_builders is_ok_iff Let_def option_any_def
      split: sum.splits option.splits)

text \<open>
  The command succeeds exactly on a sound computer. With what it looked at, it reports success if
  and only if the release, Tailscale, the desktop and Sunshine's adapter answered, the Secret
  Service could be read, the agent answered with this release and protocol, the allowlist could be
  read, and the devices could be listed; warnings do not count.
\<close>

theorem doctor_succeeds_on_sound_computer:
  assumes "load_config p w = (Inr config, v)" and "is_ok (access_path (cl_environment p))"
    and "diagnose p q config v = (Inr d, v')"
  shows "fst (doctor_run p q json w) = Inr () \<longleftrightarrow>
    is_ok (dg_omarchy d) \<and> is_ok (dg_tailscale d) \<and> is_ok (dg_hyprland d) \<and> is_ok (dg_sunshine d)
    \<and> is_ok (dg_credentials d) \<and> dg_allowlist d \<noteq> None \<and> is_ok (dg_devices d)
    \<and> (\<exists>h. dg_health d = Some h \<and> hr_protocol h = protocol_version \<and> is_compatible_release (hr_agent_version h))"
proof -
  have "option_any (\<lambda>h. is_ok (ensure_compatible_agent h)) (dg_health d) \<longleftrightarrow>
      (\<exists>h. dg_health d = Some h \<and> hr_protocol h = protocol_version \<and> is_compatible_release (hr_agent_version h))"
    by (auto simp: option_any_def ensure_compatible_agent_def is_ok_iff split: option.splits)
  then show ?thesis
    using assms(2)
    by (auto simp: doctor_run_def call_then_Ok [of "load_config p", OF assms(1)] is_ok_iff
        call_then_Ok [of "diagnose p q config", OF assms(3)] call_then_returning
        report_result checks_of_def check_failures)
qed

text \<open>
  A computer without Sunshine passes the check of Sunshine: when neither the program nor its
  service runs, the adapter still answers, and any answer counts as available.
\<close>

theorem missing_sunshine_passes:
  assumes "dp_readiness q = sunshine_readiness jh run sunshine_config"
    and "\<And>w. \<not> is_ok (fst (run sunshine_spec w))" and "\<And>w. \<not> is_ok (fst (run service_active_spec w))"
    and "diagnose p q config v = (Inr d, v')"
  shows "(lit ''sunshine'', check_pass (lit ''available'')) \<in> set (checks_of q config d)
    \<and> (\<exists>readiness. dg_sunshine d = Inr readiness \<and> \<not> hr_installed readiness \<and> \<not> hr_running readiness)"
proof -
  have idle: "\<exists>readiness. fst (sunshine_readiness jh run sunshine_config w) = Inr readiness
      \<and> \<not> hr_installed readiness \<and> \<not> hr_running readiness" for w
  proof -
    have "runs run sunshine_spec w = (False, snd (run sunshine_spec w))"
      "runs run service_active_spec u = (False, snd (run service_active_spec u))" for w u
      using assms(2,3) by (simp_all add: runs_def case_prod_beta)
    then show ?thesis by (simp add: sunshine_readiness_def Let_def)
  qed
  have "\<exists>w. dg_sunshine d = fst (dp_readiness q w)"
    using assms(4) by (auto simp: diagnose_def split: prod.splits sum.splits option.splits) (metis fst_conv)
  then obtain w readiness where "dg_sunshine d = Inr readiness" "\<not> hr_installed readiness" "\<not> hr_running readiness"
    using idle unfolding assms(1) by metis
  then show ?thesis by (simp add: checks_of_def check_from_result_def)
qed

section \<open>Examples\<close>

definition failing_runner :: "cli_world runner" where
  "failing_runner _ w = (Inl (port_error_new (lit ''COMMAND_NOT_AVAILABLE'') [] False), w)"

definition example_doctor :: "cli_world doctor_ports" where
  "example_doctor =
     \<lparr>dp_omarchy = (\<lambda>w. (Inr \<lparr>ov_major = 4, ov_minor = 0, ov_patch = 0, ov_package_release = None\<rparr>, w)),
      dp_displays = (\<lambda>w. (Inr [], w)), dp_readiness = sunshine_readiness example_hypr failing_runner [],
      dp_service = (\<lambda>w. (Inr None, w)), dp_current_exe = None, dp_canonicalize = (\<lambda>_. None)\<rparr>"

lemma example_diagnosis:
  "\<exists>d readiness. diagnose example_cli example_doctor config_default w = (Inr d, w) \<and> dg_sunshine d = Inr readiness
    \<and> dg_omarchy d = Inr \<lparr>ov_major = 4, ov_minor = 0, ov_patch = 0, ov_package_release = None\<rparr>
    \<and> is_ok (dg_tailscale d) \<and> dg_hyprland d = Inr [] \<and> dg_credentials d = Inr None \<and> dg_allowlist d = Some []
    \<and> dg_devices d = Inr []
    \<and> dg_health d = Some \<lparr>hr_status = lit ''ok'', hr_protocol = protocol_version, hr_agent_version = release\<rparr>"
proof -
  have "is_ok (sunshine_config_path (cl_environment example_cli))" by code_simp
  moreover have "runs failing_runner spec w = (False, w)" for spec w
    by (simp add: runs_def failing_runner_def)
  ultimately show ?thesis
    by (auto simp: diagnose_def example_doctor_def example_calls_of_cli sunshine_readiness_def Let_def is_ok_iff
        agent_health_def controller_agent_endpoint_def from_port_def call_then_def first_address_def or_else_def
        ok_or_def map_ok_def map_err_def)
qed

theorem doctor_succeeds_on_sound_computer_witness:
  "fst (doctor_run example_cli example_doctor False empty_world) = Inr ()"
proof -
  have load: "load_config example_cli empty_world = (Inr config_default, empty_world)"
    by (simp add: load_config_def example_calls_of_cli)
  have access: "is_ok (access_path (cl_environment example_cli))" by code_simp
  obtain d readiness where d: "diagnose example_cli example_doctor config_default empty_world = (Inr d, empty_world)"
    "dg_sunshine d = Inr readiness"
    "dg_omarchy d = Inr \<lparr>ov_major = 4, ov_minor = 0, ov_patch = 0, ov_package_release = None\<rparr>"
    "is_ok (dg_tailscale d)" "dg_hyprland d = Inr []" "dg_credentials d = Inr None" "dg_allowlist d = Some []"
    "dg_devices d = Inr []"
    "dg_health d = Some \<lparr>hr_status = lit ''ok'', hr_protocol = protocol_version, hr_agent_version = release\<rparr>"
    using example_diagnosis by blast
  show ?thesis
    using doctor_succeeds_on_sound_computer [OF load access d(1), of False] d(2-9) release_compatible
    by (simp add: is_ok_iff)
qed

theorem missing_sunshine_passes_witness:
  "\<exists>d. diagnose example_cli example_doctor config_default empty_world = (Inr d, empty_world)
     \<and> (lit ''sunshine'', check_pass (lit ''available'')) \<in> set (checks_of example_doctor config_default d)"
proof -
  obtain d where d: "diagnose example_cli example_doctor config_default empty_world = (Inr d, empty_world)"
    using example_diagnosis by blast
  have "dp_readiness example_doctor = sunshine_readiness example_hypr failing_runner []"
    "\<And>w. \<not> is_ok (fst (failing_runner sunshine_spec w))" "\<And>w. \<not> is_ok (fst (failing_runner service_active_spec w))"
    by (simp_all add: example_doctor_def failing_runner_def is_ok_iff)
  from missing_sunshine_passes [OF this d] d show ?thesis by blast
qed

end
