(* ===== verification/Cli.thy ===== *)
theory Cli
  imports Doctor
begin

text \<open>
  The commands of \<open>crates/omdesky-cli/src/main.rs\<close>, from the parsed command line to what they
  print. The parser of the command line (clap) is not modelled; its result is the datatype
  \<open>cli_command\<close>. A connection may still be running, in which case it has no result yet.
\<close>

section \<open>The command line\<close>

datatype codec_arg = CodecAuto | CodecH264 | CodecHevc | CodecAv1
datatype input_arg = InputLocal | InputRemote

record connect_args =
  ca_target :: ustr
  ca_workspace :: "ustr option"
  ca_window :: "ustr option"
  ca_app_id :: "ustr option"
  ca_width :: u32
  ca_height :: u32
  ca_fps :: u16
  ca_codec :: codec_arg
  ca_bitrate :: "u32 option"
  ca_fullscreen :: bool
  ca_windowed :: bool
  ca_input :: input_arg
  ca_no_audio :: bool
  ca_json :: bool

datatype command_action =
    ActionShortcut (action_target: ustr) ustr ustr "ustr option" "ustr option" (action_port: "u16 option")
  | ActionClose (action_target: ustr) "ustr option" "ustr option" (action_port: "u16 option")
  | ActionDisplay (action_target: ustr) ustr (action_port: "u16 option")

datatype access_command = AccessList | AccessAllow ustr "ustr list" | AccessRevoke ustr
datatype launcher_command = LauncherCreate ustr | LauncherList | LauncherRemove ustr

datatype cli_command =
    CmdDevices bool bool
  | CmdInfo ustr bool
  | CmdDisplays ustr bool
  | CmdWorkspaces ustr bool
  | CmdWindows ustr "i64 option" "ustr option" bool
  | CmdPair ustr
  | CmdSunshinePin ustr ustr
  | CmdConnect connect_args
  | CmdRemote command_action
  | CmdSession bool
  | CmdDisconnect
  | CmdAccess access_command
  | CmdDoctor bool
  | CmdLauncher launcher_command
  | CmdSetup

section \<open>Devices and what they show\<close>

definition tabs :: "ustr list \<Rightarrow> ustr" where
  "tabs columns = join [9] columns"

definition dash :: ustr where
  "dash = [0x2014]"

fun show_connection :: "connection_kind \<Rightarrow> ustr" where
  "show_connection Direct = lit ''Direct''"
| "show_connection Relay = lit ''Relay''"
| "show_connection UnknownConnection = lit ''Unknown''"

definition status_text :: "discovered_node \<Rightarrow> ustr" where
  "status_text node =
     (if dn_is_local node then lit ''this computer''
      else case dn_status node of
        Ready \<Rightarrow> lit ''ready'' | Blocked \<Rightarrow> lit ''blocked'' | Offline \<Rightarrow> lit ''offline''
      | Unavailable \<Rightarrow> lit ''unavailable'')"

definition device_lines :: "discovered_node \<Rightarrow> cli_output list" where
  "device_lines node =
     OutLine (tabs [dn_name node, status_text node, show_connection (dn_connection node),
       (case dn_latency_ms node of None \<Rightarrow> dash | Some ms \<Rightarrow> show_nat (unat ms) @ lit ''ms'')])
     # map (\<lambda>blocker. OutLine (lit ''  '' @ blocker_message (dn_name node) blocker)) (dn_blockers node)"

definition cli_devices :: "'w cli_ports \<Rightarrow> bool \<Rightarrow> bool \<Rightarrow> ('w, unit cli_result) call" where
  "cli_devices p json all_tailnet =
     call_then (load_config p) (\<lambda>config.
     call_then (returning (map_err (\<lambda>e. [config_error_text e]) (access_path (cl_environment p)))) (\<lambda>_.
     call_then (from_port (cl_discover p (nc_agent_port (cf_network config)) all_tailnet)) (\<lambda>nodes.
       if json then print_json p (DevicesValue nodes)
       else printing p (OutLine (tabs [lit ''NAME'', lit ''STATUS'', lit ''LINK'', lit ''LATENCY''])
              # concat (map device_lines nodes)) (returning (Inr ())))))"

definition display_size :: "'w cli_ports \<Rightarrow> display \<Rightarrow> ustr" where
  "display_size p d = show_nat (unat (d_width d)) @ lit ''x'' @ show_nat (unat (d_height d)) @ lit ''@''
     @ cl_show_rate p (d_refresh_hz d)"

definition cli_info :: "'w cli_ports \<Rightarrow> ustr \<Rightarrow> bool \<Rightarrow> ('w, unit cli_result) call" where
  "cli_info p target json =
     call_then (resolve_endpoint p target) (\<lambda>endpoint.
     call_then (from_port (cl_node_info p endpoint)) (\<lambda>node.
     call_then (from_port (cl_displays p endpoint)) (\<lambda>displays.
       if json then print_json p (InfoValue node displays)
       else printing p
         ([OutLine (ni_hostname node @ lit '' ('' @ ni_node_id node @ lit '')''),
           OutLine (lit ''Omarchy '' @ ni_omarchy_version node @ [32, 32, 0xb7, 32, 32] @ lit ''agent '' @ ni_agent_version node)]
          @ map (\<lambda>d. OutLine (d_id d @ lit '' '' @ display_size p d)) displays) (returning (Inr ())))))"

definition cli_displays :: "'w cli_ports \<Rightarrow> ustr \<Rightarrow> bool \<Rightarrow> ('w, unit cli_result) call" where
  "cli_displays p target json =
     call_then (resolve_endpoint p target) (\<lambda>endpoint.
     call_then (from_port (cl_displays p endpoint)) (\<lambda>displays.
       if json then print_json p (DisplaysValue displays)
       else printing p
         (map (\<lambda>d. OutLine ((if d_focused d then [0x25cf] else lit '' '') @ lit '' '' @ d_id d @ [9] @ display_size p d))
            displays) (returning (Inr ()))))"

definition window_label :: "window \<Rightarrow> ustr" where
  "window_label w = unwrap_or (or_else (win_title w) (or_else (win_app_id w) (win_class w))) dash"

definition workspace_lines :: "window list \<Rightarrow> workspace \<Rightarrow> cli_output list" where
  "workspace_lines windows w =
     OutLine (show_int (workspace_id_value (ws_id w)) @ lit ''  '' @ unwrap_or (ws_name w) dash)
     # map (\<lambda>v. OutLine (lit ''   '' @ window_label v)) (filter (\<lambda>v. win_workspace v = ws_id w) windows)"

definition cli_workspaces :: "'w cli_ports \<Rightarrow> ustr \<Rightarrow> bool \<Rightarrow> ('w, unit cli_result) call" where
  "cli_workspaces p target json =
     call_then (resolve_endpoint p target) (\<lambda>endpoint.
     call_then (from_port (cl_workspaces p endpoint)) (\<lambda>workspaces w.
       case cl_windows p endpoint w of
         (r, w') \<Rightarrow>
           (if json then print_json p (WorkspacesValue workspaces) w'
            else printing p (concat (map (workspace_lines (unwrap_or (result_ok r) [])) workspaces))
                   (returning (Inr ())) w')))"

definition window_wanted :: "i64 option \<Rightarrow> ustr option \<Rightarrow> window \<Rightarrow> bool" where
  "window_wanted workspace app_id w \<longleftrightarrow>
     option_all (\<lambda>i. workspace_id_value (win_workspace w) = i) workspace
     \<and> option_all (\<lambda>needle. win_app_id w = Some needle \<or> win_class w = Some needle) app_id"

definition cli_windows ::
    "'w cli_ports \<Rightarrow> ustr \<Rightarrow> i64 option \<Rightarrow> ustr option \<Rightarrow> bool \<Rightarrow> ('w, unit cli_result) call" where
  "cli_windows p target workspace app_id json =
     call_then (resolve_endpoint p target) (\<lambda>endpoint.
     call_then (from_port (cl_windows p endpoint)) (\<lambda>all_windows.
       let windows = filter (window_wanted workspace app_id) all_windows
       in if json then print_json p (WindowsValue windows)
          else printing p
            (OutLine (tabs [lit ''WORKSPACE'', lit ''APP'', lit ''TITLE''])
             # map (\<lambda>w. OutLine (tabs [show_int (workspace_id_value (win_workspace w)),
                 unwrap_or (or_else (win_app_id w) (win_class w)) dash, unwrap_or (win_title w) dash])) windows)
            (returning (Inr ()))))"

section \<open>Pairing\<close>

definition cli_pair :: "'w cli_ports \<Rightarrow> ustr \<Rightarrow> ('w, unit cli_result) call" where
  "cli_pair p target =
     call_then (resolve_endpoint p target) (\<lambda>endpoint.
     call_then (from_port (pair_stream ((cl_stream p)\<lparr>sp_client_name := client_name p\<rparr>) endpoint)) (\<lambda>_.
       printing p [OutLine (lit ''Paired Moonlight with '' @ target)] (returning (Inr ()))))"

definition cli_sunshine_pin :: "'w cli_ports \<Rightarrow> ustr \<Rightarrow> ustr \<Rightarrow> ('w, unit cli_result) call" where
  "cli_sunshine_pin p pin name =
     call_then (returning (map_err (\<lambda>e. [config_error_text e]) (sunshine_config_path (cl_environment p)))) (\<lambda>_.
     call_then (from_port (cl_submit_pin p pin name)) (\<lambda>_.
       printing p [OutLine (lit ''Submitted PIN to local Sunshine; Moonlight should finish pairing'')]
         (returning (Inr ()))))"

section \<open>Connecting\<close>

definition profile_of_args :: "config \<Rightarrow> connect_args \<Rightarrow> stream_profile cli_result" where
  "profile_of_args config args =
     (let configured = stc_bitrate_mbps (cf_stream config);
          bitrate_mbps = or_else (ca_bitrate args) (if configured > 0 then Some configured else None)
      in try_then (case bitrate_mbps of
             None \<Rightarrow> Inr None
           | Some mbps \<Rightarrow> map_ok Some (from_domain (lit ''invalid stream bitrate'') (bitrate_kbps_from_mbps mbps)))
         (\<lambda>bitrate_kbps.
           let profile = \<lparr>sp_width = ca_width args, sp_height = ca_height args, sp_fps = ca_fps args,
                 sp_codec_preference = (case ca_codec args of CodecAuto \<Rightarrow> Auto | CodecH264 \<Rightarrow> H264
                   | CodecHevc \<Rightarrow> Hevc | CodecAv1 \<Rightarrow> Av1),
                 sp_audio = (\<not> ca_no_audio args), sp_bitrate_kbps = bitrate_kbps\<rparr>
           in map_ok (\<lambda>_. profile) (from_domain (lit ''invalid stream profile'') (stream_profile_validate profile))))"

definition input_mode_of_args :: "connect_args \<Rightarrow> input_mode" where
  "input_mode_of_args args = (case ca_input args of InputLocal \<Rightarrow> LocalInput | InputRemote \<Rightarrow> RemoteInput)"

definition cli_connect_request ::
    "agent_endpoint \<Rightarrow> agent_endpoint \<Rightarrow> stream_profile \<Rightarrow> connect_args \<Rightarrow> connect_request" where
  "cli_connect_request endpoint controller profile args =
     \<lparr>cn_endpoint = endpoint, cn_controller_endpoint = controller, cn_profile = profile,
      cn_fullscreen = (ca_fullscreen args \<or> \<not> ca_windowed args), cn_input_mode = input_mode_of_args args,
      cn_focus_workspace = map_option parse_workspace_target (ca_workspace args),
      cn_focus_window = or_else (ca_window args) (ca_app_id args), cn_auto_pair = True\<rparr>"

text \<open>Everything before the stream: the endpoints, the local readiness and the profile.\<close>

definition controller_for :: "'w cli_ports \<Rightarrow> config \<Rightarrow> ('w, agent_endpoint cli_result) call" where
  "controller_for p config = (\<lambda>w.
     case controller_agent_endpoint p (nc_agent_port (cf_network config)) w of
       (r, w') \<Rightarrow>
         (map_err (\<lambda>causes. [lit ''could not resolve this controller's Tailscale endpoint: '' @ hd causes]) r, w'))"

definition connect_prepare :: "'w cli_ports \<Rightarrow> connect_args \<Rightarrow> ('w, connect_request cli_result) call" where
  "connect_prepare p args =
     call_then (load_config p) (\<lambda>config.
     call_then (resolve_endpoint p (ca_target args)) (\<lambda>endpoint.
     call_then (controller_for p config) (\<lambda>controller w.
       case cl_health p controller w of
         (local_agent, w') \<Rightarrow>
           call_then (from_port (cl_configured p)) (\<lambda>configured.
           call_then (from_port (returning (ensure_controller_ready local_agent configured))) (\<lambda>_.
           call_then (returning (map_err (\<lambda>e. [config_error_text e]) (access_path (cl_environment p)))) (\<lambda>_.
           call_then (returning (profile_of_args config args)) (\<lambda>profile.
             returning (Inr (cli_connect_request endpoint controller profile args)))))) w')))"

definition record_started :: "'w cli_ports \<Rightarrow> path option \<Rightarrow> session_record \<Rightarrow> u32 option \<Rightarrow> 'w \<Rightarrow> 'w" where
  "record_started p file_path r pid w =
     (case file_path of
        None \<Rightarrow> w
      | Some f \<Rightarrow> write_record p f
          (r\<lparr>sr_moonlight := Option.bind pid (process_observe (cl_processes p w))\<rparr>) w)"

definition connect_session ::
    "'w cli_ports \<Rightarrow> stream_ctx \<Rightarrow> connect_args \<Rightarrow> connect_request \<Rightarrow> stream_event list
       \<Rightarrow> 'w \<Rightarrow> int port_result option \<times> 'w" where
  "connect_session p sx args request events w =
     (let file_path = result_ok (runtime_session_path (cl_environment p));
          r = session_record_new (cl_fresh_session p) (cl_now p) (ca_target args) (input_mode_of_args args);
          w1 = (case file_path of None \<Rightarrow> w | Some f \<Rightarrow> write_record p f r w)
      in case connect_node ((cl_stream p)\<lparr>sp_client_name := client_name p\<rparr>) sx (record_started p file_path r)
                request events w1 of
           (None, w2) \<Rightarrow> (None, w2)
         | (Some exit, w2) \<Rightarrow>
             (Some exit, case file_path of None \<Rightarrow> w2 | Some f \<Rightarrow> remove_record p f (sr_session_id r) w2))"

definition cli_connect ::
    "'w cli_ports \<Rightarrow> stream_ctx \<Rightarrow> connect_args \<Rightarrow> stream_event list \<Rightarrow> 'w \<Rightarrow> unit cli_result option \<times> 'w" where
  "cli_connect p sx args events w =
     (case connect_prepare p args w of
        (Inl e, w1) \<Rightarrow> (Some (Inl e), w1)
      | (Inr request, w1) \<Rightarrow>
          (case connect_session p sx args request events w1 of
             (None, w2) \<Rightarrow> (None, w2)
           | (Some (Inl e), w2) \<Rightarrow> (Some (Inl [user_message e]), w2)
           | (Some (Inr code), w2) \<Rightarrow>
               if ca_json args then (case print_json p (ExitValue code) w2 of (r, w3) \<Rightarrow> (Some r, w3))
               else (Some (Inr ()), w2)))"

section \<open>The running session\<close>

definition session_line :: "session_record \<Rightarrow> ustr" where
  "session_line r =
     lit ''node '' @ sanitize_for_display (sr_remote_node r) display_name_limit @ [32, 32, 0xb7, 32, 32] @ lit ''pid ''
     @ (case sr_moonlight r of None \<Rightarrow> dash | Some process \<Rightarrow> show_nat (unat (spr_pid process)))
     @ [32, 32, 0xb7, 32, 32] @ lit ''input ''
     @ (case sr_input_mode r of LocalInput \<Rightarrow> lit ''local'' | RemoteInput \<Rightarrow> lit ''remote'')"

definition cli_session :: "'w cli_ports \<Rightarrow> bool \<Rightarrow> ('w, unit cli_result) call" where
  "cli_session p json = (\<lambda>w.
     case read_session p w of
       Some r \<Rightarrow>
         (if json then print_json p (SessionValue r) w
          else printing p [OutLine (session_line r)] (returning (Inr ())) w)
     | None \<Rightarrow>
         (if json then printing p [OutNull] (returning (Inr ())) w
          else (Inl [lit ''no active Omdesky session''], w)))"

definition cli_disconnect :: "'w cli_ports \<Rightarrow> ('w, unit cli_result) call" where
  "cli_disconnect p = (\<lambda>w.
     case runtime_session_path (cl_environment p) of
       Inl e \<Rightarrow> (Inl [config_error_text e], w)
     | Inr f \<Rightarrow>
         (case read_record p f w of
            Inl e \<Rightarrow> (Inl [lit ''no active Omdesky session to disconnect'', state_error_text e], w)
          | Inr r \<Rightarrow>
              let w1 = (case sr_moonlight r of
                     Some process \<Rightarrow>
                       if process_is_still_running (cl_processes p w) process
                       then cl_print p (OutLine (lit ''Signalled Moonlight process '' @ show_nat (unat (spr_pid process))
                              @ lit '' to stop'')) (cl_kill p (spr_pid process) w)
                       else cl_print p (OutLine (lit ''Moonlight process '' @ show_nat (unat (spr_pid process))
                              @ lit '' is no longer the one this session started; nothing was signalled'')) w
                   | None \<Rightarrow> cl_print p (OutLine (lit ''Session has no supervised Moonlight process'')) w)
              in (Inr (), remove_record p f (sr_session_id r) w1)))"

section \<open>Access\<close>

definition access_line :: "allowed_controller \<Rightarrow> ustr" where
  "access_line e =
     tabs [sanitize_for_display (ac_tailnet_node_id e) display_name_limit,
       sanitize_for_display (unwrap_or (ac_label e) dash) display_name_limit,
       join (lit '','') (map capability_as_str (ac_capabilities e))]"

fun cli_access :: "'w cli_ports \<Rightarrow> access_command \<Rightarrow> ('w, unit cli_result) call" where
  "cli_access p AccessList =
     call_then (from_port (cl_access_list p)) (\<lambda>entries.
       printing p (map (\<lambda>e. OutLine (access_line e)) entries) (returning (Inr ())))"
| "cli_access p (AccessAllow peer requested) =
     call_then (returning (parse_capabilities requested)) (\<lambda>capabilities.
     call_then (resolve_tailnet_identity p peer) (\<lambda>identity.
     call_then (from_port (cl_access_allow p (allowed_controller_new identity (Some peer) (cl_now p) capabilities))) (\<lambda>_.
       printing p [OutLine (lit ''Allowed '' @ peer)] (returning (Inr ())))))"
| "cli_access p (AccessRevoke peer) = (\<lambda>w.
     case resolve_tailnet_identity p peer w of
       (r, w') \<Rightarrow>
         call_then (from_port (cl_access_revoke p (unwrap_or (result_ok r) peer))) (\<lambda>_.
           printing p [OutLine (lit ''Revoked '' @ peer)] (returning (Inr ()))) w')"

definition access_command_run :: "'w cli_ports \<Rightarrow> access_command \<Rightarrow> ('w, unit cli_result) call" where
  "access_command_run p command =
     call_then (returning (map_err (\<lambda>e. [config_error_text e]) (access_path (cl_environment p))))
       (\<lambda>_. cli_access p command)"

section \<open>Launchers\<close>

definition launcher_directory :: "'w cli_ports \<Rightarrow> path cli_result" where
  "launcher_directory p =
     map_ok (\<lambda>home. path_of home @ [lit ''.local'', lit ''share'', lit ''applications''])
       (ok_or (cl_environment p (lit ''HOME'')) [lit ''HOME is not set''])"

definition cli_node_id :: "'w cli_ports \<Rightarrow> ustr \<Rightarrow> node_id cli_result" where
  "cli_node_id p target = map_err (\<lambda>e. [e]) (cl_parse_uuid p target)"

fun cli_launcher :: "'w cli_ports \<Rightarrow> launcher_command \<Rightarrow> path \<Rightarrow> ('w, unit cli_result) call" where
  "cli_launcher p (LauncherCreate target) directory =
     call_then (returning (cli_context (lit ''launcher target must be a stable node ID'') (cli_node_id p target))) (\<lambda>node.
     call_then (from_port (cl_launcher_create p directory
         \<lparr>ls_node_id = node, ls_display_name = target, ls_aliases = []\<rparr>)) (\<lambda>file_path.
       printing p [OutLine (show_path file_path)] (returning (Inr ()))))"
| "cli_launcher p LauncherList directory =
     call_then (from_port (cl_launcher_list p directory)) (\<lambda>paths.
       printing p (map (\<lambda>f. OutLine (show_path f)) paths) (returning (Inr ())))"
| "cli_launcher p (LauncherRemove target) directory =
     call_then (returning (cli_node_id p target)) (\<lambda>node.
       from_port (cl_launcher_remove p directory node))"

definition launcher_command_run :: "'w cli_ports \<Rightarrow> launcher_command \<Rightarrow> ('w, unit cli_result) call" where
  "launcher_command_run p command =
     call_then (returning (launcher_directory p)) (cli_launcher p command)"

section \<open>Setup\<close>

definition prompt :: "'w cli_ports \<Rightarrow> ustr \<Rightarrow> ('w, ustr cli_result) call" where
  "prompt p label =
     printing p [OutPrompt label] (\<lambda>w. case cl_read_line p w of
       (r, w') \<Rightarrow> (map_ok trim (map_err (\<lambda>e. [e]) r), w'))"

definition skipped_without_terminal :: ustr where
  "skipped_without_terminal =
     lit ''Skipping Sunshine credential setup (no terminal). Set OMDESKY_SUNSHINE_USERNAME and OMDESKY_SUNSHINE_PASSWORD, or run `omdesky setup` interactively on the host.''"

text \<open>The credentials to store: from the environment, or asked for on a terminal.\<close>

definition sunshine_login :: "'w cli_ports \<Rightarrow> ('w, (ustr \<times> ustr) option cli_result) call" where
  "sunshine_login p =
     (case (cl_environment p (lit ''OMDESKY_SUNSHINE_USERNAME''), cl_environment p (lit ''OMDESKY_SUNSHINE_PASSWORD'')) of
        (Some username, Some password) \<Rightarrow> returning (Inr (Some (username, password)))
      | _ \<Rightarrow>
          if \<not> cl_terminal p then printing p [OutLine skipped_without_terminal] (returning (Inr None))
          else call_then (prompt p (lit ''Sunshine admin username: '')) (\<lambda>username.
               call_then (\<lambda>w. case cl_read_secret p (lit ''Sunshine admin password: '') w of
                   (r, w') \<Rightarrow> (map_err (\<lambda>e. [e]) r, w')) (\<lambda>password.
                 returning (Inr (Some (username, password))))))"

definition store_login :: "'w cli_ports \<Rightarrow> ustr \<Rightarrow> ustr \<Rightarrow> ('w, unit cli_result) call" where
  "store_login p username password =
     (if username = [] \<or> password = [] then
        printing p [OutLine (lit ''Skipping Sunshine credential setup (empty username or password)'')] (returning (Inr ()))
      else (\<lambda>w. case cl_credentials_store p username password w of
         (None, w') \<Rightarrow> (Inl [lit ''update desktop Secret Service''], w')
       | (Some (Inl e), w') \<Rightarrow>
           (Inl [lit ''store Sunshine credentials in the desktop Secret Service'', credential_error_text e], w')
       | (Some (Inr _), w') \<Rightarrow>
           printing p [OutLine (lit ''Stored Sunshine credentials in the desktop Secret Service'')]
             (returning (Inr ())) w'))"

definition provision_sunshine_credentials :: "'w cli_ports \<Rightarrow> ('w, unit cli_result) call" where
  "provision_sunshine_credentials p = (\<lambda>w.
     case cl_credentials_load p w of
       (None, w') \<Rightarrow> (Inl [lit ''query desktop Secret Service''], w')
     | (Some (Inl e), w') \<Rightarrow> (Inl [credential_error_text e], w')
     | (Some (Inr (Some _)), w') \<Rightarrow>
         printing p [OutLine (lit ''Sunshine credentials already configured in the desktop Secret Service'')]
           (returning (Inr ())) w'
     | (Some (Inr None), w') \<Rightarrow>
         call_then (sunshine_login p) (\<lambda>login.
           case login of
             None \<Rightarrow> returning (Inr ())
           | Some (username, password) \<Rightarrow> store_login p username password) w')"

definition make_dir :: "'w cli_ports \<Rightarrow> path \<Rightarrow> ('w, unit cli_result) call" where
  "make_dir p directory = on_disk p (\<lambda>d. case disk_step (cl_make_dir_fault p) (MakeDirs directory) d of
     (r, d') \<Rightarrow> (map_ok (\<lambda>_. ()) (map_err (\<lambda>e. [ioe_text e]) r), d'))"

definition cli_setup :: "'w cli_ports \<Rightarrow> 'w doctor_ports \<Rightarrow> ('w, unit cli_result) call" where
  "cli_setup p q =
     call_then (returning (map_err (\<lambda>e. [config_error_text e]) (state_dir (cl_environment p)))) (\<lambda>directory.
     call_then (make_dir p (directory @ [lit ''identity''])) (\<lambda>_.
     call_then (make_dir p (directory @ [lit ''access''])) (\<lambda>_.
     call_then (provision_sunshine_credentials p) (\<lambda>_.
       doctor_run p q False))))"

section \<open>Remote commands\<close>

definition command_endpoint :: "'w cli_ports \<Rightarrow> ustr \<Rightarrow> u16 option \<Rightarrow> ('w, agent_endpoint cli_result) call" where
  "command_endpoint p target port =
     (case (parse_ip target, port) of
        (Some address, Some port_given) \<Rightarrow> returning (Inr \<lparr>ep_address = address, ep_port = port_given\<rparr>)
      | _ \<Rightarrow> resolve_endpoint p target)"

fun command_of_action :: "command_action \<Rightarrow> remote_command cli_result" where
  "command_of_action (ActionShortcut target mods key window_class window_address port) =
     try_then (parse_modifiers mods) (\<lambda>modifiers.
     try_then (from_domain (lit ''invalid key chord'') (key_chord_new modifiers key)) (\<lambda>chord.
       Inr (SendShortcut chord (cli_window_selector window_class window_address))))"
| "command_of_action (ActionClose target window_class window_address port) =
     Inr (CloseWindow (cli_window_selector window_class window_address))"
| "command_of_action (ActionDisplay target display port) = Inr (SwitchStreamDisplay (DisplayId display))"

definition cli_remote_command :: "'w cli_ports \<Rightarrow> command_action \<Rightarrow> ('w, unit cli_result) call" where
  "cli_remote_command p action =
     call_then (command_endpoint p (action_target action) (action_port action)) (\<lambda>endpoint.
     call_then (returning (command_of_action action)) (\<lambda>command.
     call_then (returning (from_domain (lit ''invalid command'') (command_validate command))) (\<lambda>_.
     call_then (from_port (cl_send_command p endpoint
         (command_request_new (cl_fresh_request p) (cl_now p) command))) (\<lambda>_.
       printing p [OutLine (lit ''ok'')] (returning (Inr ()))))))"

section \<open>The program\<close>

fun cli_main ::
    "'w cli_ports \<Rightarrow> 'w doctor_ports \<Rightarrow> stream_ctx \<Rightarrow> stream_event list \<Rightarrow> ('w, unit cli_result option) call
       \<Rightarrow> cli_command option \<Rightarrow> ('w, unit cli_result option) call" where
  "cli_main p q sx events interface None w = interface w"
| "cli_main p q sx events interface (Some (CmdConnect args)) w = cli_connect p sx args events w"
| "cli_main p q sx events interface (Some command) w =
     (case (case command of
        CmdDevices json all_tailnet \<Rightarrow> cli_devices p json all_tailnet
      | CmdInfo target json \<Rightarrow> cli_info p target json
      | CmdDisplays target json \<Rightarrow> cli_displays p target json
      | CmdWorkspaces target json \<Rightarrow> cli_workspaces p target json
      | CmdWindows target workspace app_id json \<Rightarrow> cli_windows p target workspace app_id json
      | CmdPair target \<Rightarrow> cli_pair p target
      | CmdSunshinePin pin name \<Rightarrow> cli_sunshine_pin p pin name
      | CmdRemote action \<Rightarrow> cli_remote_command p action
      | CmdSession json \<Rightarrow> cli_session p json
      | CmdDisconnect \<Rightarrow> cli_disconnect p
      | CmdAccess c \<Rightarrow> access_command_run p c
      | CmdDoctor json \<Rightarrow> doctor_run p q json
      | CmdLauncher c \<Rightarrow> launcher_command_run p c
      | CmdSetup \<Rightarrow> cli_setup p q) w of (r, w') \<Rightarrow> (Some r, w'))"

section \<open>Facts about endpoints\<close>

lemma from_port_Inr: "from_port c w = (Inr x, w') \<longleftrightarrow> c w = (Inr x, w')"
  by (auto simp: from_port_def map_err_def split: prod.splits sum.splits)

lemma find_peer_mem: "find_peer peers name = Inr peer \<Longrightarrow> peer \<in> set peers"
  unfolding find_peer_Ok peer_matches_def
  by (metis (no_types, lifting) filter_is_subset list.set_intros(1) option.case_eq_if subsetD)

lemma resolve_peer_Inr:
  assumes "resolve_peer p target w = (Inr peer, w')"
  shows "\<exists>v peers. cl_peers p v = (Inr peers, w') \<and> peer \<in> set peers"
proof -
  obtain config v name peers where "cl_peers p v = (Inr peers, w')" "find_peer peers name = Inr peer"
    using assms
    by (auto simp: resolve_peer_def call_then_Inr Let_def from_port_Inr)
  then show ?thesis using find_peer_mem by blast
qed

text \<open>An address that the tailnet reported for a device that is online.\<close>

definition online_address :: "'w cli_ports \<Rightarrow> ip_addr \<Rightarrow> bool" where
  "online_address p address \<longleftrightarrow>
     (\<exists>v peers v' peer. cl_peers p v = (Inr peers, v') \<and> peer \<in> set peers \<and> mp_online peer
        \<and> first_address (mp_ips peer) = Some address)"

lemma resolve_endpoint_Inr:
  assumes "resolve_endpoint p target w = (Inr endpoint, w')"
  shows "online_address p (ep_address endpoint)"
    and "\<exists>config. fst (cl_config p w) = Inr config \<and> ep_port endpoint = nc_agent_port (cf_network config)"
proof -
  obtain config v peer address where config: "load_config p w = (Inr config, v)"
    and peer: "resolve_peer p target v = (Inr peer, w')" "mp_online peer"
    and address: "first_address (mp_ips peer) = Some address"
    and endpoint: "endpoint = \<lparr>ep_address = address, ep_port = nc_agent_port (cf_network config)\<rparr>"
    using assms by (auto simp: resolve_endpoint_def call_then_Inr map_ok_def ok_or_def
        split: if_splits sum.splits option.splits)
  from resolve_peer_Inr [OF peer(1)] show "online_address p (ep_address endpoint)"
    using peer(2) address endpoint by (auto simp: online_address_def)
  have "fst (cl_config p w) = Inr config"
    using config by (auto simp: load_config_def map_err_def split: prod.splits sum.splits)
  then show "\<exists>config. fst (cl_config p w) = Inr config \<and> ep_port endpoint = nc_agent_port (cf_network config)"
    using endpoint by auto
qed

section \<open>Commands to other computers\<close>

text \<open>Where a command may go: the address and port that were given, or the agent of an online device.\<close>

definition command_destination :: "'w cli_ports \<Rightarrow> command_action \<Rightarrow> agent_endpoint \<Rightarrow> bool" where
  "command_destination p action endpoint \<longleftrightarrow>
     (parse_ip (action_target action) = Some (ep_address endpoint) \<and> action_port action = Some (ep_port endpoint))
     \<or> online_address p (ep_address endpoint)"

lemma command_endpoint_Inr:
  "command_endpoint p (action_target action) (action_port action) w = (Inr endpoint, w') \<Longrightarrow>
     command_destination p action endpoint"
  using resolve_endpoint_Inr(1) by (auto simp: command_endpoint_def command_destination_def split: option.splits)

text \<open>
  C20: A command is sent only after it passed validation, and only to the address and port given on the
  command line or to the first address of a device that is online; however sending anything else or
  anywhere else would behave, the command line does the same.
\<close>

theorem only_valid_commands_are_sent:
  assumes "\<And>endpoint command. command_validate command = Inr () \<Longrightarrow> command_destination p action endpoint \<Longrightarrow>
      send endpoint (command_request_new (cl_fresh_request p) (cl_now p) command)
        = cl_send_command p endpoint (command_request_new (cl_fresh_request p) (cl_now p) command)"
  shows "cli_remote_command (p\<lparr>cl_send_command := send\<rparr>) action w = cli_remote_command p action w"
proof -
  let ?p = "p\<lparr>cl_send_command := send\<rparr>"
  have resolve: "command_endpoint ?p t port = command_endpoint p t port" for t port
    by (simp add: command_endpoint_def resolve_endpoint_def resolve_peer_def load_config_def from_port_def
        cong: option.case_cong)
  obtain r w1 where ep: "command_endpoint p (action_target action) (action_port action) w = (r, w1)" by fastforce
  show ?thesis
  proof (cases r)
    case (Inl e)
    with ep show ?thesis by (simp add: cli_remote_command_def resolve call_then_Err)
  next
    case (Inr endpoint)
    then have to: "command_destination p action endpoint"
      using ep by (intro command_endpoint_Inr [of p action w endpoint w1]) simp
    show ?thesis
    proof (cases "command_of_action action")
      case (Inl e)
      with Inr ep show ?thesis by (simp add: cli_remote_command_def resolve call_then_Ok call_then_returning)
    next
      case valid: (Inr command)
      show ?thesis
      proof (cases "command_validate command")
        case (Inl e)
        with Inr ep valid show ?thesis
          by (simp add: cli_remote_command_def resolve call_then_Ok call_then_returning from_domain_def
              cli_context_def map_err_def)
      next
        case ok: (Inr u)
        with assms [OF _ to, of command] Inr ep valid show ?thesis
          by (simp add: cli_remote_command_def resolve call_then_Ok call_then_returning from_domain_def
              cli_context_def map_err_def from_port_def printing_def)
      qed
    qed
  qed
qed

section \<open>The end of a session\<close>

text \<open>
  C11: Disconnecting signals one process only: the one the session record names, and only while the
  process with that number has the start time that was recorded. However signalling any other
  would behave, the command does the same.
\<close>

theorem disconnect_signals_recorded_process:
  assumes "\<And>f r process. runtime_session_path (cl_environment p) = Inr f \<Longrightarrow> read_record p f w = Inr r \<Longrightarrow>
      sr_moonlight r = Some process \<Longrightarrow>
      process_start_ticks (cl_processes p w) (spr_pid process) = Some (spr_start_ticks process) \<Longrightarrow>
      kill (spr_pid process) w = cl_kill p (spr_pid process) w"
  shows "cli_disconnect (p\<lparr>cl_kill := kill\<rparr>) w = cli_disconnect p w"
proof -
  let ?p = "p\<lparr>cl_kill := kill\<rparr>"
  have same: "read_record ?p f w = read_record p f w" "remove_record ?p f i v = remove_record p f i v" for f i v
    by (simp_all add: read_record_def remove_record_def on_disk_def)
  show ?thesis
  proof (cases "runtime_session_path (cl_environment p)")
    case (Inr f)
    show ?thesis
    proof (cases "read_record p f w")
      case stored: (Inr r)
      then show ?thesis using assms [OF Inr stored] Inr
        by (simp add: cli_disconnect_def same process_is_still_running_def split: option.split)
    qed (simp add: cli_disconnect_def same Inr)
  qed (simp add: cli_disconnect_def)
qed

lemma removed_record:
  assumes "\<And>d v. cl_disk p (cl_put_disk p d v) = d"
    and "cl_read_fault p = None" and "cl_remove_fault p = None"
    and "read_record p f (remove_record p f session v) = Inr r"
  shows "sr_session_id r \<noteq> session"
proof
  assume own: "sr_session_id r = session"
  let ?d = "cl_disk p v"
  have disk: "cl_disk p (remove_record p f session v)
      = session_record_remove_if_owned (cl_record_parse p) None None f session ?d"
    using assms(1-3) by (simp add: remove_record_def on_disk_def)
  show False
  proof (cases "\<exists>q. session_record_read (cl_record_parse p) None f ?d = Inr q \<and> sr_session_id q = session")
    case True
    then obtain q where "session_record_read (cl_record_parse p) None f ?d = Inr q" "sr_session_id q = session"
      by blast
    then have "ds_files (cl_disk p (remove_record p f session v)) f = None"
      using only_own_record_is_removed [OF disk [symmetric], THEN conjunct2, THEN conjunct2] by simp
    then show False using assms(2,4)
      by (simp add: read_record_def session_record_read_def read_json_def read_limited_def disk_open_def
          read_open_def try_then_def map_err_def split: if_splits)
  next
    case False
    then have "cl_disk p (remove_record p f session v) = ?d"
      by (auto simp: disk session_record_remove_if_owned_def split: sum.splits)
    with False own assms(2,4) show False by (auto simp: read_record_def)
  qed
qed

text \<open>
  A session leaves no record behind. When the stream of a connection has ended, for whatever
  reason, the record in the runtime directory is gone or another session's.
\<close>

theorem ended_connection_leaves_no_record:
  assumes "\<And>d v. cl_disk p (cl_put_disk p d v) = d"
    and "cl_read_fault p = None" and "cl_remove_fault p = None"
    and "runtime_session_path (cl_environment p) = Inr f"
    and "connect_session p sx args request events w = (Some exit, w')"
  shows "\<forall>r. read_record p f w' = Inr r \<longrightarrow> sr_session_id r \<noteq> cl_fresh_session p"
proof -
  obtain v where "w' = remove_record p f (cl_fresh_session p) v"
    using assms(4,5) by (auto simp: connect_session_def session_record_new_def Let_def split: prod.splits option.splits)
  with removed_record [OF assms(1-3)] show ?thesis by blast
qed

section \<open>Access\<close>

text \<open>
  C32: A revoke that cannot find the device says it worked. When the name resolves to no device, be it
  that the device has left the tailnet or that Tailscale does not answer, the name itself is taken
  for an identifier: the command reports success and prints that access is revoked, and the
  allowlist still holds every entry it held.
\<close>

theorem unresolved_revoke_keeps_access:
  assumes "fst (resolve_tailnet_identity p peer w) = Inl e"
    and "cl_access_revoke p = (\<lambda>i. on_disk p (access_revoke st f i))"
    and "\<And>d v. cl_disk p (cl_put_disk p d v) = d" and "\<And>out v. cl_disk p (cl_print p out v) = cl_disk p v"
    and "access_list st f (cl_disk p (snd (resolve_tailnet_identity p peer w))) = (Inr entries, d)"
    and "peer \<notin> ac_tailnet_node_id ` set entries"
    and "fst (access_write_all st f entries d) = Inr ()"
    and "faithful_codec st" and "af_path st \<noteq> []"
  shows "\<exists>w'. cli_access p (AccessRevoke peer) w = (Inr (), cl_print p (OutLine (lit ''Revoked '' @ peer)) w')
    \<and> access_view st (cl_disk p (snd (cli_access p (AccessRevoke peer) w))) = Some entries"
proof -
  obtain w1 where r: "resolve_tailnet_identity p peer w = (Inl e, w1)" using assms(1) by (metis prod.collapse)
  then have d: "d = cl_disk p w1" and read: "access_read_all st f d = Inr entries"
    using assms(5) by (auto simp: access_list_def)
  have same: "without_controller peer entries = entries"
    using assms(6) by (auto simp: without_controller_def filter_id_conv)
  obtain d' where written: "access_write_all st f entries d = (Inr (), d')"
    using assms(7) by (metis prod.collapse)
  have "cl_access_revoke p peer w1 = (Inr (), cl_put_disk p d' w1)"
    using read written by (simp add: assms(2) on_disk_def access_revoke_def same d [symmetric])
  then have run: "cli_access p (AccessRevoke peer) w
      = (Inr (), cl_print p (OutLine (lit ''Revoked '' @ peer)) (cl_put_disk p d' w1))"
    by (simp add: r from_port_def call_then_Ok printing_def)
  moreover have "access_view st d' = Some entries"
    using write_all_view(2) [OF written assms(8,9)] by simp
  ultimately show ?thesis using assms(3,4) by auto
qed

section \<open>Texts\<close>

lemma collect_all: "collect_results (map (\<lambda>x. Inr (f x)) xs) = Inr (map f xs)"
  by (induction xs) (simp_all add: try_then_def map_ok_def)

lemma parse_shown_int:
  assumes "- (2 ^ 63) \<le> i" and "i < 2 ^ 63"
  shows "parse_int 64 (show_int i) = Some i"
proof (cases "i < 0")
  case True
  have "list_all is_ascii_digit (show_nat (nat (- i)))" using show_nat_digits by (auto simp: list_all_iff)
  with True assms(1) show ?thesis
    by (simp add: show_int_def parse_int_def lit_def digits_value_show_nat nat_le_iff)
next
  case False
  then obtain c ds where ds: "show_nat (nat i) = c # ds" "is_ascii_digit c"
    using show_nat_digits [of _ "nat i"] by (cases "show_nat (nat i)") auto
  moreover have "parse_uint 64 (show_nat (nat i)) = Some (nat i)"
    using False assms(2) by (intro parse_uint_show_nat) (simp add: nat_less_iff)
  ultimately show ?thesis
    using False assms(2) by (simp add: show_int_def parse_int_def is_ascii_digit_def nat_less_iff)
qed

lemma printed_capabilities_tokens:
  "filter (\<lambda>token. token \<noteq> []) (map trim (concat (map (split_on (\<lambda>c. c = 44))
     [join (lit '','') (map capability_as_str capabilities)]))) = map capability_as_str capabilities"
proof -
  have "concat (map (split_on (\<lambda>c. c = 44)) [join (lit '','') (map capability_as_str capabilities)])
      = (if capabilities = [] then [[]] else map capability_as_str capabilities)"
  proof (cases "capabilities = []")
    case False
    have plain: "c \<noteq> 44" if "c \<in> set (capability_as_str x)" for c x
      using that by (cases x) (auto simp: lit_def)
    have "split_on (\<lambda>c. c = 44) (join [44] (map capability_as_str capabilities)) = map capability_as_str capabilities"
      by (rule split_on_join) (use False plain in auto)
    then show ?thesis using False by (simp add: lit_def)
  qed simp
  moreover have "list_all (\<lambda>x. trim (capability_as_str x) = capability_as_str x \<and> capability_as_str x \<noteq> [])
      capability_all" by code_simp
  then have "trim (capability_as_str x) = capability_as_str x \<and> capability_as_str x \<noteq> []" for x
    by (cases x) (simp_all add: capability_all_def)
  moreover have "trim [] = []" by code_simp
  ultimately show ?thesis by (auto simp: filter_id_conv)
qed

text \<open>
  The capabilities that \<open>access list\<close> prints for a device, given as one option, are the ones that
  \<open>access allow\<close> grants; a device listed with none is granted none.
\<close>

theorem printed_capabilities_are_granted:
  "parse_capabilities [join (lit '','') (map capability_as_str capabilities)] = Inr capabilities"
proof -
  have "parse_capability (capability_as_str x) = Inr x" for x
    by (simp add: parse_capability_def capability_name_roundtrip)
  then show ?thesis
    using collect_all [of id capabilities] printed_capabilities_tokens [of capabilities]
    by (simp add: parse_capabilities_def comp_def)
qed

text \<open>A workspace number that is printed is the number that is read when it is given as a target.\<close>

theorem printed_workspace_is_read:
  assumes "- (2 ^ 63) \<le> i" and "i < 2 ^ 63"
  shows "parse_workspace_target (show_int i) = TargetId (WorkspaceId i)"
  using parse_shown_int [OF assms] by (simp add: parse_workspace_target_def)

section \<open>Connecting\<close>

lemma controller_endpoint_Inr:
  assumes "controller_agent_endpoint p port w = (Inr endpoint, w')"
  shows "\<exists>node. cl_local_node p w = (Inr node, w') \<and> first_address (mni_addresses node) = Some (ep_address endpoint)
    \<and> ep_port endpoint = port"
  using assms by (auto simp: controller_agent_endpoint_def call_then_Inr from_port_Inr map_ok_def ok_or_def
      split: option.splits)

lemma profile_of_args_valid: "profile_of_args config args = Inr profile \<Longrightarrow> stream_profile_validate profile = Inr ()"
  by (auto simp: profile_of_args_def from_domain_def cli_context_def Let_def try_then_def map_ok_def
      split: sum.splits)

text \<open>
  Nothing is streamed unprepared: the request that a connection starts with names the first address
  of a device that is online and, as the controller, the first address of this computer, both at the
  configured port; its profile is valid, Sunshine's credentials are configured, and the agent of this
  computer answered with this release and protocol.
\<close>

theorem connection_is_prepared:
  assumes "connect_prepare p args w = (Inr request, w')"
  shows "online_address p (ep_address (cn_endpoint request))
    \<and> stream_profile_validate (cn_profile request) = Inr ()
    \<and> (\<exists>config. fst (cl_config p w) = Inr config \<and> ep_port (cn_controller_endpoint request) = nc_agent_port (cf_network config))
    \<and> (\<exists>v node. fst (cl_local_node p v) = Inr node
         \<and> first_address (mni_addresses node) = Some (ep_address (cn_controller_endpoint request)))
    \<and> (\<exists>v. fst (cl_configured p v) = Inr True)
    \<and> (\<exists>v h. fst (cl_health p (cn_controller_endpoint request) v) = Inr h
         \<and> hr_protocol h = protocol_version \<and> is_compatible_release (hr_agent_version h))"
proof -
  obtain config v1 endpoint v2 controller v3 configured profile where
    config: "load_config p w = (Inr config, v1)"
    and endpoint: "resolve_endpoint p (ca_target args) v1 = (Inr endpoint, v2)"
    and found: "controller_for p config v2 = (Inr controller, v3)"
    and configured: "fst (cl_configured p (snd (cl_health p controller v3))) = Inr configured"
    and ready: "ensure_controller_ready (fst (cl_health p controller v3)) configured = Inr ()"
    and profile: "profile_of_args config args = Inr profile"
    and request: "request = cli_connect_request endpoint controller profile args"
    using assms
    by (auto simp: connect_prepare_def call_then_Inr from_port_Inr case_prod_beta)
  have controller: "controller_agent_endpoint p (nc_agent_port (cf_network config)) v2 = (Inr controller, v3)"
    using found by (auto simp: controller_for_def split: prod.splits)
  have "fst (cl_config p w) = Inr config"
    using config by (auto simp: load_config_def split: prod.splits)
  moreover obtain node where "fst (cl_local_node p v2) = Inr node"
    "first_address (mni_addresses node) = Some (ep_address controller)"
    "ep_port controller = nc_agent_port (cf_network config)"
    using controller_endpoint_Inr [OF controller] by auto
  moreover have "cn_endpoint request = endpoint" "cn_controller_endpoint request = controller" "cn_profile request = profile"
    by (simp_all add: request cli_connect_request_def)
  moreover have "fst (cl_configured p (snd (cl_health p controller v3))) = Inr True"
    using ready configured unfolding ensure_controller_ready_Ok by simp
  ultimately show ?thesis
    using ready resolve_endpoint_Inr(1) [OF endpoint] profile_of_args_valid [OF profile]
    unfolding ensure_controller_ready_Ok by blast
qed

section \<open>Examples\<close>

text \<open>The record is on the disk after it has been written, and its process runs.\<close>

lemma example_session:
  "runtime_session_path (cl_environment example_cli) = Inr session_file"
  "read_record example_cli session_file (write_record example_cli session_file example_record empty_world) = Inr example_record"
  "process_start_ticks example_proc 7 = Some 5"
  by code_simp+

theorem disconnect_signals_recorded_process_witness:
  "let p = example_cli\<lparr>cl_kill := (\<lambda>pid w. if pid = 7 then w\<lparr>cw_killed := [7]\<rparr> else w\<lparr>cw_killed := [pid, pid]\<rparr>)\<rparr>
   in cw_killed (snd (cli_disconnect p (write_record example_cli session_file example_record empty_world))) = [7]"
proof -
  let ?w = "write_record example_cli session_file example_record empty_world"
  let ?kill = "\<lambda>pid w. if pid = 7 then w\<lparr>cw_killed := [7]\<rparr> else w\<lparr>cw_killed := [pid, pid]\<rparr>"
  have killed: "cw_killed ?w = []"
    by (simp add: write_record_def on_disk_def example_cli_def empty_world_def case_prod_beta)
  have "cli_disconnect (example_cli\<lparr>cl_kill := ?kill\<rparr>) ?w = cli_disconnect example_cli ?w"
  proof (rule disconnect_signals_recorded_process)
    fix f r process
    assume "runtime_session_path (cl_environment example_cli) = Inr f" "read_record example_cli f ?w = Inr r"
      "sr_moonlight r = Some process"
    then have "spr_pid process = 7" using example_session by (auto simp: example_record_def)
    then show "?kill (spr_pid process) ?w = cl_kill example_cli (spr_pid process) ?w"
      by (simp add: example_cli_def killed [unfolded example_cli_def])
  qed
  moreover have "cw_killed (snd (cli_disconnect example_cli ?w)) = [7]"
    using example_session killed
    by (simp add: cli_disconnect_def example_record_def process_is_still_running_def example_cli_def
        remove_record_def on_disk_def)
  ultimately show ?thesis by (simp add: Let_def)
qed

definition example_args :: connect_args where
  "example_args =
     \<lparr>ca_target = lit ''n2'', ca_workspace = None, ca_window = None, ca_app_id = None, ca_width = 1920, ca_height = 1080,
      ca_fps = 60, ca_codec = CodecAuto, ca_bitrate = None, ca_fullscreen = False, ca_windowed = False,
      ca_input = InputRemote, ca_no_audio = False, ca_json = False\<rparr>"

theorem ended_connection_leaves_no_record_witness:
  "\<exists>w'. connect_session example_cli stream_ctx_example example_args stream_request [] empty_world = (Some (Inl
       (port_error_new (lit ''PEER_IDENTITY_UNKNOWN'') (lit ''Tailscale does not know the remote address'') False)), w')
     \<and> read_record example_cli session_file w' \<noteq> Inr example_record"
proof -
  let ?run = "connect_session example_cli stream_ctx_example example_args stream_request [] empty_world"
  let ?e = "port_error_new (lit ''PEER_IDENTITY_UNKNOWN'') (lit ''Tailscale does not know the remote address'') False"
  have "prepare_stream (example_stream\<lparr>sp_client_name := n\<rparr>) stream_request w = (Inl ?e, w)" for n w
    by (simp add: prepare_stream_def callback_access_verify_def example_stream_def call_then_def)
  then have run: "?run = (Some (Inl ?e), snd ?run)"
    using example_session(1)
    by (simp add: connect_session_def connect_node_def example_cli_def call_then_def Let_def)
  have faults: "cl_read_fault example_cli = None" "cl_remove_fault example_cli = None" "cl_fresh_session example_cli = 8"
    by (simp_all add: example_cli_def)
  from ended_connection_leaves_no_record [OF example_lens(1) faults(1,2) example_session(1) run] faults(3)
  have "read_record example_cli session_file (snd ?run) \<noteq> Inr example_record"
    by (auto simp: example_record_def)
  with run show ?thesis by blast
qed

lemma example_resolution:
  "resolve_endpoint example_cli (lit ''n2'') w = (Inr \<lparr>ep_address = V4 100 64 0 3, ep_port = 48155\<rparr>, w)"
  "fst (resolve_tailnet_identity example_cli (lit ''gone'') w) =
     Inl (lookup_failure (lit ''gone'') PeerNotFound)"
  "snd (resolve_tailnet_identity example_cli (lit ''gone'') w) = w"
proof -
  have find: "find_peer [example_peer] (lit ''n2'') = Inr example_peer"
    "find_peer [example_peer] (lit ''gone'') = Inl PeerNotFound" by code_simp+
  show "resolve_endpoint example_cli (lit ''n2'') w = (Inr \<lparr>ep_address = V4 100 64 0 3, ep_port = 48155\<rparr>, w)"
    using find(1)
    by (simp add: resolve_endpoint_def resolve_peer_def load_config_def from_port_def example_cli_def call_then_def
        config_default_def unwrap_or_def example_peer_def first_address_def or_else_def network_config_default_def
        default_agent_port_def ok_or_def map_ok_def)
  show "fst (resolve_tailnet_identity example_cli (lit ''gone'') w) = Inl (lookup_failure (lit ''gone'') PeerNotFound)"
    "snd (resolve_tailnet_identity example_cli (lit ''gone'') w) = w"
    using find(2)
    by (simp_all add: resolve_tailnet_identity_def resolve_peer_def load_config_def from_port_def example_cli_def
        call_then_def config_default_def unwrap_or_def map_err_def)
qed

theorem only_valid_commands_are_sent_witness:
  "let p = example_cli\<lparr>cl_send_command := (\<lambda>e c w. if command_validate (cr_command c) = Inr ()
       then (Inr response_executed, w\<lparr>cw_sent := cw_sent w @ [c]\<rparr>) else (Inl sunshine_not_running, w))\<rparr>
   in cw_sent (snd (cli_remote_command p (ActionClose (lit ''n2'') None None None) empty_world))
     = [command_request_new 1 0 (CloseWindow ActiveWindow)]"
proof -
  let ?send = "\<lambda>e c w. if command_validate (cr_command c) = Inr ()
       then (Inr response_executed, w\<lparr>cw_sent := cw_sent w @ [c]\<rparr>) else (Inl sunshine_not_running, w)"
  let ?action = "ActionClose (lit ''n2'') None None None"
  have "cli_remote_command (example_cli\<lparr>cl_send_command := ?send\<rparr>) ?action empty_world
      = cli_remote_command example_cli ?action empty_world"
    by (rule only_valid_commands_are_sent) (simp add: example_cli_def command_request_new_def)
  moreover have "command_endpoint example_cli (lit ''n2'') None empty_world
      = (Inr \<lparr>ep_address = V4 100 64 0 3, ep_port = 48155\<rparr>, empty_world)"
    using example_resolution(1) by (simp add: command_endpoint_def split: option.split)
  then have "cw_sent (snd (cli_remote_command example_cli ?action empty_world))
      = [command_request_new 1 0 (CloseWindow ActiveWindow)]"
    by (simp add: cli_remote_command_def call_then_Ok call_then_returning cli_window_selector_def from_domain_def
        cli_context_def map_err_def from_port_def call_then_def printing_def example_cli_def empty_world_def)
  ultimately show ?thesis by (simp add: Let_def)
qed

theorem printed_workspace_is_read_witness: "parse_workspace_target (show_int (-3)) = TargetId (WorkspaceId (-3))"
  by (rule printed_workspace_is_read) simp_all

theorem connection_is_prepared_witness:
  "\<exists>request. connect_prepare example_cli example_args empty_world = (Inr request, empty_world)
     \<and> cn_controller_endpoint request = \<lparr>ep_address = V4 100 64 0 2, ep_port = 48155\<rparr>
     \<and> stream_profile_validate (cn_profile request) = Inr ()"
proof -
  have profile: "is_ok (profile_of_args config_default example_args)" by code_simp
  have "ensure_controller_ready (Inr \<lparr>hr_status = lit ''ok'', hr_protocol = protocol_version, hr_agent_version = release\<rparr>) True
      = Inr ()" using release_compatible by (simp add: ensure_controller_ready_Ok)
  moreover have "is_ok (access_path (cl_environment example_cli))" by code_simp
  ultimately obtain request where "connect_prepare example_cli example_args empty_world = (Inr request, empty_world)"
    "cn_controller_endpoint request = \<lparr>ep_address = V4 100 64 0 2, ep_port = 48155\<rparr>"
    using profile example_resolution(1) [of empty_world]
    by (auto simp: connect_prepare_def load_config_def call_then_def controller_for_def controller_agent_endpoint_def
        from_port_def example_args_def is_ok_iff cli_connect_request_def first_address_def or_else_def ok_or_def map_ok_def
        map_err_def config_default_def network_config_default_def default_agent_port_def example_calls_of_cli)
  with connection_is_prepared [OF this(1)] show ?thesis by blast
qed

theorem unresolved_revoke_keeps_access_witness:
  "\<exists>d. let w = world_of d; r = cli_access example_cli (AccessRevoke (lit ''gone'')) w
     in fst r = Inr () \<and> access_view example_file (cw_disk (snd r)) = Some [laptop]"
proof -
  obtain d where d: "holds [laptop] d" using example_allow by blast
  let ?w = "world_of d"
  have read: "access_list example_file steady d = (Inr [laptop], d)"
    using example_read [OF d example_small(2)] by (simp add: access_list_def)
  obtain d' where "access_write_all example_file steady [laptop] d = (Inr (), d')" using example_write [OF d] by blast
  then have wrote: "fst (access_write_all example_file steady [laptop] d) = Inr ()" by simp
  have disk: "cl_disk example_cli (snd (resolve_tailnet_identity example_cli (lit ''gone'') ?w)) = d"
    unfolding example_resolution(3) by (simp add: example_cli_def world_of_def)
  have "\<exists>w'. cli_access example_cli (AccessRevoke (lit ''gone'')) ?w
       = (Inr (), cl_print example_cli (OutLine (lit ''Revoked '' @ lit ''gone'')) w')
    \<and> access_view example_file (cl_disk example_cli (snd (cli_access example_cli (AccessRevoke (lit ''gone'')) ?w)))
       = Some [laptop]"
  proof (rule unresolved_revoke_keeps_access [OF example_resolution(2) _ example_lens])
    show "cl_access_revoke example_cli = (\<lambda>i. on_disk example_cli (access_revoke example_file steady i))"
      by (simp add: example_cli_def on_disk_def fun_eq_iff)
    show "lit ''gone'' \<notin> ac_tailnet_node_id ` set [laptop]"
      by (simp add: laptop_def allowed_controller_new_def lit_def)
  qed (use read wrote disk example_codec in \<open>simp_all add: example_file_def\<close>)
  then show ?thesis by (intro exI [of _ d]) (auto simp: Let_def example_cli_def)
qed

end
