(* ===== verification/FollowSupervisor.thy ===== *)
theory FollowSupervisor
  imports DisplaySwitch FollowFocus
begin

text \<open>
  Following the focus while a session lasts: \<open>FollowFocusSupervisor\<close>
  (\<open>crates/omdesky-agent/src/lib.rs\<close>), the task that waits for focus events
  (\<open>spawn_focus_signals\<close>, \<open>crates/omdesky-platform/src/display.rs\<close>) and the router's task, joined by
  a channel of 32 signals, and the session coordinator that starts and stops them.

  A task's turn from one \<open>await\<close> at which it can be woken to the next is one step, and so is an
  operation of the coordinator; the steps of all tasks interleave freely. An aborted task takes no
  further step, and what it held of the channel is dropped. The exception to this grain is an
  abort in the middle of a turn, which cuts the turn's calls short: it is not modelled.
\<close>

definition poll_interval :: duration where
  "poll_interval = from_millis 750"

definition follow_focus_debounce :: duration where
  "follow_focus_debounce = from_millis 50"

definition focus_channel_capacity :: nat where
  "focus_channel_capacity = 32"

section \<open>The tasks of one session\<close>

text \<open>
  The source waits for a line of the event socket (\<open>Reading\<close>), for a tick of its interval
  (\<open>Polling\<close>, with the next tick, which an interval counts from its creation), or for room in the
  channel (\<open>Sending_event\<close>, \<open>Sending_tick\<close>).
\<close>

datatype source_state =
    Source_starting
  | Reading
  | Sending_event
  | Polling instant
  | Sending_tick instant
  | Source_over

datatype router_state = Router_starting | Routing routing_state | Router_over

record follow_session =
  fs_controller :: agent_endpoint
  fs_source :: source_state
  fs_router :: router_state
  fs_signals :: nat

definition spawn_session :: "agent_endpoint \<Rightarrow> follow_session" where
  "spawn_session controller =
     \<lparr>fs_controller = controller, fs_source = Source_starting, fs_router = Router_starting,
      fs_signals = 0\<rparr>"

definition follow_session_stop :: "follow_session \<Rightarrow> follow_session" where
  "follow_session_stop s = s\<lparr>fs_source := Source_over, fs_router := Router_over\<rparr>"

datatype socket_read = Read_failed | Socket_closed | Read_line ustr

datatype source_event =
    Source_begin instant
  | Socket_read socket_read instant
  | Tick instant
  | Channel_ready

definition focus_source :: "socket_env \<Rightarrow> instant \<Rightarrow> source_state" where
  "focus_source env now =
     (case event_socket_path env of
        Some path \<Rightarrow> if se_connects env path then Reading else Polling now
      | None \<Rightarrow> Polling now)"

definition forward_socket_event :: "socket_read \<Rightarrow> instant \<Rightarrow> source_state" where
  "forward_socket_event result now =
     (case result of
        Read_failed \<Rightarrow> Polling now
      | Socket_closed \<Rightarrow> Source_over
      | Read_line line \<Rightarrow> if is_focus_event line then Sending_event else Reading)"

definition poll_focus :: "instant \<Rightarrow> instant \<Rightarrow> source_state" where
  "poll_focus due now = (if due \<le> now then Sending_tick (due + poll_interval) else Polling due)"

text \<open>
  Sending waits for room in the channel and fails when the router, which holds its receiver, is
  gone; either way of working ends then.
\<close>

definition send_signal :: "source_state \<Rightarrow> follow_session \<Rightarrow> follow_session" where
  "send_signal continue s =
     (if fs_router s = Router_over then s\<lparr>fs_source := Source_over\<rparr>
      else if fs_signals s < focus_channel_capacity
      then s\<lparr>fs_source := continue, fs_signals := fs_signals s + 1\<rparr>
      else s)"

fun source_step :: "socket_env \<Rightarrow> source_event \<Rightarrow> follow_session \<Rightarrow> follow_session" where
  "source_step env (Source_begin now) s =
     (if fs_source s = Source_starting then s\<lparr>fs_source := focus_source env now\<rparr> else s)"
| "source_step env (Socket_read result now) s =
     (if fs_source s = Reading then s\<lparr>fs_source := forward_socket_event result now\<rparr> else s)"
| "source_step env (Tick now) s =
     (case fs_source s of Polling due \<Rightarrow> s\<lparr>fs_source := poll_focus due now\<rparr> | _ \<Rightarrow> s)"
| "source_step env Channel_ready s =
     (case fs_source s of
        Sending_event \<Rightarrow> send_signal Reading s
      | Sending_tick due \<Rightarrow> send_signal (Polling due) s
      | _ \<Rightarrow> s)"

text \<open>
  The router's task: \<open>recv\<close> answers with a signal, or with nothing when none is left and the
  source is gone, which ends the loop whatever switch is pending.
\<close>

datatype router_wake = Router_begin | Router_receive instant | Router_timer instant

fun router_task_step ::
    "'w router \<Rightarrow> router_wake \<Rightarrow> follow_session \<times> 'w \<Rightarrow> follow_session \<times> 'w" where
  "router_task_step r Router_begin (s, w) =
     (case fs_router s of
        Router_starting \<Rightarrow>
          (case ro_current_display r w of
             (result, w') \<Rightarrow> (s\<lparr>fs_router := Routing (routing_initial (result_ok result))\<rparr>, w'))
      | _ \<Rightarrow> (s, w))"
| "router_task_step r (Router_receive now) (s, w) =
     (case fs_router s of
        Routing rt \<Rightarrow>
          if 0 < fs_signals s then
            (case router_step r (Signal now) (rt, w) of
               (rt', w') \<Rightarrow> (s\<lparr>fs_router := Routing rt', fs_signals := fs_signals s - 1\<rparr>, w'))
          else if fs_source s = Source_over then (s\<lparr>fs_router := Router_over\<rparr>, w)
          else (s, w)
      | _ \<Rightarrow> (s, w))"
| "router_task_step r (Router_timer now) (s, w) =
     (case fs_router s of
        Routing rt \<Rightarrow>
          (case router_step r (Timer now) (rt, w) of
             (rt', w') \<Rightarrow> (s\<lparr>fs_router := Routing rt'\<rparr>, w'))
      | _ \<Rightarrow> (s, w))"

section \<open>The supervisor\<close>

text \<open>
  \<open>sv_sessions\<close> are the sessions spawned so far, in their order, and \<open>sv_running\<close> is the one in
  the mutex. \<open>poisoned\<close> is the branch for a poisoned mutex, which leaves the new tasks to run on
  their own; nothing can panic while the supervisor holds it, so its callers pass \<open>False\<close>.
\<close>

record supervisor =
  sv_sessions :: "follow_session list"
  sv_running :: "nat option"

definition supervisor_new :: supervisor where
  "supervisor_new = \<lparr>sv_sessions = [], sv_running = None\<rparr>"

definition stop_spawned :: "nat option \<Rightarrow> follow_session list \<Rightarrow> follow_session list" where
  "stop_spawned previous sessions =
     (case previous of
        None \<Rightarrow> sessions
      | Some i \<Rightarrow> sessions[i := follow_session_stop (sessions ! i)])"

definition set_controller :: "bool \<Rightarrow> agent_endpoint option \<Rightarrow> supervisor \<Rightarrow> supervisor" where
  "set_controller poisoned controller sv =
     (let replacement = map_option (\<lambda>_. length (sv_sessions sv)) controller;
          spawned = (case controller of
              None \<Rightarrow> sv_sessions sv
            | Some c \<Rightarrow> sv_sessions sv @ [spawn_session c])
      in if poisoned then sv\<lparr>sv_sessions := spawned\<rparr>
         else \<lparr>sv_sessions = stop_spawned (sv_running sv) spawned, sv_running = replacement\<rparr>)"

definition followed_controller :: "supervisor \<Rightarrow> agent_endpoint option" where
  "followed_controller sv = map_option (\<lambda>i. fs_controller (sv_sessions sv ! i)) (sv_running sv)"

section \<open>The agent's world\<close>

text \<open>
  The host of the agent: its supervisor, the commands its routers sent to other agents, newest
  last, and the rest of the world \<open>'x\<close>, in which the ports answer.
\<close>

record 'x host =
  ho_supervisor :: supervisor
  ho_sent :: "(agent_endpoint \<times> command_request) list"
  ho_rest :: 'x

record 'x follow_ports =
  fp_displays :: "('x, display list port_result) call"
  fp_send_command :: "agent_endpoint \<Rightarrow> command_request \<Rightarrow> ('x, command_response port_result) call"
  fp_notify :: "notification \<Rightarrow> ('x, unit port_result) call"

definition at_rest :: "('x, 'a) call \<Rightarrow> ('x host, 'a) call" where
  "at_rest c w = (case c (ho_rest w) of (result, x) \<Rightarrow> (result, w\<lparr>ho_rest := x\<rparr>))"

definition sending ::
    "(agent_endpoint \<Rightarrow> command_request \<Rightarrow> ('x, command_response port_result) call)
       \<Rightarrow> agent_endpoint \<Rightarrow> command_request \<Rightarrow> ('x host, command_response port_result) call" where
  "sending send endpoint request w =
     at_rest (send endpoint request) (w\<lparr>ho_sent := ho_sent w @ [(endpoint, request)]\<rparr>)"

definition focus_router ::
    "'x follow_ports \<Rightarrow> agent_endpoint \<Rightarrow> uuid \<Rightarrow> offset_date_time \<Rightarrow> 'x host router" where
  "focus_router p controller fresh date =
     \<lparr>ro_current_display = moonlight_current_display (at_rest (fp_displays p)),
      ro_switch_display = moonlight_switch_display (sending (fp_send_command p)) controller fresh date,
      ro_topology = hyprland_topology (at_rest (fp_displays p)),
      ro_notify = (\<lambda>n. at_rest (fp_notify p n)),
      ro_debounce = follow_focus_debounce\<rparr>"

text \<open>
  A step of a task of the \<open>i\<close>-th session. A command of the router takes a fresh identifier and
  the time of day.
\<close>

datatype task_event =
    Source_event source_event
  | Router_event router_wake uuid offset_date_time

fun task_step ::
    "socket_env \<Rightarrow> 'x follow_ports \<Rightarrow> task_event \<Rightarrow> follow_session \<times> 'x host
       \<Rightarrow> follow_session \<times> 'x host" where
  "task_step env p (Source_event e) (s, w) = (source_step env e s, w)"
| "task_step env p (Router_event e fresh date) (s, w) =
     router_task_step (focus_router p (fs_controller s) fresh date) e (s, w)"

definition run_task ::
    "socket_env \<Rightarrow> 'x follow_ports \<Rightarrow> nat \<times> task_event \<Rightarrow> 'x host \<Rightarrow> 'x host" where
  "run_task env p e w =
     (let sv = ho_supervisor w; i = fst e
      in if i < length (sv_sessions sv) then
           (case task_step env p (snd e) (sv_sessions sv ! i, w) of
              (s', w') \<Rightarrow> w'\<lparr>ho_supervisor := sv\<lparr>sv_sessions := (sv_sessions sv)[i := s']\<rparr>\<rparr>)
         else w)"

definition run_tasks ::
    "socket_env \<Rightarrow> 'x follow_ports \<Rightarrow> (nat \<times> task_event) list \<Rightarrow> 'x host \<Rightarrow> 'x host" where
  "run_tasks env p events w = foldl (\<lambda>w e. run_task env p e w) w events"

text \<open>
  The coordinator's effects on this host: keybindings in the rest of the world, and the
  supervisor for following the focus, as \<open>main.rs\<close> wires them.
\<close>

definition host_follow :: "agent_endpoint option \<Rightarrow> 'x host \<Rightarrow> 'x host" where
  "host_follow controller w =
     w\<lparr>ho_supervisor := set_controller False controller (ho_supervisor w)\<rparr>"

definition host_effects ::
    "(command_spec \<Rightarrow> ('x, command_output port_result) call) \<Rightarrow> bool \<Rightarrow> 'x host effects" where
  "host_effects run debug =
     keybind_effects (\<lambda>config. at_rest (keybinds_install run debug config))
       (at_rest (keybinds_clear run)) host_follow"

definition host_new :: "'x \<Rightarrow> 'x host" where
  "host_new x = \<lparr>ho_supervisor = supervisor_new, ho_sent = [], ho_rest = x\<rparr>"

inductive follow_step ::
    "socket_env \<Rightarrow> 'x follow_ports \<Rightarrow> (command_spec \<Rightarrow> ('x, command_output port_result) call) \<Rightarrow> bool
       \<Rightarrow> coordinator \<times> 'x host \<Rightarrow> coordinator \<times> 'x host \<Rightarrow> bool"
  for env p run debug where
  session: "follow_step env p run debug (sc, w) (session_apply (host_effects run debug) op (sc, w))"
| task: "follow_step env p run debug (sc, w) (sc, run_task env p e w)"

inductive_cases follow_step_elims: "follow_step env p run debug st st'"

definition follow_reach ::
    "socket_env \<Rightarrow> 'x follow_ports \<Rightarrow> (command_spec \<Rightarrow> ('x, command_output port_result) call) \<Rightarrow> bool
       \<Rightarrow> coordinator \<times> 'x host \<Rightarrow> coordinator \<times> 'x host \<Rightarrow> bool" where
  "follow_reach env p run debug = (follow_step env p run debug)\<^sup>*\<^sup>*"

section \<open>What a task can do\<close>

lemma at_rest_frame [simp]:
  "ho_supervisor (snd (at_rest c w)) = ho_supervisor w"
  "ho_sent (snd (at_rest c w)) = ho_sent w"
  by (simp_all add: at_rest_def split: prod.splits)

lemma at_rest_frame_pair:
  "at_rest c w = (r, w') \<Longrightarrow> ho_supervisor w' = ho_supervisor w \<and> ho_sent w' = ho_sent w"
  using at_rest_frame [of c w] by simp

text \<open>A list of at most one command, which asks one device for a valid display.\<close>

definition switch_requests :: "agent_endpoint \<Rightarrow> (agent_endpoint \<times> command_request) list \<Rightarrow> bool" where
  "switch_requests c sent \<longleftrightarrow> length sent \<le> 1
     \<and> (\<forall>m\<in>set sent. fst m = c \<and> (\<exists>d. cr_command (snd m) = SwitchStreamDisplay d
          \<and> display_id_validate d = Inr ()))"

lemma switch_requests_Nil [simp]: "switch_requests c []"
  by (simp add: switch_requests_def)

definition sends_switches :: "agent_endpoint \<Rightarrow> 'x host \<Rightarrow> 'x host \<Rightarrow> bool" where
  "sends_switches c w w' \<longleftrightarrow> ho_supervisor w' = ho_supervisor w
     \<and> (\<exists>sent. ho_sent w' = ho_sent w @ sent \<and> switch_requests c sent)"

lemma sends_nothing:
  "ho_supervisor w' = ho_supervisor w \<Longrightarrow> ho_sent w' = ho_sent w \<Longrightarrow> sends_switches c w w'"
  by (auto simp: sends_switches_def)

lemma current_display_frame:
  "ro_current_display (focus_router p c fresh date) w = (r, w') \<Longrightarrow>
     ho_supervisor w' = ho_supervisor w \<and> ho_sent w' = ho_sent w"
  using at_rest_frame [of "fp_displays p" w]
  by (auto simp: focus_router_def moonlight_current_display_def call_then_apply split: sum.splits)

lemma topology_frame:
  "ro_topology (focus_router p c fresh date) w = (r, w') \<Longrightarrow>
     ho_supervisor w' = ho_supervisor w \<and> ho_sent w' = ho_sent w"
  using at_rest_frame [of "fp_displays p" w]
  by (auto simp: focus_router_def hyprland_topology_def call_then_apply split: sum.splits)

lemma switch_display_sent:
  "ro_switch_display (focus_router p c fresh date) d w = (r, w') \<Longrightarrow>
     ho_supervisor w' = ho_supervisor w
     \<and> ho_sent w' = ho_sent w @ (if display_id_validate d = Inr ()
         then [(c, command_request_new fresh date (SwitchStreamDisplay d))] else [])"
  by (cases "display_id_validate d")
    (auto simp: focus_router_def moonlight_switch_display_def sending_def call_then_apply
      split: sum.splits)

lemma commit_pending_sends:
  assumes "commit_pending (focus_router p c fresh date) rt w = (rt', w')"
  shows "sends_switches c w w'"
proof (cases "rt_pending rt")
  case None
  with assms show ?thesis by (auto simp: commit_pending_def intro: sends_nothing)
next
  case (Some d)
  let ?r = "focus_router p c fresh date"
  obtain r w1 where switch: "ro_switch_display ?r d w = (r, w1)" by fastforce
  have notify: "ro_notify ?r n = at_rest (fp_notify p n)" for n by (simp add: focus_router_def)
  have "ho_supervisor w' = ho_supervisor w1 \<and> ho_sent w' = ho_sent w1"
    using assms Some switch by (auto simp: commit_pending_def notify Let_def split: sum.splits)
  with switch_display_sent [OF switch] show ?thesis
    by (auto simp: sends_switches_def switch_requests_def command_request_new_def)
qed

lemma router_step_sends:
  assumes "router_step (focus_router p c fresh date) e (rt, w) = (rt', w')"
  shows "sends_switches c w w'"
proof (cases e)
  case (Signal now)
  with assms show ?thesis
    by (auto simp: reevaluate_def intro!: sends_nothing dest: topology_frame
        split: prod.splits sum.splits)
next
  case (Timer now)
  with assms show ?thesis
    by (auto intro: commit_pending_sends sends_nothing split: option.splits if_splits)
qed

text \<open>What holds of every session, and whether one of its tasks still runs.\<close>

definition session_ok :: "follow_session \<Rightarrow> bool" where
  "session_ok s \<longleftrightarrow> fs_signals s \<le> focus_channel_capacity
     \<and> (\<forall>rt. fs_router s = Routing rt \<longrightarrow> routing_invar rt)"

definition tasks_run :: "follow_session \<Rightarrow> bool" where
  "tasks_run s \<longleftrightarrow> fs_source s \<noteq> Source_over \<or> fs_router s \<noteq> Router_over"

lemma send_signal_facts:
  "fs_controller (send_signal continue s) = fs_controller s"
  "fs_router (send_signal continue s) = fs_router s"
  "session_ok s \<Longrightarrow> session_ok (send_signal continue s)"
  by (auto simp: send_signal_def session_ok_def)

lemma source_step_facts:
  "fs_controller (source_step env e s) = fs_controller s
   \<and> (session_ok s \<longrightarrow> session_ok (source_step env e s))
   \<and> (\<not> tasks_run s \<longrightarrow> source_step env e s = s)"
proof (cases e)
  case Channel_ready
  then show ?thesis
    by (auto simp: send_signal_facts tasks_run_def split: source_state.splits)
qed (auto simp: session_ok_def tasks_run_def split: source_state.splits)

lemma router_task_facts:
  assumes "router_task_step (focus_router p c fresh date) e (s, w) = (s', w')"
  shows "fs_controller s' = fs_controller s" and "session_ok s \<Longrightarrow> session_ok s'"
    and "\<not> tasks_run s \<Longrightarrow> (s', w') = (s, w)" and "sends_switches c w w'"
proof -
  let ?r = "focus_router p c fresh date"
  have inv: "routing_invar rt \<Longrightarrow> router_step ?r e (rt, w) = (rt', w1) \<Longrightarrow> routing_invar rt'"
    for e rt rt' w1 using router_step_invar [of "(rt, w)" ?r e] by simp
  show "fs_controller s' = fs_controller s"
    using assms by (cases e) (auto simp: Let_def split: router_state.splits prod.splits if_splits)
  show "session_ok s'" if "session_ok s"
    using assms that
    by (cases e) (auto simp: session_ok_def routing_initial_invar
        simp del: router_step.simps dest: inv
        split: router_state.splits prod.splits if_splits)
  show "(s', w') = (s, w)" if "\<not> tasks_run s"
    using assms that by (cases e) (auto simp: tasks_run_def)
  show "sends_switches c w w'"
    using assms
    by (cases e) (auto simp del: router_step.simps
        dest: router_step_sends current_display_frame intro: sends_nothing
        split: router_state.splits prod.splits if_splits)
qed

lemma task_step_facts:
  assumes "task_step env p e (s, w) = (s', w')"
  shows "fs_controller s' = fs_controller s" and "session_ok s \<Longrightarrow> session_ok s'"
    and "\<not> tasks_run s \<Longrightarrow> (s', w') = (s, w)" and "sends_switches (fs_controller s) w w'"
  using assms source_step_facts [of env _ s]
  by (cases e; auto dest: router_task_facts intro: sends_nothing)+

section \<open>The task is the router\<close>

text \<open>
  The router's task does what \<open>FollowFocus\<close> says of the router's loop: as long as the channel has
  the signals it receives, its turns are the events of \<open>router_run\<close>.
\<close>

fun wake_of :: "router_event \<Rightarrow> router_wake" where
  "wake_of (Signal now) = Router_receive now"
| "wake_of (Timer now) = Router_timer now"

fun signals_of :: "router_event list \<Rightarrow> nat" where
  "signals_of [] = 0"
| "signals_of (Signal _ # es) = Suc (signals_of es)"
| "signals_of (Timer _ # es) = signals_of es"

lemma router_turns:
  assumes "fs_router s = Routing rt" and "signals_of es \<le> fs_signals s"
  shows "foldl (\<lambda>st e. router_task_step r (wake_of e) st) (s, w) es =
    (case foldl (\<lambda>st e. router_step r e st) (rt, w) es of (rt', w') \<Rightarrow>
       (s\<lparr>fs_router := Routing rt', fs_signals := fs_signals s - signals_of es\<rparr>, w'))"
  using assms
proof (induction es arbitrary: s rt w rule: signals_of.induct)
  case (2 now es)
  obtain rt1 w1 where step: "router_step r (Signal now) (rt, w) = (rt1, w1)" by fastforce
  let ?s = "s\<lparr>fs_router := Routing rt1, fs_signals := fs_signals s - 1\<rparr>"
  have "router_task_step r (Router_receive now) (s, w) = (?s, w1)"
    using 2(2,3) step by (simp del: router_step.simps)
  with 2(1) [of ?s rt1 w1] 2(3) step show ?case
    by (simp del: router_step.simps router_task_step.simps split: prod.split)
next
  case (3 now es)
  obtain rt1 w1 where step: "router_step r (Timer now) (rt, w) = (rt1, w1)" by fastforce
  let ?s = "s\<lparr>fs_router := Routing rt1\<rparr>"
  have "router_task_step r (Router_timer now) (s, w) = (?s, w1)"
    using 3(2) step by (simp del: router_step.simps)
  with 3(1) [of ?s rt1 w1] 3(3) step show ?case
    by (simp del: router_step.simps router_task_step.simps split: prod.split)
qed simp

lemma router_task_runs:
  assumes "fs_router s = Router_starting" and "signals_of es \<le> fs_signals s"
  shows "foldl (\<lambda>st e. router_task_step r e st) (s, w) (Router_begin # map wake_of es) =
    (case router_run r es w of (rt, w') \<Rightarrow>
       (s\<lparr>fs_router := Routing rt, fs_signals := fs_signals s - signals_of es\<rparr>, w'))"
proof -
  obtain result w1 where current: "ro_current_display r w = (result, w1)" by fastforce
  let ?s = "s\<lparr>fs_router := Routing (routing_initial (result_ok result))\<rparr>"
  have "router_task_step r Router_begin (s, w) = (?s, w1)" using assms(1) current by simp
  with router_turns [of ?s "routing_initial (result_ok result)" es r w1] assms(2) current show ?thesis
    by (simp add: router_run_def foldl_map del: router_task_step.simps split: prod.split)
qed

section \<open>The supervisor's invariant\<close>

text \<open>
  No session but the one in the mutex has a task that runs, the channels are within their capacity
  and every router is in a state of its own invariant.
\<close>

definition supervisor_invar :: "supervisor \<Rightarrow> bool" where
  "supervisor_invar sv \<longleftrightarrow>
     (\<forall>i<length (sv_sessions sv). tasks_run (sv_sessions sv ! i) \<longrightarrow> sv_running sv = Some i)
     \<and> (\<forall>i. sv_running sv = Some i \<longrightarrow> i < length (sv_sessions sv))
     \<and> (\<forall>s\<in>set (sv_sessions sv). session_ok s)"

lemma supervisor_invarD:
  assumes "supervisor_invar sv"
  shows "i < length (sv_sessions sv) \<Longrightarrow> tasks_run (sv_sessions sv ! i) \<Longrightarrow> sv_running sv = Some i"
    and "sv_running sv = Some i \<Longrightarrow> i < length (sv_sessions sv)"
    and "s \<in> set (sv_sessions sv) \<Longrightarrow> session_ok s"
  using assms unfolding supervisor_invar_def by blast+

lemma supervisor_invar_new: "supervisor_invar supervisor_new"
  by (simp add: supervisor_invar_def supervisor_new_def)

lemma session_ok_spawn: "session_ok (spawn_session c)"
  by (simp add: session_ok_def spawn_session_def)

lemma stopped_facts:
  "\<not> tasks_run (follow_session_stop s)" "session_ok s \<Longrightarrow> session_ok (follow_session_stop s)"
  by (simp_all add: tasks_run_def follow_session_stop_def session_ok_def)

text \<open>Taking the session out of the mutex stops every task that ran.\<close>

lemma stop_running:
  assumes "supervisor_invar sv"
  shows "length (stop_spawned (sv_running sv) (sv_sessions sv)) = length (sv_sessions sv)"
    and "stop_spawned (sv_running sv) (sv_sessions sv @ new)
           = stop_spawned (sv_running sv) (sv_sessions sv) @ new"
    and "s \<in> set (stop_spawned (sv_running sv) (sv_sessions sv)) \<Longrightarrow> \<not> tasks_run s \<and> session_ok s"
proof -
  let ?ss = "sv_sessions sv"
  note bound = supervisor_invarD(2) [OF assms]
  show len: "length (stop_spawned (sv_running sv) ?ss) = length ?ss"
    by (simp add: stop_spawned_def split: option.splits)
  show "stop_spawned (sv_running sv) (?ss @ new) = stop_spawned (sv_running sv) ?ss @ new"
    using bound by (simp add: stop_spawned_def list_update_append nth_append split: option.splits)
  assume "s \<in> set (stop_spawned (sv_running sv) ?ss)"
  then obtain j where j: "j < length ?ss" "s = stop_spawned (sv_running sv) ?ss ! j"
    unfolding in_set_conv_nth len by blast
  note ok = supervisor_invarD(3) [OF assms nth_mem [OF j(1)]]
  note runs = supervisor_invarD(1) [OF assms j(1)]
  show "\<not> tasks_run s \<and> session_ok s"
  proof (cases "sv_running sv = Some j")
    case True
    with j ok show ?thesis by (simp add: stop_spawned_def stopped_facts)
  next
    case False
    with j have "s = ?ss ! j" by (auto simp: stop_spawned_def split: option.splits)
    with False ok runs show ?thesis by blast
  qed
qed

lemma set_controller_eq:
  assumes "supervisor_invar sv"
  shows "set_controller False controller sv =
     \<lparr>sv_sessions = stop_spawned (sv_running sv) (sv_sessions sv)
        @ (case controller of None \<Rightarrow> [] | Some c \<Rightarrow> [spawn_session c]),
      sv_running = map_option (\<lambda>_. length (sv_sessions sv)) controller\<rparr>"
  by (simp add: set_controller_def stop_running(2) [OF assms] split: option.splits)

lemma set_controller_invar:
  assumes "supervisor_invar sv"
  shows "supervisor_invar (set_controller False controller sv)"
proof -
  let ?old = "stop_spawned (sv_running sv) (sv_sessions sv)"
  note old = stop_running(1,3) [OF assms]
  have dead: "\<not> tasks_run (?old ! i)" if "i < length (sv_sessions sv)" for i
    using that old by (simp add: nth_mem)
  have ok: "session_ok s" if "s \<in> set ?old" for s using that by (rule old(2) [THEN conjunct2])
  show ?thesis
  proof (cases controller)
    case None
    with dead ok old(1) show ?thesis by (simp add: set_controller_eq [OF assms] supervisor_invar_def)
  next
    case (Some c)
    have "length (sv_sessions sv) = i"
      if "i < Suc (length (sv_sessions sv))" "tasks_run ((?old @ [spawn_session c]) ! i)" for i
      using that dead [of i] old(1) by (cases "i < length (sv_sessions sv)") (auto simp: nth_append)
    with Some ok old(1) show ?thesis
      by (simp add: set_controller_eq [OF assms] supervisor_invar_def session_ok_spawn)
  qed
qed

lemma controllers_of_stopped:
  "map fs_controller (stop_spawned previous sessions) = map fs_controller sessions"
proof (rule nth_equalityI)
  show "map fs_controller (stop_spawned previous sessions) ! j = map fs_controller sessions ! j"
    if "j < length (map fs_controller (stop_spawned previous sessions))" for j
    using that
    by (cases "previous = Some j")
      (auto simp: stop_spawned_def follow_session_stop_def nth_list_update split: option.splits)
qed (simp add: stop_spawned_def split: option.splits)

lemma followed_set_controller:
  "followed_controller (set_controller False controller sv) = controller"
proof (cases controller)
  case (Some c)
  let ?ss = "stop_spawned (sv_running sv) (sv_sessions sv @ [spawn_session c])"
  have "length ?ss = Suc (length (sv_sessions sv))"
    by (simp add: stop_spawned_def split: option.splits)
  then have "fs_controller (?ss ! length (sv_sessions sv))
      = map fs_controller ?ss ! length (sv_sessions sv)" by simp
  also have "\<dots> = c" by (simp only: controllers_of_stopped) (simp add: spawn_session_def nth_append)
  finally show ?thesis using Some by (simp add: set_controller_def followed_controller_def)
qed (simp add: set_controller_def followed_controller_def)

section \<open>The supervisor under the coordinator\<close>

text \<open>
  The supervisor is what the coordinator's contract for following asks for: after a clear nobody
  is followed for, after the installation of a remote session its controller is.
\<close>

lemma host_effects_facts:
  "fx_clear (host_effects run debug) w = at_rest (keybinds_clear run) (host_follow None w)"
  "fx_install (host_effects run debug) s w = (r, w') \<Longrightarrow>
     (\<exists>x. w' = (if (\<exists>u. r = Inr u) \<and> as_role s = Remote then host_follow (as_controller s) (w\<lparr>ho_rest := x\<rparr>)
              else w\<lparr>ho_rest := x\<rparr>))"
  by (auto simp: host_effects_def keybind_effects_def at_rest_def split: prod.splits sum.splits)

interpretation hosted: following_effects "host_effects run debug"
    "\<lambda>w. followed_controller (ho_supervisor w)"
  for run :: "command_spec \<Rightarrow> ('x, command_output port_result) call" and debug
  by unfold_locales
    (auto simp: host_effects_facts(1) host_follow_def followed_set_controller
      dest!: host_effects_facts(2))

lemma session_apply_world:
  assumes "P w" and "\<And>s w. P w \<Longrightarrow> P (snd (fx_install fx s w))"
    and "\<And>w. P w \<Longrightarrow> P (snd (fx_clear fx w))"
  shows "P (snd (session_apply fx op (sc, w)))"
proof -
  have clear: "fx_clear fx w = (r, w') \<Longrightarrow> P w \<Longrightarrow> P w'" for w r w'
    using assms(3) [of w] by simp
  have install: "fx_install fx s w = (r, w') \<Longrightarrow> P w \<Longrightarrow> P w'" for s w r w'
    using assms(2) [of w s] by simp
  show ?thesis
    using assms(1)
    by (cases op) (auto simp: session_attach_def session_detach_def session_renew_def
        session_expire_due_def session_release_def session_reconcile_def Let_def assms(3)
        dest: clear install split: prod.splits sum.splits option.splits)
qed

lemma session_apply_host:
  fixes w :: "'x host"
  assumes "supervisor_invar (ho_supervisor w)"
  shows "supervisor_invar (ho_supervisor (snd (session_apply (host_effects run debug) op (sc, w))))"
    and "ho_sent (snd (session_apply (host_effects run debug) op (sc, w))) = ho_sent w"
proof -
  let ?P = "\<lambda>v :: 'x host. supervisor_invar (ho_supervisor v) \<and> ho_sent v = ho_sent w"
  have "?P (snd (session_apply (host_effects run debug) op (sc, w)))"
  proof (rule session_apply_world)
    fix s v assume "?P v"
    moreover obtain r v' where i: "fx_install (host_effects run debug) s v = (r, v')" by fastforce
    ultimately show "?P (snd (fx_install (host_effects run debug) s v))"
      using host_effects_facts(2) [OF i] set_controller_invar
      by (auto simp: host_follow_def i)
  qed (use assms set_controller_invar in \<open>auto simp: host_effects_facts(1) host_follow_def\<close>)
  then show "supervisor_invar (ho_supervisor (snd (session_apply (host_effects run debug) op (sc, w))))"
    and "ho_sent (snd (session_apply (host_effects run debug) op (sc, w))) = ho_sent w" by auto
qed

text \<open>A step of a task changes its own session only, and sends for the running one only.\<close>

lemma run_task_facts:
  assumes "supervisor_invar (ho_supervisor w)"
  shows "supervisor_invar (ho_supervisor (run_task env p e w))"
    and "followed_controller (ho_supervisor (run_task env p e w)) = followed_controller (ho_supervisor w)"
    and "\<exists>sent. ho_sent (run_task env p e w) = ho_sent w @ sent
      \<and> (sent = [] \<or> (\<exists>c. followed_controller (ho_supervisor w) = Some c \<and> switch_requests c sent))"
proof -
  let ?sv = "ho_supervisor w" and ?i = "fst e"
  have "supervisor_invar (ho_supervisor (run_task env p e w))
    \<and> followed_controller (ho_supervisor (run_task env p e w)) = followed_controller (ho_supervisor w)
    \<and> (\<exists>sent. ho_sent (run_task env p e w) = ho_sent w @ sent
      \<and> (sent = [] \<or> (\<exists>c. followed_controller (ho_supervisor w) = Some c \<and> switch_requests c sent)))"
  proof (cases "?i < length (sv_sessions ?sv)")
    case True
    let ?s = "sv_sessions ?sv ! ?i"
    obtain s' w' where step: "task_step env p (snd e) (?s, w) = (s', w')" by fastforce
    note facts = task_step_facts [OF step]
    have run: "run_task env p e w = w'\<lparr>ho_supervisor := ?sv\<lparr>sv_sessions := (sv_sessions ?sv)[?i := s']\<rparr>\<rparr>"
      using True by (simp add: run_task_def step Let_def)
    show ?thesis
    proof (cases "tasks_run ?s")
      case False
      with facts(3) have "s' = ?s" "w' = w" by simp_all
      with run assms show ?thesis by simp
    next
      case runs: True
      with supervisor_invarD(1) [OF assms True] have running: "sv_running ?sv = Some ?i" .
      have "supervisor_invar (?sv\<lparr>sv_sessions := (sv_sessions ?sv)[?i := s']\<rparr>)"
        using assms running facts(2) True
        by (auto simp: supervisor_invar_def nth_list_update dest!: set_update_subset_insert [THEN subsetD]
            split: if_splits)
      with run running facts(1,4) True show ?thesis
        by (auto simp: followed_controller_def sends_switches_def)
    qed
  qed (simp add: run_task_def assms)
  then show "supervisor_invar (ho_supervisor (run_task env p e w))"
    and "followed_controller (ho_supervisor (run_task env p e w)) = followed_controller (ho_supervisor w)"
    and "\<exists>sent. ho_sent (run_task env p e w) = ho_sent w @ sent
      \<and> (sent = [] \<or> (\<exists>c. followed_controller (ho_supervisor w) = Some c \<and> switch_requests c sent))"
    by blast+
qed

lemma follow_step_invar:
  assumes "follow_step env p run debug st st'"
    and "supervisor_invar (ho_supervisor (snd st)) \<and> hosted.entitled st"
  shows "supervisor_invar (ho_supervisor (snd st')) \<and> hosted.entitled st'"
  using assms
proof cases
  case (session sc w op)
  with assms(2) session_apply_host(1) [of w run debug op sc]
    hosted.apply_entitled [of sc w run debug op] show ?thesis by simp
next
  case (task sc w e)
  with assms(2) run_task_facts(1,2) [of w env p e] show ?thesis by (simp add: hosted.entitled_def)
qed

lemma follow_reach_invar:
  assumes "follow_reach env p run debug (coordinator_new lease, host_new x) st"
  shows "supervisor_invar (ho_supervisor (snd st)) \<and> hosted.entitled st"
  using assms unfolding follow_reach_def
proof (induction rule: rtranclp_induct)
  case base
  have "followed_controller (ho_supervisor (host_new x)) = None"
    by (simp add: host_new_def supervisor_new_def followed_controller_def)
  from hosted.entitled_None [of "host_new x" "coordinator_new lease", OF this]
  show ?case using supervisor_invar_new by (simp add: host_new_def)
next
  case (step st st')
  from follow_step_invar [OF step(2,3)] show ?case .
qed

section \<open>Correctness\<close>

text \<open>
  C6: One session is followed at a time, and for the right device. In every state that the
  coordinator, the supervisor and its tasks reach, whatever their steps' order and whatever the
  desktop and the network answer: if a task of any session spawned so far still runs, the active
  session is remote and its controller is the device that task works for; there is one such
  session of tasks at most; and no channel holds more signals than its capacity.
\<close>

theorem tasks_run_for_active_controller:
  assumes "follow_reach env p run debug (coordinator_new lease, host_new x) (sc, w)"
    and "i < length (sv_sessions (ho_supervisor w))"
    and "tasks_run (sv_sessions (ho_supervisor w) ! i)"
  shows "\<exists>s. sc_active sc = Some s \<and> as_role s = Remote
      \<and> as_controller s = Some (fs_controller (sv_sessions (ho_supervisor w) ! i))
      \<and> (\<forall>j<length (sv_sessions (ho_supervisor w)). tasks_run (sv_sessions (ho_supervisor w) ! j) \<longrightarrow> j = i)
      \<and> (\<forall>t\<in>set (sv_sessions (ho_supervisor w)). fs_signals t \<le> 32)"
proof -
  have invar: "supervisor_invar (ho_supervisor w)" and entitled: "hosted.entitled (sc, w)"
    using follow_reach_invar [OF assms(1)] by simp_all
  note running = supervisor_invarD(1) [OF invar assms(2,3)]
  then have "followed_controller (ho_supervisor w) = Some (fs_controller (sv_sessions (ho_supervisor w) ! i))"
    by (simp add: followed_controller_def)
  with entitled obtain s where "sc_active sc = Some s" "as_role s = Remote"
    "as_controller s = Some (fs_controller (sv_sessions (ho_supervisor w) ! i))"
    by (auto simp: hosted.entitled_def)
  moreover have "j = i" if "j < length (sv_sessions (ho_supervisor w))"
      "tasks_run (sv_sessions (ho_supervisor w) ! j)" for j
    using supervisor_invarD(1) [OF invar that] running by simp
  moreover have "fs_signals t \<le> 32" if "t \<in> set (sv_sessions (ho_supervisor w))" for t
    using supervisor_invarD(3) [OF invar that] by (simp add: session_ok_def focus_channel_capacity_def)
  ultimately show ?thesis by blast
qed

text \<open>
  C7: Only the active controller is asked to switch displays. A step of the coordinator, or of a task
  of any session ever spawned, sends at most one command; if it sends one, that is a switch to a
  valid display, sent to the controller of the remote session that is active.
\<close>

theorem switches_reach_active_controller:
  assumes "follow_reach env p run debug (coordinator_new lease, host_new x) (sc, w)"
    and "follow_step env p run debug (sc, w) (sc', w')"
  shows "\<exists>sent. ho_sent w' = ho_sent w @ sent \<and> length sent \<le> 1
    \<and> (\<forall>(c, request)\<in>set sent.
        (\<exists>s. sc_active sc = Some s \<and> as_role s = Remote \<and> as_controller s = Some c)
        \<and> (\<exists>d. cr_command request = SwitchStreamDisplay d \<and> display_id_validate d = Inr ()))"
  using assms(2)
proof cases
  case (session op)
  with follow_reach_invar [OF assms(1)] session_apply_host(2) [of w run debug op sc] show ?thesis
    by (cases "session_apply (host_effects run debug) op (sc, w)") auto
next
  case (task e)
  have invar: "supervisor_invar (ho_supervisor w)" and entitled: "hosted.entitled (sc, w)"
    using follow_reach_invar [OF assms(1)] by simp_all
  from run_task_facts(3) [OF invar, of env p e] obtain sent where sent:
    "ho_sent w' = ho_sent w @ sent"
    "sent = [] \<or> (\<exists>c. followed_controller (ho_supervisor w) = Some c \<and> switch_requests c sent)"
    using task by blast
  with entitled show ?thesis
    by (intro exI [of _ sent]) (fastforce simp: hosted.entitled_def switch_requests_def)
qed

lemma run_tasks_simps [simp]:
  "run_tasks env p [] w = w"
  "run_tasks env p (e # es) w = run_tasks env p es (run_task env p e w)"
  by (simp_all add: run_tasks_def)

text \<open>
  While the source polls, a focus change is followed. Whatever was sent before, once the next tick
  is due, the tick, the signal and the timer switch the stream to the display that has the focus
  by the topology the signal read, and the source goes on polling.
\<close>

theorem polling_follows_focus:
  fixes w :: "'x host"
  assumes "i < length (sv_sessions (ho_supervisor w))"
    and "sv_sessions (ho_supervisor w) ! i =
      \<lparr>fs_controller = c, fs_source = Polling due, fs_router = Routing rt, fs_signals = 0\<rparr>"
    and "rt_streamed rt = Some streamed"
    and "fp_displays p (ho_rest w) = (Inr displays, x1)"
    and "topology_preferred (topology_from_displays displays) = Some target"
    and "target \<noteq> streamed" and "display_id_validate target = Inr ()"
    and "fp_send_command p c (command_request_new fresh date (SwitchStreamDisplay target)) x1
      = (Inr response, x2)"
    and "due \<le> tick" and "signal + from_millis 50 \<le> timer"
  shows "(let w' = run_tasks env p
        [(i, Source_event (Tick tick)), (i, Source_event Channel_ready),
         (i, Router_event (Router_receive signal) fresh' date'),
         (i, Router_event (Router_timer timer) fresh date)] w
    in ho_sent w' = ho_sent w @ [(c, command_request_new fresh date (SwitchStreamDisplay target))]
     \<and> sv_sessions (ho_supervisor w') ! i =
        \<lparr>fs_controller = c, fs_source = Polling (due + from_millis 750),
         fs_router = Routing (routing_initial (Some target)), fs_signals = 0\<rparr>)"
proof -
  let ?r = "\<lambda>f d. focus_router p c f d :: 'x host router"
  have topo: "ro_topology (?r f d) v = (Inr (topology_from_displays displays), v\<lparr>ho_rest := x1\<rparr>)"
    if "ho_rest v = ho_rest w" for f d and v :: "'x host"
    using assms(4) that
    by (simp add: focus_router_def hyprland_topology_def at_rest_def call_then_apply returning_apply)
  have switch: "ro_switch_display (?r fresh date) target v = (Inr (),
      v\<lparr>ho_sent := ho_sent v @ [(c, command_request_new fresh date (SwitchStreamDisplay target))],
        ho_rest := x2\<rparr>)" if "ho_rest v = x1" for v :: "'x host"
    using assms(7,8) that
    by (simp add: focus_router_def moonlight_switch_display_def sending_def at_rest_def
        call_then_apply returning_apply)
  have debounce: "ro_debounce (?r f d) = from_millis 50" for f d
    by (simp add: focus_router_def follow_focus_debounce_def)
  have moves: "follow_focus_target (topology_from_displays displays) streamed = Some target"
    using assms(5,6) by (simp add: follow_focus_target_Some)
  show ?thesis
    using assms(1-3,9,10)
    by (simp add: run_task_def Let_def poll_focus_def send_signal_def focus_channel_capacity_def
        poll_interval_def reevaluate_def topo debounce route_topology_def moves
        commit_pending_def switch routing_initial_def)
qed

text \<open>
  C40: A socket that Hyprland closes ends the following for good, while the supervisor still holds the
  session: the source falls back to polling only when reading fails. After the end of the stream
  and the router's next turn both tasks are over, and no later step of them sends anything or
  changes anything, until a controller is set again. A failing read is followed by polling.
\<close>

theorem closed_socket_ends_following:
  fixes w :: "'x host"
  assumes "i < length (sv_sessions (ho_supervisor w))"
    and "sv_sessions (ho_supervisor w) ! i =
      \<lparr>fs_controller = c, fs_source = Reading, fs_router = Routing rt, fs_signals = 0\<rparr>"
    and "sv_running (ho_supervisor w) = Some i"
  shows "(let w' = run_tasks env p
        [(i, Source_event (Socket_read Socket_closed t)),
         (i, Router_event (Router_receive t') fresh date)] w
      in followed_controller (ho_supervisor w') = Some c
       \<and> \<not> tasks_run (sv_sessions (ho_supervisor w') ! i)
       \<and> run_tasks env p (map (Pair i) events) w' = w')
    \<and> fs_source (sv_sessions (ho_supervisor
        (run_task env p (i, Source_event (Socket_read Read_failed t)) w)) ! i) = Polling t"
proof -
  define w' where "w' = run_tasks env p
      [(i, Source_event (Socket_read Socket_closed t)),
       (i, Router_event (Router_receive t') fresh date)] w"
  have w': "w' = w\<lparr>ho_supervisor := (ho_supervisor w)\<lparr>sv_sessions := (sv_sessions (ho_supervisor w))
      [i := \<lparr>fs_controller = c, fs_source = Source_over, fs_router = Router_over, fs_signals = 0\<rparr>]\<rparr>\<rparr>"
    using assms(1,2) by (simp add: w'_def run_task_def Let_def forward_socket_event_def)
  have over: "\<not> tasks_run (sv_sessions (ho_supervisor w') ! i)"
    using assms(1) by (simp add: w' tasks_run_def)
  have "run_task env p (i, e) w' = w'" for e
  proof (cases "task_step env p e (sv_sessions (ho_supervisor w') ! i, w')")
    case (Pair s' v)
    with task_step_facts(3) [OF Pair over] show ?thesis by (simp add: run_task_def Let_def)
  qed
  then have "run_tasks env p (map (Pair i) events) w' = w'" by (induction events) simp_all
  with over assms show ?thesis
    by (simp add: Let_def flip: w'_def)
      (simp add: w' followed_controller_def run_task_def Let_def forward_socket_event_def)
qed

section \<open>An example\<close>

text \<open>
  A remote session whose controller is \<open>example_controller\<close>; Hyprland's socket is not found, and
  the focus moves to the second display after the session was attached.
\<close>

definition example_socket_env :: socket_env where
  "example_socket_env = \<lparr>se_signature = None, se_runtime_dir = None, se_metadata = (\<lambda>_. None),
     se_own_uid = None, se_connects = (\<lambda>_. False)\<rparr>"

definition example_screen :: "ustr \<Rightarrow> bool \<Rightarrow> display" where
  "example_screen name focused = \<lparr>d_id = name, d_name = name, d_width = 1920, d_height = 1080,
     d_refresh_hz = 60, d_focused = focused\<rparr>"

definition example_screens :: "bool \<Rightarrow> display list" where
  "example_screens moved = [example_screen (lit ''DP-1'') (\<not> moved), example_screen (lit ''DP-2'') moved]"

definition example_follow_ports :: "nat follow_ports" where
  "example_follow_ports =
     \<lparr>fp_displays = (\<lambda>n. (Inr (example_screens (2 < n)), Suc n)),
      fp_send_command = (\<lambda>endpoint request n. (Inr response_executed, n)),
      fp_notify = (\<lambda>_ n. (Inr (), n))\<rparr>"

definition example_attached :: "coordinator \<times> nat host" where
  "example_attached = session_apply (host_effects example_answer False)
     (OpAttach 0 7 (lit ''n1'') Remote (Some example_controller) (WindowClass moonlight_window_class))
     (coordinator_new default_lease, host_new 0)"

lemma example_attached_eq:
  "example_attached =
     (\<lparr>sc_active = Some \<lparr>as_id = 7, as_generation = 1, as_owner = lit ''n1'', as_role = Remote,
         as_controller = Some example_controller, as_window = WindowClass moonlight_window_class\<rparr>,
       sc_expires_at = Some default_lease, sc_generation = 1, sc_lease = default_lease\<rparr>,
      \<lparr>ho_supervisor = \<lparr>sv_sessions = [spawn_session example_controller], sv_running = Some 0\<rparr>,
       ho_sent = [], ho_rest = 2\<rparr>)"
  using moonlight_class_valid
  by (simp add: example_attached_def session_attach_def host_effects_def keybind_effects_def
      at_rest_def keybinds_install_def keybinds_clear_def example_answer_def call_then_apply
      host_follow_def host_new_def supervisor_new_def set_controller_def stop_spawned_def
      coordinator_new_def saturating_add_def returning_apply Let_def)

definition example_started :: "nat host" where
  "example_started = run_tasks example_socket_env example_follow_ports
     [(0, Source_event (Source_begin 0)), (0, Router_event Router_begin 1 0)] (snd example_attached)"

definition example_pending :: "nat host" where
  "example_pending = run_tasks example_socket_env example_follow_ports
     [(0, Source_event (Tick 0)), (0, Source_event Channel_ready),
      (0, Router_event (Router_receive 10) 2 0)] example_started"

lemma run_tasks_reach:
  "follow_reach env p run debug st (sc, w) \<Longrightarrow> follow_reach env p run debug st (sc, run_tasks env p es w)"
proof (induction es arbitrary: w)
  case (Cons e es)
  have "follow_reach env p run debug st (sc, run_task env p e w)"
    using Cons.prems follow_step.task unfolding follow_reach_def by (rule rtranclp.rtrancl_into_rtrancl)
  from Cons.IH [OF this] show ?case by simp
qed simp

lemma example_follow_reach:
  "follow_reach example_socket_env example_follow_ports example_answer False
     (coordinator_new default_lease, host_new 0) (fst example_attached, example_pending)"
proof -
  have "follow_reach example_socket_env example_follow_ports example_answer False
      (coordinator_new default_lease, host_new 0) (fst example_attached, snd example_attached)"
    unfolding follow_reach_def example_attached_def prod.collapse
    by (rule r_into_rtranclp) (rule follow_step.session)
  then show ?thesis unfolding example_pending_def example_started_def by (intro run_tasks_reach)
qed

lemmas example_follow_simps = run_task_def Let_def event_socket_path_def focus_source_def
  example_socket_env_def example_follow_ports_def focus_router_def moonlight_current_display_def
  hyprland_topology_def at_rest_def call_then_apply returning_apply spawn_session_def
  example_screens_def example_screen_def topology_from_displays_def topology_preferred_def

lemma example_started_eq:
  "example_started =
     \<lparr>ho_supervisor = \<lparr>sv_sessions = [\<lparr>fs_controller = example_controller, fs_source = Polling 0,
         fs_router = Routing (routing_initial (Some (DisplayId (lit ''DP-1'')))), fs_signals = 0\<rparr>],
        sv_running = Some 0\<rparr>, ho_sent = [], ho_rest = 3\<rparr>"
  by (simp add: example_started_def example_attached_eq example_follow_simps)

lemma example_pending_eq:
  "example_pending =
     \<lparr>ho_supervisor = \<lparr>sv_sessions = [\<lparr>fs_controller = example_controller,
         fs_source = Polling (from_millis 750),
         fs_router = Routing \<lparr>rt_streamed = Some (DisplayId (lit ''DP-1'')),
           rt_pending = Some (DisplayId (lit ''DP-2'')), rt_deadline = Some (10 + from_millis 50)\<rparr>,
         fs_signals = 0\<rparr>], sv_running = Some 0\<rparr>, ho_sent = [], ho_rest = 4\<rparr>"
  by (simp add: example_pending_def example_started_eq poll_focus_def poll_interval_def
      send_signal_def focus_channel_capacity_def reevaluate_def route_topology_def
      routing_initial_def follow_focus_target_def follow_focus_debounce_def lit_def example_follow_simps)

lemma valid_second_display: "display_id_validate (DisplayId (lit ''DP-2'')) = Inr ()"
  by (simp add: display_id_validate_def display_id_char_def lit_def is_ascii_alphanumeric_def
      is_ascii_uppercase_def is_ascii_digit_def is_ascii_lowercase_def utf8_len_def Let_def)

theorem tasks_run_for_active_controller_witness:
  "\<exists>s. sc_active (fst example_attached) = Some s \<and> as_role s = Remote
     \<and> as_controller s = Some example_controller"
  using tasks_run_for_active_controller [OF example_follow_reach, of 0]
  by (auto simp: example_pending_eq tasks_run_def)

theorem switches_reach_active_controller_witness:
  "\<exists>sent. ho_sent (run_task example_socket_env example_follow_ports
       (0, Router_event (Router_timer (10 + from_millis 50)) 3 0) example_pending) = sent
     \<and> length sent = 1
     \<and> (\<forall>(c, request)\<in>set sent.
         \<exists>s. sc_active (fst example_attached) = Some s \<and> as_role s = Remote \<and> as_controller s = Some c)"
proof -
  let ?w = "run_task example_socket_env example_follow_ports
      (0, Router_event (Router_timer (10 + from_millis 50)) 3 0) example_pending"
  have "length (ho_sent ?w) = 1"
    using valid_second_display
    by (simp add: example_pending_eq commit_pending_def moonlight_switch_display_def sending_def
        example_follow_simps)
  moreover have "ho_sent example_pending = []" by (simp add: example_pending_eq)
  ultimately show ?thesis
    using switches_reach_active_controller [OF example_follow_reach follow_step.task,
        of "(0, Router_event (Router_timer (10 + from_millis 50)) 3 0)"]
    by auto
qed

theorem polling_follows_focus_witness:
  "ho_sent (run_tasks example_socket_env example_follow_ports
       [(0, Source_event (Tick 0)), (0, Source_event Channel_ready),
        (0, Router_event (Router_receive 10) 2 0),
        (0, Router_event (Router_timer (10 + from_millis 50)) 3 0)] example_started)
     = [(example_controller, command_request_new 3 0 (SwitchStreamDisplay (DisplayId (lit ''DP-2''))))]"
proof -
  have preferred: "topology_preferred (topology_from_displays (example_screens True)) = Some (DisplayId (lit ''DP-2''))"
    by (simp add: example_screens_def example_screen_def topology_from_displays_def
        topology_preferred_def)
  show ?thesis
    using polling_follows_focus [of 0 example_started example_controller 0
        "routing_initial (Some (DisplayId (lit ''DP-1'')))" "DisplayId (lit ''DP-1'')"
        example_follow_ports "example_screens True" 4 "DisplayId (lit ''DP-2'')" 3 0
        response_executed 4 0 10 "10 + from_millis 50" example_socket_env 2 0]
      preferred valid_second_display
    by (simp add: example_started_eq routing_initial_def example_follow_ports_def Let_def lit_def)
qed

definition example_reading :: "nat host" where
  "example_reading = host_new 0\<lparr>ho_supervisor := \<lparr>sv_sessions = [\<lparr>fs_controller = example_controller,
     fs_source = Reading, fs_router = Routing (routing_initial None), fs_signals = 0\<rparr>],
     sv_running = Some 0\<rparr>\<rparr>"

theorem closed_socket_ends_following_witness:
  "\<not> tasks_run (sv_sessions (ho_supervisor (run_tasks example_socket_env example_follow_ports
      [(0, Source_event (Socket_read Socket_closed 5)), (0, Router_event (Router_receive 6) 1 0)]
      example_reading)) ! 0)"
  using closed_socket_ends_following [of 0 example_reading example_controller "routing_initial None"
      example_socket_env example_follow_ports 5 6 1 0 "[]"]
  by (simp add: example_reading_def Let_def)

end
