(* ===== verification/FollowChain.thy ===== *)
theory FollowChain
  imports FollowSupervisor HttpClient
begin

text \<open>
  A display switch from end to end: the router of the desktop sends it through the HTTP client
  (\<open>omdesky-platform/src/agent_client.rs\<close>) to the agent of the controller, which asks the desktop for
  its displays, resolves the shortcut (\<open>omdesky-platform/src/display.rs\<close>) and runs it on the
  controller's own desktop (\<open>omdesky-agent/src/lib.rs\<close>). Every definition is one of the theories
  that model those files.
\<close>

lemma switch_display_command_Ok:
  assumes "switch_display_command env ctx target (st, w) = (Inr response, st', w')"
  obtains displays shortcut w1 w2 w3 w4 where
    "env_client_displays env \<lparr>ep_address = rc_source ctx, ep_port = env_agent_port env\<rparr> w1
       = (Inr displays, w2)"
    "resolve_display_switch_shortcut displays target = Inr shortcut"
    "env_execute env shortcut w3 = (Inr (), w4)" and "st' = st"
  using assms
  by (auto simp: switch_display_command_def on_world_def through_port_def reply_def returning_apply
      call_then_apply Let_def case_prod_beta map_err_Inr is_ok_def prod_eq_iff
      split: sum.splits prod.splits)

text \<open>
  C23: A successful display switch pressed the display's shortcut. Let the router of a desktop be
  told that its switch to a display succeeded, over a connection to the agent of its controller,
  while that agent is not itself the remote end of a session (it would relay the switch to its own
  controller then). That agent admitted the command: its sender is authorised to send shortcuts,
  the display is valid and the command is fresh. It asked the sender's own agent for the displays,
  and ran the Sunshine shortcut \<open>Ctrl+Alt+Shift+F<n>\<close> on the Moonlight window, where the display is
  the n-th of the answer.
\<close>

theorem successful_switch_pressed_shortcut:
  assumes "heard rf (CommandRequestBody (command_request_new fresh date (SwitchStreamDisplay d)))"
    and "transfers js encode pieces env ctx
      (PostCommand (Inr (command_request_new fresh date (SwitchStreamDisplay d)))) (st, w)"
    and "moonlight_switch_display
      (client_send_command js (agent_connection rf encode pieces c env ctx)) c fresh date d (st, w)
      = (Inr u, st', w')"
    and "\<And>s. session_snapshot (rc_session_now ctx) (st_sessions st) = Some s \<Longrightarrow> as_role s \<noteq> Remote"
  shows "command_admissible env ctx (command_request_new fresh date (SwitchStreamDisplay d)) st w
    \<and> (\<exists>displays n w1 w2 w3 w4.
        env_client_displays env \<lparr>ep_address = rc_source ctx, ep_port = env_agent_port env\<rparr> w1
          = (Inr displays, w2)
        \<and> n < length displays \<and> n < 13 \<and> d_id (displays ! n) = display_id_str d
        \<and> env_execute env (SendShortcut
            \<lparr>kc_mods = [Ctrl, Alt, Shift], kc_key = lit ''F'' @ show_nat (Suc n)\<rparr>
            (WindowClass moonlight_window_class)) w3 = (Inr (), w4))"
proof -
  let ?request = "command_request_new fresh date (SwitchStreamDisplay d)"
  have "fst (answer_at_client (\<lambda>x. x) (run_command env ctx (Inr ?request) (st, w))) \<noteq> Inl e" for e
    using assms(3) send_command_over_agent [OF assms(1,2), of c]
    by (auto simp: moonlight_switch_display_def call_then_apply returning_apply split: sum.splits)
  then obtain response where ran: "fst (run_command env ctx (Inr ?request) (st, w)) = Inr response"
    by (cases "fst (run_command env ctx (Inr ?request) (st, w))")
      (auto simp: answer_at_client_def case_prod_beta result_simps)
  obtain st1 w1 where run: "run_command env ctx (Inr ?request) (st, w) = (Inr response, st1, w1)"
    using ran by (metis prod.collapse)
  have admissible: "command_admissible env ctx ?request st w"
    using run_command_refused_state [OF _ run] by (auto simp: is_ok_simps)
  then obtain v where
    action: "run_action env ctx (SwitchStreamDisplay d) (admitted_state env ctx ?request st w, v)
      = (Inr response, st1, w1)"
  proof (rule run_command_admissible)
    fix peer v
    assume "run_command env ctx (Inr ?request) (st, w) =
      (if is_session_control (cr_command ?request)
       then apply_session_command env ctx peer (cr_command ?request) (cr_session ?request)
       else run_action env ctx (cr_command ?request)) (admitted_state env ctx ?request st w, snd (snd v))"
    with run that show thesis by (simp add: command_request_new_def)
  qed
  have "switch_display_command env ctx d (admitted_state env ctx ?request st w, v) = (Inr response, st1, w1)"
    using action assms(4)
    by (auto simp: run_action_def admitted_state_def split: option.splits if_splits)
  then obtain displays shortcut w2 w3 w4 w5 where
    "env_client_displays env \<lparr>ep_address = rc_source ctx, ep_port = env_agent_port env\<rparr> w2 = (Inr displays, w3)"
    "resolve_display_switch_shortcut displays d = Inr shortcut"
    "env_execute env shortcut w4 = (Inr (), w5)"
    by (rule switch_display_command_Ok)
  with display_switch_resolves [OF this(2)] admissible show ?thesis by blast
qed

definition switch_env :: "nat agent_env" where
  "switch_env = example_env\<lparr>env_client_displays := (\<lambda>_ w. (Inr (example_screens True), w))\<rparr>"

definition switch_wire :: wire_format where
  "switch_wire = example_wire\<lparr>js_command := (\<lambda>_. Some response_executed)\<rparr>"

theorem successful_switch_pressed_shortcut_witness:
  "\<exists>n w3 w4. n < 13 \<and> env_execute switch_env (SendShortcut
      \<lparr>kc_mods = [Ctrl, Alt, Shift], kc_key = lit ''F'' @ show_nat (Suc n)\<rparr>
      (WindowClass moonlight_window_class)) w3 = (Inr (), w4)"
proof -
  let ?ctx = "example_ctx (V4 100 64 0 3)" and ?d = "DisplayId (lit ''DP-2'')"
  let ?call = "moonlight_switch_display (client_send_command switch_wire
      (agent_connection example_requests example_encode (\<lambda>b. [b]) controller_endpoint switch_env ?ctx))
      controller_endpoint 3 0 ?d (agent_start True, 0)"
  have heard: "heard example_requests (CommandRequestBody (command_request_new 3 0 (SwitchStreamDisplay ?d)))"
    by code_simp
  have transfers: "transfers switch_wire example_encode (\<lambda>b. [b]) switch_env ?ctx
      (PostCommand (Inr (command_request_new 3 0 (SwitchStreamDisplay ?d)))) (agent_start True, 0)"
    unfolding transfers_def carries_def max_response_bytes_def by code_simp
  have "is_ok (fst (run_command switch_env ?ctx
      (Inr (command_request_new 3 0 (SwitchStreamDisplay ?d))) (agent_start True, 0)))"
    by code_simp
  then obtain response st' w' where ran: "run_command switch_env ?ctx
      (Inr (command_request_new 3 0 (SwitchStreamDisplay ?d))) (agent_start True, 0) = (Inr response, st', w')"
    by (metis is_ok_iff prod.collapse)
  have "client_send_command switch_wire
      (agent_connection example_requests example_encode (\<lambda>b. [b]) controller_endpoint switch_env ?ctx) controller_endpoint
      (command_request_new 3 0 (SwitchStreamDisplay ?d)) (agent_start True, 0) = (Inr response, st', w')"
    unfolding send_command_over_agent [OF heard transfers, of controller_endpoint] ran
    by (simp add: answer_at_client_def result_simps)
  then have "?call = (Inr (), st', w')"
    by (simp add: moonlight_switch_display_def valid_second_display call_then_apply returning_apply)
  moreover have "session_snapshot t (st_sessions (agent_start True)) = None" for t
    by (simp add: agent_start_def session_snapshot_def coordinator_new_def)
  ultimately show ?thesis
    using successful_switch_pressed_shortcut [OF heard transfers, of controller_endpoint "()" st' w'] by auto
qed

end
