(* ===== verification/Spec2Isabelle.thy ===== *)
theory Spec2Isabelle
  imports Prelude RustStr HashMapModel Core Text ErrorCodes Ports Replay Pairing Session Keybinds
    Authorize DisplaySwitch AgentFacts Target FollowFocus Discovery StreamSession
    Utf8 Disk AccessStore Process HttpClient
    Tailscale Hyprland Moonlight Sunshine
    Config Theme Identity SessionRecord Launcher Omarchy
    Tui TuiSystem TuiText AgentMain CliPorts Doctor Cli FollowSupervisor FollowChain
begin

text \<open>
  Omdesky lets one computer of a Tailscale network (the controller) open the Hyprland desktop of
  another (the remote) as a Moonlight/Sunshine stream. Every computer runs
  \<open>omdesky-agent\<close>, an HTTP service on its Tailscale address; the command line and the
  terminal interface of the controller call the local and the remote agent through the services of
  \<open>omdesky-application\<close>, and \<open>omdesky-platform\<close> implements the ports of
  those services on the system's programs. All source paths below are relative to
  \<open>src/crates\<close>.

  How the parts interact. A request enters the agent (\<open>omdesky-agent/src/lib.rs\<close>),
  which checks the sender's release, then authorises it (\<open>authorize.rs\<close>: Tailscale
  range, rate limit, identity, allowlist, capability). Commands are validated
  (\<open>omdesky-core\<close>), pass the replay guard (\<open>replay.rs\<close>) and then change
  the desktop session (\<open>session.rs\<close>), are relayed to the controller, or are executed
  on the desktop (\<open>omdesky-platform/src/input.rs\<close>). Pairing needs a challenge
  (\<open>pairing.rs\<close>). A remote session installs keybindings and follows the focused
  display for its controller (\<open>omdesky-application/src/display.rs\<close>);
  \<open>services.rs\<close> runs the controller's side of a stream.

  Theories and what they model: \<open>Prelude\<close> has results, options, port calls, sorting
  and saturating arithmetic as Rust's standard library has them; \<open>RustStr\<close> strings as
  lists of code points; \<open>HashMapModel\<close> the hash map, with its laws as the locale
  \<open>hash_map\<close>; \<open>IpText\<close> the text form of IP addresses.
  \<open>Core\<close> and \<open>Text\<close> are \<open>omdesky-core\<close>;
  \<open>ErrorCodes\<close>, \<open>Release\<close> and \<open>Protocol\<close> are
  \<open>omdesky-protocol\<close>; \<open>Ports\<close> holds the data of the application's ports.
  \<open>Replay\<close>, \<open>Pairing\<close>, \<open>Session\<close>, \<open>Authorize\<close>
  and \<open>Agent\<close> are the files of the same names of \<open>omdesky-agent\<close>
  (\<open>Agent\<close> is \<open>lib.rs\<close> and \<open>error.rs\<close>);
  \<open>AgentFacts\<close> holds the runs of the whole agent and what holds in all of them.
  \<open>FollowSupervisor\<close> is the \<open>FollowFocusSupervisor\<close> of
  \<open>lib.rs\<close> with the tasks it starts: the one that waits for focus events, of
  \<open>display.rs\<close> in \<open>omdesky-platform\<close> and the router's, as a step
  relation together with the coordinator. \<open>Target\<close>, \<open>AppAccess\<close>,
  \<open>Discovery\<close>, \<open>FollowFocus\<close> and \<open>Services\<close> are
  \<open>target.rs\<close>, \<open>access.rs\<close> with \<open>readiness.rs\<close>,
  \<open>discovery.rs\<close>, \<open>display.rs\<close> and \<open>services.rs\<close> of
  \<open>omdesky-application\<close>. \<open>StreamSession\<close> composes the stream with the
  keybindings, and the heartbeat with the coordinator. Of \<open>omdesky-platform\<close>:
  \<open>Keybinds\<close> and \<open>DisplaySwitch\<close> are \<open>input.rs\<close> and
  \<open>display.rs\<close>; \<open>Utf8\<close> and \<open>Disk\<close> give bytes, files and the
  system calls of \<open>state.rs\<close>, with a crash or a power loss between any two of them;
  \<open>AccessStore\<close>, \<open>Config\<close>, \<open>Identity\<close>,
  \<open>SessionRecord\<close> and \<open>Launcher\<close> are the files kept on that disk
  (\<open>access.rs\<close>, \<open>config.rs\<close>, \<open>identity.rs\<close>,
  \<open>session_record.rs\<close>, \<open>launcher.rs\<close>); \<open>Process\<close> is
  \<open>process.rs\<close>; \<open>Tailscale\<close>, \<open>Hyprland\<close>,
  \<open>Moonlight\<close>, \<open>Sunshine\<close> and \<open>Omarchy\<close> (with
  \<open>systemd.rs\<close>) are the adapters of those programs, which run commands through a
  port; \<open>Theme\<close> is \<open>theme.rs\<close>; \<open>HttpClient\<close> is
  \<open>agent_client.rs\<close>, joined to the modelled agent over printed request and response bodies; \<open>FollowChain\<close> joins
  the router of a desktop over that client to its controller's agent. \<open>AgentMain\<close> is
  \<open>omdesky-agent/src/main.rs\<close>. \<open>Tui\<close>, \<open>TuiSystem\<close> and
  \<open>TuiText\<close> are \<open>omdesky-tui/src/lib.rs\<close>: the state of the interface and
  its keys, its loop and background tasks as a step relation, and the texts it draws.
  \<open>CliPorts\<close>, \<open>Doctor\<close> and \<open>Cli\<close> are
  \<open>omdesky-cli/src/main.rs\<close> and \<open>doctor.rs\<close>.

  How state and operations correspond. A struct is a record, an enum a datatype, a newtype a
  one-constructor datatype; a method that takes a lock is one function from the state to the
  result and the new state, since the lock makes it one step. \<open>Result<T, E>\<close> is
  \<open>'e + 'a\<close> with the error on the left; every early return and \<open>?\<close> is a
  branch. A port (an \<open>async\<close> trait) is a field of a record, a call \<open>'w
  \<Rightarrow> 'a \<times> 'w\<close> on a world that the theorems leave open. Clocks, random
  identifiers and the order in which concurrent tasks finish are arguments. Fixed-width integers
  are words where the width matters; instants and durations are nanoseconds (\<open>nat\<close>),
  wall-clock times are \<open>int\<close>. The token counts of the rate limiter,
  \<open>f64\<close> in the source, are rationals. Loops over \<open>select!\<close> are folds
  over the list of events that happened; the bounded retry of the window lookup recurses on the
  attempts left, and the wait for Tailscale has a measure, the attempts left of thirty, so no fuel
  is used anywhere. Texts are lists of code points, files lists of bytes. Printers and parsers of
  JSON and TOML, and the programs that are run, are parameters; where a round trip depends on one,
  a named hypothesis says that it reads back what it printed. The desktop of \<open>Keybinds\<close>
  records which commands were asked of Hyprland and what was reported of each; nothing is assumed
  of what Hyprland does with them. A killed process is waited for, and may never end.

  Interfaces. \<open>hash_map\<close> (interpreted as \<open>hm\<close>) is what the tables of the
  agent need of a map; \<open>session_effects\<close> and \<open>following_effects\<close> are
  what the coordinator needs of its effects (what is known after an installation and after a
  removal that was reported to work or to fail), with the keybinding effects and the supervisor's
  host as interpretations; \<open>request_predicate\<close> and \<open>service_predicate\<close> carry
  a predicate on the agent's state through every handler; \<open>access_store\<close> is what the
  authorizer needs of the allowlist, given by the file; \<open>stream_frame\<close>,
  \<open>stream_bindings\<close> and \<open>stream_reports\<close> are what the stream needs of
  its ports, given by \<open>leased_desktop\<close> for the ports over the modelled desktop and an
  agent that grants leases, such as the modelled one, and by \<open>beside\<close> for the ports of a task of the interface.

  What the lemmas show. Safety of the agent over all its runs (who can get the desktop, which
  requests have no effect, what stays bounded; that every session goes back to an attach admitted
  in the state of its arrival), and that a started agent is such a run and listens
  on its own Tailscale address only; mutual exclusion, expiry and supersession of sessions;
  soundness of authorisation, rate limiting, replay protection and pairing, and that callers are
  named by Tailscale, with what the authorizer remembers of them; that remote texts
  cannot change the syntax of the Lua scripts or the options of the commands they are put into;
  that the keybindings asked for and focus following are in step with the session, and that the
  removal of the keybindings is asked for when a stream ends; that only the active controller is asked to switch displays and does so by the right shortcut;
  correctness of discovery, peer lookup, the focus router, display switching and the health
  monitor; that a file is replaced whole or not at all, and that the allowlist file implements a
  map; that a command whose timeout has passed ends with its process and never as a success, and
  that it runs in a clean environment; that each operation of the client returns what the agent
  answered; that the terminal interface has one session at a time; that the command
  line sends valid commands to online devices only and signals only the process it recorded; round
  trips and normal forms of the wire names, the settings and the identifiers.

  Some theorems show inputs on which the program does not do what it means to: a request stamped
  when it arrives or in the future is admitted twice; an attach that is accepted without a lease leaves its
  keybindings behind; a revoke of a name that does not resolve reports success and revokes
  nothing; a computer without Sunshine passes the check of Sunshine; a port given for one run is
  written into the configuration; a URL with user information passes for a local one; a colour may
  have a sign; when Hyprland closes its event socket, the focus is followed no more.

  Not modelled: serde, toml, axum, reqwest, ratatui's layout and widgets, clap and the keyring,
  which are libraries; tokio's scheduling beyond the interleavings that are step relations or
  lists of events, and the abort of a task in the middle of its turn; logging; terminal raw mode;
  the signals that end the agent; the wiring of the adapters into the services, where it is only
  construction.
\<close>

end
